(* ===== verification/Prelude.thy ===== *)
theory Prelude
  imports Main "HOL-Library.Word" "HOL-Library.Char_ord" "HOL-Library.Sublist" "HOL-Library.Code_Target_Nat"
begin

text \<open>
  Shared vocabulary of the development: byte strings and the parts of the Rust standard
  library the components use on them (ASCII classes, \<open>str::split\<close>, \<open>join\<close>, Unicode white
  space, hexadecimal and big-endian formatting), results of fallible code as sums, association
  lists for hash maps, and the generic facts about them.

  A Rust \<open>&str\<close>, \<open>String\<close> or byte slice is the list of its bytes, as a \<^typ>\<open>string\<close>:
  a \<^typ>\<open>char\<close> of the logic is one byte, so \<^term>\<open>length\<close> is Rust's \<open>len()\<close>.
  Fallible code returns \<open>error + value\<close> with \<open>Inl\<close> the error.
\<close>

section \<open>Rule collections\<close>

named_theorems ascii_simps \<open>byte classes, unfolded\<close>
named_theorems split_simps \<open>splitting and joining of byte strings\<close>
named_theorems enc_simps \<open>lengths and shapes of canonical encodings\<close>

section \<open>Results\<close>

definition is_ok :: "'e + 'a \<Rightarrow> bool" where
  "is_ok r = (case r of Inl e \<Rightarrow> False | Inr x \<Rightarrow> True)"

definition and_then :: "'e + 'a \<Rightarrow> ('a \<Rightarrow> 'e + 'b) \<Rightarrow> 'e + 'b" where
  "and_then r f = (case r of Inl e \<Rightarrow> Inl e | Inr x \<Rightarrow> f x)"

definition ok_or :: "'e \<Rightarrow> 'a option \<Rightarrow> 'e + 'a" where
  "ok_or e x = (case x of None \<Rightarrow> Inl e | Some y \<Rightarrow> Inr y)"

definition map_err :: "('e \<Rightarrow> 'g) \<Rightarrow> 'e + 'a \<Rightarrow> 'g + 'a" where
  "map_err f r = (case r of Inl e \<Rightarrow> Inl (f e) | Inr x \<Rightarrow> Inr x)"

fun try_map :: "('a \<Rightarrow> 'e + 'b) \<Rightarrow> 'a list \<Rightarrow> 'e + 'b list" where
  "try_map f [] = Inr []"
| "try_map f (x # xs) = and_then (f x) (\<lambda>y. and_then (try_map f xs) (\<lambda>ys. Inr (y # ys)))"

fun try_fold :: "('a \<Rightarrow> 's \<Rightarrow> 'e + 's) \<Rightarrow> 'a list \<Rightarrow> 's \<Rightarrow> 'e + 's" where
  "try_fold f [] s = Inr s"
| "try_fold f (x # xs) s = and_then (f x s) (try_fold f xs)"

section \<open>Bytes\<close>

abbreviation code :: "char \<Rightarrow> nat" where
  "code c \<equiv> of_char c"

definition is_ascii_lowercase :: "char \<Rightarrow> bool" where
  "is_ascii_lowercase c \<longleftrightarrow> 97 \<le> code c \<and> code c \<le> 122"

definition is_ascii_uppercase :: "char \<Rightarrow> bool" where
  "is_ascii_uppercase c \<longleftrightarrow> 65 \<le> code c \<and> code c \<le> 90"

definition is_ascii_digit :: "char \<Rightarrow> bool" where
  "is_ascii_digit c \<longleftrightarrow> 48 \<le> code c \<and> code c \<le> 57"

definition is_ascii_alphanumeric :: "char \<Rightarrow> bool" where
  "is_ascii_alphanumeric c \<longleftrightarrow> is_ascii_lowercase c \<or> is_ascii_uppercase c \<or> is_ascii_digit c"

definition to_ascii_lowercase :: "char \<Rightarrow> char" where
  "to_ascii_lowercase c = (if is_ascii_uppercase c then char_of (code c + 32) else c)"

definition eq_ignore_ascii_case :: "string \<Rightarrow> string \<Rightarrow> bool" where
  "eq_ignore_ascii_case s t \<longleftrightarrow> map to_ascii_lowercase s = map to_ascii_lowercase t"

text \<open>The lower-case hexadecimal digit of a number below 16, and \<open>{:02x}\<close> of a byte.\<close>

definition hex_digit :: "nat \<Rightarrow> char" where
  "hex_digit n = char_of (if n < 10 then 48 + n else 87 + n)"

definition hex02 :: "char \<Rightarrow> string" where
  "hex02 c = [hex_digit (code c div 16), hex_digit (code c mod 16)]"

definition hex_string :: "string \<Rightarrow> string" where
  "hex_string bs = concat (map hex02 bs)"

text \<open>\<open>to_be_bytes\<close> of an unsigned integer of \<open>n\<close> bytes.\<close>

fun be_bytes :: "nat \<Rightarrow> nat \<Rightarrow> string" where
  "be_bytes 0 x = []"
| "be_bytes (Suc n) x = be_bytes n (x div 256) @ [char_of (x mod 256)]"

text \<open>
  \<open>str::chars().any(char::is_whitespace)\<close> on the UTF-8 bytes of a string: the ASCII white space
  characters, U+0085, U+00A0, U+1680, U+2000 to U+200A, U+2028, U+2029, U+202F, U+205F and U+3000.
  UTF-8 is self-synchronising, so a code point occurs in a string exactly when its bytes do.
\<close>

definition white_space_at :: "nat list \<Rightarrow> bool" where
  "white_space_at bs = (case bs of
     [] \<Rightarrow> False
   | b # r \<Rightarrow>
      (9 \<le> b \<and> b \<le> 13) \<or> b = 32 \<or>
      (b = 194 \<and> (case r of c # _ \<Rightarrow> c = 133 \<or> c = 160 | [] \<Rightarrow> False)) \<or>
      (b = 225 \<and> take 2 r = [154, 128]) \<or>
      (b = 226 \<and> (case r of
          c # d # _ \<Rightarrow> (c = 128 \<and> ((128 \<le> d \<and> d \<le> 138) \<or> d = 168 \<or> d = 169 \<or> d = 175)) \<or>
                     (c = 129 \<and> d = 159)
        | _ \<Rightarrow> False)) \<or>
      (b = 227 \<and> take 2 r = [128, 128]))"

fun any_whitespace :: "nat list \<Rightarrow> bool" where
  "any_whitespace [] = False"
| "any_whitespace (b # bs) = (white_space_at (b # bs) \<or> any_whitespace bs)"

definition has_whitespace :: "string \<Rightarrow> bool" where
  "has_whitespace s = any_whitespace (map code s)"

text \<open>\<open>str::from_utf8\<close>: well-formed UTF-8, without overlong forms and surrogates.\<close>

fun valid_utf8 :: "nat list \<Rightarrow> bool" where
  "valid_utf8 [] = True"
| "valid_utf8 (a # bs) =
    (if a < 128 then valid_utf8 bs
     else if 194 \<le> a \<and> a \<le> 223 then
       (case bs of b # r \<Rightarrow> 128 \<le> b \<and> b \<le> 191 \<and> valid_utf8 r | [] \<Rightarrow> False)
     else if 224 \<le> a \<and> a \<le> 239 then
       (case bs of
          b # c # r \<Rightarrow> (if a = 224 then 160 else 128) \<le> b \<and> b \<le> (if a = 237 then 159 else 191) \<and>
            128 \<le> c \<and> c \<le> 191 \<and> valid_utf8 r
        | _ \<Rightarrow> False)
     else if 240 \<le> a \<and> a \<le> 244 then
       (case bs of
          b # c # d # r \<Rightarrow> (if a = 240 then 144 else 128) \<le> b \<and> b \<le> (if a = 244 then 143 else 191) \<and>
            128 \<le> c \<and> c \<le> 191 \<and> 128 \<le> d \<and> d \<le> 191 \<and> valid_utf8 r
        | _ \<Rightarrow> False)
     else False)"

definition is_utf8 :: "string \<Rightarrow> bool" where
  "is_utf8 s = valid_utf8 (map code s)"

text \<open>The decimal rendering of an unsigned number by \<open>format!\<close>.\<close>

fun dec_string :: "nat \<Rightarrow> string" where
  "dec_string n = (if n < 10 then [char_of (48 + n)] else dec_string (n div 10) @ [char_of (48 + n mod 10)])"

declare dec_string.simps [simp del]

section \<open>Splitting and joining\<close>

text \<open>\<open>str::split(c)\<close>: a string with \<open>n\<close> separators has \<open>n + 1\<close> segments.\<close>

fun split_on :: "char \<Rightarrow> string \<Rightarrow> string list" where
  "split_on c [] = [[]]"
| "split_on c (x # xs) =
    (if x = c then [] # split_on c xs
     else (case split_on c xs of [] \<Rightarrow> [[x]] | s # ss \<Rightarrow> (x # s) # ss))"

fun join_with :: "string \<Rightarrow> string list \<Rightarrow> string" where
  "join_with sep [] = []"
| "join_with sep [s] = s"
| "join_with sep (s # t # ss) = s @ sep @ join_with sep (t # ss)"

text \<open>\<open>str::split_once(c)\<close>: the parts around the first separator.\<close>

fun split_once :: "char \<Rightarrow> string \<Rightarrow> (string \<times> string) option" where
  "split_once c [] = None"
| "split_once c (x # xs) =
    (if x = c then Some ([], xs)
     else (case split_once c xs of None \<Rightarrow> None | Some (a, b) \<Rightarrow> Some (x # a, b)))"

definition strip_prefix :: "string \<Rightarrow> string \<Rightarrow> string option" where
  "strip_prefix p s = (if prefix p s then Some (drop (length p) s) else None)"

definition starts_with :: "string \<Rightarrow> string \<Rightarrow> bool" where
  "starts_with p s \<longleftrightarrow> prefix p s"

definition ends_with :: "string \<Rightarrow> string \<Rightarrow> bool" where
  "ends_with p s \<longleftrightarrow> suffix p s"

section \<open>Facts about results\<close>

lemma is_ok_simps [simp]: "is_ok (Inr x)" "\<not> is_ok (Inl e)"
  by (simp_all add: is_ok_def)

lemma is_ok_iff: "is_ok r \<longleftrightarrow> (\<exists>x. r = Inr x)"
  by (cases r) simp_all

lemma and_then_simps [simp]:
  "and_then (Inr x) f = f x" "and_then (Inl e) f = Inl e"
  by (simp_all add: and_then_def)

lemma and_then_Inr [simp]: "and_then r f = Inr y \<longleftrightarrow> (\<exists>x. r = Inr x \<and> f x = Inr y)"
  by (cases r) simp_all

lemma and_then_Inl [simp]:
  "and_then r f = Inl e \<longleftrightarrow> r = Inl e \<or> (\<exists>x. r = Inr x \<and> f x = Inl e)"
  by (cases r) simp_all

lemma ok_or_Inr [simp]: "ok_or e x = Inr y \<longleftrightarrow> x = Some y"
  by (cases x) (simp_all add: ok_or_def)

lemma ok_or_Inl [simp]: "ok_or e x = Inl f \<longleftrightarrow> x = None \<and> f = e"
  by (cases x) (auto simp: ok_or_def)

lemma ok_or_simps [simp]: "ok_or e (Some y) = Inr y" "ok_or e None = Inl e"
  by (simp_all add: ok_or_def)

lemma map_err_Inr [simp]: "map_err f r = Inr x \<longleftrightarrow> r = Inr x"
  by (cases r) (simp_all add: map_err_def)

lemma try_map_Inr: "try_map f xs = Inr ys \<longleftrightarrow> list_all2 (\<lambda>x y. f x = Inr y) xs ys"
  by (induction xs arbitrary: ys) (auto simp: list_all2_Cons1)

lemma try_map_length: "try_map f xs = Inr ys \<Longrightarrow> length ys = length xs"
  by (simp add: try_map_Inr list_all2_lengthD)

lemma try_map_pure [simp]: "(\<And>x. x \<in> set xs \<Longrightarrow> f x = Inr (g x)) \<Longrightarrow> try_map f xs = Inr (map g xs)"
  by (induction xs) simp_all

text \<open>An invariant kept by every successful step of a fallible loop holds at its end.\<close>

lemma try_fold_invariant:
  assumes "try_fold f xs s = Inr s'" "P s"
    and "\<And>x t t'. x \<in> set xs \<Longrightarrow> P t \<Longrightarrow> f x t = Inr t' \<Longrightarrow> P t'"
  shows "P s'"
  using assms by (induction xs arbitrary: s) auto

lemma try_fold_append: "try_fold f (xs @ ys) s = and_then (try_fold f xs s) (try_fold f ys)"
proof (induction xs arbitrary: s)
  case Nil
  show ?case by simp
next
  case (Cons x xs)
  then show ?case by (cases "f x s") simp_all
qed

section \<open>Facts about bytes\<close>

lemmas [ascii_simps] =
  is_ascii_lowercase_def is_ascii_uppercase_def is_ascii_digit_def is_ascii_alphanumeric_def

lemma code_less [simp]: "code c < 256"
  by (metis mod_less_divisor of_char_mod_256 zero_less_numeral)

lemma hex_digit_cases:
  assumes "n < 16"
  shows "is_ascii_digit (hex_digit n) \<or> is_ascii_lowercase (hex_digit n)"
  using assms by (auto simp: hex_digit_def ascii_simps)

lemma hex02_length [enc_simps]: "length (hex02 c) = 2"
  by (simp add: hex02_def)

lemma hex_string_length [enc_simps]: "length (hex_string bs) = 2 * length bs"
  by (induction bs) (simp_all add: hex_string_def hex02_def)

lemma hex_digit_inj: "m < 16 \<Longrightarrow> n < 16 \<Longrightarrow> hex_digit m = hex_digit n \<Longrightarrow> m = n"
proof -
  assume "m < 16" "n < 16" "hex_digit m = hex_digit n"
  then have "code (hex_digit m) = code (hex_digit n)" by simp
  with \<open>m < 16\<close> \<open>n < 16\<close> show "m = n"
    by (auto simp: hex_digit_def split: if_splits)
qed

lemma be_bytes_length [enc_simps, simp]: "length (be_bytes n x) = n"
  by (induction n arbitrary: x) simp_all

lemma be_bytes_inj: "x < 256 ^ n \<Longrightarrow> y < 256 ^ n \<Longrightarrow> be_bytes n x = be_bytes n y \<Longrightarrow> x = y"
proof (induction n arbitrary: x y)
  case 0
  then show ?case by simp
next
  case (Suc n)
  have "x div 256 < 256 ^ n" "y div 256 < 256 ^ n"
    using Suc.prems by (simp_all add: less_mult_imp_div_less mult.commute)
  moreover have "be_bytes n (x div 256) = be_bytes n (y div 256)"
    using Suc.prems(3) by simp
  ultimately have "x div 256 = y div 256" by (rule Suc.IH)
  moreover have "of_char (char_of (x mod 256)) = (of_char (char_of (y mod 256)) :: nat)"
    using Suc.prems(3) by simp
  then have "x mod 256 = y mod 256" by simp
  ultimately show ?case
    by (metis div_mult_mod_eq)
qed

section \<open>Facts about splitting\<close>

lemma split_on_not_Nil [simp]: "split_on c s \<noteq> []"
  by (induction s) (auto split: list.splits)

lemma split_on_id [split_simps]: "c \<notin> set s \<Longrightarrow> split_on c s = [s]"
  by (induction s) auto

lemma split_on_append [split_simps]:
  "c \<notin> set s \<Longrightarrow> split_on c (s @ c # t) = s # split_on c t"
  by (induction s) auto

lemma split_on_join:
  "\<forall>s \<in> set ss. c \<notin> set s \<Longrightarrow> ss \<noteq> [] \<Longrightarrow> split_on c (join_with [c] ss) = ss"
  by (induction "[c]" ss rule: join_with.induct) (auto simp: split_simps)

lemma join_split_on [simp]: "join_with [c] (split_on c s) = s"
proof (induction s)
  case Nil
  show ?case by simp
next
  case (Cons x xs)
  obtain t ts where "split_on c xs = t # ts"
    by (meson split_on_not_Nil neq_Nil_conv)
  with Cons show ?case
    by (cases ts) auto
qed

lemma split_on_no_sep: "s \<in> set (split_on c t) \<Longrightarrow> c \<notin> set s"
  by (induction t arbitrary: s) (auto split: list.splits if_splits)

lemma split_once_Some:
  "split_once c s = Some (a, b) \<longleftrightarrow> s = a @ c # b \<and> c \<notin> set a"
proof (induction s arbitrary: a)
  case Nil
  show ?case by simp
next
  case (Cons x s)
  show ?case
  proof (cases a)
    case Nil
    then show ?thesis by (auto split: option.splits)
  next
    case a: (Cons y a')
    then show ?thesis using Cons [of a'] by (auto split: option.splits)
  qed
qed

lemma split_once_None: "split_once c s = None \<longleftrightarrow> c \<notin> set s"
  by (induction s) (auto split: option.splits)

lemma append_no_sep_unique:
  "c \<notin> set a \<Longrightarrow> c \<notin> set a' \<Longrightarrow> a @ c # b = a' @ c # b' \<longleftrightarrow> a = a' \<and> b = b'"
proof (induction a arbitrary: a')
  case Nil
  then show ?case by (cases a') auto
next
  case (Cons x a)
  then show ?case by (cases a') auto
qed

section \<open>Association lists\<close>

text \<open>\<open>HashMap::insert\<close> on an association list that keeps the position of an existing key.\<close>

fun alist_put :: "'k \<Rightarrow> 'v \<Rightarrow> ('k \<times> 'v) list \<Rightarrow> ('k \<times> 'v) list" where
  "alist_put k v [] = [(k, v)]"
| "alist_put k v ((k', v') # r) = (if k' = k then (k, v) # r else (k', v') # alist_put k v r)"

lemma map_of_alist_put [simp]: "map_of (alist_put k v m) = (map_of m)(k \<mapsto> v)"
  by (induction m) auto

lemma keys_alist_put [simp]: "fst ` set (alist_put k v m) = insert k (fst ` set m)"
proof (induction m)
  case Nil
  show ?case by simp
next
  case (Cons p m)
  then show ?case by (cases p) (simp add: insert_commute)
qed

lemma distinct_alist_put [simp]: "distinct (map fst (alist_put k v m)) = distinct (map fst m)"
proof (induction m)
  case Nil
  show ?case by simp
next
  case (Cons p m)
  have "set (map fst (alist_put k v m)) = insert k (set (map fst m))" by simp
  then show ?case using Cons by (cases p) (auto simp del: keys_alist_put simp: image_iff)
qed

end
