(* ===== verification/Identity.thy ===== *)
theory Identity
  imports Prelude
begin

text \<open>
  Identities: \<open>wr-common/src/identity.rs\<close>. Stable names, principal URIs, opaque identifiers,
  module identities, namespace filters, version selectors and endpoint addresses, with the
  errors of the code as constructors of \<open>identity_error\<close>.

  The semantic version crate and the URI parser of the \<open>http\<close> crate are parameters: a version
  parser, a selector parser, and a URI parser that yields the parts the code inspects.
\<close>

section \<open>Names\<close>

datatype name_fault = Required | Too_Long | Bad_Start | Bad_End | Bad_Char

datatype identity_error =
    Name_Error string name_fault
  | Unsupported_Kind
  | Uri_Prefix
  | Uri_Missing_Cluster
  | Uri_Missing_Kind
  | Uri_Missing_Name
  | Uri_Trailing
  | Uri_Not_Canonical
  | Opaque_Id string
  | Version_Syntax
  | Schema_Too_Long
  | Endpoint_Syntax string
  | Endpoint_No_Scheme string
  | Endpoint_Scheme string
  | Endpoint_No_Host string
  | Endpoint_No_Port string

definition MAX_STABLE_NAME_LEN :: nat where
  "MAX_STABLE_NAME_LEN = 24"

definition validate_name :: "string \<Rightarrow> string \<Rightarrow> identity_error + unit" where
  "validate_name value kind =
    (if value = [] then Inl (Name_Error kind Required)
     else if length value > MAX_STABLE_NAME_LEN then Inl (Name_Error kind Too_Long)
     else if \<not> is_ascii_lowercase (hd value) \<and> \<not> is_ascii_digit (hd value)
       then Inl (Name_Error kind Bad_Start)
     else if \<not> is_ascii_lowercase (last value) \<and> \<not> is_ascii_digit (last value)
       then Inl (Name_Error kind Bad_End)
     else if \<not> list_all (\<lambda>b. is_ascii_lowercase b \<or> is_ascii_digit b \<or> b = CHR ''-'') value
       then Inl (Name_Error kind Bad_Char)
     else Inr ())"

definition name_parse :: "string \<Rightarrow> string \<Rightarrow> identity_error + string" where
  "name_parse label value = and_then (validate_name value label) (\<lambda>_. Inr value)"

type_synonym Namespace = string
type_synonym ModuleName = string
type_synonym ClusterId = string
type_synonym NodeId = string
type_synonym ManagerId = string
type_synonym PrincipalName = string
type_synonym JobQueueId = string

abbreviation Namespace_parse :: "string \<Rightarrow> identity_error + Namespace" where
  "Namespace_parse \<equiv> name_parse ''namespace''"

abbreviation ModuleName_parse :: "string \<Rightarrow> identity_error + ModuleName" where
  "ModuleName_parse \<equiv> name_parse ''module name''"

abbreviation JobQueueId_parse :: "string \<Rightarrow> identity_error + JobQueueId" where
  "JobQueueId_parse \<equiv> name_parse ''job queue id''"

abbreviation ClusterId_parse :: "string \<Rightarrow> identity_error + ClusterId" where
  "ClusterId_parse \<equiv> name_parse ''cluster id''"

abbreviation NodeId_parse :: "string \<Rightarrow> identity_error + NodeId" where
  "NodeId_parse \<equiv> name_parse ''node id''"

abbreviation ManagerId_parse :: "string \<Rightarrow> identity_error + ManagerId" where
  "ManagerId_parse \<equiv> name_parse ''manager id''"

abbreviation PrincipalName_parse :: "string \<Rightarrow> identity_error + PrincipalName" where
  "PrincipalName_parse \<equiv> name_parse ''principal name''"

section \<open>Principal URIs\<close>

datatype PrincipalKind = Human | ServiceAccount | Manager | Proxy | NodeAgent | PostgresClient

fun PrincipalKind_as_str :: "PrincipalKind \<Rightarrow> string" where
  "PrincipalKind_as_str Human = ''human''"
| "PrincipalKind_as_str ServiceAccount = ''service-account''"
| "PrincipalKind_as_str Manager = ''manager''"
| "PrincipalKind_as_str Proxy = ''proxy''"
| "PrincipalKind_as_str NodeAgent = ''node-agent''"
| "PrincipalKind_as_str PostgresClient = ''postgres-client''"

definition PrincipalKind_from_str :: "string \<Rightarrow> identity_error + PrincipalKind" where
  "PrincipalKind_from_str value =
    (if value = ''human'' then Inr Human
     else if value = ''service-account'' then Inr ServiceAccount
     else if value = ''manager'' then Inr Manager
     else if value = ''proxy'' then Inr Proxy
     else if value = ''node-agent'' then Inr NodeAgent
     else if value = ''postgres-client'' then Inr PostgresClient
     else Inl Unsupported_Kind)"

record PrincipalUri =
  uri_value :: string
  uri_cluster_id :: ClusterId
  uri_kind :: PrincipalKind
  uri_name :: PrincipalName

definition principal_uri_format :: "ClusterId \<Rightarrow> PrincipalKind \<Rightarrow> PrincipalName \<Rightarrow> string" where
  "principal_uri_format cluster_id kind name =
    ''urn:wruntime:'' @ cluster_id @ '':'' @ PrincipalKind_as_str kind @ '':'' @ name"

definition PrincipalUri_new :: "ClusterId \<Rightarrow> PrincipalKind \<Rightarrow> PrincipalName \<Rightarrow> PrincipalUri" where
  "PrincipalUri_new cluster_id kind name =
    \<lparr>uri_value = principal_uri_format cluster_id kind name,
     uri_cluster_id = cluster_id, uri_kind = kind, uri_name = name\<rparr>"

text \<open>The \<open>i\<close>-th call of the segment iterator's \<open>next\<close>.\<close>

definition seg :: "string list \<Rightarrow> nat \<Rightarrow> string option" where
  "seg segments i = (if i < length segments then Some (segments ! i) else None)"

definition PrincipalUri_parse :: "string \<Rightarrow> identity_error + PrincipalUri" where
  "PrincipalUri_parse value =
    (let segments = split_on (CHR '':'') value in
     if seg segments 0 \<noteq> Some ''urn'' \<or> seg segments 1 \<noteq> Some ''wruntime'' then Inl Uri_Prefix
     else and_then (ok_or Uri_Missing_Cluster (seg segments 2)) (\<lambda>cluster.
       and_then (ok_or Uri_Missing_Kind (seg segments 3)) (\<lambda>kind.
       and_then (ok_or Uri_Missing_Name (seg segments 4)) (\<lambda>name.
       if seg segments 5 \<noteq> None then Inl Uri_Trailing
       else and_then (ClusterId_parse cluster) (\<lambda>cluster_id.
       and_then (PrincipalKind_from_str kind) (\<lambda>kind.
       and_then (PrincipalName_parse name) (\<lambda>name.
       let canonical = principal_uri_format cluster_id kind name in
       if canonical \<noteq> value then Inl Uri_Not_Canonical
       else Inr \<lparr>uri_value = canonical, uri_cluster_id = cluster_id,
                 uri_kind = kind, uri_name = name\<rparr>)))))))"

section \<open>Opaque identifiers\<close>

definition opaque_id_parse :: "string \<Rightarrow> string \<Rightarrow> identity_error + string" where
  "opaque_id_parse label value =
    (if value = [] \<or> length value > 128 \<or> has_whitespace value then Inl (Opaque_Id label)
     else Inr value)"

abbreviation EngineId_parse :: "string \<Rightarrow> identity_error + string" where
  "EngineId_parse \<equiv> opaque_id_parse ''engine id''"

abbreviation RuleId_parse :: "string \<Rightarrow> identity_error + string" where
  "RuleId_parse \<equiv> opaque_id_parse ''rule id''"

section \<open>Routes, versions and filters\<close>

record RouteKey =
  rk_namespace :: Namespace
  rk_module :: ModuleName

definition RouteKey_validate :: "string \<Rightarrow> string \<Rightarrow> identity_error + unit" where
  "RouteKey_validate namespace module =
    and_then (validate_name namespace ''namespace'') (\<lambda>_. validate_name module ''module name'')"

definition RouteKey_parse :: "string \<Rightarrow> string \<Rightarrow> identity_error + RouteKey" where
  "RouteKey_parse namespace module =
    and_then (RouteKey_validate namespace module)
      (\<lambda>_. Inr \<lparr>rk_namespace = namespace, rk_module = module\<rparr>)"

definition ModuleVersion_parse :: "(string \<Rightarrow> 'v option) \<Rightarrow> string \<Rightarrow> identity_error + 'v" where
  "ModuleVersion_parse version_parse value = ok_or Version_Syntax (version_parse value)"

datatype NamespaceFilter = All_Namespaces | One_Namespace Namespace

definition NamespaceFilter_from_wire :: "string \<Rightarrow> identity_error + NamespaceFilter" where
  "NamespaceFilter_from_wire value =
    (if value = [] then Inr All_Namespaces
     else and_then (Namespace_parse value) (\<lambda>n. Inr (One_Namespace n)))"

fun NamespaceFilter_as_db_value :: "NamespaceFilter \<Rightarrow> string" where
  "NamespaceFilter_as_db_value All_Namespaces = []"
| "NamespaceFilter_as_db_value (One_Namespace namespace) = namespace"

definition VersionSelector_parse ::
    "(string \<Rightarrow> ('v \<Rightarrow> bool) option) \<Rightarrow> string \<Rightarrow> identity_error + ('v \<Rightarrow> bool)" where
  "VersionSelector_parse req_parse value = ok_or Version_Syntax (req_parse value)"

section \<open>Endpoints\<close>

record Uri =
  scheme_str :: "string option"
  uri_authority :: "string option"
  uri_host :: "string option"
  port_u16 :: "nat option"
  uri_path :: string
  uri_query :: "string option"

definition endpoint ::
    "(string \<Rightarrow> Uri option) \<Rightarrow> string \<Rightarrow> string \<Rightarrow> string list \<Rightarrow> bool \<Rightarrow> identity_error + Uri" where
  "endpoint parse_uri value kind schemes require_port =
    and_then (ok_or (Endpoint_Syntax kind) (parse_uri value)) (\<lambda>uri.
    and_then (ok_or (Endpoint_No_Scheme kind) (scheme_str uri)) (\<lambda>scheme.
    if scheme \<notin> set schemes then Inl (Endpoint_Scheme kind)
    else if uri_host uri = None then Inl (Endpoint_No_Host kind)
    else if require_port \<and> port_u16 uri = None then Inl (Endpoint_No_Port kind)
    else Inr uri))"

definition endpoint_parse ::
    "(string \<Rightarrow> Uri option) \<Rightarrow> string \<Rightarrow> string list \<Rightarrow> bool \<Rightarrow> string \<Rightarrow> identity_error + string" where
  "endpoint_parse parse_uri label schemes port value =
    and_then (endpoint parse_uri value label schemes port) (\<lambda>_. Inr value)"

definition EngineHttpUrl_parse :: "(string \<Rightarrow> Uri option) \<Rightarrow> string \<Rightarrow> identity_error + string" where
  "EngineHttpUrl_parse p = endpoint_parse p ''engine address'' [''http'', ''https''] False"

definition ProxyHttpUrl_parse :: "(string \<Rightarrow> Uri option) \<Rightarrow> string \<Rightarrow> identity_error + string" where
  "ProxyHttpUrl_parse p = endpoint_parse p ''proxy address'' [''http'', ''https''] False"

definition ControlHttpUrl_parse :: "(string \<Rightarrow> Uri option) \<Rightarrow> string \<Rightarrow> identity_error + string" where
  "ControlHttpUrl_parse p = endpoint_parse p ''control address'' [''http'', ''https''] False"

definition PeerHttpsUrl_parse :: "(string \<Rightarrow> Uri option) \<Rightarrow> string \<Rightarrow> identity_error + string" where
  "PeerHttpsUrl_parse p = endpoint_parse p ''peer address'' [''https''] True"

section \<open>Accepted names\<close>

definition name_char :: "char \<Rightarrow> bool" where
  "name_char b \<longleftrightarrow> is_ascii_lowercase b \<or> is_ascii_digit b \<or> b = CHR ''-''"

definition valid_name :: "string \<Rightarrow> bool" where
  "valid_name s \<longleftrightarrow> 1 \<le> length s \<and> length s \<le> 24 \<and> list_all name_char s \<and>
    hd s \<noteq> CHR ''-'' \<and> last s \<noteq> CHR ''-''"

lemma dash_class [simp]: "\<not> is_ascii_lowercase (CHR ''-'')" "\<not> is_ascii_digit (CHR ''-'')"
  by (simp_all add: ascii_simps)

lemma validate_name_ok: "validate_name s k = Inr u \<longleftrightarrow> valid_name s"
  unfolding validate_name_def valid_name_def name_char_def MAX_STABLE_NAME_LEN_def
  by (auto simp: list_all_iff Suc_le_eq simp del: hd_in_set last_in_set
      dest: hd_in_set last_in_set)

lemma name_parse_ok [simp]: "name_parse l s = Inr n \<longleftrightarrow> valid_name s \<and> n = s"
  by (auto simp: name_parse_def validate_name_ok)

lemma RouteKey_validate_ok: "RouteKey_validate n m = Inr u \<longleftrightarrow> valid_name n \<and> valid_name m"
  by (simp add: RouteKey_validate_def validate_name_ok)

lemma RouteKey_parse_ok:
  "RouteKey_parse n m = Inr k \<longleftrightarrow>
    valid_name n \<and> valid_name m \<and> k = \<lparr>rk_namespace = n, rk_module = m\<rparr>"
  by (auto simp: RouteKey_parse_def RouteKey_validate_ok)

lemma name_char_not_colon: "name_char c \<Longrightarrow> c \<noteq> CHR '':''"
  by (auto simp: name_char_def ascii_simps)

lemma valid_name_no_colon: "valid_name s \<Longrightarrow> CHR '':'' \<notin> set s"
  by (auto simp: valid_name_def list_all_iff dest: name_char_not_colon)

lemma kind_str_no_colon: "CHR '':'' \<notin> set (PrincipalKind_as_str k)"
  by (cases k) simp_all

lemma PrincipalKind_round_trip [simp]: "PrincipalKind_from_str (PrincipalKind_as_str k) = Inr k"
  by (cases k) (simp_all add: PrincipalKind_from_str_def)

lemma PrincipalKind_from_str_ok: "PrincipalKind_from_str s = Inr k \<longleftrightarrow> s = PrincipalKind_as_str k"
proof
  assume "PrincipalKind_from_str s = Inr k"
  then show "s = PrincipalKind_as_str k"
    unfolding PrincipalKind_from_str_def by (simp split: if_split_asm)
qed simp

section \<open>Principal URIs are byte-exact\<close>

lemma principal_uri_split:
  assumes "valid_name c" "valid_name n"
  shows "split_on (CHR '':'') (principal_uri_format c k n) =
    [''urn'', ''wruntime'', c, PrincipalKind_as_str k, n]"
proof -
  have "principal_uri_format c k n =
    join_with [CHR '':''] [''urn'', ''wruntime'', c, PrincipalKind_as_str k, n]"
    by (simp add: principal_uri_format_def)
  then show ?thesis
    using assms valid_name_no_colon kind_str_no_colon
    by (simp only:) (rule split_on_join, auto)
qed

lemma five_segments:
  assumes "seg ss 0 = Some a" "seg ss 1 = Some b" "seg ss 2 = Some c" "seg ss 3 = Some d"
    and "seg ss 4 = Some e" "seg ss 5 = None"
  shows "ss = [a, b, c, d, e]"
proof -
  have "length ss = 5" using assms by (auto simp: seg_def split: if_splits)
  then have "ss = [ss ! 0, ss ! 1, ss ! 2, ss ! 3, ss ! 4]"
    by (auto simp: list_eq_iff_nth_eq less_Suc_eq numeral_eq_Suc)
  then show ?thesis using assms by (auto simp: seg_def split: if_splits)
qed

lemma split_five_format:
  assumes "split_on (CHR '':'') v = [''urn'', ''wruntime'', c, PrincipalKind_as_str k, n]"
  shows "v = principal_uri_format c k n"
  using join_split_on [of "CHR '':''" v] unfolding assms by (simp add: principal_uri_format_def)

lemma PrincipalUri_parse_new:
  assumes "valid_name c" "valid_name n"
  shows "PrincipalUri_parse (principal_uri_format c k n) = Inr (PrincipalUri_new c k n)"
  using assms name_parse_ok
  by (simp add: PrincipalUri_parse_def principal_uri_split seg_def PrincipalUri_new_def Let_def)

lemma PrincipalUri_parse_Inr:
  assumes "PrincipalUri_parse v = Inr u"
  shows "\<exists>c k n. valid_name c \<and> valid_name n \<and> u = PrincipalUri_new c k n \<and> v = uri_value u"
  using assms
  by (auto simp: PrincipalUri_parse_def PrincipalUri_new_def Let_def split: if_splits)

lemma name_parse_error: "name_parse l s = Inl e \<Longrightarrow> \<exists>f. e = Name_Error l f"
  by (auto simp: name_parse_def validate_name_def split: if_splits)

lemma kind_parse_error: "PrincipalKind_from_str s = Inl e \<Longrightarrow> e = Unsupported_Kind"
  by (simp add: PrincipalKind_from_str_def split: if_split_asm)

lemma PrincipalUri_parse_never_noncanonical: "PrincipalUri_parse v \<noteq> Inl Uri_Not_Canonical"
proof
  let ?ss = "split_on (CHR '':'') v"
  assume "PrincipalUri_parse v = Inl Uri_Not_Canonical"
  then obtain c k d n where segs: "seg ?ss 0 = Some ''urn''" "seg ?ss 1 = Some ''wruntime''"
      "seg ?ss 2 = Some c" "seg ?ss 3 = Some d" "seg ?ss 4 = Some n" "seg ?ss 5 = None"
    and "PrincipalKind_from_str d = Inr k" "principal_uri_format c k n \<noteq> v"
    unfolding PrincipalUri_parse_def Let_def
    by (fastforce split: if_split_asm dest: name_parse_error kind_parse_error)
  then show False
    using five_segments [OF segs] split_five_format [of v c k n]
    by (simp add: PrincipalKind_from_str_ok)
qed

section \<open>Properties\<close>

text \<open>
  A stable name is accepted exactly when it has 1 to 24 bytes, all of them lower-case ASCII
  letters, digits or hyphens, and neither its first nor its last byte is a hyphen; the accepted
  value is the input unchanged, and every rejection names the label of the field and a fault.
\<close>

theorem validate_name_spec:
  "name_parse label value =
    (if valid_name value then Inr value
     else Inl (Name_Error label
      (if value = [] then Required
       else if length value > 24 then Too_Long
       else if \<not> (name_char (hd value) \<and> hd value \<noteq> CHR ''-'') then Bad_Start
       else if \<not> (name_char (last value) \<and> last value \<noteq> CHR ''-'') then Bad_End
       else Bad_Char)))"
proof (cases "valid_name value")
  case True
  then show ?thesis by simp
next
  case False
  then show ?thesis
    unfolding name_parse_def validate_name_def valid_name_def name_char_def MAX_STABLE_NAME_LEN_def
    by (auto simp: list_all_iff Suc_le_eq)
qed

text \<open>
  C35. Principal URIs are byte-exact: parsing succeeds exactly on the strings that the constructor
  prints from a valid cluster id, a kind and a valid name, and returns that principal. In
  particular two different strings never denote the same principal, and the final comparison
  against the canonical form never fails once the segments are accepted.
\<close>

theorem PrincipalUri_parse_iff:
  "(PrincipalUri_parse v = Inr u \<longleftrightarrow>
      (\<exists>c k n. valid_name c \<and> valid_name n \<and> u = PrincipalUri_new c k n \<and> v = uri_value u)) \<and>
   PrincipalUri_parse v \<noteq> Inl Uri_Not_Canonical"
proof (intro conjI iffI)
  assume "\<exists>c k n. valid_name c \<and> valid_name n \<and> u = PrincipalUri_new c k n \<and> v = uri_value u"
  then show "PrincipalUri_parse v = Inr u"
    using PrincipalUri_parse_new by (auto simp: PrincipalUri_new_def)
qed (fact PrincipalUri_parse_Inr PrincipalUri_parse_never_noncanonical)+

end
