(* ===== verification/Contracts.thy ===== *)
theory Contracts
  imports Prelude
begin

text \<open>
  The interfaces between components, as locales.

  \<^item> \<open>monotone_machine\<close>: a machine whose steps keep an invariant and never lower a rank (the
    version of the routing cache, the phase of a process, the generation a policy consumer
    retains).
  \<^item> \<open>prefix_code\<close>: an encoder whose output can be cut off the front of any byte string in only
    one way. The canonical encodings that are hashed are built from such encoders, so equal
    hash inputs come from equal values.
  \<^item> \<open>writer\<close>: a fallible function that appends such an encoding to a buffer.
  \<^item> \<open>class_registry\<close>: a registry that hands out one shared value per key, fixes the class of a
    key on first use and refuses any other class (the breaker registry, on which the routing
    index relies when it prepares its candidates).

  Each locale is interpreted in the theory of the component that provides it.
\<close>

section \<open>Encoders\<close>

definition enc_seq :: "('a \<Rightarrow> string) \<Rightarrow> 'a list \<Rightarrow> string" where
  "enc_seq enc xs = concat (map enc xs)"

definition enc_counted :: "('a \<Rightarrow> string) \<Rightarrow> 'a list \<Rightarrow> string" where
  "enc_counted enc xs = be_bytes 4 (length xs) @ enc_seq enc xs"

definition enc_pair :: "('a \<Rightarrow> string) \<Rightarrow> ('b \<Rightarrow> string) \<Rightarrow> 'a \<times> 'b \<Rightarrow> string" where
  "enc_pair f g p = f (fst p) @ g (snd p)"

definition ok_pair :: "('a \<Rightarrow> bool) \<Rightarrow> ('b \<Rightarrow> bool) \<Rightarrow> 'a \<times> 'b \<Rightarrow> bool" where
  "ok_pair P Q p \<longleftrightarrow> P (fst p) \<and> Q (snd p)"

definition enc_opt :: "('a \<Rightarrow> string) \<Rightarrow> 'a option \<Rightarrow> string" where
  "enc_opt enc x = (case x of None \<Rightarrow> [char_of (0 :: nat)] | Some y \<Rightarrow> char_of (1 :: nat) # enc y)"

definition ok_counted :: "('a \<Rightarrow> bool) \<Rightarrow> 'a list \<Rightarrow> bool" where
  "ok_counted ok xs \<longleftrightarrow> length xs < 2 ^ 32 \<and> list_all ok xs"

section \<open>Machines with a monotone rank\<close>

locale monotone_machine =
  fixes inv :: "'s \<Rightarrow> bool"
    and step :: "'e \<Rightarrow> 's \<Rightarrow> 's"
    and rank :: "'s \<Rightarrow> 'r::preorder"
  assumes step_inv: "inv s \<Longrightarrow> inv (step e s)"
    and step_rank: "inv s \<Longrightarrow> rank s \<le> rank (step e s)"
begin

lemma run_inv: "inv s \<Longrightarrow> inv (fold step es s)"
  by (induction es arbitrary: s) (simp_all add: step_inv)

lemma run_rank: "inv s \<Longrightarrow> rank s \<le> rank (fold step es s)"
proof (induction es arbitrary: s)
  case Nil
  show ?case by simp
next
  case (Cons e es)
  then have "rank (step e s) \<le> rank (fold step es (step e s))"
    by (simp add: step_inv)
  then show ?case
    using step_rank [OF Cons.prems, of e] order_trans by fastforce
qed

lemma run_rank_between:
  assumes "inv s"
  shows "rank (fold step es s) \<le> rank (fold step (es @ fs) s)"
  using run_rank [OF run_inv [OF assms, of es], of fs] by simp

end

section \<open>Prefix codes\<close>

locale prefix_code =
  fixes enc :: "'a \<Rightarrow> string" and ok :: "'a \<Rightarrow> bool"
  assumes cut: "ok x \<Longrightarrow> ok y \<Longrightarrow> enc x @ r = enc y @ s \<Longrightarrow> x = y \<and> r = s"
begin

lemma enc_eq: "ok x \<Longrightarrow> ok y \<Longrightarrow> enc x @ r = enc y @ s \<longleftrightarrow> x = y \<and> r = s"
  using cut by blast

lemma enc_inj: "ok x \<Longrightarrow> ok y \<Longrightarrow> enc x = enc y \<Longrightarrow> x = y"
  using cut [of x y "[]" "[]"] by simp

lemma enc_seq_cut:
  "list_all ok xs \<Longrightarrow> list_all ok ys \<Longrightarrow> length xs = length ys \<Longrightarrow>
    enc_seq enc xs @ r = enc_seq enc ys @ s \<Longrightarrow> xs = ys \<and> r = s"
proof (induction xs arbitrary: ys)
  case Nil
  then show ?case by (simp add: enc_seq_def)
next
  case (Cons x xs)
  then obtain y ys' where ys: "ys = y # ys'" by (cases ys) auto
  have "enc x @ (enc_seq enc xs @ r) = enc y @ (enc_seq enc ys' @ s)"
    using Cons.prems(4) by (simp add: ys enc_seq_def)
  then have "x = y" "enc_seq enc xs @ r = enc_seq enc ys' @ s"
    using Cons.prems ys cut by auto
  then show ?case using Cons ys by auto
qed

lemma enc_counted_cut:
  assumes "list_all ok xs" "list_all ok ys" "length xs < 2 ^ 32" "length ys < 2 ^ 32"
    and "enc_counted enc xs @ r = enc_counted enc ys @ s"
  shows "xs = ys \<and> r = s"
proof -
  have "be_bytes 4 (length xs) = be_bytes 4 (length ys)"
    and rest: "enc_seq enc xs @ r = enc_seq enc ys @ s"
    using assms(5) by (simp_all add: enc_counted_def append_eq_append_conv)
  then have "length xs = length ys"
    using assms(3,4) be_bytes_inj [of "length xs" 4 "length ys"] by simp
  with assms(1,2) rest show ?thesis by (intro enc_seq_cut)
qed

end

text \<open>A prefix code used for the items of a list makes the counted list a prefix code too.\<close>

locale item_code = prefix_code enc ok for enc :: "'a \<Rightarrow> string" and ok :: "'a \<Rightarrow> bool"

sublocale item_code \<subseteq> counted: prefix_code "enc_counted enc" "ok_counted ok"
  by unfold_locales (rule enc_counted_cut, simp_all add: ok_counted_def)

text \<open>Prefix codes compose: pairs, options, counted lists, and values seen through an injective view.\<close>

lemma prefix_code_pair:
  assumes "prefix_code f P" "prefix_code g Q"
  shows "prefix_code (enc_pair f g) (ok_pair P Q)"
proof
  fix x y :: "'a \<times> 'b" and r s
  assume ok: "ok_pair P Q x" "ok_pair P Q y" and eq: "enc_pair f g x @ r = enc_pair f g y @ s"
  have "fst x = fst y \<and> g (snd x) @ r = g (snd y) @ s"
    by (rule prefix_code.cut [OF assms(1)]) (use ok eq in \<open>simp_all add: enc_pair_def ok_pair_def\<close>)
  moreover from this have "snd x = snd y \<and> r = s"
    by (intro prefix_code.cut [OF assms(2)]) (use ok in \<open>simp_all add: ok_pair_def\<close>)
  ultimately show "x = y \<and> r = s" by (simp add: prod_eq_iff)
qed

lemma prefix_code_opt:
  assumes "prefix_code f P"
  shows "prefix_code (enc_opt f) (pred_option P)"
proof
  fix x y :: "'a option" and r s
  assume "pred_option P x" "pred_option P y" "enc_opt f x @ r = enc_opt f y @ s"
  then show "x = y \<and> r = s"
    by (cases x; cases y) (auto simp: enc_opt_def dest: prefix_code.cut [OF assms])
qed

lemma prefix_code_counted:
  assumes "prefix_code f P"
  shows "prefix_code (enc_counted f) (ok_counted P)"
proof
  fix x y :: "'a list" and r s
  assume "ok_counted P x" "ok_counted P y" "enc_counted f x @ r = enc_counted f y @ s"
  then show "x = y \<and> r = s"
    unfolding ok_counted_def by (elim conjE) (rule prefix_code.enc_counted_cut [OF assms])
qed

lemma prefix_code_via:
  assumes "prefix_code f P" "\<And>x y. view x = view y \<Longrightarrow> x = y"
  shows "prefix_code (\<lambda>x. f (view x)) (\<lambda>x. P (view x))"
  by (rule prefix_code.intro) (blast dest: prefix_code.cut [OF assms(1)] assms(2))

section \<open>Writers\<close>

text \<open>
  A fallible function that appends the encoding of a value to a buffer, and the loop that appends
  the values of a list one after the other.
\<close>

locale writer =
  fixes push :: "'a \<Rightarrow> string \<Rightarrow> 'e + string"
    and enc :: "'a \<Rightarrow> string" and ok :: "'a \<Rightarrow> bool"
  assumes push_Inr: "push x out = Inr out' \<longleftrightarrow> ok x \<and> out' = out @ enc x"
begin

lemma loop_Inr: "try_fold push xs out = Inr out' \<longleftrightarrow> list_all ok xs \<and> out' = out @ enc_seq enc xs"
  by (induction xs arbitrary: out) (auto simp: push_Inr enc_seq_def)

end

section \<open>Classified registries\<close>

fun resolve_all :: "('k \<Rightarrow> 'c \<Rightarrow> 's \<Rightarrow> ('c + 'h) \<times> 's) \<Rightarrow> ('k \<times> 'c) list \<Rightarrow> 's \<Rightarrow> ('c + 'h) list \<times> 's" where
  "resolve_all f [] s = ([], s)"
| "resolve_all f ((k, c) # rs) s =
    (case f k c s of (r, s') \<Rightarrow> case resolve_all f rs s' of (out, s'') \<Rightarrow> (r # out, s''))"

locale class_registry =
  fixes resolve :: "'k \<Rightarrow> 'c \<Rightarrow> 's \<Rightarrow> ('c + 'h) \<times> 's"
    and entry :: "'s \<Rightarrow> 'k \<Rightarrow> ('c \<times> 'h) option"
  assumes resolve_ok: "resolve k c s = (Inr h, s') \<Longrightarrow> entry s' k = Some (c, h)"
    and resolve_refused: "resolve k c s = (Inl c', s') \<Longrightarrow> c' \<noteq> c \<and> (\<exists>h. entry s k = Some (c', h))"
    and resolve_keeps: "entry s k' = Some e \<Longrightarrow> resolve k c s = (r, s') \<Longrightarrow> entry s' k' = Some e"
begin

lemma resolve_hit: "entry s k = Some (c, h) \<Longrightarrow> fst (resolve k c s) = Inr h"
proof (cases "resolve k c s")
  case (Pair r s')
  assume e: "entry s k = Some (c, h)"
  then have "entry s' k = Some (c, h)" using Pair resolve_keeps by blast
  then show ?thesis
    using Pair e resolve_ok [of k c s _ s'] resolve_refused [of k c s _ s'] by (cases r) auto
qed

lemma resolve_mismatch:
  assumes "entry s k = Some (c', h)" "c' \<noteq> c"
  shows "fst (resolve k c s) = Inl c'"
proof (cases "resolve k c s")
  case (Pair r s')
  have "entry s' k = Some (c', h)" using Pair assms(1) resolve_keeps by blast
  then show ?thesis
    using Pair assms resolve_ok [of k c s _ s'] resolve_refused [of k c s _ s'] by (cases r) auto
qed

lemma resolve_all_keeps:
  "entry s k = Some e \<Longrightarrow> entry (snd (resolve_all resolve rs s)) k = Some e"
proof (induction rs arbitrary: s)
  case Nil
  then show ?case by simp
next
  case (Cons kc rs)
  obtain k' c' where kc: "kc = (k', c')" by (cases kc)
  obtain r s' where step: "resolve k' c' s = (r, s')" by (cases "resolve k' c' s")
  have "entry (snd (resolve_all resolve rs s')) k = Some e"
    using Cons resolve_keeps step by blast
  then show ?case using kc step by (simp add: case_prod_unfold)
qed

lemma resolve_all_consistent:
  assumes "((k, c), Inr h) \<in> set (zip rs (fst (resolve_all resolve rs s)))"
  shows "entry (snd (resolve_all resolve rs s)) k = Some (c, h)"
  using assms
proof (induction rs arbitrary: s)
  case Nil
  then show ?case by simp
next
  case (Cons kc rs)
  obtain k' c' where kc: "kc = (k', c')" by (cases kc)
  obtain r s' where step: "resolve k' c' s = (r, s')" by (cases "resolve k' c' s")
  show ?case
  proof (cases "(k, c) = (k', c') \<and> r = Inr h")
    case True
    then have "entry s' k = Some (c, h)" using step resolve_ok by auto
    then show ?thesis using kc step resolve_all_keeps by (simp add: case_prod_unfold)
  next
    case False
    then have "((k, c), Inr h) \<in> set (zip rs (fst (resolve_all resolve rs s')))"
      using Cons.prems kc step by (auto simp: case_prod_unfold)
    then show ?thesis using Cons.IH [of s'] kc step by (simp add: case_prod_unfold)
  qed
qed

end

section \<open>Length-prefixed strings\<close>

text \<open>A byte string behind its length in \<open>n\<close> big-endian bytes.\<close>

definition enc_lp :: "nat \<Rightarrow> string \<Rightarrow> string" where
  "enc_lp n s = be_bytes n (length s) @ s"

lemma enc_lp_cut:
  assumes "length x < 256 ^ n" "length y < 256 ^ n" "enc_lp n x @ r = enc_lp n y @ s"
  shows "x = y \<and> r = s"
proof -
  have "be_bytes n (length x) = be_bytes n (length y)" and rest: "x @ r = y @ s"
    using assms(3) by (simp_all add: enc_lp_def append_eq_append_conv)
  then have "length x = length y"
    using assms(1,2) be_bytes_inj by blast
  with rest show ?thesis by simp
qed

interpretation lp4: item_code "enc_lp 4" "\<lambda>s. length s < 2 ^ 32"
  by unfold_locales (rule enc_lp_cut, simp_all)

interpretation lp8: prefix_code "enc_lp 8" "\<lambda>s. length s < 2 ^ 64"
  by unfold_locales (rule enc_lp_cut, simp_all)

end
