(* ===== verification/Naming.thy ===== *)
theory Naming
  imports Identity Contracts
begin

text \<open>
  Derived PostgreSQL and blob-store names: \<open>wr-common/src/naming.rs\<close>, and \<open>ModuleId::parse\<close> of
  \<open>identity.rs\<close>, which calls it. SHA-256 is a parameter, a function from byte strings to byte
  strings; what the code relies on is that a digest has 32 bytes.

  A panic of the code (the slice of the digest, \<open>expect\<close> on the identifier budget) is the value
  \<open>None\<close>.
\<close>

section \<open>Definitions\<close>

definition POSTGRES_IDENTIFIER_MAX_BYTES :: nat where
  "POSTGRES_IDENTIFIER_MAX_BYTES = 63"

definition MIGRATION_EXECUTOR_SUFFIX_BYTES :: nat where
  "MIGRATION_EXECUTOR_SUFFIX_BYTES = 8"

definition storage_byte :: "char \<Rightarrow> string" where
  "storage_byte b =
    (if is_ascii_alphanumeric b then [b]
     else if b = CHR ''-'' then ''_''
     else CHR ''_'' # hex02 b)"

definition storage_component :: "string \<Rightarrow> string" where
  "storage_component value = concat (map storage_byte value)"

definition identity_preimage :: "string \<Rightarrow> string list \<Rightarrow> string" where
  "identity_preimage domain components = enc_lp 8 domain @ enc_seq (enc_lp 8) components"

definition identity_digest :: "(string \<Rightarrow> string) \<Rightarrow> string \<Rightarrow> string list \<Rightarrow> string" where
  "identity_digest sha domain components = hex_string (sha (identity_preimage domain components))"

definition bounded_postgres_identifier ::
    "(string \<Rightarrow> string) \<Rightarrow> string \<Rightarrow> string \<Rightarrow> string list \<Rightarrow> bool \<Rightarrow> nat \<Rightarrow> string option" where
  "bounded_postgres_identifier sha pre domain components always_hash max_bytes =
    (let encoded = join_with ''__'' (map storage_component components);
         readable = pre @ encoded in
     if \<not> always_hash \<and> length readable \<le> max_bytes then Some readable
     else let digest = identity_digest sha domain components;
              sfx = CHR ''_'' # take 12 digest in
       if length digest < 12 then None
       else if length sfx \<le> max_bytes then Some (take (max_bytes - length sfx) readable @ sfx)
       else None)"

definition namespace_identifier :: "(string \<Rightarrow> string) \<Rightarrow> string \<Rightarrow> string \<Rightarrow> string \<Rightarrow> string option" where
  "namespace_identifier sha pre domain namespace =
    bounded_postgres_identifier sha pre domain [namespace] False POSTGRES_IDENTIFIER_MAX_BYTES"

definition module_schema :: "string \<Rightarrow> string \<Rightarrow> string" where
  "module_schema namespace name = ''wr__'' @ storage_component namespace @ ''__'' @ storage_component name"

definition namespace_runtime_group :: "(string \<Rightarrow> string) \<Rightarrow> string \<Rightarrow> string option" where
  "namespace_runtime_group sha = namespace_identifier sha ''wr_ns_'' ''namespace-runtime-group''"

definition namespace_role :: "(string \<Rightarrow> string) \<Rightarrow> string \<Rightarrow> string option" where
  "namespace_role = namespace_runtime_group"

definition namespace_database :: "(string \<Rightarrow> string) \<Rightarrow> string \<Rightarrow> string option" where
  "namespace_database sha = namespace_identifier sha ''wr_db_'' ''namespace-database''"

definition namespace_owner :: "(string \<Rightarrow> string) \<Rightarrow> string \<Rightarrow> string option" where
  "namespace_owner sha = namespace_identifier sha ''wr_owner_'' ''namespace-owner''"

definition namespace_maintenance_role :: "(string \<Rightarrow> string) \<Rightarrow> string \<Rightarrow> string option" where
  "namespace_maintenance_role sha = namespace_identifier sha ''wr_maint_'' ''namespace-maintenance''"

definition namespace_runtime_login :: "(string \<Rightarrow> string) \<Rightarrow> string \<Rightarrow> string \<Rightarrow> string option" where
  "namespace_runtime_login sha node namespace =
    bounded_postgres_identifier sha ''wr_runtime_'' ''namespace-runtime-login'' [node, namespace]
      True POSTGRES_IDENTIFIER_MAX_BYTES"

definition namespace_readiness_verifier :: "(string \<Rightarrow> string) \<Rightarrow> string \<Rightarrow> string \<Rightarrow> string option" where
  "namespace_readiness_verifier sha node namespace =
    bounded_postgres_identifier sha ''wr_ready_'' ''namespace-readiness-verifier'' [node, namespace]
      True POSTGRES_IDENTIFIER_MAX_BYTES"

definition migration_executor_prefix :: "(string \<Rightarrow> string) \<Rightarrow> string \<Rightarrow> string option" where
  "migration_executor_prefix sha namespace =
    map_option (\<lambda>pre. pre @ ''_'')
      (bounded_postgres_identifier sha ''wr_migrate_'' ''migration-executor'' [namespace] True
        (POSTGRES_IDENTIFIER_MAX_BYTES - MIGRATION_EXECUTOR_SUFFIX_BYTES - 1))"

definition blob_key_prefix :: "string \<Rightarrow> string" where
  "blob_key_prefix namespace = ''wr/'' @ storage_component namespace @ ''/''"

record 'v ModuleId =
  mi_route :: RouteKey
  mi_version :: 'v

definition ModuleId_parse ::
    "(string \<Rightarrow> 'v option) \<Rightarrow> string \<Rightarrow> string \<Rightarrow> string \<Rightarrow> identity_error + 'v ModuleId" where
  "ModuleId_parse version_parse namespace module version =
    and_then (RouteKey_parse namespace module) (\<lambda>route.
    if length (module_schema (rk_namespace route) (rk_module route)) > 63 then Inl Schema_Too_Long
    else and_then (ModuleVersion_parse version_parse version) (\<lambda>v.
      Inr \<lparr>mi_route = route, mi_version = v\<rparr>))"

section \<open>Storage components\<close>

definition dash_to_underscore :: "char \<Rightarrow> char" where
  "dash_to_underscore c = (if c = CHR ''-'' then CHR ''_'' else c)"

lemma storage_component_valid:
  "list_all name_char s \<Longrightarrow> storage_component s = map dash_to_underscore s"
  by (induction s)
    (auto simp: storage_component_def storage_byte_def dash_to_underscore_def name_char_def
      is_ascii_alphanumeric_def dest: is_ascii_uppercase_def [THEN iffD1])

lemma valid_name_chars: "valid_name s \<Longrightarrow> list_all name_char s"
  by (simp add: valid_name_def)

lemmas storage_component_name = storage_component_valid [OF valid_name_chars]

lemma storage_component_length: "valid_name s \<Longrightarrow> length (storage_component s) = length s"
  by (simp add: storage_component_name)

lemma name_char_not_underscore: "name_char c \<Longrightarrow> c \<noteq> CHR ''_''"
  by (auto simp: name_char_def ascii_simps)

lemma map_dash_inj:
  "list_all name_char s \<Longrightarrow> list_all name_char t \<Longrightarrow>
    map dash_to_underscore s = map dash_to_underscore t \<Longrightarrow> s = t"
proof (induction s arbitrary: t)
  case Nil
  then show ?case by simp
next
  case (Cons c s)
  then obtain d t' where t: "t = d # t'" by (cases t) auto
  have "dash_to_underscore c = dash_to_underscore d"
    using Cons.prems t by simp
  then have "c = d"
    using Cons.prems t name_char_not_underscore [of c] name_char_not_underscore [of d]
    by (auto simp: dash_to_underscore_def split: if_splits)
  then show ?case using Cons t by auto
qed

lemma storage_component_inj:
  "valid_name s \<Longrightarrow> valid_name t \<Longrightarrow> storage_component s = storage_component t \<Longrightarrow> s = t"
  by (metis storage_component_name valid_name_chars map_dash_inj)

text \<open>Bytes a PostgreSQL identifier needs no quoting for.\<close>

definition ident_char :: "char \<Rightarrow> bool" where
  "ident_char c \<longleftrightarrow> is_ascii_lowercase c \<or> is_ascii_digit c \<or> c = CHR ''_''"

lemma storage_component_ident: "valid_name s \<Longrightarrow> list_all ident_char (storage_component s)"
  by (auto simp: storage_component_name list_all_iff ident_char_def dash_to_underscore_def
      name_char_def valid_name_def)

lemma hex_string_ident: "list_all ident_char (hex_string bs)"
proof -
  have "list_all ident_char (hex02 b)" for b
  proof -
    have "code b div 16 < 16" "code b mod 16 < 16"
      using code_less [of b] by (simp_all add: less_mult_imp_div_less)
    then show ?thesis
      using hex_digit_cases [of "code b div 16"] hex_digit_cases [of "code b mod 16"]
      by (auto simp: hex02_def ident_char_def)
  qed
  then show ?thesis by (induction bs) (simp_all add: hex_string_def)
qed

section \<open>Identifier budget\<close>

lemma list_all_take: "list_all P xs \<Longrightarrow> list_all P (take n xs)"
  by (auto simp: list_all_iff dest: in_set_takeD)

lemma list_all_join:
  "list_all P sep \<Longrightarrow> list_all (list_all P) ss \<Longrightarrow> list_all P (join_with sep ss)"
  by (induction sep ss rule: join_with.induct) auto

lemma bounded_identifier:
  assumes "\<And>x. length (sha x) = 32"
    and "13 \<le> max_bytes" "list_all valid_name components" "list_all ident_char pre"
  shows "\<exists>s. bounded_postgres_identifier sha pre domain components always max_bytes = Some s \<and>
    length s \<le> max_bytes \<and> list_all ident_char s"
proof -
  let ?readable = "pre @ join_with ''__'' (map storage_component components)"
  let ?digest = "identity_digest sha domain components"
  let ?sfx = "CHR ''_'' # take 12 ?digest"
  have "list_all (list_all ident_char) (map storage_component components)"
    using assms(3) storage_component_ident by (auto simp: list_all_iff)
  moreover have "list_all ident_char ''__''" by (simp add: ident_char_def)
  ultimately have readable: "list_all ident_char ?readable"
    using assms(4) list_all_join by fastforce
  have "length ?digest = 64" by (simp add: identity_digest_def hex_string_length assms(1))
  moreover have "list_all ident_char ?sfx" "length ?sfx \<le> 13"
    using hex_string_ident list_all_take by (auto simp: identity_digest_def ident_char_def)
  ultimately show ?thesis
    using readable assms(2) unfolding bounded_postgres_identifier_def Let_def
    by (auto simp: list_all_take)
qed

lemma namespace_identifier_bounded:
  assumes "\<And>x. length (sha x) = 32" "valid_name namespace" "list_all ident_char pre"
  shows "\<exists>s. namespace_identifier sha pre domain namespace = Some s \<and>
    length s \<le> 63 \<and> list_all ident_char s"
  unfolding namespace_identifier_def POSTGRES_IDENTIFIER_MAX_BYTES_def
  using assms by (intro bounded_identifier) simp_all

definition pg_ident :: "string option \<Rightarrow> bool" where
  "pg_ident r = (case r of None \<Rightarrow> False | Some s \<Rightarrow> length s \<le> 63 \<and> list_all ident_char s)"

lemma pg_identI: "\<exists>s. r = Some s \<and> length s \<le> 63 \<and> list_all ident_char s \<Longrightarrow> pg_ident r"
  by (auto simp: pg_ident_def)

lemma always_hashed_suffix:
  assumes "bounded_postgres_identifier sha pre domain cs True m = Some s"
  shows "take 12 (identity_digest sha domain cs) = drop (length s - 12) s"
  using assms by (auto simp: bounded_postgres_identifier_def Let_def split: if_splits)

lemma identity_preimage_inj:
  assumes "length d < 2 ^ 64" "length d' < 2 ^ 64" "length cs = length cs'"
    and "list_all (\<lambda>s. length s < 2 ^ 64) cs" "list_all (\<lambda>s. length s < 2 ^ 64) cs'"
    and "identity_preimage d cs = identity_preimage d' cs'"
  shows "d = d' \<and> cs = cs'"
proof -
  have "d = d' \<and> enc_seq (enc_lp 8) cs = enc_seq (enc_lp 8) cs'"
    using assms(1,2,6) unfolding identity_preimage_def by (intro lp8.cut)
  then show ?thesis using lp8.enc_seq_cut [of cs cs' "[]" "[]"] assms by simp
qed

lemma valid_name_short: "valid_name s \<Longrightarrow> length s < 2 ^ 64"
  by (simp add: valid_name_def)

section \<open>Schema names\<close>

lemma module_schema_dashes:
  assumes "valid_name ns" "valid_name m"
  shows "module_schema ns m = ''wr__'' @ map dash_to_underscore (ns @ ''--'' @ m)"
  using assms by (simp add: module_schema_def storage_component_name dash_to_underscore_def)

lemma name_chars_dashes:
  "valid_name ns \<Longrightarrow> valid_name m \<Longrightarrow> list_all name_char (ns @ ''--'' @ m)"
  by (simp add: valid_name_def name_char_def)

section \<open>Properties\<close>

text \<open>
  Every PostgreSQL identifier derived for valid names exists (no panic), fits PostgreSQL's 63
  bytes and consists of lower-case letters, digits and underscores; the migration executor prefix
  leaves room for its nonce of eight characters. SHA-256 is only assumed to give 32 bytes.
\<close>

theorem derived_identifiers_bounded:
  assumes "\<And>x. length (sha x) = 32" "valid_name namespace" "valid_name node"
  shows "pg_ident (namespace_runtime_group sha namespace) \<and>
    pg_ident (namespace_role sha namespace) \<and>
    pg_ident (namespace_database sha namespace) \<and>
    pg_ident (namespace_owner sha namespace) \<and>
    pg_ident (namespace_maintenance_role sha namespace) \<and>
    pg_ident (namespace_runtime_login sha node namespace) \<and>
    pg_ident (namespace_readiness_verifier sha node namespace) \<and>
    (\<exists>p. migration_executor_prefix sha namespace = Some p \<and>
      length p + MIGRATION_EXECUTOR_SUFFIX_BYTES \<le> POSTGRES_IDENTIFIER_MAX_BYTES \<and>
      list_all ident_char p)"
proof (intro conjI)
  note namespace_identifier_bounded [OF assms(1,2)]
  then show "pg_ident (namespace_runtime_group sha namespace)"
    "pg_ident (namespace_role sha namespace)"
    "pg_ident (namespace_database sha namespace)"
    "pg_ident (namespace_owner sha namespace)"
    "pg_ident (namespace_maintenance_role sha namespace)"
    unfolding namespace_runtime_group_def namespace_role_def namespace_database_def
      namespace_owner_def namespace_maintenance_role_def
    by (auto intro!: pg_identI simp: ident_char_def ascii_simps)
next
  note bounded_identifier [where sha = sha, OF assms(1), where max_bytes = 63 and components = "[node, namespace]"]
  then show "pg_ident (namespace_runtime_login sha node namespace)"
    "pg_ident (namespace_readiness_verifier sha node namespace)"
    unfolding namespace_runtime_login_def namespace_readiness_verifier_def
      POSTGRES_IDENTIFIER_MAX_BYTES_def
    using assms(2,3) by (auto intro!: pg_identI simp: ident_char_def ascii_simps)
next
  show "\<exists>p. migration_executor_prefix sha namespace = Some p \<and>
      length p + MIGRATION_EXECUTOR_SUFFIX_BYTES \<le> POSTGRES_IDENTIFIER_MAX_BYTES \<and>
      list_all ident_char p"
    using bounded_identifier [where sha = sha, OF assms(1), where max_bytes = 54 and components = "[namespace]"
        and pre = "''wr_migrate_''" and domain = "''migration-executor''" and always = True] assms(2)
    unfolding migration_executor_prefix_def MIGRATION_EXECUTOR_SUFFIX_BYTES_def
      POSTGRES_IDENTIFIER_MAX_BYTES_def
    by (auto simp: ident_char_def ascii_simps)
qed

theorem derived_identifiers_bounded_witness:
  "pg_ident (namespace_database (\<lambda>_. replicate 32 (CHR ''k'')) ''billing-eu'')"
  using derived_identifiers_bounded [of "\<lambda>_. replicate 32 (CHR ''k'')" "''billing-eu''" "''node-1''"]
  by (simp add: valid_name_def name_char_def ascii_simps)

text \<open>
  Two logins of one node and namespace pair each coincide only for the same pair, or when the
  first 48 bits of the SHA-256 digests of two different preimages agree: the length-prefixed
  preimage itself never confuses two pairs.
\<close>

theorem runtime_login_collision:
  assumes "valid_name node" "valid_name node'" "valid_name ns" "valid_name ns'"
    and "namespace_runtime_login sha node ns = Some l"
    and "namespace_runtime_login sha node' ns' = Some l"
  shows "(node, ns) = (node', ns') \<or>
    (\<exists>x y. identity_preimage ''namespace-runtime-login'' [node, ns] = x \<and>
      identity_preimage ''namespace-runtime-login'' [node', ns'] = y \<and> x \<noteq> y \<and>
      take 12 (hex_string (sha x)) = take 12 (hex_string (sha y)))"
proof (cases "(node, ns) = (node', ns')")
  case False
  let ?d = "''namespace-runtime-login''"
  have "identity_preimage ?d [node, ns] \<noteq> identity_preimage ?d [node', ns']"
    using False identity_preimage_inj [of ?d ?d "[node, ns]" "[node', ns']"] assms(1-4) valid_name_short
    by auto
  moreover have "take 12 (identity_digest sha ?d [node, ns]) =
      take 12 (identity_digest sha ?d [node', ns'])"
    using assms(5,6)[unfolded namespace_runtime_login_def, THEN always_hashed_suffix]
    by simp
  ultimately show ?thesis by (auto simp: identity_digest_def)
qed simp

theorem runtime_login_collision_witness:
  "identity_preimage ''namespace-runtime-login'' [replicate 24 (CHR ''n''), ''team-payments-eu''] \<noteq>
   identity_preimage ''namespace-runtime-login'' [replicate 24 (CHR ''n''), ''team-payments-us'']"
proof -
  let ?sha = "\<lambda>_. replicate 32 (CHR ''k'')" and ?n = "replicate 24 (CHR ''n'')"
  let ?cut = "\<lambda>ns. take 50 (''wr_runtime_'' @ join_with ''__'' (map storage_component [?n, ns]))"
  have login: "namespace_runtime_login ?sha ?n ns =
      Some (?cut ns @ CHR ''_'' # take 12 (hex_string (?sha [])))" for ns
    by (simp add: namespace_runtime_login_def bounded_postgres_identifier_def Let_def
        identity_digest_def hex_string_length POSTGRES_IDENTIFIER_MAX_BYTES_def)
  have "?cut ''team-payments-eu'' = ?cut ''team-payments-us''" by code_simp
  then have "namespace_runtime_login ?sha ?n ''team-payments-us'' =
      namespace_runtime_login ?sha ?n ''team-payments-eu''"
    unfolding login by (simp only:)
  moreover have "valid_name ?n" "valid_name ''team-payments-eu''" "valid_name ''team-payments-us''"
    by code_simp+
  ultimately show ?thesis
    using runtime_login_collision [of ?n ?n "''team-payments-eu''" "''team-payments-us''" ?sha, OF _ _ _ _ login]
    unfolding login by (simp only: simp_thms prod.inject) auto
qed

text \<open>
  C40. The schema name of a module is within PostgreSQL's limit for every valid identity, so the
  length check of \<open>ModuleId::parse\<close> never rejects one. Two valid identities share a schema name
  exactly when namespace, two hyphens and module name spell the same string: names that contain
  two adjacent hyphens do collide, although the code calls the mapping collision-free.
\<close>

theorem module_schema_collisions:
  assumes "valid_name ns" "valid_name m" "valid_name ns'" "valid_name m'"
  shows "length (module_schema ns m) \<le> 54 \<and>
    ModuleId_parse version_parse ns m v \<noteq> Inl Schema_Too_Long \<and>
    (module_schema ns m = module_schema ns' m' \<longleftrightarrow> ns @ ''--'' @ m = ns' @ ''--'' @ m')"
proof (intro conjI)
  show len: "length (module_schema ns m) \<le> 54"
    using assms by (simp add: module_schema_dashes valid_name_def)
  have "RouteKey_parse ns m = Inr \<lparr>rk_namespace = ns, rk_module = m\<rparr>"
    using assms by (simp add: RouteKey_parse_ok)
  with len show "ModuleId_parse version_parse ns m v \<noteq> Inl Schema_Too_Long"
    by (simp add: ModuleId_parse_def ModuleVersion_parse_def)
  show "module_schema ns m = module_schema ns' m' \<longleftrightarrow> ns @ ''--'' @ m = ns' @ ''--'' @ m'"
    using map_dash_inj [OF name_chars_dashes name_chars_dashes, OF assms]
    unfolding module_schema_dashes [OF assms(1,2)] module_schema_dashes [OF assms(3,4)]
      same_append_eq
    by metis
qed

theorem module_schema_collisions_witness:
  "valid_name ''a--b'' \<and> valid_name ''b--c'' \<and>
   module_schema ''a--b'' ''c'' = module_schema ''a'' ''b--c''"
  using module_schema_collisions [of "''a--b''" "''c''" "''a''" "''b--c''"
    "\<lambda>_. Some ()" "''1.0.0''"]
  by (simp add: valid_name_def name_char_def ascii_simps)

end
