(* ===== verification/Http_Headers.thy ===== *)
theory Http_Headers
  imports Prelude
begin

text \<open>
  Reserved headers and their removal at trust boundaries: \<open>wr-common/src/http_headers.rs\<close>.
  The header map of the \<open>http\<close> crate is the list of its entries, with names in the lower-case
  form the crate stores; \<open>get\<close>, \<open>remove\<close> and \<open>insert\<close> act on all entries of a name. The crate's
  \<open>HeaderValue::to_str\<close>, which yields a value only when it is printable, is a parameter.
\<close>

type_synonym HeaderMap = "(string \<times> string) list"

definition hdr_get :: "HeaderMap \<Rightarrow> string \<Rightarrow> string option" where
  "hdr_get h n = map_of h n"

definition hdr_remove :: "string \<Rightarrow> HeaderMap \<Rightarrow> HeaderMap" where
  "hdr_remove n h = filter (\<lambda>(k, v). k \<noteq> n) h"

definition hdr_insert :: "string \<Rightarrow> string \<Rightarrow> HeaderMap \<Rightarrow> HeaderMap" where
  "hdr_insert n v h = hdr_remove n h @ [(n, v)]"

definition header_str :: "(string \<Rightarrow> string option) \<Rightarrow> HeaderMap \<Rightarrow> string \<Rightarrow> string" where
  "header_str to_str headers name =
    (case Option.bind (hdr_get headers name) to_str of None \<Rightarrow> ''unknown'' | Some v \<Rightarrow> v)"

definition header_owned :: "(string \<Rightarrow> string option) \<Rightarrow> HeaderMap \<Rightarrow> string \<Rightarrow> string" where
  "header_owned to_str headers name = header_str to_str headers name"

definition WR_DESTINATION :: string where "WR_DESTINATION = ''x-wr-destination''"
definition WR_SOURCE :: string where "WR_SOURCE = ''x-wr-source''"
definition WR_SOURCE_NS :: string where "WR_SOURCE_NS = ''x-wr-source-ns''"
definition WR_MODULE :: string where "WR_MODULE = ''x-wr-module''"
definition WR_NAMESPACE :: string where "WR_NAMESPACE = ''x-wr-namespace''"
definition WR_VERSION :: string where "WR_VERSION = ''x-wr-version''"
definition WR_VIA_PROXY :: string where "WR_VIA_PROXY = ''x-wr-via-proxy''"

definition strip_before_engine :: "HeaderMap \<Rightarrow> HeaderMap" where
  "strip_before_engine headers =
    (hdr_remove WR_VIA_PROXY \<circ> hdr_remove WR_SOURCE_NS \<circ> hdr_remove WR_SOURCE \<circ>
     hdr_remove WR_DESTINATION) headers"

definition strip_external_spoofable_headers :: "HeaderMap \<Rightarrow> HeaderMap" where
  "strip_external_spoofable_headers headers =
    (hdr_remove WR_VIA_PROXY \<circ> hdr_remove WR_VERSION \<circ> hdr_remove WR_NAMESPACE \<circ>
     hdr_remove WR_MODULE \<circ> hdr_remove WR_SOURCE_NS \<circ> hdr_remove WR_SOURCE \<circ>
     hdr_remove WR_DESTINATION) headers"

definition strip_before_egress :: "HeaderMap \<Rightarrow> HeaderMap" where
  "strip_before_egress headers =
    (hdr_remove WR_VIA_PROXY \<circ> hdr_remove WR_VERSION \<circ> hdr_remove WR_NAMESPACE \<circ>
     hdr_remove WR_MODULE \<circ> hdr_remove WR_SOURCE_NS \<circ> hdr_remove WR_SOURCE \<circ>
     hdr_remove WR_DESTINATION) headers"

section \<open>Header map laws\<close>

lemma hdr_get_remove [simp]: "hdr_get (hdr_remove n h) k = (if k = n then None else hdr_get h k)"
  by (induction h) (auto simp: hdr_get_def hdr_remove_def)

lemma hdr_get_insert [simp]: "hdr_get (hdr_insert n v h) k = (if k = n then Some v else hdr_get h k)"
  using hdr_get_remove [of n h k]
  by (auto simp: hdr_insert_def hdr_get_def map_add_def split: option.splits if_splits)

definition reserved_headers :: "string list" where
  "reserved_headers =
    [WR_DESTINATION, WR_SOURCE, WR_SOURCE_NS, WR_MODULE, WR_NAMESPACE, WR_VERSION, WR_VIA_PROXY]"

definition engine_internal_headers :: "string list" where
  "engine_internal_headers = [WR_DESTINATION, WR_SOURCE, WR_SOURCE_NS, WR_VIA_PROXY]"

lemma strip_external_filter:
  "strip_external_spoofable_headers h = filter (\<lambda>(k, v). k \<notin> set reserved_headers) h"
  unfolding strip_external_spoofable_headers_def hdr_remove_def reserved_headers_def
  by (simp add: filter_filter, rule filter_cong) auto

lemma strip_engine_filter:
  "strip_before_engine h = filter (\<lambda>(k, v). k \<notin> set engine_internal_headers) h"
  unfolding strip_before_engine_def hdr_remove_def engine_internal_headers_def
  by (simp add: filter_filter, rule filter_cong) auto

lemma strip_egress_eq: "strip_before_egress = strip_external_spoofable_headers"
  by (rule ext) (simp add: strip_before_egress_def strip_external_spoofable_headers_def)

section \<open>Properties\<close>

text \<open>
  The three stripping functions remove exactly the headers of their boundary: at ingress and
  egress no reserved header is left, before an engine none of the engine-internal ones, and every
  other entry stays, in order and with its value. Stripping twice changes nothing.
\<close>

theorem strip_exact:
  "strip_external_spoofable_headers h = filter (\<lambda>(k, v). k \<notin> set reserved_headers) h \<and>
   strip_before_egress h = filter (\<lambda>(k, v). k \<notin> set reserved_headers) h \<and>
   strip_before_engine h = filter (\<lambda>(k, v). k \<notin> set engine_internal_headers) h \<and>
   strip_external_spoofable_headers (strip_external_spoofable_headers h) =
     strip_external_spoofable_headers h \<and>
   hdr_get (strip_before_engine h) WR_NAMESPACE = hdr_get h WR_NAMESPACE"
proof (intro conjI)
  show "hdr_get (strip_before_engine h) WR_NAMESPACE = hdr_get h WR_NAMESPACE"
    by (simp add: strip_before_engine_def WR_NAMESPACE_def WR_VIA_PROXY_def WR_SOURCE_NS_def
        WR_SOURCE_def WR_DESTINATION_def)
qed (simp_all add: strip_external_filter strip_engine_filter strip_egress_eq)

end
