(* ===== verification/Breaker.thy ===== *)
theory Breaker
  imports Contracts "HOL-Library.Word"
begin

text \<open>
  Circuit breakers of the proxy: \<open>wr-proxy/src/circuit_breaker.rs\<close>.

  The state machine of the \<open>failsafe\<close> crate is a parameter, a record of its four operations; each
  returns its new state and the instrument callbacks it made, in order. A breaker is shared by
  reference in the code (\<open>Arc\<close>): here a handle indexes a heap of breaker cells, and the registry
  maps forwarding addresses to a target class and a handle. The mutex around every operation of a
  breaker makes each of them one step. Instants and durations are natural numbers of nanoseconds.
\<close>

section \<open>Telemetry\<close>

datatype BreakerTargetClass = LocalEngineClass | RemoteProxyClass

datatype BreakerState = Closed | Open | HalfOpen

datatype instrument_call = On_Call_Rejected | On_Open | On_Half_Open | On_Closed

definition CLOSED :: nat where "CLOSED = 0"
definition OPEN :: nat where "OPEN = 1"
definition HALF_OPEN :: nat where "HALF_OPEN = 2"

record BreakerTelemetry =
  tel_state :: nat
  open_until :: "nat option"
  open_duration :: nat

definition BreakerTelemetry_new :: "nat \<Rightarrow> BreakerTelemetry" where
  "BreakerTelemetry_new duration =
    \<lparr>tel_state = CLOSED, open_until = None, open_duration = duration\<rparr>"

definition telemetry_snapshot :: "nat \<Rightarrow> BreakerTelemetry \<Rightarrow> BreakerState" where
  "telemetry_snapshot now t =
    (if tel_state t = OPEN then
       (let deadline_elapsed = (case open_until t of None \<Rightarrow> False | Some deadline \<Rightarrow> now \<ge> deadline) in
        if deadline_elapsed then HalfOpen else Open)
     else if tel_state t = HALF_OPEN then HalfOpen
     else Closed)"

fun instrument :: "nat \<Rightarrow> instrument_call \<Rightarrow> BreakerTelemetry \<Rightarrow> BreakerTelemetry" where
  "instrument now On_Call_Rejected t = t"
| "instrument now On_Open t =
    t\<lparr>open_until := Some (now + open_duration t), tel_state := OPEN\<rparr>"
| "instrument now On_Half_Open t = t\<lparr>tel_state := HALF_OPEN\<rparr>"
| "instrument now On_Closed t = t\<lparr>open_until := None, tel_state := CLOSED\<rparr>"

section \<open>Breakers\<close>

record 'm Failsafe =
  fs_new :: "nat \<Rightarrow> nat \<Rightarrow> 'm"
  fs_is_call_permitted :: "nat \<Rightarrow> 'm \<Rightarrow> bool \<times> 'm \<times> instrument_call list"
  fs_on_success :: "nat \<Rightarrow> 'm \<Rightarrow> 'm \<times> instrument_call list"
  fs_on_error :: "nat \<Rightarrow> 'm \<Rightarrow> 'm \<times> instrument_call list"

record 'm EngineBreaker =
  machine :: 'm
  telemetry :: BreakerTelemetry

type_synonym handle = nat
type_synonym 'm breaker_heap = "'m EngineBreaker list"

definition observe :: "nat \<Rightarrow> instrument_call list \<Rightarrow> BreakerTelemetry \<Rightarrow> BreakerTelemetry" where
  "observe now calls t = fold (instrument now) calls t"

definition is_call_permitted :: "'m Failsafe \<Rightarrow> nat \<Rightarrow> 'm EngineBreaker \<Rightarrow> bool \<times> 'm EngineBreaker" where
  "is_call_permitted fs now b =
    (case fs_is_call_permitted fs now (machine b) of (permitted, m, calls) \<Rightarrow>
      (permitted, b\<lparr>machine := m, telemetry := observe now calls (telemetry b)\<rparr>))"

definition on_success :: "'m Failsafe \<Rightarrow> nat \<Rightarrow> 'm EngineBreaker \<Rightarrow> 'm EngineBreaker" where
  "on_success fs now b =
    (case fs_on_success fs now (machine b) of (m, calls) \<Rightarrow>
      b\<lparr>machine := m, telemetry := observe now calls (telemetry b)\<rparr>)"

definition on_error :: "'m Failsafe \<Rightarrow> nat \<Rightarrow> 'm EngineBreaker \<Rightarrow> 'm EngineBreaker" where
  "on_error fs now b =
    (case fs_on_error fs now (machine b) of (m, calls) \<Rightarrow>
      b\<lparr>machine := m, telemetry := observe now calls (telemetry b)\<rparr>)"

definition breaker_state :: "nat \<Rightarrow> 'm EngineBreaker \<Rightarrow> BreakerState" where
  "breaker_state now b = telemetry_snapshot now (telemetry b)"

definition build_engine_breaker :: "'m Failsafe \<Rightarrow> nat \<Rightarrow> nat \<Rightarrow> 'm EngineBreaker" where
  "build_engine_breaker fs failure_threshold duration =
    \<lparr>machine = fs_new fs failure_threshold duration, telemetry = BreakerTelemetry_new duration\<rparr>"

section \<open>Registry\<close>

record CircuitBreakerConfig =
  failure_threshold :: "32 word"
  open_duration_secs :: "64 word"

record RegistryEntry =
  re_class :: BreakerTargetClass
  re_breaker :: handle

record CircuitBreakerRegistry =
  entries :: "(string \<times> RegistryEntry) list"
  cb_config :: CircuitBreakerConfig
  resolver_calls :: "64 word"

type_synonym 'm breakers = "CircuitBreakerRegistry \<times> 'm breaker_heap"

definition CircuitBreakerRegistry_new :: "CircuitBreakerConfig \<Rightarrow> CircuitBreakerRegistry" where
  "CircuitBreakerRegistry_new config = \<lparr>entries = [], cb_config = config, resolver_calls = 0\<rparr>"

definition build_breaker :: "'m Failsafe \<Rightarrow> CircuitBreakerRegistry \<Rightarrow> 'm EngineBreaker" where
  "build_breaker fs r =
    build_engine_breaker fs (unat (failure_threshold (cb_config r)))
      (unat (open_duration_secs (cb_config r)) * 1000000000)"

definition resolve ::
    "'m Failsafe \<Rightarrow> string \<Rightarrow> BreakerTargetClass \<Rightarrow> 'm breakers \<Rightarrow>
      (BreakerTargetClass + handle) \<times> 'm breakers" where
  "resolve fs addr class st =
    (case st of (r0, heap) \<Rightarrow>
      let r = r0\<lparr>resolver_calls := resolver_calls r0 + 1\<rparr> in
      case map_of (entries r) addr of
        Some entry \<Rightarrow>
          if re_class entry = class then (Inr (re_breaker entry), (r, heap))
          else (Inl (re_class entry), (r, heap))
      | None \<Rightarrow>
          let h = length heap in
          (Inr h, (r\<lparr>entries := alist_put addr \<lparr>re_class = class, re_breaker = h\<rparr> (entries r)\<rparr>,
                   heap @ [build_breaker fs r])))"

definition evict_missing :: "(string \<Rightarrow> bool) \<Rightarrow> CircuitBreakerRegistry \<Rightarrow> CircuitBreakerRegistry" where
  "evict_missing active r = r\<lparr>entries := filter (\<lambda>(k, e). active k) (entries r)\<rparr>"

record BreakerCounts =
  total :: "32 word"
  closed :: "32 word"
  open_count :: "32 word"
  half_open :: "32 word"

record CircuitBreakerSummary =
  local_engine :: BreakerCounts
  remote_proxy :: BreakerCounts

definition saturating_inc :: "32 word \<Rightarrow> 32 word" where
  "saturating_inc x = (if unat x = 4294967295 then x else x + 1)"

definition counts_default :: BreakerCounts where
  "counts_default = \<lparr>total = 0, closed = 0, open_count = 0, half_open = 0\<rparr>"

definition count_entry :: "BreakerState \<Rightarrow> BreakerCounts \<Rightarrow> BreakerCounts" where
  "count_entry s counts0 =
    (let counts = counts0\<lparr>total := saturating_inc (total counts0)\<rparr> in
     case s of
       Closed \<Rightarrow> counts\<lparr>closed := saturating_inc (closed counts)\<rparr>
     | Open \<Rightarrow> counts\<lparr>open_count := saturating_inc (open_count counts)\<rparr>
     | HalfOpen \<Rightarrow> counts\<lparr>half_open := saturating_inc (half_open counts)\<rparr>)"

definition snapshot_step ::
    "nat \<Rightarrow> 'm breaker_heap \<Rightarrow> string \<times> RegistryEntry \<Rightarrow> CircuitBreakerSummary \<Rightarrow> CircuitBreakerSummary" where
  "snapshot_step now heap e summary =
    (case re_class (snd e) of
       LocalEngineClass \<Rightarrow> summary\<lparr>local_engine :=
         count_entry (breaker_state now (heap ! re_breaker (snd e))) (local_engine summary)\<rparr>
     | RemoteProxyClass \<Rightarrow> summary\<lparr>remote_proxy :=
         count_entry (breaker_state now (heap ! re_breaker (snd e))) (remote_proxy summary)\<rparr>)"

definition registry_snapshot :: "nat \<Rightarrow> 'm breakers \<Rightarrow> CircuitBreakerSummary" where
  "registry_snapshot now st =
    fold (snapshot_step now (snd st)) (entries (fst st))
      \<lparr>local_engine = counts_default, remote_proxy = counts_default\<rparr>"

section \<open>Telemetry follows the last transition\<close>

definition transitions :: "(nat \<times> instrument_call) list \<Rightarrow> (nat \<times> instrument_call) list" where
  "transitions evs = filter (\<lambda>(t, c). c \<noteq> On_Call_Rejected) evs"

definition run_instrument :: "(nat \<times> instrument_call) list \<Rightarrow> BreakerTelemetry \<Rightarrow> BreakerTelemetry" where
  "run_instrument evs = fold (\<lambda>(t, c). instrument t c) evs"

lemma open_duration_instrument [simp]: "open_duration (instrument t c tel) = open_duration tel"
  by (cases c) simp_all

lemma open_duration_run [simp]: "open_duration (run_instrument evs tel) = open_duration tel"
  unfolding run_instrument_def by (induction evs arbitrary: tel) auto

lemmas state_codes = CLOSED_def OPEN_def HALF_OPEN_def

section \<open>Registry laws\<close>

definition registry_entry :: "'m breakers \<Rightarrow> string \<Rightarrow> (BreakerTargetClass \<times> handle) option" where
  "registry_entry st addr =
    map_option (\<lambda>e. (re_class e, re_breaker e)) (map_of (entries (fst st)) addr)"

interpretation breaker_registry: class_registry "resolve fs" registry_entry for fs
proof unfold_locales
  fix k c h and s s' :: "'a breakers" and c' e k' r
  show "resolve fs k c s = (Inr h, s') \<Longrightarrow> registry_entry s' k = Some (c, h)"
    by (auto simp: resolve_def registry_entry_def Let_def split: prod.splits option.splits if_splits)
  show "resolve fs k c s = (Inl c', s') \<Longrightarrow> c' \<noteq> c \<and> (\<exists>h. registry_entry s k = Some (c', h))"
    by (auto simp: resolve_def registry_entry_def Let_def split: prod.splits option.splits if_splits)
  show "registry_entry s k' = Some e \<Longrightarrow> resolve fs k c s = (r, s') \<Longrightarrow> registry_entry s' k' = Some e"
    by (auto simp: resolve_def registry_entry_def Let_def split: prod.splits option.splits if_splits)
qed

text \<open>Keys are unique, every handle is allocated, and no two addresses share a breaker.\<close>

definition wf_breakers :: "'m breakers \<Rightarrow> bool" where
  "wf_breakers st \<longleftrightarrow> distinct (map fst (entries (fst st))) \<and>
    distinct (map (re_breaker \<circ> snd) (entries (fst st))) \<and>
    list_all (\<lambda>e. re_breaker (snd e) < length (snd st)) (entries (fst st))"

lemma alist_put_new: "map_of m k = None \<Longrightarrow> alist_put k v m = m @ [(k, v)]"
  by (induction m) (auto split: if_splits)

lemma resolve_None:
  assumes "map_of (entries r) a = None"
  shows "resolve fs a c (r, heap) =
    (Inr (length heap),
     (r\<lparr>entries := entries r @ [(a, \<lparr>re_class = c, re_breaker = length heap\<rparr>)],
        resolver_calls := resolver_calls r + 1\<rparr>,
      heap @ [build_breaker fs r]))"
  using assms by (simp add: resolve_def Let_def alist_put_new build_breaker_def)

lemma resolve_Some:
  assumes "map_of (entries r) a = Some e"
  shows "resolve fs a c (r, heap) =
    (if re_class e = c then Inr (re_breaker e) else Inl (re_class e),
     (r\<lparr>resolver_calls := resolver_calls r + 1\<rparr>, heap))"
  using assms by (simp add: resolve_def)

lemma wf_resolve:
  assumes "wf_breakers (r, heap)"
  shows "wf_breakers (snd (resolve fs a c (r, heap)))"
proof (cases "map_of (entries r) a")
  case None
  have "length heap \<notin> (re_breaker \<circ> snd) ` set (entries r)"
    using assms by (fastforce simp: wf_breakers_def list_all_iff)
  moreover have "list_all (\<lambda>e. re_breaker (snd e) < Suc (length heap)) (entries r)"
    using assms unfolding wf_breakers_def by (auto elim!: list.pred_mono_strong)
  moreover have "a \<notin> fst ` set (entries r)"
    using None by (simp add: map_of_eq_None_iff)
  ultimately show ?thesis
    using assms by (simp add: resolve_None [OF None] wf_breakers_def)
next
  case (Some e)
  then show ?thesis
    using assms by (simp add: resolve_Some wf_breakers_def)
qed

lemma wf_evict: "wf_breakers (r, heap) \<Longrightarrow> wf_breakers (evict_missing active r, heap)"
  unfolding wf_breakers_def evict_missing_def
  by (auto simp: distinct_map list_all_iff intro: inj_on_subset)

section \<open>Counting\<close>

definition class_counts :: "BreakerTargetClass \<Rightarrow> CircuitBreakerSummary \<Rightarrow> BreakerCounts" where
  "class_counts c s = (case c of LocalEngineClass \<Rightarrow> local_engine s | RemoteProxyClass \<Rightarrow> remote_proxy s)"

definition state_count :: "BreakerState \<Rightarrow> BreakerCounts \<Rightarrow> 32 word" where
  "state_count s n = (case s of Closed \<Rightarrow> closed n | Open \<Rightarrow> open_count n | HalfOpen \<Rightarrow> half_open n)"

lemma unat_le_max32: "unat (x :: 32 word) \<le> 2 ^ 32 - 1"
proof -
  have "unat x < 2 ^ LENGTH(32)" by (rule unsigned_less)
  then show ?thesis by simp
qed

lemma unat_saturating_inc: "unat (saturating_inc x) = min (unat x + 1) (2 ^ 32 - 1)"
  using unat_le_max32 [of x] by (simp add: saturating_inc_def unat_word_ariths(1))

lemma snapshot_step_total:
  "unat (total (class_counts c (snapshot_step now heap e s))) =
    min (unat (total (class_counts c s)) + (if re_class (snd e) = c then 1 else 0)) (2 ^ 32 - 1)"
  using unat_le_max32 [of "total (local_engine s)"] unat_le_max32 [of "total (remote_proxy s)"]
  by (auto simp: snapshot_step_def class_counts_def count_entry_def Let_def unat_saturating_inc
      split: BreakerTargetClass.splits BreakerState.splits)

lemma snapshot_step_state:
  "unat (state_count q (class_counts c (snapshot_step now heap e s))) =
    min (unat (state_count q (class_counts c s)) +
      (if re_class (snd e) = c \<and> breaker_state now (heap ! re_breaker (snd e)) = q then 1 else 0))
      (2 ^ 32 - 1)"
proof -
  have "unat (state_count q n) \<le> 2 ^ 32 - 1" for n by (rule unat_le_max32)
  then show ?thesis
    by (cases q; cases c; cases "re_class (snd e)"; cases "breaker_state now (heap ! re_breaker (snd e))")
      (simp_all add: snapshot_step_def class_counts_def count_entry_def state_count_def
        unat_saturating_inc unat_le_max32 [simplified] min_absorb1)
qed

text \<open>A counter that every item raises by its weight, capped, ends at the capped sum.\<close>

lemma capped_fold:
  assumes "\<And>e s. f (step e s) = min (f s + w e) (m :: nat)" "f s \<le> m"
  shows "f (fold step es s) = min (f s + sum_list (map w es)) m"
  using assms(2)
proof (induction es arbitrary: s)
  case Nil
  then show ?case by simp
next
  case (Cons e es)
  have "f (step e s) \<le> m" by (simp add: assms(1))
  from Cons.IH [OF this] show ?case by (simp add: assms(1))
qed

lemma sum_indicator: "sum_list (map (\<lambda>e. if P e then 1 else 0) es) = length (filter P es)"
  by (induction es) simp_all

text \<open>The operations that change the registry, in any order.\<close>

datatype registry_op = Resolve string BreakerTargetClass | Evict "string list"

fun registry_step :: "'m Failsafe \<Rightarrow> registry_op \<Rightarrow> 'm breakers \<Rightarrow> 'm breakers" where
  "registry_step fs (Resolve a c) st = snd (resolve fs a c st)"
| "registry_step fs (Evict active) st = (evict_missing (\<lambda>k. k \<in> set active) (fst st), snd st)"

lemma wf_registry_step: "wf_breakers st \<Longrightarrow> wf_breakers (registry_step fs op st)"
  by (cases op; cases st) (simp_all add: wf_resolve wf_evict)

lemma heap_registry_step: "length (snd st) \<le> length (snd (registry_step fs op st))"
  by (cases op; cases st) (auto simp: resolve_def Let_def split: option.splits)

interpretation registry_runs: monotone_machine wf_breakers "registry_step fs" "\<lambda>st. length (snd st)" for fs
  by unfold_locales (simp_all add: wf_registry_step heap_registry_step)

lemma map_of_inj_values:
  assumes "distinct (map (f \<circ> snd) m)" "map_of m k = Some v" "map_of m k' = Some v'" "f v = f v'"
  shows "k = k'"
proof -
  have "(k, v) \<in> set m" "(k', v') \<in> set m"
    using assms(2,3) by (simp_all add: map_of_SomeD)
  then show ?thesis
    using assms(1,4) by (fastforce simp: distinct_map inj_on_def)
qed

section \<open>Properties\<close>

text \<open>
  The telemetry mirror reports the last transition the breaker's state machine announced:
  closed at first and after \<open>on_closed\<close>, half open after \<open>on_half_open\<close>, and after \<open>on_open\<close> open
  until the open duration has passed and half open from then on; rejected calls and reading the
  snapshot change nothing.
\<close>

theorem telemetry_reports_last_transition:
  "telemetry_snapshot now (run_instrument evs (BreakerTelemetry_new d)) =
    (if transitions evs = [] then Closed
     else case last (transitions evs) of
       (t, On_Open) \<Rightarrow> if t + d \<le> now then HalfOpen else Open
     | (t, On_Half_Open) \<Rightarrow> HalfOpen
     | (t, _) \<Rightarrow> Closed)"
proof (induction evs rule: rev_induct)
  case Nil
  show ?case
    by (simp add: run_instrument_def transitions_def telemetry_snapshot_def BreakerTelemetry_new_def state_codes)
next
  case (snoc e evs)
  obtain t c where e: "e = (t, c)" by (cases e)
  let ?tel = "run_instrument evs (BreakerTelemetry_new d)"
  have step: "run_instrument (evs @ [e]) (BreakerTelemetry_new d) = instrument t c ?tel"
    by (simp add: run_instrument_def e)
  have "open_duration ?tel = d" by (simp add: BreakerTelemetry_new_def)
  then show ?case
    using snoc unfolding step
    by (cases c) (simp_all add: e transitions_def telemetry_snapshot_def state_codes)
qed

text \<open>
  After any sequence of resolutions and evictions of a new registry, no two addresses share a
  breaker, and resolving an address behaves as documented: a registered address gives its one
  breaker to callers of its class and refuses any other class by naming the registered one, a new
  address gets a breaker no address had before, and no other address is affected.
\<close>

theorem registry_resolution:
  fixes st :: "'m breakers" and fs :: "'m Failsafe" and ops :: "registry_op list"
    and cfg :: CircuitBreakerConfig
  defines "st \<equiv> fold (registry_step fs) ops (CircuitBreakerRegistry_new cfg, [])"
  shows "(case registry_entry st a of
      Some (c', h) \<Rightarrow> resolve fs a c st =
        (if c' = c then Inr h else Inl c',
         ((fst st)\<lparr>resolver_calls := resolver_calls (fst st) + 1\<rparr>, snd st))
    | None \<Rightarrow> fst (resolve fs a c st) = Inr (length (snd st)) \<and>
        registry_entry (snd (resolve fs a c st)) a = Some (c, length (snd st)) \<and>
        (\<nexists>k c''. registry_entry st k = Some (c'', length (snd st)))) \<and>
    (\<forall>k. k \<noteq> a \<longrightarrow> registry_entry (snd (resolve fs a c st)) k = registry_entry st k) \<and>
    (\<forall>k k' c1 c2 h. registry_entry st k = Some (c1, h) \<and> registry_entry st k' = Some (c2, h) \<longrightarrow> k = k')"
proof -
  have "wf_breakers (CircuitBreakerRegistry_new cfg, [])"
    by (simp add: wf_breakers_def CircuitBreakerRegistry_new_def)
  then have wf: "wf_breakers st"
    unfolding st_def by (rule registry_runs.run_inv)
  obtain r heap where st: "st = (r, heap)" by (cases st)
  have fresh: "\<nexists>k c''. registry_entry st k = Some (c'', length (snd st))"
    using wf by (fastforce simp: wf_breakers_def registry_entry_def list_all_iff dest: map_of_SomeD)
  have others: "\<forall>k. k \<noteq> a \<longrightarrow> registry_entry (snd (resolve fs a c st)) k = registry_entry st k"
    by (cases "map_of (entries r) a")
      (auto simp: st registry_entry_def resolve_None resolve_Some map_add_def split: option.splits)
  have inj: "\<forall>k k' c1 c2 h.
      registry_entry st k = Some (c1, h) \<and> registry_entry st k' = Some (c2, h) \<longrightarrow> k = k'"
    using wf map_of_inj_values [of re_breaker "entries r"]
    by (auto simp: registry_entry_def wf_breakers_def st)
  show ?thesis
  proof (cases "map_of (entries r) a")
    case None
    then show ?thesis
      using fresh others inj by (simp add: st registry_entry_def resolve_None map_add_def)
  next
    case (Some e)
    then show ?thesis
      using others inj by (simp add: st registry_entry_def resolve_Some)
  qed
qed

theorem registry_resolution_witness:
  "fst (resolve \<lparr>fs_new = \<lambda>_ _. (), fs_is_call_permitted = \<lambda>_ m. (True, m, []),
      fs_on_success = \<lambda>_ m. (m, []), fs_on_error = \<lambda>_ m. (m, [])\<rparr> ''http://b'' LocalEngineClass
    (fold (registry_step \<lparr>fs_new = \<lambda>_ _. (), fs_is_call_permitted = \<lambda>_ m. (True, m, []),
        fs_on_success = \<lambda>_ m. (m, []), fs_on_error = \<lambda>_ m. (m, [])\<rparr>)
      [Resolve ''http://a'' LocalEngineClass, Resolve ''http://b'' RemoteProxyClass]
      (CircuitBreakerRegistry_new \<lparr>failure_threshold = 5, open_duration_secs = 30\<rparr>, []))) =
    Inl RemoteProxyClass"
  using registry_resolution [where a = "''http://b''" and c = LocalEngineClass
    and fs = "\<lparr>fs_new = \<lambda>_ _. (), fs_is_call_permitted = \<lambda>_ m. (True, m, []),
      fs_on_success = \<lambda>_ m. (m, []), fs_on_error = \<lambda>_ m. (m, [])\<rparr>"
    and ops = "[Resolve ''http://a'' LocalEngineClass, Resolve ''http://b'' RemoteProxyClass]"
    and cfg = "\<lparr>failure_threshold = 5, open_duration_secs = 30\<rparr>"]
  by (simp add: resolve_None resolve_Some registry_entry_def CircuitBreakerRegistry_new_def)

text \<open>
  The summary of the registry counts, for each target class, its breakers in total and by
  state, each count capped at the largest 32-bit value; while fewer breakers than that exist, the
  three states add up to the total.
\<close>

theorem registry_snapshot_counts:
  fixes st :: "'m breakers" and now :: nat
  defines "in_state q e \<equiv> breaker_state now (snd st ! re_breaker (snd e)) = q"
    and "of_class c \<equiv> filter (\<lambda>e. re_class (snd e) = c) (entries (fst st))"
  shows "unat (total (class_counts c (registry_snapshot now st))) =
      min (length (of_class c)) (2 ^ 32 - 1) \<and>
    unat (state_count q (class_counts c (registry_snapshot now st))) =
      min (length (filter (in_state q) (of_class c))) (2 ^ 32 - 1) \<and>
    length (of_class c) = (\<Sum>q \<leftarrow> [Closed, Open, HalfOpen]. length (filter (in_state q) (of_class c)))"
proof (intro conjI)
  let ?init = "\<lparr>local_engine = counts_default, remote_proxy = counts_default\<rparr>"
  have zero: "total (class_counts c ?init) = 0" "state_count q (class_counts c ?init) = 0"
    by (cases c; cases q; simp add: class_counts_def state_count_def counts_default_def)+
  show "unat (total (class_counts c (registry_snapshot now st))) = min (length (of_class c)) (2 ^ 32 - 1)"
    unfolding registry_snapshot_def of_class_def
    by (subst capped_fold [where f = "\<lambda>s. unat (total (class_counts c s))", OF snapshot_step_total])
      (simp_all add: zero sum_indicator)
  show "unat (state_count q (class_counts c (registry_snapshot now st))) =
      min (length (filter (in_state q) (of_class c))) (2 ^ 32 - 1)"
    unfolding registry_snapshot_def of_class_def in_state_def
    by (subst capped_fold [where f = "\<lambda>s. unat (state_count q (class_counts c s))", OF snapshot_step_state])
      (simp_all add: zero sum_indicator conj_commute)
  have "length xs = (\<Sum>q \<leftarrow> [Closed, Open, HalfOpen]. length (filter (in_state q) xs))" for xs
  proof (induction xs)
    case (Cons e xs)
    then show ?case
      by (cases "breaker_state now (snd st ! re_breaker (snd e))") (simp_all add: in_state_def)
  qed simp
  then show "length (of_class c) =
      (\<Sum>q \<leftarrow> [Closed, Open, HalfOpen]. length (filter (in_state q) (of_class c)))" .
qed

end
