(* ===== verification/Indexed_Routing.thy ===== *)
theory Indexed_Routing
  imports Identity Breaker
begin

text \<open>
  The proxy's request index: \<open>wr-proxy/src/indexed_routing.rs\<close>, with the forwarding targets of
  \<open>layers/mod.rs\<close>. The index is built from the manager's routing table: rules are filtered,
  resolved to breakers and grouped by route key, candidates are ordered by descending version, and
  each group keeps its version groups, candidate indexes and round-robin counters.

  Parameters stand for the semantic version parser (its versions are totally ordered), the check
  \<open>HeaderValue::from_str\<close> and the URI parser. Hash maps are association lists with unique keys;
  counters are 64-bit words.
\<close>

section \<open>Destinations\<close>

record ForwardTarget =
  ft_address :: string
  ft_base_uri :: "Uri option"

definition base_uri_ok :: "Uri \<Rightarrow> bool" where
  "base_uri_ok uri \<longleftrightarrow> scheme_str uri \<noteq> None \<and> uri_authority uri \<noteq> None \<and>
    uri_query uri = None \<and> (uri_path uri = [] \<or> uri_path uri = ''/'')"

definition ForwardTarget_new :: "(string \<Rightarrow> Uri option) \<Rightarrow> string \<Rightarrow> ForwardTarget" where
  "ForwardTarget_new parse_uri address =
    \<lparr>ft_address = address,
     ft_base_uri = Option.bind (parse_uri address) (\<lambda>uri. if base_uri_ok uri then Some uri else None)\<rparr>"

datatype Destination = LocalEngine ForwardTarget | RemoteProxy ForwardTarget

fun dest_target :: "Destination \<Rightarrow> ForwardTarget" where
  "dest_target (LocalEngine t) = t"
| "dest_target (RemoteProxy t) = t"

definition dest_address :: "Destination \<Rightarrow> string" where
  "dest_address d = ft_address (dest_target d)"

fun dest_class :: "Destination \<Rightarrow> BreakerTargetClass" where
  "dest_class (LocalEngine t) = LocalEngineClass"
| "dest_class (RemoteProxy t) = RemoteProxyClass"

section \<open>The manager's table\<close>

record RoutingRule =
  rule_id :: string
  source_module :: string
  destination_module :: string
  engine_id :: string
  engine_address :: string
  destination_version :: string
  healthy :: bool
  source_namespace :: string
  destination_namespace :: string
  peer_address :: string

record RoutingTable =
  rules :: "RoutingRule list"
  rt_version :: "64 word"

definition make_destination :: "(string \<Rightarrow> Uri option) \<Rightarrow> RoutingRule \<Rightarrow> string \<Rightarrow> Destination" where
  "make_destination parse_uri rule self_peer_address =
    (if peer_address rule = self_peer_address
     then LocalEngine (ForwardTarget_new parse_uri (engine_address rule))
     else RemoteProxy (ForwardTarget_new parse_uri (peer_address rule)))"

section \<open>The index\<close>

record IndexedCandidate =
  ic_destination :: Destination
  ic_breaker :: handle
  version_group_index :: nat

record 'v VersionGroup =
  parsed_version :: 'v
  vg_version :: string
  candidate_indexes :: "nat list"
  vg_counter :: "64 word"

record 'v RouteGroup =
  rg_namespace :: string
  rg_module :: string
  candidates :: "IndexedCandidate list"
  version_groups :: "'v VersionGroup list"
  all_versions_counter :: "64 word"

record 'v IndexedRoutingTable =
  by_namespace :: "(string \<times> (string \<times> 'v RouteGroup) list) list"
  active_forward_addrs :: "string list"
  irt_version :: "64 word"

record 'v PreparedCandidate =
  pc_parsed :: 'v
  pc_version :: string
  pc_destination :: Destination
  pc_breaker :: handle

text \<open>The code outside the repository that the index calls.\<close>

record 'v RoutingDeps =
  dep_version :: "string \<Rightarrow> 'v option"
  dep_header_ok :: "string \<Rightarrow> bool"
  dep_uri :: "string \<Rightarrow> Uri option"

definition IndexedRoutingTable_empty :: "'v IndexedRoutingTable" where
  "IndexedRoutingTable_empty = \<lparr>by_namespace = [], active_forward_addrs = [], irt_version = 0\<rparr>"

definition table_get :: "'v IndexedRoutingTable \<Rightarrow> string \<Rightarrow> string \<Rightarrow> 'v RouteGroup option" where
  "table_get t namespace module =
    Option.bind (map_of (by_namespace t) namespace) (\<lambda>modules. map_of modules module)"

subsection \<open>Preparing the rules\<close>

record 'v prepare_state =
  grouped :: "(RouteKey \<times> 'v PreparedCandidate list) list"
  active :: "string list"

definition push_grouped ::
    "RouteKey \<Rightarrow> 'v PreparedCandidate \<Rightarrow> (RouteKey \<times> 'v PreparedCandidate list) list \<Rightarrow>
      (RouteKey \<times> 'v PreparedCandidate list) list" where
  "push_grouped key p g = alist_put key (case map_of g key of None \<Rightarrow> [p] | Some ps \<Rightarrow> ps @ [p]) g"

text \<open>The checks of a rule up to the breaker: its key, version and destination, or a skip.\<close>

definition rule_target ::
    "'v RoutingDeps \<Rightarrow> string \<Rightarrow> RoutingRule \<Rightarrow> (RouteKey \<times> 'v \<times> Destination) option" where
  "rule_target deps self_peer rule =
    (if \<not> healthy rule then None
     else if peer_address rule = [] then None
     else case RouteKey_parse (destination_namespace rule) (destination_module rule) of
       Inl e \<Rightarrow> None
     | Inr key \<Rightarrow>
        (case ModuleVersion_parse (dep_version deps) (destination_version rule) of
           Inl e \<Rightarrow> None
         | Inr v \<Rightarrow>
            if \<not> dep_header_ok deps (destination_version rule) then None
            else Some (key, v, make_destination (dep_uri deps) rule self_peer)))"

definition prepare_rule ::
    "'m Failsafe \<Rightarrow> 'v RoutingDeps \<Rightarrow> string \<Rightarrow> RoutingRule \<Rightarrow>
      'v prepare_state \<times> 'm breakers \<Rightarrow> 'v prepare_state \<times> 'm breakers" where
  "prepare_rule fs deps self_peer rule s =
    (case s of (st, reg) \<Rightarrow>
     case rule_target deps self_peer rule of
       None \<Rightarrow> (st, reg)
     | Some (key, v, destination) \<Rightarrow>
        (let address = dest_address destination in
         case resolve fs address (dest_class destination) reg of
           (Inl existing_class, reg') \<Rightarrow> (st, reg')
         | (Inr breaker, reg') \<Rightarrow>
             (st\<lparr>active := (if address \<noteq> [] then List.insert address (active st) else active st),
                grouped := push_grouped key
                  \<lparr>pc_parsed = v, pc_version = destination_version rule,
                   pc_destination = destination, pc_breaker = breaker\<rparr> (grouped st)\<rparr>, reg')))"

subsection \<open>Building a group\<close>

text \<open>\<open>slice::sort_by\<close> with the comparison reversed: stable, highest key first.\<close>

definition sort_desc :: "('a \<Rightarrow> 'k::linorder) \<Rightarrow> 'a list \<Rightarrow> 'a list" where
  "sort_desc f xs = rev (sort_key f (rev xs))"

record 'v build_state =
  version_indexes :: "(string \<times> nat) list"
  bs_groups :: "'v VersionGroup list"
  bs_candidates :: "IndexedCandidate list"

text \<open>Append a candidate to the version group at an index.\<close>

definition place_candidate :: "nat \<Rightarrow> 'v PreparedCandidate \<Rightarrow> 'v build_state \<Rightarrow> 'v build_state" where
  "place_candidate index c b =
    b\<lparr>bs_groups := (bs_groups b)[index :=
        (bs_groups b ! index)\<lparr>candidate_indexes :=
          candidate_indexes (bs_groups b ! index) @ [length (bs_candidates b)]\<rparr>],
      bs_candidates := bs_candidates b @
        [\<lparr>ic_destination = pc_destination c, ic_breaker = pc_breaker c, version_group_index = index\<rparr>]\<rparr>"

definition new_version_group :: "'v PreparedCandidate \<Rightarrow> 'v build_state \<Rightarrow> 'v build_state" where
  "new_version_group c b =
    b\<lparr>version_indexes := alist_put (pc_version c) (length (bs_groups b)) (version_indexes b),
      bs_groups := bs_groups b @
        [\<lparr>parsed_version = pc_parsed c, vg_version = pc_version c,
          candidate_indexes = [], vg_counter = 0\<rparr>]\<rparr>"

definition add_candidate ::
    "'v RoutingDeps \<Rightarrow> 'v PreparedCandidate \<Rightarrow> 'v build_state \<Rightarrow> 'v build_state" where
  "add_candidate deps c b =
    (case map_of (version_indexes b) (pc_version c) of
       Some index \<Rightarrow> place_candidate index c b
     | None \<Rightarrow>
        if \<not> dep_header_ok deps (pc_version c) then b
        else place_candidate (length (bs_groups b)) c (new_version_group c b))"

definition seed_group_counters :: "'v RouteGroup \<Rightarrow> 'v RouteGroup \<Rightarrow> 'v RouteGroup" where
  "seed_group_counters grp previous =
    grp\<lparr>all_versions_counter := all_versions_counter previous,
      version_groups := map (\<lambda>vg.
        case List.find (\<lambda>candidate. vg_version candidate = vg_version vg) (version_groups previous) of
          None \<Rightarrow> vg
        | Some previous_version \<Rightarrow> vg\<lparr>vg_counter := vg_counter previous_version\<rparr>)
        (version_groups grp)\<rparr>"

definition build_group ::
    "'v::linorder RoutingDeps \<Rightarrow> 'v IndexedRoutingTable option \<Rightarrow> RouteKey \<Rightarrow>
      'v PreparedCandidate list \<Rightarrow> 'v RouteGroup option" where
  "build_group deps prev key prepared =
    (let namespace = rk_namespace key; module = rk_module key in
     if \<not> dep_header_ok deps namespace then None
     else if \<not> dep_header_ok deps module then None
     else
      let b = fold (add_candidate deps) (sort_desc pc_parsed prepared)
            \<lparr>version_indexes = [], bs_groups = [], bs_candidates = []\<rparr> in
      if bs_candidates b = [] then None
      else
       let grp = \<lparr>rg_namespace = namespace, rg_module = module, candidates = bs_candidates b,
             version_groups = bs_groups b, all_versions_counter = 0\<rparr> in
       Some (case Option.bind prev (\<lambda>t. table_get t namespace module) of
               None \<Rightarrow> grp
             | Some previous \<Rightarrow> seed_group_counters grp previous))"

definition insert_group ::
    "'v::linorder RoutingDeps \<Rightarrow> 'v IndexedRoutingTable option \<Rightarrow> RouteKey \<times> 'v PreparedCandidate list \<Rightarrow>
      (string \<times> (string \<times> 'v RouteGroup) list) list \<Rightarrow> (string \<times> (string \<times> 'v RouteGroup) list) list" where
  "insert_group deps prev kp acc =
    (case build_group deps prev (fst kp) (snd kp) of
       None \<Rightarrow> acc
     | Some grp \<Rightarrow>
        let namespace = rk_namespace (fst kp);
            modules = (case map_of acc namespace of None \<Rightarrow> [] | Some ms \<Rightarrow> ms) in
        alist_put namespace (alist_put (rk_module (fst kp)) grp modules) acc)"

definition from_proto ::
    "'m Failsafe \<Rightarrow> 'v::linorder RoutingDeps \<Rightarrow> RoutingTable \<Rightarrow> 'v IndexedRoutingTable option \<Rightarrow>
      'm breakers \<Rightarrow> string \<Rightarrow> 'v IndexedRoutingTable \<times> 'm breakers" where
  "from_proto fs deps table prev reg self_peer_address =
    (case fold (prepare_rule fs deps self_peer_address) (rules table) (\<lparr>grouped = [], active = []\<rparr>, reg) of
      (st, reg') \<Rightarrow>
        (\<lparr>by_namespace = fold (insert_group deps prev) (grouped st) [],
          active_forward_addrs = active st,
          irt_version = rt_version table\<rparr>, reg'))"

definition seed_counters_from :: "'v IndexedRoutingTable \<Rightarrow> 'v IndexedRoutingTable \<Rightarrow> 'v IndexedRoutingTable" where
  "seed_counters_from t previous =
    t\<lparr>by_namespace := map (\<lambda>(namespace, modules). (namespace,
        map (\<lambda>(module, grp). (module,
          case table_get previous namespace module of
            None \<Rightarrow> grp
          | Some previous_group \<Rightarrow> seed_group_counters grp previous_group)) modules)) (by_namespace t)\<rparr>"

section \<open>Sorting\<close>

lemma set_sort_desc [simp]: "set (sort_desc f xs) = set xs"
  by (simp add: sort_desc_def)

lemma length_sort_desc [simp]: "length (sort_desc f xs) = length xs"
  by (simp add: sort_desc_def)

lemma sort_desc_sorted: "sorted_wrt (\<lambda>a b. f b \<le> f a) (sort_desc f xs)"
proof -
  have "sorted_wrt (\<lambda>a b. f a \<le> f b) (sort_key f (rev xs))"
    using sorted_sort_key [of f "rev xs"] by (simp add: sorted_map)
  then show ?thesis by (simp add: sort_desc_def sorted_wrt_rev)
qed

lemma sort_desc_stable: "filter (\<lambda>x. f x = k) (sort_desc f xs) = filter (\<lambda>x. f x = k) xs"
  using sort_key_stable [of f k "rev xs"] by (simp add: sort_desc_def rev_filter [symmetric])

section \<open>Preparation\<close>

text \<open>The candidate a rule contributes, given the registry at the end of the preparation.\<close>

definition accepted :: "'m breakers \<Rightarrow> 'v RoutingDeps \<Rightarrow> string \<Rightarrow> RoutingRule \<Rightarrow>
    (RouteKey \<times> 'v PreparedCandidate) option" where
  "accepted reg deps self_peer rule =
    (case rule_target deps self_peer rule of
       None \<Rightarrow> None
     | Some (key, v, d) \<Rightarrow>
        (case registry_entry reg (dest_address d) of
           None \<Rightarrow> None
         | Some (c, h) \<Rightarrow>
            if c = dest_class d then
              Some (key, \<lparr>pc_parsed = v, pc_version = destination_version rule,
                pc_destination = d, pc_breaker = h\<rparr>)
            else None))"

definition prepared_for :: "'m breakers \<Rightarrow> 'v RoutingDeps \<Rightarrow> string \<Rightarrow> RoutingRule list \<Rightarrow> RouteKey \<Rightarrow>
    'v PreparedCandidate list" where
  "prepared_for reg deps self_peer rs key =
    map snd (filter (\<lambda>kp. fst kp = key) (List.map_filter (accepted reg deps self_peer) rs))"

definition group_of :: "(RouteKey \<times> 'v PreparedCandidate list) list \<Rightarrow> RouteKey \<Rightarrow> 'v PreparedCandidate list" where
  "group_of g key = (case map_of g key of None \<Rightarrow> [] | Some ps \<Rightarrow> ps)"

lemma group_of_push: "group_of (push_grouped k p g) k' = (if k' = k then group_of g k @ [p] else group_of g k')"
  by (auto simp: group_of_def push_grouped_def split: option.splits)

lemma prepare_rule_keeps:
  assumes "registry_entry reg a = Some e" "prepare_rule fs deps self_peer rule (st, reg) = (st', reg')"
  shows "registry_entry reg' a = Some e"
  using assms breaker_registry.resolve_keeps [of reg a e]
  by (auto simp: prepare_rule_def Let_def split: option.splits prod.splits sum.splits)

lemma prepare_fold_keeps:
  assumes "registry_entry reg a = Some e"
  shows "registry_entry (snd (fold (prepare_rule fs deps self_peer) rs (st, reg))) a = Some e"
  using assms
proof (induction rs arbitrary: st reg)
  case (Cons rule rs)
  obtain st' reg' where step: "prepare_rule fs deps self_peer rule (st, reg) = (st', reg')"
    by (cases "prepare_rule fs deps self_peer rule (st, reg)")
  have "registry_entry reg' a = Some e" using Cons.prems step by (rule prepare_rule_keeps)
  then show ?case using Cons.IH step by simp
qed simp

text \<open>A rule is pushed exactly when the final registry accepts it: registrations are never revised.\<close>

lemma prepare_rule_accepted:
  assumes "prepare_rule fs deps self_peer rule (st, reg) = (st', reg')"
    and "\<And>a e. registry_entry reg' a = Some e \<Longrightarrow> registry_entry fin a = Some e"
  shows "group_of (grouped st') key = group_of (grouped st) key @ prepared_for fin deps self_peer [rule] key"
proof (cases "rule_target deps self_peer rule")
  case None
  then show ?thesis using assms(1)
    by (simp add: prepare_rule_def prepared_for_def accepted_def List.map_filter_def)
next
  case (Some t)
  obtain k v d where t: "t = (k, v, d)" by (cases t)
  obtain r reg2 where res: "resolve fs (dest_address d) (dest_class d) reg = (r, reg2)"
    by (cases "resolve fs (dest_address d) (dest_class d) reg")
  show ?thesis
  proof (cases r)
    case (Inl c)
    then obtain h where "c \<noteq> dest_class d" "registry_entry reg (dest_address d) = Some (c, h)"
      using breaker_registry.resolve_refused res by blast
    moreover have "reg' = reg2" "st' = st"
      using assms(1) Some t res Inl by (simp_all add: prepare_rule_def Let_def)
    ultimately have "registry_entry fin (dest_address d) = Some (c, h)"
      using assms(2) breaker_registry.resolve_keeps res by blast
    then show ?thesis
      using Some t \<open>st' = st\<close> \<open>c \<noteq> dest_class d\<close>
      by (simp add: prepared_for_def accepted_def List.map_filter_def)
  next
    case (Inr h)
    have "registry_entry reg2 (dest_address d) = Some (dest_class d, h)"
      using breaker_registry.resolve_ok res Inr by blast
    moreover have "reg' = reg2"
      using assms(1) Some t res Inr by (simp add: prepare_rule_def Let_def)
    ultimately have "registry_entry fin (dest_address d) = Some (dest_class d, h)"
      using assms(2) by blast
    then show ?thesis
      using Some t assms(1) res Inr
      by (auto simp: prepare_rule_def Let_def prepared_for_def accepted_def List.map_filter_def
          group_of_push)
  qed
qed

lemma prepared_for_Cons:
  "prepared_for fin deps self_peer (r # rs) key =
    prepared_for fin deps self_peer [r] key @ prepared_for fin deps self_peer rs key"
  by (simp add: prepared_for_def List.map_filter_def split: option.splits)

lemma prepare_fold_grouped:
  assumes "fold (prepare_rule fs deps self_peer) rs (st, reg) = (st', fin)"
  shows "group_of (grouped st') key =
    group_of (grouped st) key @ prepared_for fin deps self_peer rs key"
  using assms
proof (induction rs arbitrary: st reg)
  case Nil
  then show ?case by (simp add: prepared_for_def)
next
  case (Cons rule rs)
  obtain st1 reg1 where step: "prepare_rule fs deps self_peer rule (st, reg) = (st1, reg1)"
    by (cases "prepare_rule fs deps self_peer rule (st, reg)")
  then have rest: "fold (prepare_rule fs deps self_peer) rs (st1, reg1) = (st', fin)"
    using Cons.prems by simp
  have "group_of (grouped st1) key = group_of (grouped st) key @ prepared_for fin deps self_peer [rule] key"
    using prepare_rule_accepted [OF step] prepare_fold_keeps [of reg1 _ _ fs deps self_peer rs st1] rest
    by (metis snd_conv)
  then show ?case
    using Cons.IH [OF rest] prepared_for_Cons [of fin deps self_peer rule rs key] by simp
qed

section \<open>Group construction\<close>

text \<open>What the loop over the candidates of a group has built from the candidates \<open>cs\<close>.\<close>

definition built :: "'v PreparedCandidate list \<Rightarrow> 'v build_state \<Rightarrow> bool" where
  "built cs b \<longleftrightarrow>
    map ic_destination (bs_candidates b) = map pc_destination cs \<and>
    map ic_breaker (bs_candidates b) = map pc_breaker cs \<and>
    (\<forall>v i. map_of (version_indexes b) v = Some i \<longleftrightarrow>
      i < length (bs_groups b) \<and> vg_version (bs_groups b ! i) = v) \<and>
    (\<forall>i < length cs. version_group_index (bs_candidates b ! i) < length (bs_groups b) \<and>
      vg_version (bs_groups b ! version_group_index (bs_candidates b ! i)) = pc_version (cs ! i)) \<and>
    (\<forall>g < length (bs_groups b). candidate_indexes (bs_groups b ! g) =
      filter (\<lambda>i. version_group_index (bs_candidates b ! i) = g) [0..<length cs])"

lemma built_length: "built cs b \<Longrightarrow> length (bs_candidates b) = length cs"
  unfolding built_def by (metis length_map)

lemma built_place:
  assumes "built cs b" "g < length (bs_groups b)" "vg_version (bs_groups b ! g) = pc_version c"
  shows "built (cs @ [c]) (place_candidate g c b)"
proof -
  have len: "length (bs_candidates b) = length cs" using assms(1) by (rule built_length)
  have ver: "vg_version ((bs_groups b)[g := (bs_groups b ! g)\<lparr>candidate_indexes := xs\<rparr>] ! i) =
      vg_version (bs_groups b ! i)" for i xs
    using assms(2) by (cases "i = g") auto
  show ?thesis
    using assms unfolding built_def place_candidate_def
    by (auto simp: len ver nth_append less_Suc_eq nth_list_update intro!: filter_cong)
qed

lemma built_new_group:
  assumes "built cs b" "map_of (version_indexes b) (pc_version c) = None"
  shows "built cs (new_version_group c b)"
proof -
  have len: "length (bs_candidates b) = length cs" using assms(1) by (rule built_length)
  have fresh: "\<forall>i < length (bs_groups b). vg_version (bs_groups b ! i) \<noteq> pc_version c"
    using assms unfolding built_def by (metis option.distinct(1))
  have "\<forall>i < length cs. version_group_index (bs_candidates b ! i) \<noteq> length (bs_groups b)"
    using assms(1) unfolding built_def by (metis less_irrefl)
  then show ?thesis
    using assms(1) fresh unfolding built_def new_version_group_def
    by (auto simp: len nth_append less_Suc_eq)
qed

lemma new_group_found:
  "built cs b \<Longrightarrow> vg_version (bs_groups (new_version_group c b) ! length (bs_groups b)) = pc_version c"
  by (simp add: new_version_group_def)

lemma built_add:
  assumes "built cs b" "dep_header_ok deps (pc_version c)"
  shows "built (cs @ [c]) (add_candidate deps c b)"
proof (cases "map_of (version_indexes b) (pc_version c)")
  case None
  have "built cs (new_version_group c b)" using assms(1) None by (rule built_new_group)
  then have "built (cs @ [c]) (place_candidate (length (bs_groups b)) c (new_version_group c b))"
    by (rule built_place) (simp_all add: new_version_group_def)
  then show ?thesis using None assms(2) by (simp add: add_candidate_def)
next
  case (Some g)
  then have "g < length (bs_groups b)" "vg_version (bs_groups b ! g) = pc_version c"
    using assms(1) unfolding built_def by auto
  then show ?thesis
    using built_place [OF assms(1)] Some by (simp add: add_candidate_def)
qed

abbreviation build_init :: "'v build_state" where
  "build_init \<equiv> \<lparr>version_indexes = [], bs_groups = [], bs_candidates = []\<rparr>"

lemma built_fold:
  "list_all (\<lambda>c. dep_header_ok deps (pc_version c)) cs \<Longrightarrow> built cs (fold (add_candidate deps) cs build_init)"
proof (induction cs rule: rev_induct)
  case Nil
  show ?case by (simp add: built_def)
next
  case (snoc c cs)
  then show ?case using built_add by fastforce
qed

text \<open>The version groups stem from the candidates, in their order.\<close>

definition group_keys :: "'v VersionGroup list \<Rightarrow> ('v \<times> string) list" where
  "group_keys gs = map (\<lambda>g. (parsed_version g, vg_version g)) gs"

definition cand_keys :: "'v PreparedCandidate list \<Rightarrow> ('v \<times> string) list" where
  "cand_keys cs = map (\<lambda>c. (pc_parsed c, pc_version c)) cs"

lemma group_keys_place [simp]: "group_keys (bs_groups (place_candidate g c b)) = group_keys (bs_groups b)"
proof (rule nth_equalityI)
  fix i
  assume "i < length (group_keys (bs_groups (place_candidate g c b)))"
  then show "group_keys (bs_groups (place_candidate g c b)) ! i = group_keys (bs_groups b) ! i"
    by (cases "i = g") (simp_all add: place_candidate_def group_keys_def)
qed (simp add: place_candidate_def group_keys_def)

lemma group_keys_new:
  "group_keys (bs_groups (new_version_group c b)) = group_keys (bs_groups b) @ [(pc_parsed c, pc_version c)]"
  by (simp add: new_version_group_def group_keys_def)

lemma group_keys_add:
  "\<exists>new. group_keys (bs_groups (add_candidate deps c b)) = group_keys (bs_groups b) @ new \<and>
    (new = [] \<or> new = [(pc_parsed c, pc_version c)])"
  by (auto simp: add_candidate_def group_keys_new split: option.splits)

lemma group_keys_fold:
  "\<exists>gk. group_keys (bs_groups (fold (add_candidate deps) cs build_init)) = gk \<and> subseq gk (cand_keys cs)"
proof (induction cs rule: rev_induct)
  case Nil
  show ?case by (simp add: group_keys_def)
next
  case (snoc c cs)
  let ?b = "fold (add_candidate deps) cs build_init"
  obtain new where new: "group_keys (bs_groups (add_candidate deps c ?b)) = group_keys (bs_groups ?b) @ new"
      "new = [] \<or> new = [(pc_parsed c, pc_version c)]"
    using group_keys_add by blast
  have "subseq new [(pc_parsed c, pc_version c)]" using new(2) by auto
  then have "subseq (group_keys (bs_groups ?b) @ new) (cand_keys cs @ [(pc_parsed c, pc_version c)])"
    using snoc by (intro list_emb_append_mono) auto
  then show ?case using new(1) by (simp add: cand_keys_def)
qed

lemma subseq_sorted: "subseq xs ys \<Longrightarrow> sorted_wrt P ys \<Longrightarrow> sorted_wrt P xs"
proof (induction rule: list_emb.induct)
  case (list_emb_Cons2 x y xs ys)
  then show ?case using list_emb_set [of "(=)" xs ys] by fastforce
qed auto

section \<open>Well-formed groups\<close>

definition wf_group :: "('v::linorder) RouteGroup \<Rightarrow> bool" where
  "wf_group g \<longleftrightarrow>
    candidates g \<noteq> [] \<and>
    distinct (map vg_version (version_groups g)) \<and>
    sorted_wrt (\<lambda>a b. parsed_version b \<le> parsed_version a) (version_groups g) \<and>
    list_all (\<lambda>c. version_group_index c < length (version_groups g)) (candidates g) \<and>
    list_all (\<lambda>i. candidate_indexes (version_groups g ! i) =
        filter (\<lambda>j. version_group_index (candidates g ! j) = i) [0..<length (candidates g)])
      [0..<length (version_groups g)] \<and>
    list_all (\<lambda>i. candidate_indexes (version_groups g ! i) \<noteq> []) [0..<length (version_groups g)]"

text \<open>Everything of the version groups but their counters.\<close>

definition vg_shape :: "'v RouteGroup \<Rightarrow> ('v \<times> string \<times> nat list) list" where
  "vg_shape g = map (\<lambda>vg. (parsed_version vg, vg_version vg, candidate_indexes vg)) (version_groups g)"

definition wf_shape :: "IndexedCandidate list \<Rightarrow> ('v::linorder \<times> string \<times> nat list) list \<Rightarrow> bool" where
  "wf_shape cs sh \<longleftrightarrow>
    cs \<noteq> [] \<and> distinct (map (fst \<circ> snd) sh) \<and> sorted_wrt (\<lambda>a b. fst b \<le> fst a) sh \<and>
    list_all (\<lambda>c. version_group_index c < length sh) cs \<and>
    list_all (\<lambda>i. snd (snd (sh ! i)) = filter (\<lambda>j. version_group_index (cs ! j) = i) [0..<length cs]) [0..<length sh] \<and>
    list_all (\<lambda>i. snd (snd (sh ! i)) \<noteq> []) [0..<length sh]"

lemma wf_group_shape: "wf_group g \<longleftrightarrow> wf_shape (candidates g) (vg_shape g)"
  unfolding wf_group_def wf_shape_def vg_shape_def
  by (simp add: sorted_wrt_map comp_def list_all_iff)

lemma wf_group_cong:
  "wf_group g \<Longrightarrow> candidates g' = candidates g \<Longrightarrow> vg_shape g' = vg_shape g \<Longrightarrow> wf_group g'"
  by (simp add: wf_group_shape)

lemma built_distinct:
  assumes "built cs b"
  shows "distinct (map vg_version (bs_groups b))"
proof -
  have "i = j" if "i < length (bs_groups b)" "j < length (bs_groups b)"
    "vg_version (bs_groups b ! i) = vg_version (bs_groups b ! j)" for i j
    using assms that unfolding built_def by (metis option.inject)
  then show ?thesis by (auto simp: distinct_conv_nth)
qed

lemma built_group_nonempty:
  assumes "built cs b" "set (group_keys (bs_groups b)) \<subseteq> set (cand_keys cs)" "g < length (bs_groups b)"
  shows "candidate_indexes (bs_groups b ! g) \<noteq> []"
proof -
  have "(parsed_version (bs_groups b ! g), vg_version (bs_groups b ! g)) \<in> set (cand_keys cs)"
    using assms(2,3) by (auto simp: group_keys_def)
  then obtain i where i: "i < length cs" "pc_version (cs ! i) = vg_version (bs_groups b ! g)"
    by (auto simp: cand_keys_def in_set_conv_nth)
  let ?k = "version_group_index (bs_candidates b ! i)"
  have k: "?k < length (bs_groups b)" "vg_version (bs_groups b ! ?k) = vg_version (bs_groups b ! g)"
    using assms(1) i unfolding built_def by auto
  then have "?k = g"
    using built_distinct [OF assms(1)] assms(3) by (simp add: distinct_conv_nth) metis
  then have "i \<in> set (candidate_indexes (bs_groups b ! g))"
    using assms(1,3) i(1) unfolding built_def by simp
  then show ?thesis by force
qed

lemma build_fold_sorted:
  assumes "sorted_wrt (\<lambda>a b. pc_parsed b \<le> pc_parsed a) cs"
  shows "sorted_wrt (\<lambda>a b. parsed_version b \<le> parsed_version a)
    (bs_groups (fold (add_candidate deps) cs build_init))"
proof -
  have "sorted_wrt (\<lambda>a b. fst b \<le> fst a) (cand_keys cs)"
    using assms by (simp add: cand_keys_def sorted_wrt_map)
  then have "sorted_wrt (\<lambda>a b. fst b \<le> fst a) (group_keys (bs_groups (fold (add_candidate deps) cs build_init)))"
    using group_keys_fold subseq_sorted by blast
  then show ?thesis by (simp add: group_keys_def sorted_wrt_map)
qed

lemma build_group_wf:
  assumes "build_group deps None key ps = Some g"
    and "list_all (\<lambda>c. dep_header_ok deps (pc_version c)) ps"
  shows "wf_group g \<and> rg_namespace g = rk_namespace key \<and> rg_module g = rk_module key \<and>
    map ic_destination (candidates g) = map pc_destination (sort_desc pc_parsed ps) \<and>
    map ic_breaker (candidates g) = map pc_breaker (sort_desc pc_parsed ps) \<and>
    map (\<lambda>c. vg_version (version_groups g ! version_group_index c)) (candidates g) =
      map pc_version (sort_desc pc_parsed ps) \<and>
    set (group_keys (version_groups g)) \<subseteq> set (cand_keys ps)"
proof -
  let ?cs = "sort_desc pc_parsed ps"
  let ?b = "fold (add_candidate deps) ?cs build_init"
  have built: "built ?cs ?b" using assms(2) by (intro built_fold) (simp add: list_all_iff)
  then have len: "length (bs_candidates ?b) = length ?cs" by (rule built_length)
  have g: "g = \<lparr>rg_namespace = rk_namespace key, rg_module = rk_module key, candidates = bs_candidates ?b,
        version_groups = bs_groups ?b, all_versions_counter = 0\<rparr>" "bs_candidates ?b \<noteq> []"
    using assms(1) by (auto simp: build_group_def Let_def split: if_splits)
  have keys: "set (group_keys (bs_groups ?b)) \<subseteq> set (cand_keys ?cs)"
    using group_keys_fold [of deps ?cs] by (auto dest: list_emb_set)
  have "list_all (\<lambda>i. candidate_indexes (bs_groups ?b ! i) \<noteq> []) [0..<length (bs_groups ?b)]"
    using built_group_nonempty [OF built keys] by (simp add: list_all_iff)
  then have "wf_group g"
    using built len g built_distinct [OF built] build_fold_sorted [OF sort_desc_sorted]
    unfolding wf_group_def built_def by (auto simp: list_all_iff in_set_conv_nth)
  moreover have "map (\<lambda>c. vg_version (bs_groups ?b ! version_group_index c)) (bs_candidates ?b) = map pc_version ?cs"
    using built len unfolding built_def by (auto intro!: nth_equalityI)
  ultimately show ?thesis
    using built g keys unfolding built_def by (simp add: cand_keys_def)
qed

section \<open>Lookup in the built table\<close>

definition lookup2 :: "(string \<times> (string \<times> 'v RouteGroup) list) list \<Rightarrow> string \<Rightarrow> string \<Rightarrow> 'v RouteGroup option" where
  "lookup2 acc ns m = Option.bind (map_of acc ns) (\<lambda>ms. map_of ms m)"

lemma lookup2_Nil [simp]: "lookup2 [] ns m = None"
  by (simp add: lookup2_def)

lemma table_get_lookup2: "table_get t ns m = lookup2 (by_namespace t) ns m"
  by (simp add: table_get_def lookup2_def)

lemma lookup2_insert_group:
  "lookup2 (insert_group deps prev (key, ps) acc) ns m =
    (if key = \<lparr>rk_namespace = ns, rk_module = m\<rparr> \<and> build_group deps prev key ps \<noteq> None
     then build_group deps prev key ps else lookup2 acc ns m)"
  by (cases key) (auto simp: insert_group_def lookup2_def Let_def split: option.splits)

lemma lookup2_fold:
  assumes "distinct (map fst g)"
  shows "lookup2 (fold (insert_group deps prev) g acc) ns m =
    (case Option.bind (map_of g \<lparr>rk_namespace = ns, rk_module = m\<rparr>)
        (build_group deps prev \<lparr>rk_namespace = ns, rk_module = m\<rparr>) of
       None \<Rightarrow> lookup2 acc ns m
     | Some grp \<Rightarrow> Some grp)"
  using assms
proof (induction g arbitrary: acc)
  case Nil
  show ?case by simp
next
  case (Cons kp g)
  obtain key ps where kp: "kp = (key, ps)" by (cases kp)
  show ?case
  proof (cases "key = \<lparr>rk_namespace = ns, rk_module = m\<rparr>")
    case True
    then have "map_of g \<lparr>rk_namespace = ns, rk_module = m\<rparr> = None"
      using Cons.prems kp by (simp add: map_of_eq_None_iff)
    then show ?thesis using Cons True kp
      by (cases "build_group deps prev key ps") (simp_all add: lookup2_insert_group)
  next
    case False
    then show ?thesis using Cons kp by (simp add: lookup2_insert_group split: option.split)
  qed
qed

lemma build_group_Nil [simp]: "build_group deps prev key [] = None"
  by (simp add: build_group_def sort_desc_def Let_def)

lemma distinct_push [simp]: "distinct (map fst (push_grouped k p g)) = distinct (map fst g)"
  by (simp add: push_grouped_def)

lemma prepare_rule_distinct:
  "distinct (map fst (grouped st)) \<Longrightarrow> prepare_rule fs deps self_peer rule (st, reg) = (st', reg') \<Longrightarrow>
    distinct (map fst (grouped st'))"
  by (auto simp: prepare_rule_def Let_def split: option.splits prod.splits sum.splits)

lemma prepare_fold_distinct:
  "distinct (map fst (grouped st)) \<Longrightarrow>
    distinct (map fst (grouped (fst (fold (prepare_rule fs deps self_peer) rs (st, reg)))))"
proof (induction rs arbitrary: st reg)
  case (Cons rule rs)
  obtain st' reg' where step: "prepare_rule fs deps self_peer rule (st, reg) = (st', reg')"
    by (cases "prepare_rule fs deps self_peer rule (st, reg)")
  then show ?case using Cons.IH prepare_rule_distinct [OF Cons.prems step] by simp
qed simp

lemma from_proto_get:
  assumes "from_proto fs deps table prev reg self_peer = (t, fin)"
  defines "key ns m \<equiv> \<lparr>rk_namespace = ns, rk_module = m\<rparr>"
  shows "table_get t ns m =
    build_group deps prev (key ns m) (prepared_for fin deps self_peer (rules table) (key ns m))"
proof -
  obtain st where st: "fold (prepare_rule fs deps self_peer) (rules table) (\<lparr>grouped = [], active = []\<rparr>, reg) = (st, fin)"
      "t = \<lparr>by_namespace = fold (insert_group deps prev) (grouped st) [],
          active_forward_addrs = active st, irt_version = rt_version table\<rparr>"
    using assms(1) by (auto simp: from_proto_def split: prod.splits)
  have dist: "distinct (map fst (grouped st))"
    using prepare_fold_distinct [of "\<lparr>grouped = [], active = []\<rparr>" fs deps self_peer "rules table" reg] st
    by simp
  have "group_of (grouped st) (key ns m) = prepared_for fin deps self_peer (rules table) (key ns m)"
    using prepare_fold_grouped [OF st(1)] by (simp add: group_of_def)
  moreover have "table_get t ns m = Option.bind (map_of (grouped st) (key ns m)) (build_group deps prev (key ns m))"
    using dist st(2) by (simp add: table_get_lookup2 lookup2_fold key_def split: option.splits)
  ultimately show ?thesis
    by (cases "map_of (grouped st) (key ns m)") (simp_all add: group_of_def)
qed

lemma accepted_facts:
  assumes "accepted fin deps self_peer rule = Some (key, p)"
  shows "healthy rule" "peer_address rule \<noteq> []"
    "key = \<lparr>rk_namespace = destination_namespace rule, rk_module = destination_module rule\<rparr>"
    "valid_name (destination_namespace rule)" "valid_name (destination_module rule)"
    "pc_version p = destination_version rule" "dep_version deps (destination_version rule) = Some (pc_parsed p)"
    "dep_header_ok deps (destination_version rule)"
    "pc_destination p = make_destination (dep_uri deps) rule self_peer"
    "registry_entry fin (dest_address (pc_destination p)) = Some (dest_class (pc_destination p), pc_breaker p)"
  using assms
  by (auto simp: accepted_def rule_target_def ModuleVersion_parse_def RouteKey_parse_ok
      split: option.splits sum.splits if_splits)

lemma prepared_for_mem:
  "p \<in> set (prepared_for fin deps self_peer rs key) \<longleftrightarrow>
    (\<exists>rule \<in> set rs. accepted fin deps self_peer rule = Some (key, p))"
  by (force simp: prepared_for_def List.map_filter_def)

lemma prepared_for_headers:
  "list_all (\<lambda>c. dep_header_ok deps (pc_version c)) (prepared_for fin deps self_peer rs key)"
  unfolding list_all_iff by (metis accepted_facts(6,8) prepared_for_mem)

lemma prepare_rule_active:
  assumes "prepare_rule fs deps self_peer rule (st, reg) = (st', reg')"
  shows "set (active st) \<subseteq> set (active st')"
    and "p \<in> set (group_of (grouped st') key) \<Longrightarrow> p \<notin> set (group_of (grouped st) key) \<Longrightarrow>
      dest_address (pc_destination p) \<noteq> [] \<Longrightarrow> dest_address (pc_destination p) \<in> set (active st')"
  using assms
  by (auto simp: prepare_rule_def Let_def group_of_push split: option.splits prod.splits sum.splits if_splits)

definition active_covers :: "'v prepare_state \<Rightarrow> bool" where
  "active_covers st \<longleftrightarrow> (\<forall>key. \<forall>p \<in> set (group_of (grouped st) key).
    dest_address (pc_destination p) \<noteq> [] \<longrightarrow> dest_address (pc_destination p) \<in> set (active st))"

lemma prepare_fold_active:
  "active_covers st \<Longrightarrow> active_covers (fst (fold (prepare_rule fs deps self_peer) rs (st, reg)))"
proof (induction rs arbitrary: st reg)
  case (Cons rule rs)
  obtain st' reg' where step: "prepare_rule fs deps self_peer rule (st, reg) = (st', reg')"
    by (cases "prepare_rule fs deps self_peer rule (st, reg)")
  have "active_covers st'"
    using Cons.prems prepare_rule_active [OF step] unfolding active_covers_def by blast
  then show ?case using Cons.IH step by simp
qed simp

lemma from_proto_active:
  assumes "from_proto fs deps table prev reg self_peer = (t, fin)"
    and "p \<in> set (prepared_for fin deps self_peer (rules table) key)"
    and "dest_address (pc_destination p) \<noteq> []"
  shows "dest_address (pc_destination p) \<in> set (active_forward_addrs t)"
proof -
  obtain st where st: "fold (prepare_rule fs deps self_peer) (rules table) (\<lparr>grouped = [], active = []\<rparr>, reg) = (st, fin)"
      "active_forward_addrs t = active st"
    using assms(1) by (auto simp: from_proto_def split: prod.splits)
  have "active_covers \<lparr>grouped = [], active = []\<rparr>" by (simp add: active_covers_def group_of_def)
  then have "active_covers st"
    using prepare_fold_active st(1) by (metis fst_conv)
  moreover have "p \<in> set (group_of (grouped st) key)"
    using prepare_fold_grouped [OF st(1)] assms(2) by (simp add: group_of_def)
  ultimately show ?thesis using assms(3) st(2) by (simp add: active_covers_def)
qed

section \<open>Counter seeding\<close>

lemma seed_group_counters_simps [simp]:
  "candidates (seed_group_counters g p) = candidates g"
  "rg_namespace (seed_group_counters g p) = rg_namespace g"
  "rg_module (seed_group_counters g p) = rg_module g"
  "all_versions_counter (seed_group_counters g p) = all_versions_counter p"
  "length (version_groups (seed_group_counters g p)) = length (version_groups g)"
  by (simp_all add: seed_group_counters_def)

lemma seed_group_shape [simp]: "vg_shape (seed_group_counters g p) = vg_shape g"
  by (simp add: vg_shape_def seed_group_counters_def split: option.split)

lemma seed_group_wf: "wf_group g \<Longrightarrow> wf_group (seed_group_counters g p)"
  by (rule wf_group_cong) simp_all

lemma map_of_map_snd: "map_of (map (\<lambda>(k, v). (k, f k v)) m) k = map_option (f k) (map_of m k)"
  by (induction m) auto

lemma table_get_seed:
  "table_get (seed_counters_from t previous) ns m =
    map_option (\<lambda>g. case table_get previous ns m of None \<Rightarrow> g | Some p \<Rightarrow> seed_group_counters g p)
      (table_get t ns m)"
  by (auto simp: table_get_def seed_counters_from_def map_of_map_snd bind_map_option
      split: option.splits bind_splits)

section \<open>A sample table\<close>

definition sample_failsafe :: "bool Failsafe" where
  "sample_failsafe = \<lparr>fs_new = \<lambda>_ _. True, fs_is_call_permitted = \<lambda>_ m. (m, m, []),
    fs_on_success = \<lambda>_ m. (True, [On_Closed]), fs_on_error = \<lambda>_ m. (False, [On_Open])\<rparr>"

definition sample_deps :: "nat RoutingDeps" where
  "sample_deps = \<lparr>dep_version = \<lambda>s. map_of [(''1.0.0'', 1), (''1.2.0'', 2), (''2.0.0'', 3)] s,
    dep_header_ok = \<lambda>_. True, dep_uri = \<lambda>_. None\<rparr>"

definition sample_rule :: "string \<Rightarrow> string \<Rightarrow> string \<Rightarrow> RoutingRule" where
  "sample_rule version engine peer = \<lparr>rule_id = ''r'', source_module = [], destination_module = ''svc'',
    engine_id = ''e'', engine_address = engine, destination_version = version, healthy = True,
    source_namespace = [], destination_namespace = ''shop'', peer_address = peer\<rparr>"

definition sample_table :: RoutingTable where
  "sample_table = \<lparr>rules = [sample_rule ''1.0.0'' ''http://e1'' ''https://self'',
     sample_rule ''2.0.0'' ''http://e2'' ''https://self'', sample_rule ''2.0.0'' ''http://e3'' ''https://peer'',
     sample_rule ''bad'' ''http://e4'' ''https://self''], rt_version = 7\<rparr>"

definition sample_registry :: "bool breakers" where
  "sample_registry = (CircuitBreakerRegistry_new \<lparr>failure_threshold = 5, open_duration_secs = 30\<rparr>, [])"

definition sample_index :: "nat IndexedRoutingTable \<times> bool breakers" where
  "sample_index = from_proto sample_failsafe sample_deps sample_table None sample_registry ''https://self''"

section \<open>Properties\<close>

text \<open>
  The index built from a routing table holds, for every route key, exactly the accepted rules
  of that key: healthy rules with a peer address, a valid identity, a parsable version and a
  forwarding address of one target class. A key without accepted rules has no group. A group lists
  its candidates by descending version, keeping the table's order among equal versions; its version
  groups are distinct, in descending order, carry the parsed form of their version string, and
  partition the candidates.
\<close>

theorem from_proto_groups:
  assumes "from_proto fs deps table None reg self_peer = (t, fin)"
    and "\<And>s. valid_name s \<Longrightarrow> dep_header_ok deps s"
    and "ps = prepared_for fin deps self_peer (rules table) \<lparr>rk_namespace = ns, rk_module = m\<rparr>"
  shows "case table_get t ns m of
      None \<Rightarrow> ps = []
    | Some g \<Rightarrow> ps \<noteq> [] \<and> wf_group g \<and> rg_namespace g = ns \<and> rg_module g = m \<and>
        map ic_destination (candidates g) = map pc_destination (sort_desc pc_parsed ps) \<and>
        map (\<lambda>c. vg_version (version_groups g ! version_group_index c)) (candidates g) =
          map pc_version (sort_desc pc_parsed ps) \<and>
        (\<forall>vg \<in> set (version_groups g). dep_version deps (vg_version vg) = Some (parsed_version vg))"
proof -
  let ?key = "\<lparr>rk_namespace = ns, rk_module = m\<rparr>"
  have get: "table_get t ns m = build_group deps None ?key ps"
    using from_proto_get [OF assms(1)] assms(3) by simp
  have hdr: "list_all (\<lambda>c. dep_header_ok deps (pc_version c)) ps"
    using assms(3) by (simp add: prepared_for_headers)
  show ?thesis
  proof (cases "build_group deps None ?key ps")
    case None
    have "ps = []"
    proof (rule ccontr)
      assume "ps \<noteq> []"
      then obtain p rule where "accepted fin deps self_peer rule = Some (?key, p)"
        using assms(3) prepared_for_mem by (metis list.set_intros(1) neq_Nil_conv)
      then have "valid_name ns" "valid_name m"
        using accepted_facts(3-5) by (metis RouteKey.select_convs(1,2))+
      then have "bs_candidates (fold (add_candidate deps) (sort_desc pc_parsed ps) build_init) = []"
        using None assms(2) by (simp add: build_group_def Let_def split: if_splits)
      then show False
        using built_length [OF built_fold [of deps "sort_desc pc_parsed ps"]] hdr \<open>ps \<noteq> []\<close>
        by (simp add: list_all_iff)
    qed
    then show ?thesis using get None by simp
  next
    case (Some g)
    have "dep_version deps (vg_version vg) = Some (parsed_version vg)" if "vg \<in> set (version_groups g)" for vg
    proof -
      have "(parsed_version vg, vg_version vg) \<in> set (cand_keys ps)"
        using build_group_wf [OF Some hdr] that by (auto simp: group_keys_def)
      then obtain p where "p \<in> set ps" "pc_parsed p = parsed_version vg" "pc_version p = vg_version vg"
        by (auto simp: cand_keys_def)
      then show ?thesis
        using assms(3) accepted_facts(6,7) prepared_for_mem by metis
    qed
    moreover have "ps \<noteq> []" using Some by auto
    ultimately show ?thesis using get Some build_group_wf [OF Some hdr] by simp
  qed
qed

theorem from_proto_groups_witness:
  "\<exists>g. table_get (fst sample_index) ''shop'' ''svc'' = Some g \<and> wf_group g \<and>
    map (\<lambda>c. vg_version (version_groups g ! version_group_index c)) (candidates g) =
      [''2.0.0'', ''2.0.0'', ''1.0.0'']"
proof -
  let ?ps = "prepared_for (snd sample_index) sample_deps ''https://self'' (rules sample_table)
    \<lparr>rk_namespace = ''shop'', rk_module = ''svc''\<rparr>"
  have versions: "map pc_version (sort_desc pc_parsed ?ps) = [''2.0.0'', ''2.0.0'', ''1.0.0'']"
    by code_simp
  have "from_proto sample_failsafe sample_deps sample_table None sample_registry ''https://self'' =
      (fst sample_index, snd sample_index)"
    by (simp add: sample_index_def)
  from from_proto_groups [OF this _ refl, of "''shop''" "''svc''"]
  have "case table_get (fst sample_index) ''shop'' ''svc'' of None \<Rightarrow> ?ps = []
    | Some g \<Rightarrow> wf_group g \<and>
        map (\<lambda>c. vg_version (version_groups g ! version_group_index c)) (candidates g) =
          map pc_version (sort_desc pc_parsed ?ps)"
    by (simp add: sample_deps_def split: option.splits)
  moreover have "?ps \<noteq> []" using versions by (auto simp: sort_desc_def)
  ultimately show ?thesis unfolding versions by (simp split: option.splits)
qed

text \<open>
  Every candidate of the index forwards through the breaker that the registry holds for its
  address and class, so candidates with the same address share one breaker and an address is never
  used both as a local engine and as a remote proxy; and every candidate's address is among the
  active addresses, so that the eviction after publication keeps its breaker.
\<close>

theorem from_proto_breakers:
  assumes "from_proto fs deps table None reg self_peer = (t, fin)"
    and "table_get t ns m = Some g" "c \<in> set (candidates g)"
  shows "registry_entry fin (dest_address (ic_destination c)) = Some (dest_class (ic_destination c), ic_breaker c) \<and>
    (dest_address (ic_destination c) \<noteq> [] \<longrightarrow>
      dest_address (ic_destination c) \<in> set (active_forward_addrs t) \<and>
      registry_entry (evict_missing (\<lambda>k. k \<in> set (active_forward_addrs t)) (fst fin), snd fin)
        (dest_address (ic_destination c)) = Some (dest_class (ic_destination c), ic_breaker c))"
proof -
  let ?key = "\<lparr>rk_namespace = ns, rk_module = m\<rparr>"
  let ?ps = "prepared_for fin deps self_peer (rules table) ?key"
  have "build_group deps None ?key ?ps = Some g"
    using from_proto_get [OF assms(1)] assms(2) by simp
  from build_group_wf [OF this prepared_for_headers]
  have dests: "map ic_destination (candidates g) = map pc_destination (sort_desc pc_parsed ?ps)"
    and breakers: "map ic_breaker (candidates g) = map pc_breaker (sort_desc pc_parsed ?ps)" by auto
  obtain i where i: "i < length (candidates g)" "c = candidates g ! i"
    using assms(3) by (auto simp: in_set_conv_nth)
  let ?p = "sort_desc pc_parsed ?ps ! i"
  have len: "length (candidates g) = length (sort_desc pc_parsed ?ps)"
    using dests by (metis length_map)
  then have p: "?p \<in> set ?ps" using i(1) by (metis nth_mem set_sort_desc)
  have eq: "ic_destination c = pc_destination ?p" "ic_breaker c = pc_breaker ?p"
    using i len dests breakers by (metis nth_map)+
  from p obtain rule where "accepted fin deps self_peer rule = Some (?key, ?p)"
    using prepared_for_mem by metis
  then have entry: "registry_entry fin (dest_address (ic_destination c)) =
      Some (dest_class (ic_destination c), ic_breaker c)"
    using accepted_facts(10) eq by metis
  have "map_of (filter (\<lambda>(k, e). P k) m) a = map_of m a" if "P a" for P a and m :: "(string \<times> RegistryEntry) list"
    using that by (induction m) auto
  then show ?thesis
    using entry from_proto_active [OF assms(1) p] eq
    by (simp add: registry_entry_def evict_missing_def)
qed

theorem from_proto_breakers_witness:
  "registry_entry (snd sample_index) ''http://e2'' = Some (LocalEngineClass, 1)"
proof -
  let ?g = "the (table_get (fst sample_index) ''shop'' ''svc'')"
  have g: "table_get (fst sample_index) ''shop'' ''svc'' \<noteq> None" "candidates ?g \<noteq> []"
    "ic_destination (hd (candidates ?g)) = LocalEngine \<lparr>ft_address = ''http://e2'', ft_base_uri = None\<rparr>"
    "ic_breaker (hd (candidates ?g)) = 1"
    by code_simp+
  have "from_proto sample_failsafe sample_deps sample_table None sample_registry ''https://self'' =
      (fst sample_index, snd sample_index)"
    by (simp add: sample_index_def)
  then show ?thesis
    using from_proto_breakers [of sample_failsafe sample_deps sample_table sample_registry "''https://self''"
        "fst sample_index" "snd sample_index" "''shop''" "''svc''" ?g "hd (candidates ?g)"] g
    by (simp add: dest_address_def)
qed

end
