(* ===== verification/Routing_Cache.thy ===== *)
theory Routing_Cache
  imports Indexed_Routing
begin

text \<open>
  The proxy's routing cache and its synchronisation with a manager: \<open>wr-proxy/src/routing.rs\<close>.
  The cache couples the published index, the last synchronisation evidence and the breaker
  registry. The refresh mutex makes \<open>replace\<close> one step.

  The manager is outside the process: each call of \<open>sync_once\<close> takes its answer as an argument, and
  the two loops run over a list of rounds, each holding what the environment supplies in that round
  (the clock, the answers to the calls, cancellation). A loop that is still running when the list
  ends returns \<open>None\<close>.
\<close>

section \<open>State\<close>

datatype Code = Ok_Code | Cancelled | Unknown | InvalidArgument | DeadlineExceeded | NotFound |
  AlreadyExists | PermissionDenied | ResourceExhausted | FailedPrecondition | Aborted | OutOfRange |
  Unimplemented | Internal_Code | Unavailable | DataLoss | Unauthenticated

record RoutingSyncObservation =
  installed_version :: "64 word"
  last_success :: nat
  obs_manager_id :: string

record ('v, 'm) CachedRoutingTable =
  crt_table :: "'v IndexedRoutingTable"
  crt_observation :: "RoutingSyncObservation option"
  crt_breakers :: "'m breakers"
  self_peer_address :: string

definition CachedRoutingTable_new :: "CircuitBreakerConfig \<Rightarrow> string \<Rightarrow> ('v, 'm) CachedRoutingTable" where
  "CachedRoutingTable_new config self_peer =
    \<lparr>crt_table = IndexedRoutingTable_empty, crt_observation = None,
     crt_breakers = (CircuitBreakerRegistry_new config, []), self_peer_address = self_peer\<rparr>"

definition crt_version :: "('v, 'm) CachedRoutingTable \<Rightarrow> 64 word" where
  "crt_version c = irt_version (crt_table c)"

definition breaker_summary :: "nat \<Rightarrow> ('v, 'm) CachedRoutingTable \<Rightarrow> CircuitBreakerSummary" where
  "breaker_summary now c = registry_snapshot now (crt_breakers c)"

definition publish_synchronization :: "nat \<Rightarrow> string \<Rightarrow> ('v, 'm) CachedRoutingTable \<Rightarrow> ('v, 'm) CachedRoutingTable" where
  "publish_synchronization now manager_id c =
    c\<lparr>crt_observation := Some \<lparr>installed_version = crt_version c, last_success = now,
        obs_manager_id = manager_id\<rparr>\<rparr>"

definition replace_table ::
    "'m Failsafe \<Rightarrow> 'v::linorder RoutingDeps \<Rightarrow> RoutingTable \<Rightarrow> ('v, 'm) CachedRoutingTable \<Rightarrow>
      bool \<times> ('v, 'm) CachedRoutingTable" where
  "replace_table fs deps incoming c =
    (if rt_version incoming \<le> crt_version c then (False, c)
     else case from_proto fs deps incoming None (crt_breakers c) (self_peer_address c) of
       (indexed, (reg, heap)) \<Rightarrow>
         (let active_addrs = active_forward_addrs indexed in
          if rt_version incoming \<le> irt_version (crt_table c)
          then (False, c\<lparr>crt_breakers := (reg, heap)\<rparr>)
          else (True, c\<lparr>crt_table := seed_counters_from indexed (crt_table c),
                  crt_breakers := (evict_missing (\<lambda>a. a \<in> set active_addrs) reg, heap)\<rparr>)))"

section \<open>Synchronisation\<close>

fun is_transport_failure :: "Code \<Rightarrow> bool" where
  "is_transport_failure Cancelled = True"
| "is_transport_failure Unknown = True"
| "is_transport_failure DeadlineExceeded = True"
| "is_transport_failure Unavailable = True"
| "is_transport_failure _ = False"

text \<open>A pinned manager, and its answer to \<open>get_routing_table\<close> for the known version.\<close>

type_synonym epoch = string
type_synonym table_rpc = "epoch \<Rightarrow> 64 word \<Rightarrow> Code + RoutingTable option"

definition sync_once ::
    "'m Failsafe \<Rightarrow> 'v::linorder RoutingDeps \<Rightarrow> nat \<Rightarrow> table_rpc \<Rightarrow> epoch \<Rightarrow> ('v, 'm) CachedRoutingTable \<Rightarrow>
      (Code + unit) \<times> ('v, 'm) CachedRoutingTable" where
  "sync_once fs deps now rpc manager_id c =
    (case rpc manager_id (crt_version c) of
       Inl status \<Rightarrow> (Inl status, c)
     | Inr response \<Rightarrow>
        let c' = (case response of None \<Rightarrow> c | Some incoming \<Rightarrow> snd (replace_table fs deps incoming c)) in
        (Inr (), publish_synchronization now manager_id c'))"

record sync_round =
  round_now :: nat
  sync_now :: nat
  round_rpc :: table_rpc
  round_repin :: "Code + epoch"
  deadline_first :: bool

primrec converge_to_version ::
    "'m Failsafe \<Rightarrow> 'v::linorder RoutingDeps \<Rightarrow> 64 word \<Rightarrow> nat \<Rightarrow> sync_round list \<Rightarrow> epoch \<Rightarrow>
      ('v, 'm) CachedRoutingTable \<Rightarrow> ((Code + 64 word) \<times> epoch \<times> ('v, 'm) CachedRoutingTable) option" where
  "converge_to_version fs deps target deadline [] epoch c =
    (if crt_version c \<ge> target then Some (Inr (crt_version c), epoch, c) else None)"
| "converge_to_version fs deps target deadline (r # rs) epoch c =
    (if crt_version c \<ge> target then Some (Inr (crt_version c), epoch, c)
     else if round_now r \<ge> deadline then Some (Inl DeadlineExceeded, epoch, c)
     else case sync_once fs deps (sync_now r) (round_rpc r) epoch c of
       (Inl error, c') \<Rightarrow>
         if is_transport_failure error then
           (case round_repin r of
              Inl e \<Rightarrow> Some (Inl e, epoch, c')
            | Inr epoch' \<Rightarrow> converge_to_version fs deps target deadline rs epoch' c')
         else Some (Inl error, epoch, c')
     | (Inr _, c') \<Rightarrow>
         if deadline_first r then Some (Inl DeadlineExceeded, epoch, c')
         else converge_to_version fs deps target deadline rs epoch c')"

record poll_round =
  cancelled :: bool
  poll_now :: nat
  poll_pin :: "epoch option"
  poll_rpc :: table_rpc
  poll_repin :: "Code + epoch"

datatype TaskExit = Exit_Cancelled | Exit_Completed

primrec sync_routing_table ::
    "'m Failsafe \<Rightarrow> 'v::linorder RoutingDeps \<Rightarrow> poll_round list \<Rightarrow> epoch option \<Rightarrow>
      ('v, 'm) CachedRoutingTable \<Rightarrow> TaskExit option \<times> epoch option \<times> ('v, 'm) CachedRoutingTable" where
  "sync_routing_table fs deps [] epoch c = (None, epoch, c)"
| "sync_routing_table fs deps (r # rs) epoch c =
    (if cancelled r then (Some Exit_Cancelled, epoch, c)
     else
      let epoch1 = (case epoch of None \<Rightarrow> poll_pin r | Some e \<Rightarrow> Some e) in
      case epoch1 of
        None \<Rightarrow> sync_routing_table fs deps rs None c
      | Some retained \<Rightarrow>
         (case sync_once fs deps (poll_now r) (poll_rpc r) retained c of
            (Inl error, c') \<Rightarrow>
              (if is_transport_failure error then
                 (case poll_repin r of
                    Inr replacement \<Rightarrow> sync_routing_table fs deps rs (Some replacement) c'
                  | Inl repin_error \<Rightarrow> sync_routing_table fs deps rs None c')
               else sync_routing_table fs deps rs (Some retained) c')
          | (Inr _, c') \<Rightarrow> sync_routing_table fs deps rs (Some retained) c'))"

section \<open>Replacement\<close>

lemma from_proto_version: "from_proto fs deps table prev reg self_peer = (t, fin) \<Longrightarrow> irt_version t = rt_version table"
  by (auto simp: from_proto_def split: prod.splits)

lemma seed_counters_version [simp]: "irt_version (seed_counters_from t p) = irt_version t"
  by (simp add: seed_counters_from_def)

lemma replace_stale: "rt_version incoming \<le> crt_version c \<Longrightarrow> replace_table fs deps incoming c = (False, c)"
  by (simp add: replace_table_def)

lemma replace_newer:
  assumes "crt_version c < rt_version incoming"
    and "from_proto fs deps incoming None (crt_breakers c) (self_peer_address c) = (t, (reg, heap))"
  shows "replace_table fs deps incoming c =
    (True, c\<lparr>crt_table := seed_counters_from t (crt_table c),
       crt_breakers := (evict_missing (\<lambda>a. a \<in> set (active_forward_addrs t)) reg, heap)\<rparr>)"
  using assms by (simp add: replace_table_def crt_version_def)

lemma replace_version: "crt_version (snd (replace_table fs deps incoming c)) = max (crt_version c) (rt_version incoming)"
proof (cases "rt_version incoming \<le> crt_version c")
  case True
  then show ?thesis by (simp add: replace_stale max_absorb1)
next
  case False
  obtain t reg heap where
    fp: "from_proto fs deps incoming None (crt_breakers c) (self_peer_address c) = (t, (reg, heap))"
    by (metis prod.exhaust)
  show ?thesis
    using False replace_newer [OF _ fp] from_proto_version [OF fp]
    by (simp add: crt_version_def not_le max_absorb2 less_imp_le)
qed

lemma publish_version [simp]: "crt_version (publish_synchronization now m c) = crt_version c"
  by (simp add: publish_synchronization_def crt_version_def)

lemma sync_once_version: "crt_version c \<le> crt_version (snd (sync_once fs deps now rpc m c))"
  by (auto simp: sync_once_def Let_def replace_version split: sum.splits option.splits)

text \<open>The cache only ever claims a version it has installed.\<close>

definition obs_inv :: "('v, 'm) CachedRoutingTable \<Rightarrow> bool" where
  "obs_inv c = (case crt_observation c of None \<Rightarrow> True | Some ob \<Rightarrow> installed_version ob \<le> crt_version c)"

lemma replace_observation [simp]: "crt_observation (snd (replace_table fs deps incoming c)) = crt_observation c"
  by (auto simp: replace_table_def Let_def split: prod.splits)

lemma obs_inv_replace: "obs_inv c \<Longrightarrow> obs_inv (snd (replace_table fs deps incoming c))"
  unfolding obs_inv_def by (auto simp: replace_version max.coboundedI1 split: option.splits)

lemma obs_inv_publish: "obs_inv (publish_synchronization now m c)"
  by (simp add: obs_inv_def publish_synchronization_def crt_version_def)

lemma obs_inv_sync: "obs_inv c \<Longrightarrow> obs_inv (snd (sync_once fs deps now rpc m c))"
  by (auto simp: sync_once_def Let_def obs_inv_publish split: sum.splits)

datatype cache_op = Replace RoutingTable | Sync nat table_rpc epoch

fun cache_step :: "'m Failsafe \<Rightarrow> 'v::linorder RoutingDeps \<Rightarrow> cache_op \<Rightarrow>
    ('v, 'm) CachedRoutingTable \<Rightarrow> ('v, 'm) CachedRoutingTable" where
  "cache_step fs deps (Replace t) c = snd (replace_table fs deps t c)"
| "cache_step fs deps (Sync now rpc m) c = snd (sync_once fs deps now rpc m c)"

interpretation cache_runs: monotone_machine obs_inv "cache_step fs deps" crt_version
  for fs :: "'m Failsafe" and deps :: "'v::linorder RoutingDeps"
proof unfold_locales
  fix c :: "('v, 'm) CachedRoutingTable" and e
  show "obs_inv c \<Longrightarrow> obs_inv (cache_step fs deps e c)"
    by (cases e) (simp_all add: obs_inv_replace obs_inv_sync)
  show "crt_version c \<le> crt_version (cache_step fs deps e c)"
    by (cases e) (simp_all add: replace_version sync_once_version)
qed

section \<open>Breakers across a replacement\<close>

lemma resolve_heap_prefix: "\<exists>new. snd (snd (resolve fs a c st)) = snd st @ new"
  by (cases st; cases "map_of (entries (fst st)) a") (simp_all add: resolve_None resolve_Some)

lemma prepare_rule_registry:
  "snd (prepare_rule fs deps self_peer rule (st, reg)) = reg \<or>
    (\<exists>a c. snd (prepare_rule fs deps self_peer rule (st, reg)) = snd (resolve fs a c reg))"
proof (cases "rule_target deps self_peer rule")
  case None
  then show ?thesis by (simp add: prepare_rule_def)
next
  case (Some t)
  obtain k v d where t: "t = (k, v, d)" by (cases t)
  obtain r reg' where res: "resolve fs (dest_address d) (dest_class d) reg = (r, reg')"
    by (cases "resolve fs (dest_address d) (dest_class d) reg")
  then have "snd (prepare_rule fs deps self_peer rule (st, reg)) = reg'"
    using Some t by (cases r) (simp_all add: prepare_rule_def Let_def)
  then show ?thesis using res by (metis snd_conv)
qed

lemma prepare_heap_prefix:
  "\<exists>new. snd (snd (fold (prepare_rule fs deps self_peer) rs (st, reg))) = snd reg @ new"
proof (induction rs arbitrary: st reg)
  case (Cons rule rs)
  obtain st' reg' where step: "prepare_rule fs deps self_peer rule (st, reg) = (st', reg')"
    by (cases "prepare_rule fs deps self_peer rule (st, reg)")
  have "\<exists>new. snd reg' = snd reg @ new"
    using prepare_rule_registry [of fs deps self_peer rule st reg] resolve_heap_prefix [of fs _ _ reg] step
    by (metis append_Nil2 snd_conv)
  then show ?case using Cons.IH [of st' reg'] step by auto
qed simp

lemma from_proto_keeps:
  assumes "from_proto fs deps table prev reg self_peer = (t, fin)"
  shows "registry_entry reg a = Some e \<Longrightarrow> registry_entry fin a = Some e"
    and "\<exists>new. snd fin = snd reg @ new"
proof -
  obtain st where st:
    "fold (prepare_rule fs deps self_peer) (rules table) (\<lparr>grouped = [], active = []\<rparr>, reg) = (st, fin)"
    using assms by (auto simp: from_proto_def split: prod.splits)
  then show "registry_entry reg a = Some e \<Longrightarrow> registry_entry fin a = Some e"
    using prepare_fold_keeps by (metis snd_conv)
  show "\<exists>new. snd fin = snd reg @ new"
    using prepare_heap_prefix st by (metis snd_conv)
qed

lemma registry_entry_evict:
  "registry_entry (evict_missing P reg, heap) a = (if P a then registry_entry (reg, heap) a else None)"
proof -
  have "map_of (filter (\<lambda>(k, e). P k) m) a = (if P a then map_of m a else None)"
    for m :: "(string \<times> RegistryEntry) list"
    by (induction m) auto
  then show ?thesis by (simp add: registry_entry_def evict_missing_def)
qed

section \<open>Properties\<close>

text \<open>
  C28. Over any sequence of replacements and synchronisations the installed routing version never
  decreases, and the published synchronisation evidence never claims a version the cache has not
  installed. A replacement returns true exactly for a newer table; for any other table the cache is
  left untouched, breakers included.
\<close>

theorem routing_version_monotone:
  fixes c :: "('v::linorder, 'm) CachedRoutingTable"
  assumes "c = fold (cache_step fs deps) ops (CachedRoutingTable_new cfg self_peer)"
  shows "crt_version c \<le> crt_version (fold (cache_step fs deps) later c) \<and>
    (case crt_observation (fold (cache_step fs deps) later c) of
       None \<Rightarrow> True
     | Some ob \<Rightarrow> installed_version ob \<le> crt_version (fold (cache_step fs deps) later c)) \<and>
    (fst (replace_table fs deps incoming c) \<longleftrightarrow> crt_version c < rt_version incoming) \<and>
    crt_version (snd (replace_table fs deps incoming c)) = max (crt_version c) (rt_version incoming) \<and>
    (rt_version incoming \<le> crt_version c \<longrightarrow> snd (replace_table fs deps incoming c) = c)"
proof -
  have "obs_inv (CachedRoutingTable_new cfg self_peer :: ('v, 'm) CachedRoutingTable)"
    by (simp add: obs_inv_def CachedRoutingTable_new_def)
  then have inv: "obs_inv c" unfolding assms by (rule cache_runs.run_inv)
  have "fst (replace_table fs deps incoming c) \<longleftrightarrow> crt_version c < rt_version incoming"
  proof (cases "crt_version c < rt_version incoming")
    case True
    obtain t reg heap where
      "from_proto fs deps incoming None (crt_breakers c) (self_peer_address c) = (t, (reg, heap))"
      by (metis prod.exhaust)
    from replace_newer [OF True this] True show ?thesis by simp
  next
    case False
    then show ?thesis by (simp add: replace_stale)
  qed
  then show ?thesis
    using cache_runs.run_rank [OF inv, of fs deps later] replace_version [of fs deps incoming c]
      cache_runs.run_inv [OF inv, of fs deps later, unfolded obs_inv_def]
    by (intro conjI) (simp_all add: replace_stale)
qed

definition sample_cache :: "(nat, bool) CachedRoutingTable" where
  "sample_cache = fold (cache_step sample_failsafe sample_deps) [Replace sample_table]
    (CachedRoutingTable_new \<lparr>failure_threshold = 5, open_duration_secs = 30\<rparr> ''https://self'')"

theorem routing_version_monotone_witness:
  "\<not> fst (replace_table sample_failsafe sample_deps (sample_table\<lparr>rt_version := 6\<rparr>) sample_cache) \<and>
   snd (replace_table sample_failsafe sample_deps (sample_table\<lparr>rt_version := 6\<rparr>) sample_cache) = sample_cache"
proof -
  have "crt_version sample_cache = 7" by code_simp
  then show ?thesis
    using routing_version_monotone [OF sample_cache_def, of "[]" "sample_table\<lparr>rt_version := 6\<rparr>"]
    by simp
qed

text \<open>
  C29. A refresh keeps breaker state: an address that was registered before and is still used by the
  new table keeps its class, its breaker and the state of that breaker, an address the new table no
  longer uses loses its registration, and every existing breaker cell is left as it was.
\<close>

theorem replace_preserves_breakers:
  assumes "crt_version c < rt_version incoming"
    and "replace_table fs deps incoming c = (r, c')"
    and "from_proto fs deps incoming None (crt_breakers c) (self_peer_address c) = (t, fin)"
  shows "registry_entry (crt_breakers c') a =
      (if a \<in> set (active_forward_addrs t) then registry_entry fin a else None) \<and>
    (\<forall>e. a \<in> set (active_forward_addrs t) \<and> registry_entry (crt_breakers c) a = Some e \<longrightarrow>
      registry_entry (crt_breakers c') a = Some e) \<and>
    (\<forall>h < length (snd (crt_breakers c)). snd (crt_breakers c') ! h = snd (crt_breakers c) ! h) \<and>
    (\<forall>ns m. table_get (crt_table c') ns m =
      map_option (\<lambda>g. case table_get (crt_table c) ns m of None \<Rightarrow> g | Some p \<Rightarrow> seed_group_counters g p)
        (table_get t ns m))"
proof -
  obtain reg heap where fin: "fin = (reg, heap)" by (cases fin)
  have c': "c' = c\<lparr>crt_table := seed_counters_from t (crt_table c),
       crt_breakers := (evict_missing (\<lambda>a. a \<in> set (active_forward_addrs t)) reg, heap)\<rparr>"
    using replace_newer [OF assms(1)] assms(2,3) fin by simp
  obtain new where "snd fin = snd (crt_breakers c) @ new"
    using from_proto_keeps(2) [OF assms(3)] by blast
  then show ?thesis
    using from_proto_keeps(1) [OF assms(3)] fin
    by (simp add: c' registry_entry_evict table_get_seed nth_append)
qed

definition sample_update :: RoutingTable where
  "sample_update = \<lparr>rules = [sample_rule ''2.0.0'' ''http://e2'' ''https://self''], rt_version = 8\<rparr>"

theorem replace_preserves_breakers_witness:
  "registry_entry (crt_breakers (snd (replace_table sample_failsafe sample_deps sample_update sample_cache)))
      ''http://e2'' = Some (LocalEngineClass, 1) \<and>
   registry_entry (crt_breakers (snd (replace_table sample_failsafe sample_deps sample_update sample_cache)))
      ''http://e1'' = None"
proof -
  let ?fp = "from_proto sample_failsafe sample_deps sample_update None (crt_breakers sample_cache)
    (self_peer_address sample_cache)"
  have facts: "crt_version sample_cache < rt_version sample_update"
    "registry_entry (crt_breakers sample_cache) ''http://e2'' = Some (LocalEngineClass, 1)"
    "active_forward_addrs (fst ?fp) = [''http://e2'']"
    by code_simp+
  note kept = replace_preserves_breakers [OF facts(1) prod.collapse [symmetric] prod.collapse [symmetric]]
  show ?thesis
    using kept [of _ _ "''http://e2''", THEN conjunct2, THEN conjunct1]
      kept [of _ _ "''http://e1''", THEN conjunct1] facts
    by simp
qed

text \<open>
  C30. Waiting for convergence reports success only when it is true: an \<open>Ok\<close> result is the version the
  cache then holds and at least the target; an error leaves the cache at a version no older than
  before. A cache that already holds the target returns at once without calling a manager.
\<close>

theorem converge_to_version_sound:
  assumes "converge_to_version fs deps target deadline rs epoch c = Some (res, epoch', c')"
  shows "crt_version c \<le> crt_version c' \<and>
    (\<forall>v. res = Inr v \<longrightarrow> v = crt_version c' \<and> target \<le> v) \<and>
    (target \<le> crt_version c \<longrightarrow> res = Inr (crt_version c) \<and> c' = c \<and> epoch' = epoch)"
  using assms
proof (induction rs arbitrary: epoch c)
  case Nil
  then show ?case by (auto split: if_splits)
next
  case (Cons r rs)
  obtain out c1 where sync: "sync_once fs deps (sync_now r) (round_rpc r) epoch c = (out, c1)"
    by (cases "sync_once fs deps (sync_now r) (round_rpc r) epoch c")
  have "crt_version c \<le> crt_version c1"
    using sync_once_version [of c fs deps "sync_now r" "round_rpc r" epoch] sync by simp
  then show ?case
    using Cons.prems Cons.IH [of _ c1] sync
    by (auto split: if_splits sum.splits intro: order_trans [of _ "crt_version c1"])
qed

definition sample_rounds :: "sync_round list" where
  "sample_rounds = [\<lparr>round_now = 1, sync_now = 1, round_rpc = \<lambda>_ _. Inl Unavailable,
      round_repin = Inr ''manager-b'', deadline_first = False\<rparr>,
    \<lparr>round_now = 2, sync_now = 2, round_rpc = \<lambda>_ _. Inr (Some sample_table),
      round_repin = Inl Unavailable, deadline_first = False\<rparr>]"

theorem converge_to_version_sound_witness:
  "fst (the (converge_to_version sample_failsafe sample_deps 5 100 sample_rounds ''manager-a''
      (CachedRoutingTable_new \<lparr>failure_threshold = 5, open_duration_secs = 30\<rparr> ''https://self''))) =
    Inr (crt_version (snd (snd (the (converge_to_version sample_failsafe sample_deps 5 100 sample_rounds
      ''manager-a''
      (CachedRoutingTable_new \<lparr>failure_threshold = 5, open_duration_secs = 30\<rparr> ''https://self''))))))"
proof -
  let ?r = "the (converge_to_version sample_failsafe sample_deps 5 100 sample_rounds ''manager-a''
    (CachedRoutingTable_new \<lparr>failure_threshold = 5, open_duration_secs = 30\<rparr> ''https://self''))"
  have "fst ?r = Inr 7"
    "converge_to_version sample_failsafe sample_deps 5 100 sample_rounds ''manager-a''
      (CachedRoutingTable_new \<lparr>failure_threshold = 5, open_duration_secs = 30\<rparr> ''https://self'') \<noteq> None"
    by code_simp+
  then show ?thesis
    using converge_to_version_sound [of sample_failsafe sample_deps 5 100 sample_rounds "''manager-a''"
        "CachedRoutingTable_new \<lparr>failure_threshold = 5, open_duration_secs = 30\<rparr> ''https://self''"
        "fst ?r" "fst (snd ?r)" "snd (snd ?r)"]
    by auto
qed

end
