(* ===== verification/Routing_Layer.thy ===== *)
theory Routing_Layer
  imports Routing_Cache Http_Headers
begin

text \<open>
  Request routing in the proxy: \<open>wr-proxy/src/layers/routing.rs\<close> and the domain patterns of
  \<open>layers/egress.rs\<close>. A destination host is classified as an internal module, an allowed external
  host or neither; an internal destination selects a version group and a candidate by round robin,
  preferring candidates whose breaker permits a call.

  Selecting a candidate advances a counter of the shared group and asks breakers for permission,
  so the functions return the updated table and breaker heap. An index out of range would panic in
  the code; \<open>wf_group\<close>, which every published group satisfies, excludes it. The HTTP crate's text
  form of a header value, URI parser and the version requirement parser are parameters.
\<close>

section \<open>Domain patterns\<close>

definition strip_suffix :: "string \<Rightarrow> string \<Rightarrow> string option" where
  "strip_suffix s host = (if suffix s host then Some (take (length host - length s) host) else None)"

definition domain_matches :: "string \<Rightarrow> string \<Rightarrow> bool" where
  "domain_matches pattern host =
    (if CHR ''*'' \<notin> set pattern then pattern = host
     else case strip_prefix ''*.'' pattern of
       None \<Rightarrow> False
     | Some sfx \<Rightarrow>
        (case strip_suffix sfx host of
           Some pre \<Rightarrow> length pre \<ge> 2 \<and> ends_with ''.'' pre \<and>
             CHR ''.'' \<notin> set (take (length pre - 1) pre)
         | None \<Rightarrow> False))"

section \<open>Requested versions\<close>

datatype 'v RequestedVersion = Unpinned | Requirement "'v \<Rightarrow> bool" string

datatype version_header_error = Version_Not_Text | Version_Bad_Requirement string

definition parse_requested_version ::
    "(string \<Rightarrow> string option) \<Rightarrow> (string \<Rightarrow> ('v \<Rightarrow> bool) option) \<Rightarrow> string option \<Rightarrow>
      version_header_error + 'v RequestedVersion" where
  "parse_requested_version to_str req_parse value =
    (case value of
       None \<Rightarrow> Inr Unpinned
     | Some raw \<Rightarrow>
        and_then (ok_or Version_Not_Text (to_str raw)) (\<lambda>text.
        case VersionSelector_parse req_parse text of
          Inl e \<Rightarrow> Inl (Version_Bad_Requirement text)
        | Inr selector \<Rightarrow> Inr (Requirement selector raw)))"

section \<open>Choosing a candidate\<close>

primrec permitted_scan ::
    "'m Failsafe \<Rightarrow> nat \<Rightarrow> IndexedCandidate list \<Rightarrow> nat list \<Rightarrow> 'm breaker_heap \<Rightarrow> nat list \<times> 'm breaker_heap" where
  "permitted_scan fs now cands [] heap = ([], heap)"
| "permitted_scan fs now cands (i # is) heap =
    (let h = ic_breaker (cands ! i) in
     case is_call_permitted fs now (heap ! h) of (permitted, cell) \<Rightarrow>
     case permitted_scan fs now cands is (heap[h := cell]) of (rest, heap') \<Rightarrow>
       (if permitted then i # rest else rest, heap'))"

definition choose_candidate ::
    "'m Failsafe \<Rightarrow> nat \<Rightarrow> IndexedCandidate list \<Rightarrow> nat list \<Rightarrow> 64 word \<Rightarrow> 'm breaker_heap \<Rightarrow>
      nat option \<times> 64 word \<times> 'm breaker_heap" where
  "choose_candidate fs now cands eligible_indexes counter heap =
    (let eligible_count = length eligible_indexes in
     if eligible_count = 0 then (None, counter, heap)
     else case permitted_scan fs now cands eligible_indexes heap of (permitted_indexes, heap') \<Rightarrow>
       let slot = unat counter in
       if permitted_indexes = []
       then (Some (eligible_indexes ! (slot mod eligible_count)), counter + 1, heap')
       else (Some (permitted_indexes ! (slot mod length permitted_indexes)), counter + 1, heap'))"

record ResolvedRoute =
  rr_destination :: Destination
  rr_breaker :: handle

record SelectedCandidate =
  sc_route :: ResolvedRoute
  sc_version :: string

definition selected_at :: "'v RouteGroup \<Rightarrow> nat \<Rightarrow> SelectedCandidate" where
  "selected_at g i =
    \<lparr>sc_route = \<lparr>rr_destination = ic_destination (candidates g ! i), rr_breaker = ic_breaker (candidates g ! i)\<rparr>,
     sc_version = vg_version (version_groups g ! version_group_index (candidates g ! i))\<rparr>"

text \<open>The index of the first version group that satisfies a selector.\<close>

definition find_version :: "('v \<Rightarrow> bool) \<Rightarrow> 'v RouteGroup \<Rightarrow> nat option" where
  "find_version selector g =
    List.find (\<lambda>i. selector (parsed_version (version_groups g ! i))) [0..<length (version_groups g)]"

definition select_candidate ::
    "'m Failsafe \<Rightarrow> nat \<Rightarrow> 'v RouteGroup \<Rightarrow> 'v RequestedVersion \<Rightarrow> 'm breaker_heap \<Rightarrow>
      SelectedCandidate option \<times> 'v RouteGroup \<times> 'm breaker_heap" where
  "select_candidate fs now g requested heap =
    (case requested of
       Unpinned \<Rightarrow>
        (case choose_candidate fs now (candidates g) [0..<length (candidates g)] (all_versions_counter g) heap of
           (chosen, counter, heap') \<Rightarrow>
             (map_option (selected_at g) chosen, g\<lparr>all_versions_counter := counter\<rparr>, heap'))
     | Requirement selector raw \<Rightarrow>
        (case find_version selector g of
           None \<Rightarrow> (None, g, heap)
         | Some k \<Rightarrow>
            (let vg = version_groups g ! k in
             case choose_candidate fs now (candidates g) (candidate_indexes vg) (vg_counter vg) heap of
               (chosen, counter, heap') \<Rightarrow>
                 (map_option (selected_at g) chosen,
                  g\<lparr>version_groups := (version_groups g)[k := vg\<lparr>vg_counter := counter\<rparr>]\<rparr>, heap'))))"

section \<open>Destinations\<close>

datatype reject_reason =
    Missing_Destination
  | No_Host
  | Missing_Namespace string
  | No_Route string
  | Invalid_Internal string identity_error
  | No_Module string string
  | No_Version string string string

datatype RouteOutcome =
    Internal string string SelectedCandidate
  | External string Uri
  | Reject nat reject_reason

definition classify_external_host :: "string \<Rightarrow> string list \<Rightarrow> reject_reason + string" where
  "classify_external_host host egress_allowed_domains =
    (if egress_allowed_domains = [] then Inl (No_Route host)
     else let host_lc = map to_ascii_lowercase host in
       if list_ex (\<lambda>pattern. domain_matches pattern host_lc) egress_allowed_domains then Inr host_lc
       else Inl (No_Route host))"

definition with_egress :: "string list \<Rightarrow> string list" where
  "with_egress allowed_domains = map (map to_ascii_lowercase) allowed_domains"

definition table_put :: "'v IndexedRoutingTable \<Rightarrow> string \<Rightarrow> string \<Rightarrow> 'v RouteGroup \<Rightarrow> 'v IndexedRoutingTable" where
  "table_put t ns m g =
    t\<lparr>by_namespace := map (\<lambda>(n, ms). (n, if n = ns
        then map (\<lambda>(k, old). (k, if k = m then g else old)) ms else ms)) (by_namespace t)\<rparr>"

definition route_destination ::
    "'m Failsafe \<Rightarrow> nat \<Rightarrow> 'v IndexedRoutingTable \<Rightarrow> string list \<Rightarrow> Uri option \<Rightarrow> 'v RequestedVersion \<Rightarrow>
      'm breaker_heap \<Rightarrow> RouteOutcome \<times> 'v IndexedRoutingTable \<times> 'm breaker_heap" where
  "route_destination fs now table allowed dest_uri requested heap =
    (case dest_uri of
       None \<Rightarrow> (Reject 400 Missing_Destination, table, heap)
     | Some uri \<Rightarrow>
    (case (case uri_host uri of Some h \<Rightarrow> if h \<noteq> [] then Some h else None | None \<Rightarrow> None) of
       None \<Rightarrow> (Reject 400 No_Host, table, heap)
     | Some host \<Rightarrow>
    (case split_once (CHR ''.'') host of
       None \<Rightarrow>
        (case classify_external_host host allowed of
           Inr h \<Rightarrow> (External h uri, table, heap)
         | Inl _ \<Rightarrow> (Reject 400 (Missing_Namespace host), table, heap))
     | Some (namespace, module) \<Rightarrow>
        if CHR ''.'' \<in> set module then
          (case classify_external_host host allowed of
             Inr h \<Rightarrow> (External h uri, table, heap)
           | Inl message \<Rightarrow> (Reject 503 message, table, heap))
        else
    (case RouteKey_validate namespace module of
       Inl error \<Rightarrow> (Reject 400 (Invalid_Internal host error), table, heap)
     | Inr _ \<Rightarrow>
    (case table_get table namespace module of
       None \<Rightarrow>
        (case classify_external_host host allowed of
           Inr h \<Rightarrow> (External h uri, table, heap)
         | Inl message \<Rightarrow> (Reject 503 message, table, heap))
     | Some g \<Rightarrow>
    (case select_candidate fs now g requested heap of
       (Some selected, g', heap') \<Rightarrow>
         (Internal (rg_namespace g) (rg_module g) selected, table_put table namespace module g', heap')
     | (None, g', heap') \<Rightarrow>
         (Reject 503 (case requested of
             Requirement selector raw \<Rightarrow> No_Version (rg_namespace g) (rg_module g) raw
           | Unpinned \<Rightarrow> No_Module (rg_namespace g) (rg_module g)),
          table_put table namespace module g', heap')))))))"

section \<open>The routing service\<close>

record ExternalEgress =
  eg_host :: string
  eg_dest_uri :: Uri

record Request =
  req_method :: string
  req_uri :: Uri
  req_headers :: HeaderMap
  req_body :: string
  ext_route :: "ResolvedRoute option"
  ext_egress :: "ExternalEgress option"

datatype error_message =
    Msg_Version version_header_error
  | Msg_Reject reject_reason
  | Msg string
  | Msg_Json "(string \<times> string) list"

record Response =
  resp_status :: nat
  resp_headers :: HeaderMap
  resp_message :: "error_message option"
  resp_body :: string

definition error_response :: "nat \<Rightarrow> error_message \<Rightarrow> Response" where
  "error_response status msg =
    \<lparr>resp_status = status, resp_headers = [], resp_message = Some msg, resp_body = []\<rparr>"

definition inject_routing_headers :: "string \<Rightarrow> string \<Rightarrow> string \<Rightarrow> Request \<Rightarrow> Request" where
  "inject_routing_headers namespace module version req =
    req\<lparr>req_headers := hdr_insert WR_VERSION version
        (hdr_insert WR_MODULE module (hdr_insert WR_NAMESPACE namespace (req_headers req)))\<rparr>"

record 'v routing_http =
  rh_to_str :: "string \<Rightarrow> string option"
  rh_uri :: "string \<Rightarrow> Uri option"
  rh_req :: "string \<Rightarrow> ('v \<Rightarrow> bool) option"

text \<open>Either the response the layer gives itself, or the request it hands to the next layer.\<close>

definition routing_call ::
    "'m Failsafe \<Rightarrow> 'v routing_http \<Rightarrow> nat \<Rightarrow> string list \<Rightarrow> Request \<Rightarrow> ('v, 'm) CachedRoutingTable \<Rightarrow>
      (Response + Request) \<times> ('v, 'm) CachedRoutingTable" where
  "routing_call fs http now allowed req c =
    (case parse_requested_version (rh_to_str http) (rh_req http) (hdr_get (req_headers req) WR_VERSION) of
       Inl message \<Rightarrow> (Inl (error_response 400 (Msg_Version message)), c)
     | Inr requested \<Rightarrow>
        let dest_uri = Option.bind (Option.bind (hdr_get (req_headers req) WR_DESTINATION) (rh_to_str http)) (rh_uri http) in
        case route_destination fs now (crt_table c) allowed dest_uri requested (snd (crt_breakers c)) of
          (outcome, table', heap') \<Rightarrow>
            ((case outcome of
                Internal namespace module selected \<Rightarrow>
                  Inr ((inject_routing_headers namespace module (sc_version selected) req)
                    \<lparr>ext_route := Some (sc_route selected)\<rparr>)
              | External host uri \<Rightarrow>
                  Inr (req\<lparr>ext_egress := Some \<lparr>eg_host = host, eg_dest_uri = uri\<rparr>\<rparr>)
              | Reject status message \<Rightarrow> Inl (error_response status (Msg_Reject message))),
             c\<lparr>crt_table := table', crt_breakers := (fst (crt_breakers c), heap')\<rparr>))"

section \<open>Domain patterns, declaratively\<close>

lemma domain_matches_wildcard:
  assumes "CHR ''*'' \<in> set pattern"
  shows "domain_matches pattern host \<longleftrightarrow>
    (\<exists>sfx label. pattern = ''*.'' @ sfx \<and> label \<noteq> [] \<and> CHR ''.'' \<notin> set label \<and> host = label @ ''.'' @ sfx)"
    (is "?lhs \<longleftrightarrow> ?rhs")
proof
  assume ?lhs
  then obtain pre sfx where *: "pattern = ''*.'' @ sfx" "host = pre @ sfx" "length pre \<ge> 2"
      "suffix ''.'' pre" "CHR ''.'' \<notin> set (take (length pre - 1) pre)"
    using assms
    by (auto simp: domain_matches_def strip_prefix_def strip_suffix_def ends_with_def prefix_def suffix_def
        split: if_splits option.splits)
  then obtain label where "pre = label @ ''.''" by (auto simp: suffix_def)
  with * show ?rhs by (intro exI [of _ sfx] exI [of _ label]) auto
next
  assume ?rhs
  then obtain sfx label where *: "pattern = ''*.'' @ sfx" "label \<noteq> []" "CHR ''.'' \<notin> set label"
      "host = label @ ''.'' @ sfx" by blast
  then have "strip_prefix ''*.'' pattern = Some sfx" by (simp add: strip_prefix_def)
  moreover have "strip_suffix sfx host = Some (label @ ''.'')"
    using * by (simp add: strip_suffix_def suffix_def)
  ultimately show ?lhs
    using * assms by (auto simp: domain_matches_def ends_with_def suffix_def Suc_le_eq)
qed

section \<open>Candidate choice\<close>

lemma permitted_scan_subset:
  "set (fst (permitted_scan fs now cands is heap)) \<subseteq> set is"
proof (induction "is" arbitrary: heap)
  case (Cons i "is")
  then show ?case by (auto simp: Let_def split: prod.splits if_splits) (metis fst_conv subsetD)+
qed simp

lemma permitted_scan_heap [simp]: "length (snd (permitted_scan fs now cands is heap)) = length heap"
proof (induction "is" arbitrary: heap)
  case (Cons i "is")
  obtain p cell where "is_call_permitted fs now (heap ! ic_breaker (cands ! i)) = (p, cell)"
    by (cases "is_call_permitted fs now (heap ! ic_breaker (cands ! i))")
  then show ?case using Cons [of "heap[ic_breaker (cands ! i) := cell]"]
    by (simp add: Let_def split: prod.splits) (metis snd_conv)
qed simp

lemma choose_None: "fst (choose_candidate fs now cands es counter heap) = None \<longleftrightarrow> es = []"
  by (simp add: choose_candidate_def Let_def split: prod.splits)

text \<open>The candidates the round robin runs over.\<close>

definition pool :: "nat list \<Rightarrow> nat list \<Rightarrow> nat list" where
  "pool permitted eligible = (if permitted = [] then eligible else permitted)"

lemma choose_eq:
  assumes "es \<noteq> []" "permitted_scan fs now cands es heap = (ps, h)"
  shows "choose_candidate fs now cands es counter heap =
    (Some (pool ps es ! (unat counter mod length (pool ps es))), counter + 1, h)"
  using assms by (simp add: choose_candidate_def pool_def)

lemma choose_Some:
  assumes "choose_candidate fs now cands es counter heap = (Some i, counter', heap')"
  shows "i \<in> set es" "counter' = counter + 1" "length heap' = length heap"
    "fst (permitted_scan fs now cands es heap) \<noteq> [] \<Longrightarrow> i \<in> set (fst (permitted_scan fs now cands es heap))"
proof -
  obtain ps h where scan: "permitted_scan fs now cands es heap = (ps, h)"
    by (cases "permitted_scan fs now cands es heap")
  have es: "es \<noteq> []" using assms by (auto simp: choose_candidate_def)
  note eq = choose_eq [OF es scan, of counter]
  have "pool ps es \<noteq> []" using es by (simp add: pool_def)
  then have i: "i \<in> set (pool ps es)" using eq assms by auto
  then show "i \<in> set es"
    using permitted_scan_subset [of fs now cands es heap] scan by (auto simp: pool_def split: if_splits)
  show "counter' = counter + 1" using eq assms by simp
  show "length heap' = length heap"
    using eq assms scan permitted_scan_heap [of fs now cands es heap] by simp
  show "fst (permitted_scan fs now cands es heap) \<noteq> [] \<Longrightarrow> i \<in> set (fst (permitted_scan fs now cands es heap))"
    using i scan by (simp add: pool_def)
qed

lemma choose_heap_length:
  assumes "choose_candidate fs now cands es counter heap = (i, counter', heap')"
  shows "length heap' = length heap"
proof (cases i)
  case None
  then have "es = []" using assms choose_None by (metis fst_conv)
  then show ?thesis using assms by (simp add: choose_candidate_def)
next
  case (Some k)
  then show ?thesis using assms choose_Some(3) by blast
qed

text \<open>A run of selections at one instant.\<close>

primrec choose_run :: "'m Failsafe \<Rightarrow> nat \<Rightarrow> IndexedCandidate list \<Rightarrow> nat list \<Rightarrow> nat \<Rightarrow> 64 word \<Rightarrow>
    'm breaker_heap \<Rightarrow> nat option list" where
  "choose_run fs now cands es 0 counter heap = []"
| "choose_run fs now cands es (Suc n) counter heap =
    (case choose_candidate fs now cands es counter heap of (chosen, counter', heap') \<Rightarrow>
      chosen # choose_run fs now cands es n counter' heap')"

lemma choose_run_slots:
  assumes "es \<noteq> []" "\<And>h. fst (permitted_scan fs now cands es h) = ps"
    and "unat counter + n \<le> 2 ^ 64"
  shows "choose_run fs now cands es n counter heap =
    map (\<lambda>k. Some (pool ps es ! ((unat counter + k) mod length (pool ps es)))) [0..<n]"
  using assms(3)
proof (induction n arbitrary: counter heap)
  case (Suc n)
  obtain h where scan: "permitted_scan fs now cands es heap = (ps, h)"
    using assms(2) [of heap] by (cases "permitted_scan fs now cands es heap") auto
  have slots: "choose_run fs now cands es n (counter + 1) h =
      map (\<lambda>k. Some (pool ps es ! ((unat counter + Suc k) mod length (pool ps es)))) [0..<n]"
  proof (cases "n = 0")
    case False
    then have "unat (counter + 1) = unat counter + 1"
      using Suc.prems by (simp add: unat_word_ariths(1))
    then show ?thesis using Suc.IH [of "counter + 1" h] Suc.prems by simp
  qed simp
  have "choose_run fs now cands es (Suc n) counter heap =
      Some (pool ps es ! (unat counter mod length (pool ps es))) # choose_run fs now cands es n (counter + 1) h"
    using choose_eq [OF assms(1) scan] by simp
  also have "\<dots> = map (\<lambda>k. Some (pool ps es ! ((unat counter + k) mod length (pool ps es)))) (0 # map Suc [0..<n])"
    unfolding slots by simp
  finally show ?case by (simp only: upt_conv_Cons map_Suc_upt zero_less_Suc)
qed simp

section \<open>Selection\<close>

lemma find_version_Some:
  assumes "find_version sel g = Some k"
  shows "k < length (version_groups g)" "sel (parsed_version (version_groups g ! k))"
    "\<And>j. j < k \<Longrightarrow> \<not> sel (parsed_version (version_groups g ! j))"
  using assms by (auto simp: find_version_def find_Some_iff)

lemma find_version_None:
  "find_version sel g = None \<longleftrightarrow> (\<forall>vg \<in> set (version_groups g). \<not> sel (parsed_version vg))"
  by (simp add: find_version_def find_None_iff all_set_conv_all_nth)

lemma wf_group_indexes:
  assumes "wf_group g" "k < length (version_groups g)"
  shows "candidate_indexes (version_groups g ! k) =
      filter (\<lambda>j. version_group_index (candidates g ! j) = k) [0..<length (candidates g)]"
    and "candidate_indexes (version_groups g ! k) \<noteq> []"
  using assms by (auto simp: wf_group_def list_all_iff)


text \<open>What a request requires of a parsed version.\<close>

fun satisfies :: "'v RequestedVersion \<Rightarrow> 'v \<Rightarrow> bool" where
  "satisfies Unpinned v = True"
| "satisfies (Requirement sel raw) v = sel v"

lemma select_candidate_group:
  assumes "select_candidate fs now g requested heap = (r, g', heap')"
  shows "candidates g' = candidates g \<and> rg_namespace g' = rg_namespace g \<and> rg_module g' = rg_module g \<and>
    vg_shape g' = vg_shape g \<and> length heap' = length heap"
proof (cases requested)
  case Unpinned
  obtain i c h where ch:
    "choose_candidate fs now (candidates g) [0..<length (candidates g)] (all_versions_counter g) heap = (i, c, h)"
    by (metis prod.exhaust)
  have "length h = length heap" using ch by (rule choose_heap_length)
  then show ?thesis using assms Unpinned ch by (auto simp: select_candidate_def vg_shape_def)
next
  case (Requirement sel raw)
  show ?thesis
  proof (cases "find_version sel g")
    case None
    then show ?thesis using assms Requirement by (auto simp: select_candidate_def)
  next
    case (Some k)
    let ?vg = "version_groups g ! k"
    obtain i c h where ch:
      "choose_candidate fs now (candidates g) (candidate_indexes ?vg) (vg_counter ?vg) heap = (i, c, h)"
      by (metis prod.exhaust)
    have "length h = length heap" using ch by (rule choose_heap_length)
    moreover have "map f ((version_groups g)[k := ?vg\<lparr>vg_counter := c\<rparr>]) = map f (version_groups g)"
      if "f (?vg\<lparr>vg_counter := c\<rparr>) = f ?vg" for f :: "'a VersionGroup \<Rightarrow> 'a \<times> string \<times> nat list"
      using that by (metis list_update_id map_update)
    ultimately show ?thesis
      using assms Requirement Some ch by (auto simp: select_candidate_def Let_def vg_shape_def)
  qed
qed


lemma select_candidate_None:
  assumes "wf_group g"
  shows "fst (select_candidate fs now g requested heap) = None \<longleftrightarrow>
    (\<forall>vg \<in> set (version_groups g). \<not> satisfies requested (parsed_version vg))"
proof (cases requested)
  case Unpinned
  have "candidates g \<noteq> []" "list_all (\<lambda>c. version_group_index c < length (version_groups g)) (candidates g)"
    using assms by (simp_all add: wf_group_def)
  then have "version_groups g \<noteq> []" by (cases "candidates g") auto
  then obtain vg where "vg \<in> set (version_groups g)" by (meson list.set_sel(1))
  moreover have "fst (select_candidate fs now g Unpinned heap) \<noteq> None"
    using choose_None [of fs now "candidates g" "[0..<length (candidates g)]" "all_versions_counter g" heap]
      \<open>candidates g \<noteq> []\<close>
    by (auto simp: select_candidate_def split: prod.splits)
  ultimately show ?thesis using Unpinned by auto
next
  case (Requirement sel raw)
  show ?thesis
  proof (cases "find_version sel g")
    case None
    then show ?thesis using Requirement find_version_None [of sel g] by (simp add: select_candidate_def)
  next
    case (Some k)
    let ?vg = "version_groups g ! k"
    have "candidate_indexes ?vg \<noteq> []"
      using wf_group_indexes(2) [OF assms] find_version_Some(1) [OF Some] by blast
    then have "fst (select_candidate fs now g requested heap) \<noteq> None"
      using choose_None [of fs now "candidates g" "candidate_indexes ?vg" "vg_counter ?vg" heap] Requirement Some
      by (auto simp: select_candidate_def Let_def split: prod.splits)
    then show ?thesis
      using find_version_Some(1,2) [OF Some] Requirement by auto
  qed
qed

section \<open>The published table stays well formed\<close>

definition wf_entry :: "nat \<Rightarrow> string \<Rightarrow> string \<Rightarrow> ('v::linorder) RouteGroup \<Rightarrow> bool" where
  "wf_entry n ns m g \<longleftrightarrow> wf_group g \<and> rg_namespace g = ns \<and> rg_module g = m \<and>
    valid_name ns \<and> valid_name m \<and> list_all (\<lambda>c. ic_breaker c < n) (candidates g)"

definition cache_wf :: "('v::linorder, 'm) CachedRoutingTable \<Rightarrow> bool" where
  "cache_wf c \<longleftrightarrow> wf_breakers (crt_breakers c) \<and>
    (\<forall>ns m g. table_get (crt_table c) ns m = Some g \<longrightarrow> wf_entry (length (snd (crt_breakers c))) ns m g)"

lemma prepare_fold_wf:
  "wf_breakers reg \<Longrightarrow> wf_breakers (snd (fold (prepare_rule fs deps self_peer) rs (st, reg)))"
proof (induction rs arbitrary: st reg)
  case (Cons rule rs)
  obtain st' reg' where step: "prepare_rule fs deps self_peer rule (st, reg) = (st', reg')"
    by (cases "prepare_rule fs deps self_peer rule (st, reg)")
  have "wf_breakers reg'"
    using prepare_rule_registry [of fs deps self_peer rule st reg] Cons.prems step wf_resolve
    by (metis prod.collapse snd_conv)
  then show ?case using Cons.IH step by simp
qed simp

lemma from_proto_wf:
  assumes "from_proto fs deps table None reg self_peer = (t, fin)" "wf_breakers reg"
  shows "wf_breakers fin"
    and "table_get t ns m = Some g \<Longrightarrow> wf_entry (length (snd fin)) ns m g"
proof -
  let ?key = "\<lparr>rk_namespace = ns, rk_module = m\<rparr>"
  let ?ps = "prepared_for fin deps self_peer (rules table) ?key"
  show fin: "wf_breakers fin"
  proof -
    obtain st where "fold (prepare_rule fs deps self_peer) (rules table) (\<lparr>grouped = [], active = []\<rparr>, reg) = (st, fin)"
      using assms(1) by (auto simp: from_proto_def split: prod.splits)
    then show ?thesis
      using prepare_fold_wf [OF assms(2), of fs deps self_peer "rules table" "\<lparr>grouped = [], active = []\<rparr>"]
      by simp
  qed
  assume g: "table_get t ns m = Some g"
  then have bg: "build_group deps None ?key ?ps = Some g"
    using from_proto_get [OF assms(1)] by simp
  note wf = build_group_wf [OF bg prepared_for_headers]
  have member: "valid_name ns \<and> valid_name m \<and> pc_breaker p < length (snd fin)" if p: "p \<in> set ?ps" for p
  proof -
    obtain rule where rule: "accepted fin deps self_peer rule = Some (?key, p)"
      using p unfolding prepared_for_mem by blast
    have "\<exists>e. (dest_address (pc_destination p), e) \<in> set (entries (fst fin)) \<and> re_breaker e = pc_breaker p"
      using accepted_facts(10) [OF rule] by (auto simp: registry_entry_def dest: map_of_SomeD)
    then have "pc_breaker p < length (snd fin)"
      using fin by (auto simp: wf_breakers_def list_all_iff)
    moreover have "valid_name ns" "valid_name m"
      using accepted_facts(3-5) [OF rule] by simp_all
    ultimately show ?thesis by blast
  qed
  have "?ps \<noteq> []" using bg by auto
  then have "valid_name ns" "valid_name m" using member by (metis list.set_sel(1))+
  moreover have "list_all (\<lambda>h. h < length (snd fin)) (map ic_breaker (candidates g))"
    using wf member by (auto simp: list_all_iff)
  then have "list_all (\<lambda>c. ic_breaker c < length (snd fin)) (candidates g)"
    by (simp only: list.pred_map comp_def)
  ultimately show "wf_entry (length (snd fin)) ns m g"
    using wf by (simp add: wf_entry_def)
qed

lemma cache_wf_new: "cache_wf (CachedRoutingTable_new cfg self_peer)"
  by (simp add: cache_wf_def CachedRoutingTable_new_def wf_breakers_def CircuitBreakerRegistry_new_def
      table_get_def IndexedRoutingTable_empty_def)

lemma wf_entry_seed: "wf_entry n ns m g \<Longrightarrow> wf_entry n ns m (seed_group_counters g p)"
  by (simp add: wf_entry_def seed_group_wf)

lemma cache_wf_replace:
  assumes "cache_wf c"
  shows "cache_wf (snd (replace_table fs deps incoming c))"
proof (cases "crt_version c < rt_version incoming")
  case True
  obtain t reg heap where
    fp: "from_proto fs deps incoming None (crt_breakers c) (self_peer_address c) = (t, (reg, heap))"
    by (metis prod.exhaust)
  have wf: "wf_breakers (crt_breakers c)" using assms by (simp add: cache_wf_def)
  note wf' = from_proto_wf [OF fp wf]
  have "wf_entry (length heap) ns m g" if "table_get (seed_counters_from t (crt_table c)) ns m = Some g" for ns m g
    using that wf'(2) [of ns m] by (auto simp: table_get_seed wf_entry_seed split: option.splits)
  then show ?thesis
    using replace_newer [OF True fp] wf'(1) by (simp add: cache_wf_def wf_evict)
next
  case False
  then show ?thesis using assms by (simp add: replace_stale)
qed

lemma table_get_put:
  "table_get (table_put t ns m g) ns' m' =
    (if ns' = ns \<and> m' = m \<and> table_get t ns m \<noteq> None then Some g else table_get t ns' m')"
proof -
  have inner: "map_of (map (\<lambda>(k, old). (k, if k = m then g else old)) ms) k =
      (if k = m \<and> map_of ms m \<noteq> None then Some g else map_of ms k)" for ms k
    by (induction ms) auto
  have outer: "map_of (map (\<lambda>(n, ms). (n, if n = ns then f ms else ms)) bs) k =
      (if k = ns then map_option f (map_of bs ns) else map_of bs k)"
    for f :: "(string \<times> 'a RouteGroup) list \<Rightarrow> (string \<times> 'a RouteGroup) list" and bs k
    by (induction bs) auto
  show ?thesis
    unfolding table_get_def table_put_def
    by (auto simp: outer inner bind_map_option split: bind_splits option.splits)
qed

lemma wf_breakers_heap_length:
  "wf_breakers (r, heap) \<Longrightarrow> length heap' = length heap \<Longrightarrow> wf_breakers (r, heap')"
  by (simp add: wf_breakers_def)

lemma route_destination_table:
  assumes "route_destination fs now table allowed dest_uri requested heap = (outcome, table', heap')"
  shows "length heap' = length heap \<and> (table' = table \<or>
    (\<exists>ns m g g' s. table_get table ns m = Some g \<and> table' = table_put table ns m g' \<and>
      select_candidate fs now g requested heap = (s, g', heap')))"
  using assms select_candidate_group [of fs now _ requested heap]
  unfolding route_destination_def
  by (auto split: option.splits if_splits sum.splits prod.splits)

lemma cache_wf_routing_call:
  assumes "cache_wf c"
  shows "cache_wf (snd (routing_call fs http now allowed req c))"
proof (cases "parse_requested_version (rh_to_str http) (rh_req http) (hdr_get (req_headers req) WR_VERSION)")
  case (Inl e)
  then show ?thesis using assms by (simp add: routing_call_def)
next
  case (Inr requested)
  let ?uri = "Option.bind (Option.bind (hdr_get (req_headers req) WR_DESTINATION) (rh_to_str http)) (rh_uri http)"
  obtain outcome table' heap' where rd: "route_destination fs now (crt_table c) allowed ?uri requested
      (snd (crt_breakers c)) = (outcome, table', heap')" by (metis prod.exhaust)
  note tab = route_destination_table [OF rd]
  have "wf_entry (length (snd (crt_breakers c))) ns' m' g''"
    if "table_get table' ns' m' = Some g''" for ns' m' g''
    using tab
  proof (elim conjE disjE exE)
    assume "table' = crt_table c"
    then show ?thesis using that assms by (simp add: cache_wf_def)
  next
    fix ns m g g' s
    assume *: "table_get (crt_table c) ns m = Some g" "table' = table_put (crt_table c) ns m g'"
      "select_candidate fs now g requested (snd (crt_breakers c)) = (s, g', heap')"
    then have g: "wf_entry (length (snd (crt_breakers c))) ns m g" using assms by (simp add: cache_wf_def)
    then have "wf_entry (length (snd (crt_breakers c))) ns m g'"
      using select_candidate_group [OF *(3)] wf_group_cong [of g g'] by (simp add: wf_entry_def)
    then show ?thesis using that * assms by (auto simp: table_get_put cache_wf_def split: if_splits)
  qed
  then show ?thesis
    using Inr rd tab assms wf_breakers_heap_length [of "fst (crt_breakers c)" "snd (crt_breakers c)" heap']
    by (simp add: routing_call_def cache_wf_def)
qed

lemma valid_name_no_dot: "valid_name s \<Longrightarrow> CHR ''.'' \<notin> set s"
  by (auto simp: valid_name_def list_all_iff name_char_def ascii_simps)

lemma published_split:
  assumes "cache_wf c" "table_get (crt_table c) ns m = Some g"
  shows "wf_group g" "rg_namespace g = ns" "rg_module g = m" "valid_name ns" "valid_name m"
    "split_once (CHR ''.'') (ns @ ''.'' @ m) = Some (ns, m)" "CHR ''.'' \<notin> set m"
proof -
  have "wf_entry (length (snd (crt_breakers c))) ns m g" using assms by (simp add: cache_wf_def)
  then show "wf_group g" "rg_namespace g = ns" "rg_module g = m" "valid_name ns" "valid_name m"
    by (simp_all add: wf_entry_def)
  then show "split_once (CHR ''.'') (ns @ ''.'' @ m) = Some (ns, m)" "CHR ''.'' \<notin> set m"
    by (simp_all add: split_once_Some valid_name_no_dot)
qed

text \<open>The host after the first check of \<open>route_destination\<close>.\<close>

lemma route_destination_host:
  assumes "uri_host uri = Some host" "host \<noteq> []"
  shows "route_destination fs now table allowed (Some uri) requested heap =
    (case split_once (CHR ''.'') host of
       None \<Rightarrow>
        (case classify_external_host host allowed of
           Inr h \<Rightarrow> (External h uri, table, heap)
         | Inl _ \<Rightarrow> (Reject 400 (Missing_Namespace host), table, heap))
     | Some (namespace, module) \<Rightarrow>
        if CHR ''.'' \<in> set module \<or> (RouteKey_validate namespace module = Inr () \<and> table_get table namespace module = None) then
          (case classify_external_host host allowed of
             Inr h \<Rightarrow> (External h uri, table, heap)
           | Inl message \<Rightarrow> (Reject 503 message, table, heap))
        else case RouteKey_validate namespace module of
          Inl error \<Rightarrow> (Reject 400 (Invalid_Internal host error), table, heap)
        | Inr _ \<Rightarrow>
           (let g = the (table_get table namespace module) in
            case select_candidate fs now g requested heap of
              (Some selected, g', heap') \<Rightarrow>
                (Internal (rg_namespace g) (rg_module g) selected, table_put table namespace module g', heap')
            | (None, g', heap') \<Rightarrow>
                (Reject 503 (case requested of
                    Requirement selector raw \<Rightarrow> No_Version (rg_namespace g) (rg_module g) raw
                  | Unpinned \<Rightarrow> No_Module (rg_namespace g) (rg_module g)),
                 table_put table namespace module g', heap')))"
  using assms by (simp add: route_destination_def split: option.split sum.split)

lemma classify_external_Inr:
  "classify_external_host host allowed = Inr h \<longleftrightarrow>
    h = map to_ascii_lowercase host \<and> list_ex (\<lambda>pattern. domain_matches pattern h) allowed"
  by (auto simp: classify_external_host_def Let_def)

text \<open>The steps a proxy takes on its cache: refreshes and routed requests.\<close>

datatype proxy_step = Refresh RoutingTable | Route nat Request

fun proxy_run_step :: "'m Failsafe \<Rightarrow> 'v::linorder RoutingDeps \<Rightarrow> 'v routing_http \<Rightarrow> string list \<Rightarrow> proxy_step \<Rightarrow>
    ('v, 'm) CachedRoutingTable \<Rightarrow> ('v, 'm) CachedRoutingTable" where
  "proxy_run_step fs deps http allowed (Refresh t) c = snd (replace_table fs deps t c)"
| "proxy_run_step fs deps http allowed (Route now req) c = snd (routing_call fs http now allowed req c)"

lemma table_put_version [simp]: "irt_version (table_put t ns m g) = irt_version t"
  by (simp add: table_put_def)

lemma routing_call_version [simp]: "crt_version (snd (routing_call fs http now allowed req c)) = crt_version c"
  using route_destination_table [of fs now "crt_table c" allowed]
  by (auto simp: routing_call_def crt_version_def Let_def split: sum.splits prod.splits) fastforce+

interpretation proxy_runs: monotone_machine cache_wf "proxy_run_step fs deps http allowed" crt_version
  for fs :: "'m Failsafe" and deps :: "'v::linorder RoutingDeps" and http allowed
proof unfold_locales
  fix c :: "('v, 'm) CachedRoutingTable" and e
  show "cache_wf c \<Longrightarrow> cache_wf (proxy_run_step fs deps http allowed e c)"
    by (cases e) (simp_all add: cache_wf_replace cache_wf_routing_call)
  show "crt_version c \<le> crt_version (proxy_run_step fs deps http allowed e c)"
    by (cases e) (simp_all add: replace_version)
qed

section \<open>Properties\<close>

text \<open>
  An egress pattern without a star matches exactly itself; a pattern with a star matches only
  if it starts with a star label, and then exactly the hosts that put one non-empty label without
  dots in the star's place. The bare domain and deeper subdomains never match.
\<close>

theorem domain_matches_spec:
  "domain_matches pattern host \<longleftrightarrow>
    (if CHR ''*'' \<in> set pattern
     then \<exists>sfx label. pattern = ''*.'' @ sfx \<and> label \<noteq> [] \<and> CHR ''.'' \<notin> set label \<and> host = label @ ''.'' @ sfx
     else pattern = host)"
proof (cases "CHR ''*'' \<in> set pattern")
  case True
  then show ?thesis using domain_matches_wildcard by simp
next
  case False
  then show ?thesis by (simp add: domain_matches_def)
qed

text \<open>
  Round robin: while the breakers' answers do not change, as many consecutive selections as there
  are candidates in the pool use every candidate of the pool exactly once, in order, starting at the
  counter's slot. The pool is the permitted candidates, or all eligible ones when none is permitted.
\<close>

theorem round_robin_fair:
  assumes "es \<noteq> []" "\<And>h. fst (permitted_scan fs now cands es h) = permitted"
    and "unat counter + length (pool permitted es) \<le> 2 ^ 64"
  shows "choose_run fs now cands es (length (pool permitted es)) counter heap =
    map Some (rotate (unat counter mod length (pool permitted es)) (pool permitted es))"
proof -
  let ?p = "pool permitted es"
  have "?p \<noteq> []" using assms(1) by (simp add: pool_def)
  have "choose_run fs now cands es (length ?p) counter heap =
      map (\<lambda>k. Some (?p ! ((unat counter + k) mod length ?p))) [0..<length ?p]"
    using assms by (intro choose_run_slots)
  also have "\<dots> = map Some (rotate (unat counter mod length ?p) ?p)"
    using \<open>?p \<noteq> []\<close> by (intro nth_equalityI) (simp_all add: nth_rotate mod_simps)
  finally show ?thesis .
qed

definition open_failsafe :: "unit Failsafe" where
  "open_failsafe = \<lparr>fs_new = \<lambda>_ _. (), fs_is_call_permitted = \<lambda>_ m. (True, m, []),
    fs_on_success = \<lambda>_ m. (m, []), fs_on_error = \<lambda>_ m. (m, [])\<rparr>"

definition sample_candidates :: "IndexedCandidate list" where
  "sample_candidates = map (\<lambda>i. \<lparr>ic_destination = LocalEngine (ForwardTarget_new (\<lambda>_. None) ''http://e''),
    ic_breaker = i, version_group_index = 0\<rparr>) [0, 1, 2]"

definition sample_heap :: "unit breaker_heap" where
  "sample_heap = replicate 3 (build_engine_breaker open_failsafe 5 30)"

theorem round_robin_fair_witness:
  "choose_run open_failsafe 0 sample_candidates [0, 1, 2] 3 5 sample_heap = [Some 2, Some 0, Some 1]"
proof -
  have "fst (permitted_scan open_failsafe 0 sample_candidates [0, 1, 2] h) = [0, 1, 2]" for h
    by (simp add: is_call_permitted_def open_failsafe_def Let_def split: prod.splits)
  note fair = round_robin_fair [of "[0, 1, 2]" open_failsafe 0 sample_candidates "[0, 1, 2]" 5 sample_heap, OF _ this]
  have pool: "pool [0, 1, 2] [0, 1, 2] = [0, 1, 2]" "length [0, 1, 2 :: nat] = 3" by (simp_all add: pool_def)
  have "unat (5 :: 64 word) + 3 \<le> 2 ^ 64" by simp
  then have "choose_run open_failsafe 0 sample_candidates [0, 1, 2] 3 5 sample_heap =
      map Some (rotate (unat (5 :: 64 word) mod 3) [0, 1, 2])"
    by (intro fair [unfolded pool]) simp_all
  also have "\<dots> = [Some 2, Some 0, Some 1]" by code_simp
  finally show ?thesis .
qed


definition sample_uri :: "string \<Rightarrow> Uri" where
  "sample_uri host = \<lparr>scheme_str = Some ''http'', uri_authority = Some host, uri_host = Some host,
    port_u16 = None, uri_path = ''/'', uri_query = None\<rparr>"

lemma sample_cache_wf: "cache_wf sample_cache"
  by (simp add: sample_cache_def cache_wf_replace cache_wf_new)


text \<open>
  A request leaves for an external host only when that host, in lower case, matches an egress
  pattern, and never when its host names a published module: published modules take precedence over
  egress patterns.
\<close>

theorem route_external_allowed:
  assumes "cache_wf c" "uri_host uri = Some host"
    and "route_destination fs now (crt_table c) allowed (Some uri) requested heap = (External h u, t', heap')"
  shows "u = uri \<and> h = map to_ascii_lowercase host \<and>
    list_ex (\<lambda>pattern. domain_matches pattern h) allowed \<and>
    (\<nexists>ns m g. host = ns @ ''.'' @ m \<and> table_get (crt_table c) ns m = Some g)"
proof -
  have host: "host \<noteq> []" using assms(2,3) by (auto simp: route_destination_def)
  note rd = assms(3) [unfolded route_destination_host [OF assms(2) host]]
  have "u = uri \<and> classify_external_host host allowed = Inr h"
    using rd by (auto simp: Let_def split: option.splits sum.splits if_splits prod.splits)
  moreover have False if pub: "host = ns @ ''.'' @ m" "table_get (crt_table c) ns m = Some g" for ns m g
    using rd pub published_split [OF assms(1) pub(2)]
    by (auto simp: Let_def RouteKey_validate_ok split: sum.splits prod.splits option.splits)
  ultimately show ?thesis unfolding classify_external_Inr by blast
qed

theorem route_external_allowed_witness:
  "list_ex (\<lambda>pattern. domain_matches pattern ''api.openai.com'') (with_egress [''*.OpenAI.com''])"
proof -
  let ?r = "route_destination sample_failsafe 0 (crt_table sample_cache) (with_egress [''*.OpenAI.com''])
    (Some (sample_uri ''API.openai.com'')) (Unpinned :: nat RequestedVersion) (snd (crt_breakers sample_cache))"
  have "fst ?r = External ''api.openai.com'' (sample_uri ''API.openai.com'')" by code_simp
  then have r: "?r = (External ''api.openai.com'' (sample_uri ''API.openai.com''), fst (snd ?r), snd (snd ?r))"
    by (metis prod.collapse)
  have "uri_host (sample_uri ''API.openai.com'') = Some ''API.openai.com''" by (simp add: sample_uri_def)
  from route_external_allowed [OF sample_cache_wf this r] show ?thesis by blast
qed

text \<open>
  A published module is refused only for its versions: when the destination host names a
  published module, the outcome is an internal route if some published version satisfies the
  request, and otherwise a 503 rejection.
\<close>

theorem route_published_module:
  assumes "cache_wf c" "uri_host uri = Some (ns @ ''.'' @ m)" "table_get (crt_table c) ns m = Some g"
  shows "case fst (route_destination fs now (crt_table c) allowed (Some uri) requested heap) of
      Internal ns' m' s \<Rightarrow> ns' = ns \<and> m' = m
    | External h u \<Rightarrow> False
    | Reject status reason \<Rightarrow> status = 503 \<and>
        (\<forall>vg \<in> set (version_groups g). \<not> satisfies requested (parsed_version vg))"
proof -
  note pub = published_split [OF assms(1,3)]
  have "RouteKey_validate ns m = Inr ()" using pub by (simp add: RouteKey_validate_ok)
  moreover obtain r g' heap' where "select_candidate fs now g requested heap = (r, g', heap')"
    by (metis prod.exhaust)
  ultimately show ?thesis
    using select_candidate_None [OF pub(1), of fs now requested heap] pub assms(3)
    by (cases r) (simp_all add: route_destination_host [OF assms(2)] Let_def)
qed

theorem route_published_module_witness:
  "\<not> (case fst (route_destination sample_failsafe 0 (crt_table sample_cache) [''shop.svc'']
      (Some (sample_uri (''shop'' @ ''.'' @ ''svc''))) (Requirement (\<lambda>v :: nat. v > 9) ''>9'') (snd (crt_breakers sample_cache))) of
      External h u \<Rightarrow> True | _ \<Rightarrow> False)"
proof -
  let ?g = "the (table_get (crt_table sample_cache) ''shop'' ''svc'')"
  have g: "table_get (crt_table sample_cache) ''shop'' ''svc'' = Some ?g" by code_simp
  have "uri_host (sample_uri (''shop'' @ ''.'' @ ''svc'')) = Some (''shop'' @ ''.'' @ ''svc'')"
    by (simp add: sample_uri_def)
  from route_published_module [OF sample_cache_wf this g, where fs = sample_failsafe and now = 0
      and allowed = "[''shop.svc'']" and requested = "Requirement (\<lambda>v. v > 9) ''>9''"
      and heap = "snd (crt_breakers sample_cache)"]
  show ?thesis by (auto split: RouteOutcome.splits)
qed

text \<open>
  From a new cache, any sequence of refreshes and routed requests leaves the cache well formed:
  every published group satisfies the group invariant under its own route key, names only valid
  names, and refers only to existing breakers, so no index of the request path is out of range; and
  the installed version never decreases.
\<close>

theorem proxy_cache_invariant:
  "cache_wf (fold (proxy_run_step fs deps http allowed) steps (CachedRoutingTable_new cfg self_peer)) \<and>
   crt_version (fold (proxy_run_step fs deps http allowed) steps (CachedRoutingTable_new cfg self_peer)) \<le>
     crt_version (fold (proxy_run_step fs deps http allowed) (steps @ later) (CachedRoutingTable_new cfg self_peer))"
  using proxy_runs.run_inv [OF cache_wf_new] proxy_runs.run_rank_between [OF cache_wf_new] by blast

end
