(* ===== verification/Forwarding.thy ===== *)
theory Forwarding
  imports Routing_Layer
begin

text \<open>
  The request path around routing: the ingress layer (\<open>layers/ingress.rs\<close>) that maps public paths to
  configured targets, the egress service (\<open>layers/egress.rs\<close>) that sends to allowed external hosts, and
  the forward service (\<open>layers/forward.rs\<close>) that sends to an engine or a peer proxy and reports the
  outcome to the circuit breaker; with the external routes of \<open>config.rs\<close>.

  Parameters: the HTTP clients (a request gives an error or a response), the trace-context injector,
  the path router, the URI assembly and method parser of the HTTP crate.
\<close>

section \<open>External routes\<close>

record RouteDeps =
  rd_pattern_ok :: "string \<Rightarrow> bool"
  rd_method :: "string \<Rightarrow> string option"
  rd_trim :: "string \<Rightarrow> string"

datatype config_error =
    Path_Must_Start_With_Slash
  | Bad_Pattern string
  | Bad_Method string
  | Bad_Rpc_Path
  | Bad_Target identity_error

definition RoutePattern_try_from :: "RouteDeps \<Rightarrow> string \<Rightarrow> config_error + string" where
  "RoutePattern_try_from deps path =
    (if \<not> starts_with ''/'' path then Inl Path_Must_Start_With_Slash
     else if \<not> rd_pattern_ok deps path then Inl (Bad_Pattern path)
     else Inr path)"

datatype MethodSet = All_Methods | Only_Methods "string list"


definition to_ascii_uppercase :: "char \<Rightarrow> char" where
  "to_ascii_uppercase c = (if is_ascii_lowercase c then char_of (code c - 32) else c)"

primrec parse_methods :: "RouteDeps \<Rightarrow> string list \<Rightarrow> string list \<Rightarrow> config_error + string list" where
  "parse_methods deps [] parsed = Inr parsed"
| "parse_methods deps (x # xs) parsed =
    (case rd_method deps (map to_ascii_uppercase x) of
       None \<Rightarrow> Inl (Bad_Method x)
     | Some y \<Rightarrow> parse_methods deps xs (if y \<in> set parsed then parsed else parsed @ [y]))"

definition MethodSet_try_from_strings :: "RouteDeps \<Rightarrow> string list \<Rightarrow> config_error + MethodSet" where
  "MethodSet_try_from_strings deps methods =
    (if methods = [] then Inr All_Methods
     else and_then (parse_methods deps methods []) (\<lambda>parsed. Inr (Only_Methods parsed)))"

record ModuleTarget =
  mt_namespace :: string
  mt_module :: string

definition ModuleTarget_new :: "RouteDeps \<Rightarrow> string \<Rightarrow> string \<Rightarrow> config_error + ModuleTarget" where
  "ModuleTarget_new deps namespace module =
    (case Namespace_parse (rd_trim deps namespace) of
       Inl e \<Rightarrow> Inl (Bad_Target e)
     | Inr n \<Rightarrow>
        (case ModuleName_parse (rd_trim deps module) of
           Inl e \<Rightarrow> Inl (Bad_Target e)
         | Inr m \<Rightarrow> Inr \<lparr>mt_namespace = n, mt_module = m\<rparr>))"

definition RpcPath_try_from :: "string \<Rightarrow> config_error + string" where
  "RpcPath_try_from path =
    (let segments = split_on (CHR ''/'') (case strip_prefix ''/'' path of None \<Rightarrow> [] | Some r \<Rightarrow> r);
         service = (case seg segments 0 of None \<Rightarrow> [] | Some s \<Rightarrow> s);
         method = (case seg segments 1 of None \<Rightarrow> [] | Some s \<Rightarrow> s) in
     if service \<noteq> [] \<and> method \<noteq> [] \<and> seg segments 2 = None \<and>
        \<not> list_ex (\<lambda>c. c \<in> {CHR ''?'', CHR ''#'', CHR ''{'', CHR ''}''}) path
     then Inr path else Inl Bad_Rpc_Path)"

record ExternalRoute =
  er_path :: string
  er_rpc_path :: string
  er_methods :: MethodSet
  er_target :: ModuleTarget

definition ExternalRoute_new ::
    "RouteDeps \<Rightarrow> string \<Rightarrow> string \<Rightarrow> string list \<Rightarrow> string \<Rightarrow> string \<Rightarrow> config_error + ExternalRoute" where
  "ExternalRoute_new deps path rpc_path methods module namespace =
    and_then (RoutePattern_try_from deps path) (\<lambda>p.
    and_then (RpcPath_try_from rpc_path) (\<lambda>r.
    and_then (MethodSet_try_from_strings deps methods) (\<lambda>ms.
    and_then (ModuleTarget_new deps namespace module) (\<lambda>t.
      Inr \<lparr>er_path = p, er_rpc_path = r, er_methods = ms, er_target = t\<rparr>))))"

text \<open>The indices of the routes of each pattern, in configuration order.\<close>

definition external_route_paths :: "ExternalRoute list \<Rightarrow> (string \<times> nat list) list" where
  "external_route_paths routes =
    fold (\<lambda>(i, r) acc. alist_put (er_path r)
        (case map_of acc (er_path r) of None \<Rightarrow> [i] | Some is \<Rightarrow> is @ [i]) acc)
      (List.enumerate 0 routes) []"

section \<open>Ingress\<close>

record http_deps =
  hd_to_str :: "string \<Rightarrow> string option"
  hd_header_ok :: "string \<Rightarrow> bool"
  hd_path_query :: "string \<Rightarrow> (string \<times> string option) option"
  hd_from_parts :: "Uri \<Rightarrow> Uri option"
  hd_request_pq :: "Uri \<Rightarrow> (string \<times> string option) option"

definition replace_path :: "http_deps \<Rightarrow> Uri \<Rightarrow> string \<times> string option \<Rightarrow> Uri option" where
  "replace_path deps uri pq = hd_from_parts deps (uri\<lparr>uri_path := fst pq, uri_query := snd pq\<rparr>)"



section \<open>Egress\<close>

type_synonym http_client = "Request \<Rightarrow> string + Response"

text \<open>Text in single quotation marks.\<close>

definition quoted :: "string \<Rightarrow> string" where
  "quoted s = char_of (39 :: nat) # s @ [char_of (39 :: nat)]"

definition egress_patterns :: "string list option \<Rightarrow> string list option" where
  "egress_patterns config = map_option (map (map to_ascii_lowercase)) config"

datatype call_log = Sent_External Request | Sent_Engine Request | Sent_Peer Request

definition egress_call ::
    "http_client \<Rightarrow> (HeaderMap \<Rightarrow> HeaderMap) \<Rightarrow> string list option \<Rightarrow> Request \<Rightarrow> ExternalEgress \<Rightarrow>
      (string + Response) \<times> call_log list" where
  "egress_call client inject config req egress =
    (case config of
       None \<Rightarrow> (Inr (error_response 503 (Msg ''egress not configured'')), [])
     | Some allowed_domains \<Rightarrow>
        if \<not> list_ex (\<lambda>pattern. domain_matches pattern (eg_host egress)) allowed_domains
        then (Inr ((error_response 403 (Msg_Json [(''error'', ''egress_not_allowed''),
               (''detail'', ''domain '' @ quoted (eg_host egress) @ '' is not in the egress allowlist'')]))
               \<lparr>resp_headers := [(''content-type'', ''application/json'')]\<rparr>), [])
        else
         let egress_req = req\<lparr>req_headers := inject (strip_before_egress (req_headers req)),
               req_uri := eg_dest_uri egress\<rparr> in
         (map_err (\<lambda>e. ''egress forward failed: '' @ e) (client egress_req), [Sent_External egress_req]))"

section \<open>Forwarding\<close>

datatype forward_error = Missing_Route | Bad_Forward_Uri string | Uri_Assembly

definition assemble_forward_uri ::
    "http_deps \<Rightarrow> ForwardTarget \<Rightarrow> string \<times> string option \<Rightarrow> forward_error + Uri" where
  "assemble_forward_uri deps target path_and_query =
    and_then (ok_or (Bad_Forward_Uri (ft_address target)) (ft_base_uri target)) (\<lambda>base.
      ok_or Uri_Assembly (replace_path deps base path_and_query))"

definition is_server_error :: "nat \<Rightarrow> bool" where
  "is_server_error status \<longleftrightarrow> 500 \<le> status \<and> status < 600"

record clients =
  local_client :: http_client
  mtls_client :: http_client
  inject_context :: "HeaderMap \<Rightarrow> HeaderMap"

definition forward_headers :: "Destination \<Rightarrow> HeaderMap \<Rightarrow> HeaderMap" where
  "forward_headers destination headers =
    (case destination of
       LocalEngine _ \<Rightarrow> strip_before_engine headers
     | RemoteProxy _ \<Rightarrow> hdr_insert WR_VIA_PROXY ''1'' headers)"

definition forward_send :: "clients \<Rightarrow> Destination \<Rightarrow> Request \<Rightarrow> (string + Response) \<times> call_log list" where
  "forward_send cl destination req =
    (case destination of
       LocalEngine _ \<Rightarrow> (map_err (\<lambda>e. ''forward failed: '' @ e) (local_client cl req), [Sent_Engine req])
     | RemoteProxy _ \<Rightarrow> (map_err (\<lambda>e. ''forward failed: '' @ e) (mtls_client cl req), [Sent_Peer req]))"

definition circuit_open_response :: "string \<Rightarrow> Response" where
  "circuit_open_response retry_after =
    (error_response 503 (Msg ''circuit open''))\<lparr>resp_headers := [(''retry-after'', retry_after)]\<rparr>"

text \<open>
  The forward service with the instants of its two breaker operations: the permission check and the
  report of the outcome. \<open>retry_after\<close> is the decimal form of the configured open duration.
\<close>

definition forward_call ::
    "'m Failsafe \<Rightarrow> http_deps \<Rightarrow> clients \<Rightarrow> string \<Rightarrow> nat \<Rightarrow> nat \<Rightarrow> Request \<Rightarrow> 'm breaker_heap \<Rightarrow>
      (forward_error + Response) \<times> call_log list \<times> 'm breaker_heap" where
  "forward_call fs deps cl retry_after t1 t2 req heap =
    (case ext_route req of
       None \<Rightarrow> (Inl Missing_Route, [], heap)
     | Some resolved \<Rightarrow>
        let path_and_query = (case hd_request_pq deps (req_uri req) of None \<Rightarrow> (''/'', None) | Some pq \<Rightarrow> pq);
            headers = forward_headers (rr_destination resolved) (req_headers req) in
        case assemble_forward_uri deps (dest_target (rr_destination resolved)) path_and_query of
          Inl e \<Rightarrow> (Inl e, [], heap)
        | Inr uri \<Rightarrow>
           let forward_req = req\<lparr>ext_route := None, req_uri := uri, req_headers := inject_context cl headers\<rparr>;
               h = rr_breaker resolved in
           case is_call_permitted fs t1 (heap ! h) of (permitted, cell) \<Rightarrow>
             if \<not> permitted then
               (Inr (if hd_header_ok deps retry_after then circuit_open_response retry_after
                     else error_response 503 (Msg ''circuit open'')), [], heap[h := cell])
             else
              (case forward_send cl (rr_destination resolved) forward_req of
                 (Inr response, log) \<Rightarrow>
                   if is_server_error (resp_status response) \<or> resp_status response = 429
                   then (Inr response, log, heap[h := on_error fs t2 cell])
                   else (Inr response, log, heap[h := on_success fs t2 cell])
               | (Inl error, log) \<Rightarrow>
                   (Inr (error_response 503 (Msg (''forward failed: '' @ error))), log,
                    heap[h := on_error fs t2 cell])))"

text \<open>The egress service: an external request is handled here, any other goes to the forward service.\<close>

definition egress_service ::
    "'m Failsafe \<Rightarrow> http_deps \<Rightarrow> clients \<Rightarrow> http_client \<Rightarrow> string list option \<Rightarrow> string \<Rightarrow> nat \<Rightarrow> nat \<Rightarrow>
      Request \<Rightarrow> 'm breaker_heap \<Rightarrow> (string + forward_error + Response) \<times> call_log list \<times> 'm breaker_heap" where
  "egress_service fs deps cl ext_client config retry_after t1 t2 req heap =
    (case ext_egress req of
       Some egress \<Rightarrow>
        (case egress_call ext_client (inject_context cl) config req egress of
           (Inl e, log) \<Rightarrow> (Inl e, log, heap)
         | (Inr r, log) \<Rightarrow> (Inr (Inr r), log, heap))
     | None \<Rightarrow>
        (case forward_call fs deps cl retry_after t1 t2 req heap of (r, log, heap') \<Rightarrow> (Inr r, log, heap')))"

section \<open>Stripped headers\<close>

lemma hdr_get_filter: "hdr_get (filter (\<lambda>(k, v). P k) h) n = (if P n then hdr_get h n else None)"
  by (induction h) (auto simp: hdr_get_def)



lemma stripped_engine: "hdr_get (strip_before_engine h) n =
    (if n \<in> set engine_internal_headers then None else hdr_get h n)"
  by (simp add: strip_engine_filter hdr_get_filter)

lemma reserved_names [simp]:
  "WR_DESTINATION \<in> set reserved_headers" "WR_SOURCE \<in> set reserved_headers" "WR_SOURCE \<noteq> WR_DESTINATION"
  by (simp_all add: reserved_headers_def WR_SOURCE_def WR_DESTINATION_def)

section \<open>Properties\<close>


definition sample_http :: http_deps where
  "sample_http = \<lparr>hd_to_str = Some, hd_header_ok = \<lambda>_. True, hd_path_query = \<lambda>s. Some (s, None),
    hd_from_parts = Some, hd_request_pq = \<lambda>u. Some (uri_path u, uri_query u)\<rparr>"

definition sample_request :: "HeaderMap \<Rightarrow> ResolvedRoute option \<Rightarrow> Request" where
  "sample_request headers route = \<lparr>req_method = ''POST'', req_uri = sample_uri ''public'', req_headers = headers,
    req_body = [], ext_route = route, ext_egress = None\<rparr>"





text \<open>
  Forwarding reports to exactly one breaker, the route's own: nothing is sent when the breaker
  refuses, and otherwise one request is sent, a server error, a 429 or a transport failure counts as a
  failure and any other response as a success. A request to a local engine carries no engine-internal
  header, a request to a peer proxy is marked as coming from a proxy.
\<close>

theorem forward_reports_to_breaker:
  assumes "forward_call fs deps cl retry_after t1 t2 req heap = (Inr resp, log, heap')"
    and "ext_route req = Some route" "rr_breaker route < length heap"
    and "\<And>h n. n \<in> set reserved_headers \<Longrightarrow> hdr_get (inject_context cl h) n = hdr_get h n"
    and "is_call_permitted fs t1 (heap ! rr_breaker route) = (permitted, cell)"
  shows "(\<forall>h. h \<noteq> rr_breaker route \<longrightarrow> heap' ! h = heap ! h) \<and>
    (if permitted then
       \<exists>sent result. forward_send cl (rr_destination route) sent = (result, log) \<and>
         heap' ! rr_breaker route =
           (case result of
              Inl e \<Rightarrow> on_error fs t2 cell
            | Inr r \<Rightarrow> if resp_status r = 429 \<or> (500 \<le> resp_status r \<and> resp_status r \<le> 599)
                then on_error fs t2 cell else on_success fs t2 cell) \<and>
         (case rr_destination route of
            LocalEngine _ \<Rightarrow> list_all (\<lambda>n. hdr_get (req_headers sent) n = None) engine_internal_headers
          | RemoteProxy _ \<Rightarrow> hdr_get (req_headers sent) WR_VIA_PROXY = Some ''1'')
     else log = [] \<and> resp_status resp = 503 \<and> heap' ! rr_breaker route = cell)"
proof -
  let ?pq = "case hd_request_pq deps (req_uri req) of None \<Rightarrow> (''/'', None) | Some pq \<Rightarrow> pq"
  obtain uri where uri: "assemble_forward_uri deps (dest_target (rr_destination route)) ?pq = Inr uri"
    using assms(1,2) by (auto simp: forward_call_def Let_def split: sum.splits)
  let ?sent = "req\<lparr>ext_route := None, req_uri := uri,
    req_headers := inject_context cl (forward_headers (rr_destination route) (req_headers req))\<rparr>"
  obtain result log' where send: "forward_send cl (rr_destination route) ?sent = (result, log')"
    by (metis prod.exhaust)
  have eng: "set engine_internal_headers \<subseteq> set reserved_headers"
    by (auto simp: engine_internal_headers_def reserved_headers_def)
  have via: "WR_VIA_PROXY \<in> set reserved_headers" by (simp add: reserved_headers_def)
  have headers: "case rr_destination route of
      LocalEngine _ \<Rightarrow> list_all (\<lambda>n. hdr_get (req_headers ?sent) n = None) engine_internal_headers
    | RemoteProxy _ \<Rightarrow> hdr_get (req_headers ?sent) WR_VIA_PROXY = Some ''1''"
    using eng via assms(4) by (auto simp: forward_headers_def stripped_engine list_all_iff subset_iff split: Destination.split)
  show ?thesis
  proof (cases permitted)
    case False
    then show ?thesis
      using assms(1,2,3,5) uri
      by (auto simp: forward_call_def Let_def circuit_open_response_def error_response_def split: if_splits)
  next
    case True
    then have "log = log'"
      using assms(1,2,5) uri send
      by (auto simp: forward_call_def Let_def split: sum.splits if_splits)
    moreover have "heap' = heap[rr_breaker route := (case result of
              Inl e \<Rightarrow> on_error fs t2 cell
            | Inr r \<Rightarrow> if resp_status r = 429 \<or> (500 \<le> resp_status r \<and> resp_status r \<le> 599)
                then on_error fs t2 cell else on_success fs t2 cell)]"
      using assms(1,2,5) uri send True
      by (auto simp: forward_call_def Let_def is_server_error_def split: sum.splits if_splits)
    ultimately show ?thesis
      using True send headers assms(3) by auto
  qed
qed

theorem forward_reports_to_breaker_witness:
  "fst (snd (forward_call open_failsafe sample_http
      \<lparr>local_client = \<lambda>_. Inl ''refused'', mtls_client = \<lambda>_. Inl ''refused'', inject_context = id\<rparr> ''30'' 0 1
      (sample_request [(WR_SOURCE, ''shop'')] (Some \<lparr>rr_destination = LocalEngine
        \<lparr>ft_address = ''http://e1'', ft_base_uri = Some (sample_uri ''e1'')\<rparr>, rr_breaker = 1\<rparr>)) sample_heap)) \<noteq> []"
proof -
  let ?cl = "\<lparr>local_client = \<lambda>_. Inl ''refused'', mtls_client = \<lambda>_. Inl ''refused'', inject_context = id\<rparr>"
  let ?route = "\<lparr>rr_destination = LocalEngine \<lparr>ft_address = ''http://e1'', ft_base_uri = Some (sample_uri ''e1'')\<rparr>,
    rr_breaker = 1\<rparr>"
  let ?c = "forward_call open_failsafe sample_http ?cl ''30'' 0 1 (sample_request [(WR_SOURCE, ''shop'')] (Some ?route)) sample_heap"
  have "is_ok (fst ?c)"
    by (simp add: forward_call_def sample_request_def assemble_forward_uri_def replace_path_def sample_http_def
        is_call_permitted_def open_failsafe_def forward_send_def map_err_def Let_def)
  then obtain resp where "?c = (Inr resp, fst (snd ?c), snd (snd ?c))"
    by (metis is_ok_iff prod.collapse)
  from forward_reports_to_breaker [OF this, of ?route True] show ?thesis
    by (fastforce simp: sample_request_def sample_heap_def is_call_permitted_def open_failsafe_def forward_send_def)
qed

end
