(* ===== verification/Transcoding.thy ===== *)
theory Transcoding
  imports Routing_Cache Http_Headers
begin

text \<open>
  Public request bodies: \<open>wr-proxy/src/transcoding.rs\<close>, the schema cache \<open>wr-proxy/src/schema.rs\<close> and
  the schema validation layer's use of both. A body in protobuf, JSON or form encoding is turned into
  protobuf; form bodies are decoded field by field against the message descriptor.

  The reflection and JSON crates are parameters: descriptors are records of what the code reads from
  them, and decoding or encoding a message, parsing a media type and parsing a float are functions.
  Integer parsing of the standard library is defined here.
\<close>

section \<open>Standard library\<close>

primrec digits_value :: "string \<Rightarrow> nat \<Rightarrow> nat option" where
  "digits_value [] acc = Some acc"
| "digits_value (c # cs) acc =
    (if is_ascii_digit c then digits_value cs (acc * 10 + (code c - 48)) else None)"

text \<open>\<open>str::parse\<close> for an integer type with the given range; a minus sign needs a signed type.\<close>

definition parse_int :: "bool \<Rightarrow> int \<Rightarrow> int \<Rightarrow> string \<Rightarrow> int option" where
  "parse_int is_signed lo hi s =
    (let (neg, ds) = (case s of
        c # r \<Rightarrow> if c = CHR ''+'' then (False, r) else if c = CHR ''-'' \<and> is_signed then (True, r) else (False, s)
      | [] \<Rightarrow> (False, [])) in
     if ds = [] then None
     else case digits_value ds 0 of
       None \<Rightarrow> None
     | Some n \<Rightarrow> let v = (if neg then - int n else int n) in if lo \<le> v \<and> v \<le> hi then Some v else None)"

section \<open>Media types\<close>

datatype RequestRepresentation = Protobuf | Json | Form






section \<open>Form bodies\<close>

definition hex_value :: "char \<Rightarrow> nat option" where
  "hex_value byte =
    (let b = code byte in
     if 48 \<le> b \<and> b \<le> 57 then Some (b - 48)
     else if 97 \<le> b \<and> b \<le> 102 then Some (b - 97 + 10)
     else if 65 \<le> b \<and> b \<le> 70 then Some (b - 65 + 10)
     else None)"

datatype transcode_error =
    Malformed_Percent
  | Not_Utf8
  | Nested_Field
  | Unknown_Field string
  | Ambiguous_Field string
  | Unsupported_Field string
  | Oneof_Conflict string
  | Duplicate_Field string
  | Invalid_Scalar string
  | Form_Incompatible
  | Invalid_Protobuf
  | Invalid_Json

fun percent_decode :: "string \<Rightarrow> transcode_error + string" where
  "percent_decode [] = Inr []"
| "percent_decode (c # cs) =
    (if c = CHR ''+'' then and_then (percent_decode cs) (\<lambda>r. Inr (CHR '' '' # r))
     else if c = CHR ''%'' then
       (case cs of
          h # l # rest \<Rightarrow>
            (case (hex_value h, hex_value l) of
               (Some high, Some low) \<Rightarrow> and_then (percent_decode rest) (\<lambda>r. Inr (char_of (high * 16 + low) # r))
             | _ \<Rightarrow> Inl Malformed_Percent)
        | _ \<Rightarrow> Inl Malformed_Percent)
     else and_then (percent_decode cs) (\<lambda>r. Inr (c # r)))"

definition decode_form_component :: "string \<Rightarrow> transcode_error + string" where
  "decode_form_component encoded =
    and_then (percent_decode encoded) (\<lambda>decoded. if is_utf8 decoded then Inr decoded else Inl Not_Utf8)"

definition parse_form_pair :: "string \<Rightarrow> transcode_error + (string \<times> string)" where
  "parse_form_pair pair =
    (let (k, v) = (case split_once (CHR ''='') pair of None \<Rightarrow> (pair, []) | Some kv \<Rightarrow> kv) in
     and_then (decode_form_component k) (\<lambda>key.
     and_then (decode_form_component v) (\<lambda>value. Inr (key, value))))"

definition parse_form :: "string \<Rightarrow> transcode_error + (string \<times> string) list" where
  "parse_form body = try_map parse_form_pair (filter (\<lambda>p. p \<noteq> []) (split_on (CHR ''&'') body))"

section \<open>Fields\<close>

datatype Kind = KString | KBytes | KBool | KInt32 | KUint32 | KInt64 | KUint64 | KFloat | KDouble |
  KEnum "string list" | KMessage

record FieldDescriptor =
  fd_name :: string
  fd_json_name :: string
  fd_number :: nat
  fd_is_map :: bool
  fd_is_group :: bool
  fd_is_list :: bool
  fd_kind :: Kind
  fd_oneof :: "(string \<times> string) option"

type_synonym MessageDescriptor = "FieldDescriptor list"

datatype 'f json_value = JString string | JBool bool | JInt int | JFloat 'f | JArray "'f json_value list"

definition get_field_by_name :: "MessageDescriptor \<Rightarrow> string \<Rightarrow> FieldDescriptor option" where
  "get_field_by_name d key = List.find (\<lambda>f. fd_name f = key) d"

definition get_field_by_json_name :: "MessageDescriptor \<Rightarrow> string \<Rightarrow> FieldDescriptor option" where
  "get_field_by_json_name d key = List.find (\<lambda>f. fd_json_name f = key) d"

definition resolve_form_field :: "MessageDescriptor \<Rightarrow> string \<Rightarrow> transcode_error + FieldDescriptor" where
  "resolve_form_field descriptor key =
    (case (get_field_by_name descriptor key, get_field_by_json_name descriptor key) of
       (Some by_name, Some by_json_name) \<Rightarrow>
         if fd_number by_name \<noteq> fd_number by_json_name then Inl (Ambiguous_Field key) else Inr by_name
     | (Some field, None) \<Rightarrow> Inr field
     | (None, Some field) \<Rightarrow> Inr field
     | (None, None) \<Rightarrow> Inl (Unknown_Field key))"

text \<open>The float parser of the standard library: a finite value of single or double precision.\<close>

type_synonym 'f float_parse = "bool \<Rightarrow> string \<Rightarrow> 'f option"

definition float_to_json :: "'f float_parse \<Rightarrow> string \<Rightarrow> bool \<Rightarrow> 'f json_value option" where
  "float_to_json parse value single_precision =
    (if value \<in> {''NaN'', ''Infinity'', ''-Infinity''} then Some (JString value)
     else map_option JFloat (parse single_precision value))"

definition int_to_string :: "int \<Rightarrow> (nat \<Rightarrow> string) \<Rightarrow> string" where
  "int_to_string v dec = (if v < 0 then CHR ''-'' # dec (nat (- v)) else dec (nat v))"

definition form_scalar_to_json ::
    "'f float_parse \<Rightarrow> FieldDescriptor \<Rightarrow> string \<Rightarrow> transcode_error + 'f json_value" where
  "form_scalar_to_json fp field value =
    (let invalid = Invalid_Scalar (fd_name field);
         i32 = map_option JInt (parse_int True (- 2147483648) 2147483647 value) in
     case fd_kind field of
       KString \<Rightarrow> Inr (JString value)
     | KBytes \<Rightarrow> Inr (JString value)
     | KBool \<Rightarrow> if value = ''true'' then Inr (JBool True) else if value = ''false'' then Inr (JBool False)
         else Inl invalid
     | KInt32 \<Rightarrow> ok_or invalid i32
     | KUint32 \<Rightarrow> ok_or invalid (map_option JInt (parse_int False 0 4294967295 value))
     | KInt64 \<Rightarrow> ok_or invalid (map_option (\<lambda>v. JString (int_to_string v dec_string))
         (parse_int True (- 9223372036854775808) 9223372036854775807 value))
     | KUint64 \<Rightarrow> ok_or invalid (map_option (\<lambda>v. JString (int_to_string v dec_string))
         (parse_int False 0 18446744073709551615 value))
     | KFloat \<Rightarrow> ok_or invalid (float_to_json fp value True)
     | KDouble \<Rightarrow> ok_or invalid (float_to_json fp value False)
     | KEnum names \<Rightarrow> if value \<in> set names then Inr (JString value) else ok_or invalid i32
     | KMessage \<Rightarrow> Inl (Unsupported_Field (fd_name field)))"

record 'f form_state =
  submitted :: "(nat \<times> FieldDescriptor \<times> 'f json_value list) list"
  submitted_oneofs :: "(string \<times> nat) list"

definition check_oneof :: "FieldDescriptor \<Rightarrow> (string \<times> nat) list \<Rightarrow> transcode_error + (string \<times> nat) list" where
  "check_oneof field oneofs =
    (case fd_oneof field of
       None \<Rightarrow> Inr oneofs
     | Some (full_name, name) \<Rightarrow>
        (case map_of oneofs full_name of
           Some number \<Rightarrow> if number \<noteq> fd_number field then Inl (Oneof_Conflict name) else Inr oneofs
         | None \<Rightarrow> Inr (alist_put full_name (fd_number field) oneofs)))"

definition submit_field ::
    "'f float_parse \<Rightarrow> MessageDescriptor \<Rightarrow> string \<times> string \<Rightarrow> 'f form_state \<Rightarrow> transcode_error + 'f form_state" where
  "submit_field fp descriptor kv st =
    (let (key, value) = kv in
     if list_ex (\<lambda>c. c \<in> {CHR ''.'', CHR ''['', CHR '']''}) key then Inl Nested_Field
     else and_then (resolve_form_field descriptor key) (\<lambda>field.
       if fd_is_map field \<or> fd_is_group field \<or> fd_kind field = KMessage
       then Inl (Unsupported_Field (fd_name field))
       else and_then (check_oneof field (submitted_oneofs st)) (\<lambda>oneofs.
         and_then (form_scalar_to_json fp field value) (\<lambda>json.
         case map_of (submitted st) (fd_number field) of
           None \<Rightarrow> Inr \<lparr>submitted = alist_put (fd_number field) (field, [json]) (submitted st),
                        submitted_oneofs = oneofs\<rparr>
         | Some (f, values) \<Rightarrow>
             if fd_is_list field
             then Inr \<lparr>submitted = alist_put (fd_number field) (f, values @ [json]) (submitted st),
                       submitted_oneofs = oneofs\<rparr>
             else Inl (Duplicate_Field (fd_name field))))))"


definition form_fields ::
    "'f float_parse \<Rightarrow> MessageDescriptor \<Rightarrow> string \<Rightarrow> transcode_error + 'f form_state" where
  "form_fields fp descriptor body =
    and_then (parse_form body) (\<lambda>pairs.
      try_fold (submit_field fp descriptor) pairs \<lparr>submitted = [], submitted_oneofs = []\<rparr>)"




section \<open>Schema cache\<close>



datatype schema_error = Empty_Schema | Bad_Descriptor | Not_Cached | Manager_Unavailable Code |
  Repin_Failed Code | Fetch_Failed Code | Insert_Failed








section \<open>The schema validation layer\<close>



datatype schema_reject =
    Missing_Identity
  | Body_Too_Large
  | Body_Unreadable
  | Unsupported_Media
  | Rpc_Not_In_Schema
  | Schema_Unavailable schema_error
  | Validation_Failed RequestRepresentation transcode_error

fun schema_status :: "schema_reject \<Rightarrow> nat" where
  "schema_status Missing_Identity = 500"
| "schema_status Body_Too_Large = 413"
| "schema_status Body_Unreadable = 400"
| "schema_status Unsupported_Media = 415"
| "schema_status Rpc_Not_In_Schema = 500"
| "schema_status (Schema_Unavailable e) = 503"
| "schema_status (Validation_Failed r e) = 400"




section \<open>A reference form encoder\<close>

definition plain_byte :: "char \<Rightarrow> bool" where
  "plain_byte c \<longleftrightarrow> is_ascii_alphanumeric c \<or> c \<in> {CHR ''-'', CHR ''.'', CHR ''_'', CHR ''~''}"

definition encode_byte :: "char \<Rightarrow> string" where
  "encode_byte c = (if plain_byte c then [c] else if c = CHR '' '' then ''+'' else CHR ''%'' # hex02 c)"

definition encode_component :: "string \<Rightarrow> string" where
  "encode_component s = concat (map encode_byte s)"

definition encode_form :: "(string \<times> string) list \<Rightarrow> string" where
  "encode_form pairs = join_with ''&'' (map (\<lambda>(k, v). encode_component k @ ''='' @ encode_component v) pairs)"

lemma code_hex_digit: "n < 16 \<Longrightarrow> code (hex_digit n) = (if n < 10 then 48 + n else 87 + n)"
  by (simp add: hex_digit_def)

lemma hex_value_digit [simp]: "n < 16 \<Longrightarrow> hex_value (hex_digit n) = Some n"
  by (auto simp: hex_value_def code_hex_digit Let_def)

lemma code_div_mod: "code c div 16 < 16" "code c mod 16 < 16" "code c div 16 * 16 + code c mod 16 = code c"
  using code_less [of c] by (simp_all add: less_mult_imp_div_less)

lemma percent_decode_encode_byte:
  "percent_decode (encode_byte c @ r) = and_then (percent_decode r) (\<lambda>s. Inr (c # s))"
proof -
  have "plain_byte c \<Longrightarrow> c \<noteq> CHR ''+'' \<and> c \<noteq> CHR ''%''"
    by (auto simp: plain_byte_def ascii_simps)
  then show ?thesis
    by (auto simp: encode_byte_def hex02_def code_div_mod)
qed

lemma percent_decode_encode: "percent_decode (encode_component s) = Inr s"
  by (induction s) (simp_all add: encode_component_def percent_decode_encode_byte)

lemma encode_byte_chars: "d \<in> set (encode_byte c) \<Longrightarrow> d \<noteq> CHR ''&'' \<and> d \<noteq> CHR ''=''"
proof -
  have "hex_digit n \<noteq> CHR ''&'' \<and> hex_digit n \<noteq> CHR ''=''" if "n < 16" for n
    using hex_digit_cases [OF that] by (auto simp: ascii_simps)
  then show "d \<in> set (encode_byte c) \<Longrightarrow> d \<noteq> CHR ''&'' \<and> d \<noteq> CHR ''=''"
    using code_div_mod [of c]
    by (auto simp: encode_byte_def hex02_def plain_byte_def ascii_simps split: if_splits)
qed

lemma encode_component_chars:
  "CHR ''&'' \<notin> set (encode_component s)" "CHR ''='' \<notin> set (encode_component s)"
  using encode_byte_chars by (auto simp: encode_component_def)

lemma parse_form_pair_encode:
  assumes "is_utf8 k" "is_utf8 v"
  shows "parse_form_pair (encode_component k @ ''='' @ encode_component v) = Inr (k, v)"
proof -
  have "split_once (CHR ''='') (encode_component k @ ''='' @ encode_component v) =
      Some (encode_component k, encode_component v)"
    using encode_component_chars by (simp add: split_once_Some)
  then show ?thesis
    using assms by (simp add: parse_form_pair_def decode_form_component_def percent_decode_encode)
qed

section \<open>Submitted fields\<close>

definition value_count :: "'f form_state \<Rightarrow> nat" where
  "value_count st = sum_list (map (\<lambda>(n, f, vs). length vs) (submitted st))"

definition entry_ok :: "MessageDescriptor \<Rightarrow> (string \<times> nat) list \<Rightarrow> nat \<times> FieldDescriptor \<times> 'f json_value list \<Rightarrow> bool" where
  "entry_ok d oneofs e = (case e of (n, f, vs) \<Rightarrow> f \<in> set d \<and> fd_number f = n \<and> vs \<noteq> [] \<and>
    (\<not> fd_is_list f \<longrightarrow> length vs = 1) \<and>
    (case fd_oneof f of None \<Rightarrow> True | Some (full, nm) \<Rightarrow> map_of oneofs full = Some n))"

definition form_ok :: "MessageDescriptor \<Rightarrow> 'f form_state \<Rightarrow> bool" where
  "form_ok d st \<longleftrightarrow> distinct (map fst (submitted st)) \<and> list_all (entry_ok d (submitted_oneofs st)) (submitted st)"

lemma resolve_form_field_mem: "resolve_form_field d key = Inr f \<Longrightarrow> f \<in> set d"
  by (auto simp: resolve_form_field_def get_field_by_name_def get_field_by_json_name_def find_Some_iff
      split: option.splits if_splits)

lemma check_oneof_ok:
  assumes "check_oneof f oneofs = Inr oneofs'"
  shows "map_of oneofs k = Some n \<Longrightarrow> map_of oneofs' k = Some n"
    and "case fd_oneof f of None \<Rightarrow> True | Some (full, nm) \<Rightarrow> map_of oneofs' full = Some (fd_number f)"
  using assms by (auto simp: check_oneof_def split: option.splits if_splits)

lemma entry_ok_mono:
  "(\<And>k n. map_of a k = Some n \<Longrightarrow> map_of b k = Some n) \<Longrightarrow> entry_ok d a e \<Longrightarrow> entry_ok d b e"
  by (auto simp: entry_ok_def split: option.splits)

lemma set_alist_put: "e \<in> set (alist_put k v m) \<Longrightarrow> e = (k, v) \<or> e \<in> set m"
  by (induction m) (auto split: if_splits)

lemma sum_alist_put_new:
  fixes g :: "'k \<times> 'v \<Rightarrow> nat"
  shows "map_of m k = None \<Longrightarrow> sum_list (map g (alist_put k v m)) = sum_list (map g m) + g (k, v)"
  by (induction m) (auto split: if_splits)

lemma sum_alist_put_old:
  fixes g :: "'k \<times> 'v \<Rightarrow> nat"
  shows "map_of m k = Some u \<Longrightarrow> g (k, v) = g (k, u) + 1 \<Longrightarrow>
    sum_list (map g (alist_put k v m)) = sum_list (map g m) + 1"
  by (induction m) (auto split: if_splits)

lemma submit_field_cases:
  assumes "submit_field fp d kv st = Inr st'"
  obtains field oneofs json where "resolve_form_field d (fst kv) = Inr field"
    "check_oneof field (submitted_oneofs st) = Inr oneofs" "map_of (submitted st) (fd_number field) = None"
    "st' = \<lparr>submitted = alist_put (fd_number field) (field, [json]) (submitted st), submitted_oneofs = oneofs\<rparr>"
  | field oneofs json f vs where "resolve_form_field d (fst kv) = Inr field"
    "check_oneof field (submitted_oneofs st) = Inr oneofs"
    "map_of (submitted st) (fd_number field) = Some (f, vs)" "fd_is_list field"
    "st' = \<lparr>submitted = alist_put (fd_number field) (f, vs @ [json]) (submitted st), submitted_oneofs = oneofs\<rparr>"
proof -
  obtain field oneofs json where *: "resolve_form_field d (fst kv) = Inr field"
      "check_oneof field (submitted_oneofs st) = Inr oneofs"
      "(case map_of (submitted st) (fd_number field) of
           None \<Rightarrow> Inr \<lparr>submitted = alist_put (fd_number field) (field, [json]) (submitted st), submitted_oneofs = oneofs\<rparr>
         | Some (f, vs) \<Rightarrow>
             if fd_is_list field
             then Inr \<lparr>submitted = alist_put (fd_number field) (f, vs @ [json]) (submitted st), submitted_oneofs = oneofs\<rparr>
             else Inl (Duplicate_Field (fd_name field))) = Inr st'"
    using assms by (auto simp: submit_field_def Let_def split: if_splits prod.splits)
  show thesis
  proof (cases "map_of (submitted st) (fd_number field)")
    case None
    show thesis using None * by (intro that(1) [of field oneofs json]) simp_all
  next
    case (Some fv)
    obtain f vs where fv: "fv = (f, vs)" by (cases fv)
    show thesis using Some fv * by (intro that(2) [of field oneofs f vs json]) (auto split: if_splits)
  qed
qed

lemma form_ok_entries:
  assumes "form_ok d st" "check_oneof f (submitted_oneofs st) = Inr oneofs"
  shows "\<forall>e \<in> set (submitted st). entry_ok d oneofs e"
  using assms(1) entry_ok_mono [OF check_oneof_ok(1) [OF assms(2)]] unfolding form_ok_def list_all_iff by blast

lemma submit_field_ok:
  assumes "distinct (map fd_number d)" "form_ok d st" "submit_field fp d kv st = Inr st'"
  shows "form_ok d st' \<and> value_count st' = value_count st + 1"
  using assms(3)
proof (cases rule: submit_field_cases)
  case (1 field oneofs json)
  have "\<forall>e \<in> set (submitted st). entry_ok d oneofs e"
    using assms(2) 1(2) by (rule form_ok_entries)
  moreover have "entry_ok d oneofs (fd_number field, field, [json])"
    using resolve_form_field_mem [OF 1(1)] check_oneof_ok(2) [OF 1(2)] by (simp add: entry_ok_def)
  moreover have "value_count st' = value_count st + 1"
    using 1(4) unfolding value_count_def by (simp add: sum_alist_put_new [OF 1(3)])
  ultimately show ?thesis
    using 1(4) assms(2) unfolding form_ok_def list_all_iff by (auto dest!: set_alist_put)
next
  case (2 field oneofs json f vs)
  have old: "\<forall>e \<in> set (submitted st). entry_ok d oneofs e"
    using assms(2) 2(2) by (rule form_ok_entries)
  then have "entry_ok d oneofs (fd_number field, f, vs)"
    using 2(3) by (auto dest: map_of_SomeD)
  moreover have "f = field"
    using calculation resolve_form_field_mem [OF 2(1)] assms(1) by (auto simp: entry_ok_def distinct_map inj_on_def)
  ultimately have "entry_ok d oneofs (fd_number field, f, vs @ [json])"
    using 2(4) by (simp add: entry_ok_def)
  moreover have "value_count st' = value_count st + 1"
    using 2(5) unfolding value_count_def by (simp add: sum_alist_put_old [OF 2(3)])
  ultimately show ?thesis
    using 2(5) assms(2) old unfolding form_ok_def list_all_iff by (auto dest!: set_alist_put)
qed

lemma try_submit_ok:
  assumes "distinct (map fd_number d)" "form_ok d st" "try_fold (submit_field fp d) pairs st = Inr st'"
  shows "form_ok d st' \<and> value_count st' = value_count st + length pairs"
  using assms(2,3)
proof (induction pairs arbitrary: st)
  case (Cons p pairs)
  then obtain st1 where "submit_field fp d p st = Inr st1" "try_fold (submit_field fp d) pairs st1 = Inr st'"
    by auto
  then show ?case using Cons.IH [of st1] submit_field_ok [OF assms(1) Cons.prems(1)] by auto
qed simp

section \<open>Cached schemas\<close>



section \<open>Properties\<close>

text \<open>
  Form decoding inverts form encoding: any list of keys and values in UTF-8, with each byte
  written plainly, as a plus sign or as a percent escape and the pairs joined by ampersands, is read
  back unchanged.
\<close>

theorem parse_form_round_trip:
  assumes "list_all (\<lambda>(k, v). is_utf8 k \<and> is_utf8 v) pairs"
  shows "parse_form (encode_form pairs) = Inr pairs"
proof (cases "pairs = []")
  case True
  then show ?thesis by (simp add: encode_form_def parse_form_def)
next
  case False
  let ?enc = "\<lambda>(k, v). encode_component k @ ''='' @ encode_component v"
  have "split_on (CHR ''&'') (encode_form pairs) = map ?enc pairs"
    unfolding encode_form_def using False encode_component_chars(1)
    by (intro split_on_join) auto
  moreover have "filter (\<lambda>p. p \<noteq> []) (map ?enc pairs) = map ?enc pairs"
    by (intro filter_True) auto
  moreover have "try_map parse_form_pair (map ?enc pairs) = Inr pairs"
    using assms parse_form_pair_encode
    by (auto simp: try_map_Inr list_all2_conv_all_nth list_all_length split: prod.splits)
  ultimately show ?thesis by (simp only: parse_form_def)
qed

theorem parse_form_round_trip_witness:
  "parse_form (encode_form [(''name'', ''a&b=c d''), (''q'', ''%'')]) = Inr [(''name'', ''a&b=c d''), (''q'', ''%'')]"
  using parse_form_round_trip [of "[(''name'', ''a&b=c d''), (''q'', ''%'')]"] by (simp add: is_utf8_def)

text \<open>
  An accepted form submits every field at most once unless it is repeated, never two members of
  one oneof, and loses no value: the number of values kept is the number of pairs of the body.
\<close>

theorem form_fields_sound:
  assumes "form_fields fp d body = Inr st" "distinct (map fd_number d)"
  shows "\<exists>pairs. parse_form body = Inr pairs \<and>
      sum_list (map (\<lambda>(n, f, vs). length vs) (submitted st)) = length pairs \<and>
      (\<forall>n f vs. (n, f, vs) \<in> set (submitted st) \<longrightarrow>
        f \<in> set d \<and> fd_number f = n \<and> vs \<noteq> [] \<and> (length vs = 1 \<or> fd_is_list f)) \<and>
      (\<forall>n f vs n' f' vs' full nm nm'. (n, f, vs) \<in> set (submitted st) \<and> (n', f', vs') \<in> set (submitted st) \<and>
        fd_oneof f = Some (full, nm) \<and> fd_oneof f' = Some (full, nm') \<longrightarrow> n = n')"
proof -
  obtain pairs where pairs: "parse_form body = Inr pairs"
      "try_fold (submit_field fp d) pairs \<lparr>submitted = [], submitted_oneofs = []\<rparr> = Inr st"
    using assms(1) by (auto simp: form_fields_def)
  have ok: "form_ok d st \<and> value_count st = length pairs"
    using try_submit_ok [OF assms(2) _ pairs(2)] by (simp add: form_ok_def value_count_def)
  then have entries: "entry_ok d (submitted_oneofs st) (n, f, vs)" if "(n, f, vs) \<in> set (submitted st)" for n f vs
    using that by (auto simp: form_ok_def list_all_iff)
  have "n = n'" if "(n, f, vs) \<in> set (submitted st)" "(n', f', vs') \<in> set (submitted st)"
    "fd_oneof f = Some (full, nm)" "fd_oneof f' = Some (full, nm')" for n f vs n' f' vs' full nm nm'
    using entries [OF that(1)] entries [OF that(2)] that(3,4) by (simp add: entry_ok_def)
  moreover have "f \<in> set d \<and> fd_number f = n \<and> vs \<noteq> [] \<and> (length vs = 1 \<or> fd_is_list f)"
    if "(n, f, vs) \<in> set (submitted st)" for n f vs
    using entries [OF that] by (auto simp: entry_ok_def)
  ultimately show ?thesis
    using pairs(1) ok unfolding value_count_def by blast
qed

definition sample_descriptor :: MessageDescriptor where
  "sample_descriptor = [\<lparr>fd_name = ''tags'', fd_json_name = ''tags'', fd_number = 1, fd_is_map = False,
     fd_is_group = False, fd_is_list = True, fd_kind = KString, fd_oneof = None\<rparr>,
    \<lparr>fd_name = ''count'', fd_json_name = ''count'', fd_number = 2, fd_is_map = False,
     fd_is_group = False, fd_is_list = False, fd_kind = KInt32, fd_oneof = Some (''m.kind'', ''kind'')\<rparr>]"

theorem form_fields_sound_witness:
  "case form_fields (\<lambda>_ _. None :: unit option) sample_descriptor ''tags=a&count=-7&tags=b'' of
     Inl e \<Rightarrow> False
   | Inr st \<Rightarrow> sum_list (map (\<lambda>(n, f, vs). length vs) (submitted st)) = 3"
proof -
  let ?r = "form_fields (\<lambda>_ _. None :: unit option) sample_descriptor ''tags=a&count=-7&tags=b''"
  have "is_ok ?r" "parse_form ''tags=a&count=-7&tags=b'' = Inr [(''tags'', ''a''), (''count'', ''-7''), (''tags'', ''b'')]"
    "distinct (map fd_number sample_descriptor)"
    by code_simp+
  moreover then obtain st where "?r = Inr st" by (auto simp: is_ok_iff)
  ultimately show ?thesis
    using form_fields_sound [of "\<lambda>_ _. None :: unit option" sample_descriptor "''tags=a&count=-7&tags=b''" st]
    by simp
qed







end
