(* ===== verification/Authorization_Policy.thy ===== *)
theory Authorization_Policy
  imports Identity Contracts "HOL-Library.List_Lexorder" "HOL-Library.Product_Lexorder" "HOL-Library.Option_ord"
begin

text \<open>
  The declarative authorization policy: \<open>wr-common/src/authorization_policy.rs\<close>. The validation of a
  parsed policy stage by stage, its canonical encoding and digest, the manager set hash, and the
  checks before a rollout.

  Ordered maps and sets (\<open>BTreeMap\<close>, \<open>BTreeSet\<close>) are sorted lists; byte strings, tuples and options
  are ordered as in Rust (lexicographically, \<open>None\<close> first). Parameters: the TOML parser, SHA-256 and
  the URI parser.
\<close>

section \<open>Data\<close>

definition MAX_POLICY_BYTES :: nat where "MAX_POLICY_BYTES = 4 * 1024 * 1024"
definition MAX_PRINCIPALS :: nat where "MAX_PRINCIPALS = 4096"
definition MAX_ASSIGNMENTS :: nat where "MAX_ASSIGNMENTS = 16384"
definition MAX_ASSIGNMENTS_PER_PRINCIPAL :: nat where "MAX_ASSIGNMENTS_PER_PRINCIPAL = 16"
definition MAX_SCOPE_VALUES :: nat where "MAX_SCOPE_VALUES = 65536"
definition MAX_SCOPE_VALUES_PER_ASSIGNMENT :: nat where "MAX_SCOPE_VALUES_PER_ASSIGNMENT = 1024"
definition MAX_MANAGERS :: nat where "MAX_MANAGERS = 128"
definition MAX_PROXIES :: nat where "MAX_PROXIES = 4096"
definition MAX_NODE_AGENTS :: nat where "MAX_NODE_AGENTS = 4096"
definition MAX_REVOKED_FINGERPRINTS :: nat where "MAX_REVOKED_FINGERPRINTS = 16384"
definition MAX_WORKLOAD_PROJECTION_BYTES :: nat where "MAX_WORKLOAD_PROJECTION_BYTES = 2 * 1024 * 1024"
definition AUTHORIZATION_POLICY_VALIDATOR_VERSION :: nat where "AUTHORIZATION_POLICY_VALIDATOR_VERSION = 1"
definition DIGEST_DOMAIN :: string where "DIGEST_DOMAIN = ''wruntime-authorization-policy-v1''"

datatype PolicyRole = Admin | View | Infra | JobView | JobAdmin | Status | Route | Secret | Schedule | Deploy

fun PolicyRole_as_str :: "PolicyRole \<Rightarrow> string" where
  "PolicyRole_as_str Admin = ''admin''"
| "PolicyRole_as_str View = ''view''"
| "PolicyRole_as_str Infra = ''infra''"
| "PolicyRole_as_str JobView = ''job-view''"
| "PolicyRole_as_str JobAdmin = ''job-admin''"
| "PolicyRole_as_str Status = ''status''"
| "PolicyRole_as_str Route = ''route''"
| "PolicyRole_as_str Secret = ''secret''"
| "PolicyRole_as_str Schedule = ''schedule''"
| "PolicyRole_as_str Deploy = ''deploy''"

text \<open>The declaration order of the roles, by which the code sorts assignments.\<close>

fun role_rank :: "PolicyRole \<Rightarrow> nat" where
  "role_rank Admin = 0"
| "role_rank View = 1"
| "role_rank Infra = 2"
| "role_rank JobView = 3"
| "role_rank JobAdmin = 4"
| "role_rank Status = 5"
| "role_rank Route = 6"
| "role_rank Secret = 7"
| "role_rank Schedule = 8"
| "role_rank Deploy = 9"

text \<open>Errors: a message of the code, or a fault with the values it names.\<close>

datatype policy_error =
    Fault string
  | Identity_Fault identity_error
  | Unsupported_Role string
  | Invalid_Role PrincipalKind PolicyRole
  | Empty_Scope string
  | Bad_Scope_Value string string identity_error
  | Duplicate_Scope_Value string

definition PolicyRole_from_str :: "string \<Rightarrow> policy_error + PolicyRole" where
  "PolicyRole_from_str value =
    (if value = ''admin'' then Inr Admin
     else if value = ''view'' then Inr View
     else if value = ''infra'' then Inr Infra
     else if value = ''job-view'' then Inr JobView
     else if value = ''job-admin'' then Inr JobAdmin
     else if value = ''status'' then Inr Status
     else if value = ''route'' then Inr Route
     else if value = ''secret'' then Inr Secret
     else if value = ''schedule'' then Inr Schedule
     else if value = ''deploy'' then Inr Deploy
     else Inl (Unsupported_Role value))"

record AssignmentScope =
  namespace_ids :: "string list option"
  node_ids :: "string list option"
  job_queue_ids :: "string list option"
  manager_ids :: "string list option"

record RoleAssignment =
  ra_principal :: string
  ra_role :: PolicyRole
  ra_scope :: AssignmentScope

record ManagerEnrollment =
  me_principal :: string
  me_manager_id :: string
  me_endpoint :: string

record NodeEnrollment =
  ne_principal :: string
  ne_node_id :: string

record CapHeadroom =
  ch_raw_bytes :: nat
  ch_canonical_bytes :: nat
  ch_principals :: nat
  ch_assignments :: nat
  ch_scope_values :: nat
  ch_managers :: nat
  ch_proxies :: nat
  ch_node_agents :: nat
  ch_revoked_fingerprints :: nat

record ValidatedPolicy =
  vp_schema_version :: "32 word"
  vp_generation :: "64 word"
  vp_cluster_id :: string
  vp_digest :: string
  vp_principals :: "(string \<times> PrincipalKind) list"
  vp_assignments :: "RoleAssignment list"
  vp_manager_enrollments :: "ManagerEnrollment list"
  vp_proxy_enrollments :: "NodeEnrollment list"
  vp_node_agent_enrollments :: "NodeEnrollment list"
  vp_revoked_leaf_fingerprints :: "string list"
  vp_manager_set_hash :: string
  vp_cap_headroom :: CapHeadroom

record RolloutTarget =
  rt_manager_id :: string
  rt_endpoint :: string

record RolloutPrevalidation =
  rp_validator_version :: nat
  rp_schema_version :: "32 word"
  rp_generation :: "64 word"
  rp_digest :: string
  rp_cluster_id :: string
  rp_targets :: "RolloutTarget list"
  rp_target_set_hash :: string
  rp_caller_principal_uri :: string
  rp_caller_leaf_fingerprint :: string
  rp_caller_can_begin :: bool

record RawPrincipal =
  rwp_uri :: string
  rwp_kind :: string

record RawAssignment =
  rwa_principal :: string
  rwa_role :: string
  rwa_scope :: AssignmentScope

text \<open>
  The raw scope and enrollments have the fields of their validated forms; a raw scope holds its values
  in file order.
\<close>

record RawPolicy =
  raw_schema_version :: "32 word"
  raw_generation :: "64 word"
  raw_cluster_id :: string
  raw_principals :: "RawPrincipal list"
  raw_assignments :: "RawAssignment list"
  raw_manager_enrollments :: "ManagerEnrollment list"
  raw_proxy_enrollments :: "NodeEnrollment list"
  raw_node_agent_enrollments :: "NodeEnrollment list"
  raw_revoked_leaf_fingerprints :: "string list"

record policy_deps =
  pd_toml :: "string \<Rightarrow> RawPolicy option"
  pd_sha :: "string \<Rightarrow> string"
  pd_uri :: "string \<Rightarrow> Uri option"

section \<open>Validation stages\<close>

definition fingerprint :: "string \<Rightarrow> bool" where
  "fingerprint value \<longleftrightarrow> length value = 71 \<and> starts_with ''sha256:'' value \<and>
    list_all (\<lambda>b. is_ascii_digit b \<or> (97 \<le> code b \<and> code b \<le> 102)) (drop 7 value)"

definition checked_set ::
    "string list option \<Rightarrow> string \<Rightarrow> (string \<Rightarrow> identity_error + 'a) \<Rightarrow> policy_error + string list option" where
  "checked_set values label parse =
    (case values of
       None \<Rightarrow> Inr None
     | Some values \<Rightarrow>
        if values = [] then Inl (Empty_Scope label)
        else and_then (try_fold (\<lambda>value result.
               and_then (map_err (Bad_Scope_Value label value) (parse value)) (\<lambda>_.
                 if value \<in> set result then Inl (Duplicate_Scope_Value label) else Inr (insort value result)))
               values [])
             (\<lambda>result. Inr (Some result)))"

definition allowed_dimensions :: "PrincipalKind \<Rightarrow> PolicyRole \<Rightarrow> policy_error + bool list" where
  "allowed_dimensions kind role =
    (case kind of
       Human \<Rightarrow>
        (case role of
           Admin \<Rightarrow> Inr [False, False, False, False]
         | View \<Rightarrow> Inr [True, True, False, False]
         | Infra \<Rightarrow> Inr [False, True, False, True]
         | JobView \<Rightarrow> Inr [False, False, True, False]
         | JobAdmin \<Rightarrow> Inr [False, False, True, False]
         | _ \<Rightarrow> Inl (Invalid_Role kind role))
     | ServiceAccount \<Rightarrow>
        (case role of
           Status \<Rightarrow> Inr [True, True, False, False]
         | Route \<Rightarrow> Inr [True, False, False, False]
         | Secret \<Rightarrow> Inr [True, False, False, False]
         | Schedule \<Rightarrow> Inr [True, False, False, False]
         | Infra \<Rightarrow> Inr [False, True, False, False]
         | Deploy \<Rightarrow> Inr [False, True, False, True]
         | JobView \<Rightarrow> Inr [False, False, True, False]
         | JobAdmin \<Rightarrow> Inr [False, False, True, False]
         | _ \<Rightarrow> Inl (Invalid_Role kind role))
     | _ \<Rightarrow> Inl (Invalid_Role kind role))"

definition load_principal ::
    "string \<Rightarrow> RawPrincipal \<Rightarrow> (string \<times> PrincipalKind) list \<Rightarrow> policy_error + (string \<times> PrincipalKind) list" where
  "load_principal cluster raw principals =
    and_then (map_err Identity_Fault (PrincipalUri_parse (rwp_uri raw))) (\<lambda>uri.
    and_then (map_err Identity_Fault (PrincipalKind_from_str (rwp_kind raw))) (\<lambda>kind.
    if uri_cluster_id uri \<noteq> cluster then Inl (Fault ''principal belongs to the wrong cluster'')
    else if uri_kind uri \<noteq> kind then Inl (Fault ''principal kind does not match URI kind'')
    else if map_of principals (uri_value uri) \<noteq> None then Inl (Fault ''principal URIs must be unique'')
    else Inr (insort_key fst (uri_value uri, kind) principals)))"

record assignment_state =
  st_counts :: "(string \<times> nat) list"
  st_total :: nat
  st_assignments :: "RoleAssignment list"

definition scope_dimensions :: "AssignmentScope \<Rightarrow> string list option list" where
  "scope_dimensions scope = [namespace_ids scope, node_ids scope, job_queue_ids scope, manager_ids scope]"

definition scope_count :: "AssignmentScope \<Rightarrow> nat" where
  "scope_count scope = sum_list (map length (List.map_filter id (scope_dimensions scope)))"

definition checked_scope :: "AssignmentScope \<Rightarrow> policy_error + AssignmentScope" where
  "checked_scope raw =
    and_then (checked_set (namespace_ids raw) ''namespace_ids'' Namespace_parse) (\<lambda>ns.
    and_then (checked_set (node_ids raw) ''node_ids'' NodeId_parse) (\<lambda>nodes.
    and_then (checked_set (job_queue_ids raw) ''job_queue_ids'' JobQueueId_parse) (\<lambda>queues.
    and_then (checked_set (manager_ids raw) ''manager_ids'' ManagerId_parse) (\<lambda>managers.
      Inr \<lparr>namespace_ids = ns, node_ids = nodes, job_queue_ids = queues, manager_ids = managers\<rparr>))))"

definition dimensions_allowed :: "AssignmentScope \<Rightarrow> bool list \<Rightarrow> bool" where
  "dimensions_allowed scope allowed = list_all (\<lambda>(present, allowed). \<not> present \<or> allowed)
    (zip (map (\<lambda>d. d \<noteq> None) (scope_dimensions scope)) allowed)"

definition load_assignment ::
    "(string \<times> PrincipalKind) list \<Rightarrow> RawAssignment \<Rightarrow> assignment_state \<Rightarrow> policy_error + assignment_state" where
  "load_assignment principals item st =
    and_then (ok_or (Fault ''assignment principal is not declared'') (map_of principals (rwa_principal item))) (\<lambda>kind.
    if kind \<noteq> Human \<and> kind \<noteq> ServiceAccount then Inl (Fault ''workload principals cannot have role assignments'')
    else and_then (PolicyRole_from_str (rwa_role item)) (\<lambda>role.
    and_then (allowed_dimensions kind role) (\<lambda>allowed.
    and_then (checked_scope (rwa_scope item)) (\<lambda>scope.
    if \<not> dimensions_allowed scope allowed then Inl (Fault ''scope dimension is not allowed for this principal kind/role'')
    else let count = scope_count scope in
    if count > MAX_SCOPE_VALUES_PER_ASSIGNMENT then Inl (Fault ''assignment exceeds scope-value cap'')
    else if st_total st + count \<ge> 2 ^ 64 then Inl (Fault ''scope count overflow'')
    else if st_total st + count > MAX_SCOPE_VALUES then Inl (Fault ''authorization policy exceeds total scope-value cap'')
    else let principal_count = (case map_of (st_counts st) (rwa_principal item) of None \<Rightarrow> 0 | Some n \<Rightarrow> n) + 1 in
    if principal_count > MAX_ASSIGNMENTS_PER_PRINCIPAL then Inl (Fault ''principal exceeds assignment cap'')
    else Inr \<lparr>st_counts = alist_put (rwa_principal item) principal_count (st_counts st),
              st_total = st_total st + count,
              st_assignments = st_assignments st @
                [\<lparr>ra_principal = rwa_principal item, ra_role = role, ra_scope = scope\<rparr>]\<rparr>))))"

text \<open>The derived order of assignments: principal, role, then the four scope sets.\<close>

definition assignment_key ::
    "RoleAssignment \<Rightarrow> string \<times> nat \<times> string list option \<times> string list option \<times> string list option \<times> string list option" where
  "assignment_key a = (ra_principal a, role_rank (ra_role a), namespace_ids (ra_scope a), node_ids (ra_scope a),
    job_queue_ids (ra_scope a), manager_ids (ra_scope a))"

definition load_assignments ::
    "(string \<times> PrincipalKind) list \<Rightarrow> RawAssignment list \<Rightarrow> policy_error + (RoleAssignment list \<times> nat)" where
  "load_assignments principals raws =
    and_then (try_fold (load_assignment principals) raws \<lparr>st_counts = [], st_total = 0, st_assignments = []\<rparr>) (\<lambda>st.
    let assignments = sort_key assignment_key (st_assignments st) in
    if \<not> distinct_adj assignments then Inl (Fault ''duplicate role assignments are invalid'')
    else Inr (assignments, st_total st))"

record manager_state =
  ms_enrolled :: "string list"
  ms_ids :: "string list"
  ms_endpoints :: "string list"
  ms_managers :: "ManagerEnrollment list"

definition load_manager ::
    "policy_deps \<Rightarrow> (string \<times> PrincipalKind) list \<Rightarrow> ManagerEnrollment \<Rightarrow> manager_state \<Rightarrow> policy_error + manager_state" where
  "load_manager deps principals item st =
    and_then (map_err Identity_Fault (PrincipalUri_parse (me_principal item))) (\<lambda>uri.
    if map_of principals (uri_value uri) \<noteq> Some Manager then Inl (Fault ''manager enrollment principal kind mismatch'')
    else and_then (map_err Identity_Fault (ManagerId_parse (me_manager_id item))) (\<lambda>_.
    if uri_name uri \<noteq> me_manager_id item then Inl (Fault ''manager principal name must equal manager_id'')
    else and_then (map_err Identity_Fault (PeerHttpsUrl_parse (pd_uri deps) (me_endpoint item))) (\<lambda>_.
    if me_principal item \<in> set (ms_enrolled st) then Inl (Fault ''workload principal may be enrolled only once'')
    else if me_manager_id item \<in> set (ms_ids st) then Inl (Fault ''manager IDs must be unique'')
    else if me_endpoint item \<in> set (ms_endpoints st) then Inl (Fault ''manager endpoints must be unique'')
    else Inr \<lparr>ms_enrolled = me_principal item # ms_enrolled st, ms_ids = me_manager_id item # ms_ids st,
              ms_endpoints = me_endpoint item # ms_endpoints st, ms_managers = ms_managers st @ [item]\<rparr>)))"

definition validate_node ::
    "(string \<times> PrincipalKind) list \<Rightarrow> PrincipalKind \<Rightarrow> NodeEnrollment \<Rightarrow> string list \<times> NodeEnrollment list \<Rightarrow>
      policy_error + (string list \<times> NodeEnrollment list)" where
  "validate_node principals expected item st =
    and_then (map_err Identity_Fault (PrincipalUri_parse (ne_principal item))) (\<lambda>uri.
    if map_of principals (uri_value uri) \<noteq> Some expected then Inl (Fault ''workload enrollment principal kind mismatch'')
    else and_then (map_err Identity_Fault (NodeId_parse (ne_node_id item))) (\<lambda>_.
    if ne_principal item \<in> set (fst st) then Inl (Fault ''workload principal may be enrolled only once'')
    else Inr (ne_principal item # fst st, snd st @ [item])))"

definition validate_nodes ::
    "(string \<times> PrincipalKind) list \<Rightarrow> NodeEnrollment list \<Rightarrow> PrincipalKind \<Rightarrow> string list \<Rightarrow>
      policy_error + (string list \<times> NodeEnrollment list)" where
  "validate_nodes principals raw_items expected enrolled =
    and_then (try_fold (validate_node principals expected) raw_items (enrolled, [])) (\<lambda>(enrolled, items).
      Inr (enrolled, sort_key (\<lambda>e. (ne_principal e, ne_node_id e)) items))"

definition check_enrolled :: "(string \<times> PrincipalKind) list \<Rightarrow> string list \<Rightarrow> bool" where
  "check_enrolled principals enrolled =
    list_all (\<lambda>(uri, kind). kind \<in> {Manager, Proxy, NodeAgent} \<longrightarrow> uri \<in> set enrolled) principals"

definition load_revocations :: "string list \<Rightarrow> policy_error + string list" where
  "load_revocations values =
    and_then (try_map (\<lambda>value. if fingerprint value then Inr value else Inl (Fault ''revocation must be sha256:<64 lowercase hex>'')) values) (\<lambda>checked.
    let revoked = sort (remdups checked) in
    if length revoked \<noteq> length values then Inl (Fault ''duplicate revoked fingerprints are invalid'') else Inr revoked)"

section \<open>Canonical encoding\<close>

definition push_u32 :: "nat \<Rightarrow> string \<Rightarrow> policy_error + string" where
  "push_u32 value out = (if value < 2 ^ 32 then Inr (out @ be_bytes 4 value) else Inl (Fault ''canonical policy field exceeds u32''))"

definition push_str :: "string \<Rightarrow> string \<Rightarrow> policy_error + string" where
  "push_str value out = and_then (push_u32 (length value) out) (\<lambda>out. Inr (out @ value))"

definition push_opt_set :: "string list option \<Rightarrow> string \<Rightarrow> policy_error + string" where
  "push_opt_set values out =
    (case values of
       None \<Rightarrow> Inr (out @ [char_of (0 :: nat)])
     | Some values \<Rightarrow>
        and_then (push_u32 (length values) (out @ [char_of (1 :: nat)])) (try_fold push_str values))"

definition policy_hash :: "policy_deps \<Rightarrow> string \<Rightarrow> string" where
  "policy_hash deps bytes = ''sha256:'' @ hex_string (pd_sha deps bytes)"

definition push_principal :: "string \<times> PrincipalKind \<Rightarrow> string \<Rightarrow> policy_error + string" where
  "push_principal p out = and_then (push_str (fst p) out) (push_str (PrincipalKind_as_str (snd p)))"

definition push_assignment :: "RoleAssignment \<Rightarrow> string \<Rightarrow> policy_error + string" where
  "push_assignment a out =
    and_then (push_str (ra_principal a) out) (\<lambda>out.
    and_then (push_str (PolicyRole_as_str (ra_role a)) out) (\<lambda>out.
    and_then (push_opt_set (namespace_ids (ra_scope a)) out) (\<lambda>out.
    and_then (push_opt_set (node_ids (ra_scope a)) out) (\<lambda>out.
    and_then (push_opt_set (job_queue_ids (ra_scope a)) out)
      (push_opt_set (manager_ids (ra_scope a)))))))"

definition push_manager :: "ManagerEnrollment \<Rightarrow> string \<Rightarrow> policy_error + string" where
  "push_manager item out =
    and_then (push_str (me_principal item) out) (\<lambda>out.
    and_then (push_str (me_manager_id item) out) (push_str (me_endpoint item)))"

definition push_node :: "NodeEnrollment \<Rightarrow> string \<Rightarrow> policy_error + string" where
  "push_node item out = and_then (push_str (ne_principal item) out) (push_str (ne_node_id item))"

definition push_list :: "('a \<Rightarrow> string \<Rightarrow> policy_error + string) \<Rightarrow> 'a list \<Rightarrow> string \<Rightarrow> policy_error + string" where
  "push_list push xs out = and_then (push_u32 (length xs) out) (try_fold push xs)"

definition canonical_bytes :: "ValidatedPolicy \<Rightarrow> policy_error + string" where
  "canonical_bytes p =
    and_then (push_str (vp_cluster_id p)
      (DIGEST_DOMAIN @ be_bytes 4 (unat (vp_schema_version p)) @ be_bytes 8 (unat (vp_generation p)))) (\<lambda>out.
    and_then (push_list push_principal (vp_principals p) out) (\<lambda>out.
    and_then (push_list push_assignment (vp_assignments p) out) (\<lambda>out.
    and_then (push_list push_manager (vp_manager_enrollments p) out) (\<lambda>out.
    and_then (push_list push_node (vp_proxy_enrollments p) out) (\<lambda>out.
    and_then (push_list push_node (vp_node_agent_enrollments p) out)
      (push_list push_str (vp_revoked_leaf_fingerprints p)))))))"

definition push_target :: "RolloutTarget \<Rightarrow> string \<Rightarrow> policy_error + string" where
  "push_target t out = and_then (push_str (rt_manager_id t) out) (push_str (rt_endpoint t))"

definition manager_set_hash :: "policy_deps \<Rightarrow> RolloutTarget list \<Rightarrow> policy_error + string" where
  "manager_set_hash deps targets =
    (let targets = sort_key rt_manager_id targets in
     if \<not> distinct_adj (map rt_manager_id targets) then Inl (Fault ''manager target IDs must be unique'')
     else and_then (push_list push_target targets ''wruntime-manager-set-v1'') (\<lambda>encoded.
       Inr (policy_hash deps encoded)))"

definition manager_targets :: "ManagerEnrollment list \<Rightarrow> RolloutTarget list" where
  "manager_targets = map (\<lambda>item. \<lparr>rt_manager_id = me_manager_id item, rt_endpoint = me_endpoint item\<rparr>)"

section \<open>Loading a policy\<close>

definition check_raw :: "string \<Rightarrow> RawPolicy \<Rightarrow> policy_error + string" where
  "check_raw bytes raw =
    (if raw_schema_version raw \<noteq> 1 then Inl (Fault ''authorization policy schema_version must be 1'')
     else if raw_generation raw = 0 then Inl (Fault ''authorization policy generation must be nonzero'')
     else and_then (map_err Identity_Fault (ClusterId_parse (raw_cluster_id raw))) (\<lambda>cluster.
     if length (raw_principals raw) > MAX_PRINCIPALS then Inl (Fault ''authorization policy exceeds principal cap'')
     else if length (raw_assignments raw) > MAX_ASSIGNMENTS then Inl (Fault ''authorization policy exceeds assignment cap'')
     else if length (raw_manager_enrollments raw) > MAX_MANAGERS then Inl (Fault ''authorization policy exceeds manager enrollment cap'')
     else if length (raw_proxy_enrollments raw) > MAX_PROXIES then Inl (Fault ''authorization policy exceeds proxy enrollment cap'')
     else if length (raw_node_agent_enrollments raw) > MAX_NODE_AGENTS then Inl (Fault ''authorization policy exceeds node-agent enrollment cap'')
     else if length (raw_revoked_leaf_fingerprints raw) > MAX_REVOKED_FINGERPRINTS then Inl (Fault ''authorization policy exceeds revocation cap'')
     else Inr cluster))"

text \<open>
  The body of \<open>ValidatedPolicy::load\<close> up to the construction of the value; the digest, the manager
  set hash and the headroom are filled in once the canonical encoding is known. The last check, that
  the workload projections fit, is part of \<open>load\<close> in the theory of snapshots.
\<close>

definition seal_policy :: "policy_deps \<Rightarrow> nat \<Rightarrow> nat \<Rightarrow> ValidatedPolicy \<Rightarrow> policy_error + ValidatedPolicy" where
  "seal_policy deps raw_length total_scope_values p =
    and_then (canonical_bytes p) (\<lambda>canonical.
    if length canonical > MAX_POLICY_BYTES then Inl (Fault ''authorization policy exceeds 4 MiB canonical limit'')
    else and_then (manager_set_hash deps (manager_targets (vp_manager_enrollments p))) (\<lambda>set_hash.
    Inr (p\<lparr>vp_digest := policy_hash deps canonical, vp_manager_set_hash := set_hash,
      vp_cap_headroom := \<lparr>ch_raw_bytes = MAX_POLICY_BYTES - raw_length,
        ch_canonical_bytes = MAX_POLICY_BYTES - length canonical,
        ch_principals = MAX_PRINCIPALS - length (vp_principals p),
        ch_assignments = MAX_ASSIGNMENTS - length (vp_assignments p),
        ch_scope_values = MAX_SCOPE_VALUES - total_scope_values,
        ch_managers = MAX_MANAGERS - length (vp_manager_enrollments p),
        ch_proxies = MAX_PROXIES - length (vp_proxy_enrollments p),
        ch_node_agents = MAX_NODE_AGENTS - length (vp_node_agent_enrollments p),
        ch_revoked_fingerprints = MAX_REVOKED_FINGERPRINTS - length (vp_revoked_leaf_fingerprints p)\<rparr>\<rparr>)))"

definition validate_raw :: "policy_deps \<Rightarrow> nat \<Rightarrow> string \<Rightarrow> RawPolicy \<Rightarrow> policy_error + ValidatedPolicy" where
  "validate_raw deps raw_length cluster raw =
    and_then (try_fold (load_principal cluster) (raw_principals raw) []) (\<lambda>principals.
    and_then (load_assignments principals (raw_assignments raw)) (\<lambda>(assignments, total_scope_values).
    and_then (try_fold (load_manager deps principals) (raw_manager_enrollments raw)
      \<lparr>ms_enrolled = [], ms_ids = [], ms_endpoints = [], ms_managers = []\<rparr>) (\<lambda>ms.
    and_then (validate_nodes principals (raw_proxy_enrollments raw) Proxy (ms_enrolled ms)) (\<lambda>(enrolled1, proxies).
    and_then (validate_nodes principals (raw_node_agent_enrollments raw) NodeAgent enrolled1) (\<lambda>(enrolled2, agents).
    if \<not> check_enrolled principals enrolled2 then Inl (Fault ''every workload principal must have exactly one enrollment'')
    else and_then (load_revocations (raw_revoked_leaf_fingerprints raw)) (\<lambda>revoked.
    seal_policy deps raw_length total_scope_values
      \<lparr>vp_schema_version = raw_schema_version raw, vp_generation = raw_generation raw, vp_cluster_id = cluster,
       vp_digest = [], vp_principals = principals, vp_assignments = assignments,
       vp_manager_enrollments = sort_key me_manager_id (ms_managers ms), vp_proxy_enrollments = proxies,
       vp_node_agent_enrollments = agents, vp_revoked_leaf_fingerprints = revoked, vp_manager_set_hash = [],
       vp_cap_headroom = \<lparr>ch_raw_bytes = 0, ch_canonical_bytes = 0, ch_principals = 0, ch_assignments = 0,
         ch_scope_values = 0, ch_managers = 0, ch_proxies = 0, ch_node_agents = 0, ch_revoked_fingerprints = 0\<rparr>\<rparr>))))))"

definition validate_policy :: "policy_deps \<Rightarrow> string \<Rightarrow> policy_error + ValidatedPolicy" where
  "validate_policy deps bytes =
    (if length bytes > MAX_POLICY_BYTES then Inl (Fault ''authorization policy exceeds 4 MiB raw limit'')
     else if \<not> is_utf8 bytes then Inl (Fault ''authorization policy must be UTF-8'')
     else and_then (ok_or (Fault ''invalid authorization policy TOML'') (pd_toml deps bytes)) (\<lambda>raw.
     and_then (check_raw bytes raw) (\<lambda>cluster. validate_raw deps (length bytes) cluster raw)))"

section \<open>Rollout checks\<close>

definition authorizes_rollout :: "ValidatedPolicy \<Rightarrow> string \<Rightarrow> string list \<Rightarrow> bool" where
  "authorizes_rollout p caller ids =
    (case map_of (vp_principals p) caller of
       None \<Rightarrow> False
     | Some kind \<Rightarrow> list_ex (\<lambda>a. ra_principal a = caller \<and>
         ((kind = Human \<and> ra_role a \<in> {Admin, Infra}) \<or> (kind = ServiceAccount \<and> ra_role a = Deploy)) \<and>
         (case manager_ids (ra_scope a) of None \<Rightarrow> True | Some allowed \<Rightarrow> list_all (\<lambda>i. i \<in> set allowed) ids))
         (vp_assignments p))"

definition prevalidate_rollout_claims ::
    "ValidatedPolicy \<Rightarrow> string \<Rightarrow> string \<Rightarrow> RolloutTarget list \<Rightarrow> policy_error + RolloutPrevalidation" where
  "prevalidate_rollout_claims p caller_principal_uri caller_leaf_fingerprint expected_targets =
    and_then (map_err Identity_Fault (PrincipalUri_parse caller_principal_uri)) (\<lambda>caller.
    if uri_cluster_id caller \<noteq> vp_cluster_id p then Inl (Fault ''rollout caller belongs to the wrong cluster'')
    else if uri_kind caller \<noteq> Human \<and> uri_kind caller \<noteq> ServiceAccount then Inl (Fault ''rollout caller must be human or service-account'')
    else if \<not> fingerprint caller_leaf_fingerprint then Inl (Fault ''rollout caller fingerprint must be sha256:<64 lowercase hex>'')
    else if caller_leaf_fingerprint \<in> set (vp_revoked_leaf_fingerprints p) then Inl (Fault ''rollout caller leaf is revoked'')
    else let targets = sort_key rt_manager_id expected_targets in
    if targets \<noteq> manager_targets (vp_manager_enrollments p) then Inl (Fault ''rollout targets must exactly equal policy manager enrollments'')
    else let allowed = authorizes_rollout p (uri_value caller) (map rt_manager_id targets) in
    if \<not> allowed then Inl (Fault ''rollout caller lacks one complete target-set grant'')
    else Inr \<lparr>rp_validator_version = AUTHORIZATION_POLICY_VALIDATOR_VERSION,
      rp_schema_version = vp_schema_version p, rp_generation = vp_generation p, rp_digest = vp_digest p,
      rp_cluster_id = vp_cluster_id p, rp_targets = targets, rp_target_set_hash = vp_manager_set_hash p,
      rp_caller_principal_uri = uri_value caller, rp_caller_leaf_fingerprint = caller_leaf_fingerprint,
      rp_caller_can_begin = allowed\<rparr>)"

text \<open>With the verified certificate leaf of the caller: its principal, if it has one, and fingerprint.\<close>

datatype rollout_error = No_Client_Principal | Rollout_Fault policy_error

definition prevalidate_rollout ::
    "ValidatedPolicy \<Rightarrow> string option \<Rightarrow> string \<Rightarrow> RolloutTarget list \<Rightarrow> rollout_error + RolloutPrevalidation" where
  "prevalidate_rollout p caller_principal caller_fingerprint expected_targets =
    and_then (ok_or No_Client_Principal caller_principal) (\<lambda>caller.
      map_err Rollout_Fault (prevalidate_rollout_claims p caller caller_fingerprint expected_targets))"

end
