(* ===== verification/Policy_Validation.thy ===== *)
theory Policy_Validation
  imports Authorization_Policy "HOL-Library.Multiset"
begin

text \<open>
  What a validated policy guarantees: the well-formedness that every stage of the validation
  establishes, the injectivity of the canonical encoding behind the policy digest, and the soundness
  of the rollout checks.
\<close>

section \<open>The canonical encoding is a prefix code\<close>

lemma push_u32_Inr: "push_u32 n out = Inr out' \<longleftrightarrow> n < 2 ^ 32 \<and> out' = out @ be_bytes 4 n"
  by (auto simp: push_u32_def)

abbreviation short :: "string \<Rightarrow> bool" where
  "short s \<equiv> length s < 2 ^ 32"

interpretation str_writer: writer push_str "enc_lp 4" short
  by unfold_locales (auto simp: push_str_def push_u32_Inr enc_lp_def)

lemma writer_list:
  assumes "writer push enc ok"
  shows "writer (push_list push) (enc_counted enc) (ok_counted ok)"
  by unfold_locales
    (auto simp: push_list_def push_u32_Inr writer.loop_Inr [OF assms] enc_counted_def ok_counted_def)

abbreviation enc_set :: "string list option \<Rightarrow> string" where
  "enc_set \<equiv> enc_opt (enc_counted (enc_lp 4))"

abbreviation ok_set :: "string list option \<Rightarrow> bool" where
  "ok_set \<equiv> pred_option (ok_counted short)"

interpretation set_writer: writer push_opt_set enc_set ok_set
  by unfold_locales
    (auto simp: push_opt_set_def push_u32_Inr str_writer.loop_Inr enc_opt_def enc_counted_def ok_counted_def
      split: option.splits)

text \<open>Each record of the policy, as the tuple of the fields in the order they are written.\<close>

definition principal_view :: "string \<times> PrincipalKind \<Rightarrow> string \<times> string" where
  "principal_view p = (fst p, PrincipalKind_as_str (snd p))"

definition assignment_view ::
    "RoleAssignment \<Rightarrow> string \<times> string \<times> string list option \<times> string list option \<times> string list option \<times> string list option" where
  "assignment_view a = (ra_principal a, PolicyRole_as_str (ra_role a), namespace_ids (ra_scope a),
    node_ids (ra_scope a), job_queue_ids (ra_scope a), manager_ids (ra_scope a))"

definition manager_view :: "ManagerEnrollment \<Rightarrow> string \<times> string \<times> string" where
  "manager_view m = (me_principal m, me_manager_id m, me_endpoint m)"

definition node_view :: "NodeEnrollment \<Rightarrow> string \<times> string" where
  "node_view n = (ne_principal n, ne_node_id n)"

definition enc_assignment :: "RoleAssignment \<Rightarrow> string" where
  "enc_assignment a = enc_pair (enc_lp 4) (enc_pair (enc_lp 4) (enc_pair enc_set (enc_pair enc_set
    (enc_pair enc_set enc_set)))) (assignment_view a)"

definition ok_assignment :: "RoleAssignment \<Rightarrow> bool" where
  "ok_assignment a = ok_pair short (ok_pair short (ok_pair ok_set (ok_pair ok_set
    (ok_pair ok_set ok_set)))) (assignment_view a)"

abbreviation enc_principal :: "string \<times> PrincipalKind \<Rightarrow> string" where
  "enc_principal p \<equiv> enc_pair (enc_lp 4) (enc_lp 4) (principal_view p)"

abbreviation ok_principal :: "string \<times> PrincipalKind \<Rightarrow> bool" where
  "ok_principal p \<equiv> ok_pair short short (principal_view p)"

abbreviation enc_manager :: "ManagerEnrollment \<Rightarrow> string" where
  "enc_manager m \<equiv> enc_pair (enc_lp 4) (enc_pair (enc_lp 4) (enc_lp 4)) (manager_view m)"

abbreviation ok_manager :: "ManagerEnrollment \<Rightarrow> bool" where
  "ok_manager m \<equiv> ok_pair short (ok_pair short short) (manager_view m)"

abbreviation enc_node :: "NodeEnrollment \<Rightarrow> string" where
  "enc_node n \<equiv> enc_pair (enc_lp 4) (enc_lp 4) (node_view n)"

abbreviation ok_node :: "NodeEnrollment \<Rightarrow> bool" where
  "ok_node n \<equiv> ok_pair short short (node_view n)"

interpretation principal_writer: writer push_principal enc_principal ok_principal
  by unfold_locales (auto simp: push_principal_def str_writer.push_Inr enc_pair_def ok_pair_def principal_view_def)

interpretation assignment_writer: writer push_assignment enc_assignment ok_assignment
  by unfold_locales
    (auto simp: push_assignment_def str_writer.push_Inr set_writer.push_Inr enc_assignment_def ok_assignment_def
      enc_pair_def ok_pair_def assignment_view_def)

interpretation manager_writer: writer push_manager enc_manager ok_manager
  by unfold_locales (auto simp: push_manager_def str_writer.push_Inr enc_pair_def ok_pair_def manager_view_def)

interpretation node_writer: writer push_node enc_node ok_node
  by unfold_locales (auto simp: push_node_def str_writer.push_Inr enc_pair_def ok_pair_def node_view_def)

lemma kind_str_inj: "PrincipalKind_as_str k = PrincipalKind_as_str l \<longleftrightarrow> k = l"
  by (metis PrincipalKind_round_trip sum.inject(2))

lemma PolicyRole_round_trip [simp]: "PolicyRole_from_str (PolicyRole_as_str r) = Inr r"
  by (cases r) (simp_all add: PolicyRole_from_str_def)

lemma role_str_inj: "PolicyRole_as_str r = PolicyRole_as_str s \<longleftrightarrow> r = s"
  by (metis PolicyRole_round_trip sum.inject(2))

lemma lp_code: "prefix_code (enc_lp 4) short"
  by (rule lp4.prefix_code_axioms)

lemma set_code: "prefix_code enc_set ok_set"
  by (intro prefix_code_opt prefix_code_counted lp_code)

lemma assignment_view_inj: "assignment_view a = assignment_view b \<Longrightarrow> a = b"
  by (auto simp: assignment_view_def role_str_inj intro: RoleAssignment.equality AssignmentScope.equality)

interpretation principal_code: prefix_code enc_principal ok_principal
  by (rule prefix_code_via [OF prefix_code_pair [OF lp_code lp_code]])
    (simp add: principal_view_def kind_str_inj prod_eq_iff)

interpretation assignment_code: prefix_code enc_assignment ok_assignment
  unfolding enc_assignment_def [abs_def] ok_assignment_def [abs_def]
  by (rule prefix_code_via [OF _ assignment_view_inj]) (intro prefix_code_pair lp_code set_code)

interpretation manager_code: prefix_code enc_manager ok_manager
  by (rule prefix_code_via [OF prefix_code_pair [OF lp_code prefix_code_pair [OF lp_code lp_code]]])
    (simp add: manager_view_def)

interpretation node_code: prefix_code enc_node ok_node
  by (rule prefix_code_via [OF prefix_code_pair [OF lp_code lp_code]]) (simp add: node_view_def)

lemma word_bytes_cut:
  fixes v w :: "'a::len word"
  assumes "LENGTH('a) = 8 * n" "be_bytes n (unat v) @ r = be_bytes n (unat w) @ s"
  shows "v = w \<and> r = s"
proof -
  have "be_bytes n (unat v) = be_bytes n (unat w)" "r = s"
    using assms(2) by (simp_all add: append_eq_append_conv)
  moreover have "unat v < 256 ^ n" "unat w < 256 ^ n"
    using unsigned_less [of v] unsigned_less [of w] assms(1) by (simp_all add: power_mult)
  ultimately show ?thesis using be_bytes_inj word_unat_eq_iff by blast
qed

interpretation u32_code: prefix_code "\<lambda>w :: 32 word. be_bytes 4 (unat w)" "\<lambda>_. True"
  by unfold_locales (rule word_bytes_cut, simp)

interpretation u64_code: prefix_code "\<lambda>w :: 64 word. be_bytes 8 (unat w)" "\<lambda>_. True"
  by unfold_locales (rule word_bytes_cut, simp)

section \<open>Content of a policy\<close>

definition policy_content where
  "policy_content p = (vp_schema_version p, vp_generation p, vp_cluster_id p, vp_principals p, vp_assignments p,
    vp_manager_enrollments p, vp_proxy_enrollments p, vp_node_agent_enrollments p, vp_revoked_leaf_fingerprints p)"

definition enc_content where
  "enc_content = enc_pair (\<lambda>w :: 32 word. be_bytes 4 (unat w)) (enc_pair (\<lambda>w :: 64 word. be_bytes 8 (unat w))
    (enc_pair (enc_lp 4) (enc_pair (enc_counted enc_principal) (enc_pair (enc_counted enc_assignment)
    (enc_pair (enc_counted enc_manager) (enc_pair (enc_counted enc_node) (enc_pair (enc_counted enc_node)
    (enc_counted (enc_lp 4)))))))))"

definition ok_content where
  "ok_content = ok_pair (\<lambda>_ :: 32 word. True) (ok_pair (\<lambda>_ :: 64 word. True)
    (ok_pair short (ok_pair (ok_counted ok_principal) (ok_pair (ok_counted ok_assignment)
    (ok_pair (ok_counted ok_manager) (ok_pair (ok_counted ok_node) (ok_pair (ok_counted ok_node)
    (ok_counted short))))))))"

interpretation content_code: prefix_code enc_content ok_content
  unfolding enc_content_def ok_content_def
  by (intro prefix_code_pair prefix_code_counted u32_code.prefix_code_axioms u64_code.prefix_code_axioms lp_code
      principal_code.prefix_code_axioms assignment_code.prefix_code_axioms manager_code.prefix_code_axioms
      node_code.prefix_code_axioms)

lemmas list_writers =
  writer.push_Inr [OF writer_list [OF principal_writer.writer_axioms]]
  writer.push_Inr [OF writer_list [OF assignment_writer.writer_axioms]]
  writer.push_Inr [OF writer_list [OF manager_writer.writer_axioms]]
  writer.push_Inr [OF writer_list [OF node_writer.writer_axioms]]
  writer.push_Inr [OF writer_list [OF str_writer.writer_axioms]]

lemma canonical_bytes_Inr:
  "canonical_bytes p = Inr x \<longleftrightarrow>
    ok_content (policy_content p) \<and> x = DIGEST_DOMAIN @ enc_content (policy_content p)"
  by (simp add: canonical_bytes_def str_writer.push_Inr list_writers enc_content_def ok_content_def
      policy_content_def enc_pair_def ok_pair_def)

lemma canonical_bytes_eq:
  assumes "canonical_bytes p = Inr x" "canonical_bytes q = Inr y"
  shows "x = y \<longleftrightarrow> policy_content p = policy_content q"
  using assms content_code.enc_inj [of "policy_content p" "policy_content q"]
  by (auto simp: canonical_bytes_Inr)

section \<open>Well-formed policies\<close>

definition principals_ok :: "string \<Rightarrow> (string \<times> PrincipalKind) list \<Rightarrow> bool" where
  "principals_ok cluster ps \<longleftrightarrow> sorted (map fst ps) \<and> distinct (map fst ps) \<and>
    (\<forall>u k. map_of ps u = Some k \<longrightarrow> (\<exists>n. valid_name n \<and> u = principal_uri_format cluster k n))"

definition value_set_ok :: "string list option \<Rightarrow> bool" where
  "value_set_ok values = (case values of None \<Rightarrow> True
    | Some vs \<Rightarrow> vs \<noteq> [] \<and> sorted vs \<and> distinct vs \<and> list_all valid_name vs)"

definition scope_ok :: "PrincipalKind \<Rightarrow> PolicyRole \<Rightarrow> AssignmentScope \<Rightarrow> bool" where
  "scope_ok kind role scope \<longleftrightarrow> list_all value_set_ok (scope_dimensions scope) \<and>
    scope_count scope \<le> MAX_SCOPE_VALUES_PER_ASSIGNMENT \<and>
    (\<exists>allowed. allowed_dimensions kind role = Inr allowed \<and>
      list_all2 (\<lambda>d a. d = None \<or> a) (scope_dimensions scope) allowed)"

definition assignment_ok :: "(string \<times> PrincipalKind) list \<Rightarrow> RoleAssignment \<Rightarrow> bool" where
  "assignment_ok ps a \<longleftrightarrow> (\<exists>kind. map_of ps (ra_principal a) = Some kind \<and> kind \<in> {Human, ServiceAccount} \<and>
    scope_ok kind (ra_role a) (ra_scope a))"

definition assignments_ok :: "(string \<times> PrincipalKind) list \<Rightarrow> RoleAssignment list \<Rightarrow> bool" where
  "assignments_ok ps as \<longleftrightarrow> list_all (assignment_ok ps) as \<and> distinct as \<and>
    sum_list (map (\<lambda>a. scope_count (ra_scope a)) as) \<le> MAX_SCOPE_VALUES \<and>
    (\<forall>u. length (filter (\<lambda>a. ra_principal a = u) as) \<le> MAX_ASSIGNMENTS_PER_PRINCIPAL)"

definition manager_ok :: "policy_deps \<Rightarrow> string \<Rightarrow> ManagerEnrollment \<Rightarrow> bool" where
  "manager_ok deps cluster m \<longleftrightarrow> valid_name (me_manager_id m) \<and>
    me_principal m = principal_uri_format cluster Manager (me_manager_id m) \<and>
    is_ok (PeerHttpsUrl_parse (pd_uri deps) (me_endpoint m))"

definition enrolled_as :: "(string \<times> PrincipalKind) list \<Rightarrow> PrincipalKind \<Rightarrow> string list \<Rightarrow> bool" where
  "enrolled_as ps kind us \<longleftrightarrow> distinct us \<and> (\<forall>u. u \<in> set us \<longleftrightarrow> map_of ps u = Some kind)"

definition revocations_ok :: "string list \<Rightarrow> bool" where
  "revocations_ok rs \<longleftrightarrow> sorted rs \<and> distinct rs \<and> list_all fingerprint rs"

definition caps_ok :: "ValidatedPolicy \<Rightarrow> bool" where
  "caps_ok p \<longleftrightarrow> length (vp_principals p) \<le> MAX_PRINCIPALS \<and> length (vp_assignments p) \<le> MAX_ASSIGNMENTS \<and>
    length (vp_manager_enrollments p) \<le> MAX_MANAGERS \<and> length (vp_proxy_enrollments p) \<le> MAX_PROXIES \<and>
    length (vp_node_agent_enrollments p) \<le> MAX_NODE_AGENTS \<and>
    length (vp_revoked_leaf_fingerprints p) \<le> MAX_REVOKED_FINGERPRINTS"

definition policy_wf :: "policy_deps \<Rightarrow> ValidatedPolicy \<Rightarrow> bool" where
  "policy_wf deps p \<longleftrightarrow> vp_generation p \<noteq> 0 \<and> valid_name (vp_cluster_id p) \<and>
    principals_ok (vp_cluster_id p) (vp_principals p) \<and>
    assignments_ok (vp_principals p) (vp_assignments p) \<and>
    list_all (manager_ok deps (vp_cluster_id p)) (vp_manager_enrollments p) \<and>
    sorted (map me_manager_id (vp_manager_enrollments p)) \<and>
    distinct (map me_manager_id (vp_manager_enrollments p)) \<and>
    distinct (map me_endpoint (vp_manager_enrollments p)) \<and>
    list_all (\<lambda>n. valid_name (ne_node_id n)) (vp_proxy_enrollments p @ vp_node_agent_enrollments p) \<and>
    enrolled_as (vp_principals p) Manager (map me_principal (vp_manager_enrollments p)) \<and>
    enrolled_as (vp_principals p) Proxy (map ne_principal (vp_proxy_enrollments p)) \<and>
    enrolled_as (vp_principals p) NodeAgent (map ne_principal (vp_node_agent_enrollments p)) \<and>
    revocations_ok (vp_revoked_leaf_fingerprints p) \<and> caps_ok p"

section \<open>What each stage establishes\<close>

lemma try_fold_measure:
  assumes "try_fold f xs s = Inr s'" "\<And>x t t'. f x t = Inr t' \<Longrightarrow> m t' = Suc (m t)"
  shows "m s' = m s + length xs"
  using assms(1)
proof (induction xs arbitrary: s)
  case Nil
  then show ?case by simp
next
  case (Cons x xs)
  then obtain t where "f x s = Inr t" "try_fold f xs t = Inr s'" by auto
  then show ?case using Cons.IH [of t] assms(2) [of x s t] by simp
qed

lemma map_insort_key: "map f (insort_key f x xs) = insort (f x) (map f xs)"
  by (induction xs) auto

lemma map_sort_key: "map f (sort_key f xs) = sort (map f xs)"
  by (induction xs) (simp_all add: map_insort_key)

lemma load_principal_ok:
  assumes "principals_ok cluster ps" "load_principal cluster raw ps = Inr ps'"
  shows "principals_ok cluster ps' \<and> length ps' = Suc (length ps)"
proof -
  obtain uri k where uri: "PrincipalUri_parse (rwp_uri raw) = Inr uri" "uri_cluster_id uri = cluster"
      "uri_kind uri = k" "map_of ps (uri_value uri) = None"
    and ps': "ps' = insort_key fst (uri_value uri, k) ps"
    using assms(2) by (auto simp: load_principal_def split: if_splits)
  obtain n where n: "valid_name n" "uri_value uri = principal_uri_format cluster k n"
    using PrincipalUri_parse_Inr [OF uri(1)] uri(2,3) by (auto simp: PrincipalUri_new_def)
  have keys: "set (map fst ps') = insert (uri_value uri) (set (map fst ps))"
    by (simp add: ps' set_insort_key)
  have "distinct (map fst ps)" "uri_value uri \<notin> set (map fst ps)"
    using assms(1) uri(4) by (auto simp: principals_ok_def map_of_eq_None_iff)
  then have dist: "distinct (map fst ps')"
    by (simp add: ps' map_insort_key distinct_insort)
  have "\<exists>n. valid_name n \<and> u = principal_uri_format cluster l n" if l: "map_of ps' u = Some l" for u l
  proof -
    have "map_of ps u = Some l \<or> (u = uri_value uri \<and> l = k)"
      using l \<open>distinct (map fst ps)\<close> dist by (auto simp: ps' map_of_eq_Some_iff set_insort_key)
    then show ?thesis using assms(1) n by (auto simp only: principals_ok_def)
  qed
  moreover have "sorted (map fst ps')" using assms(1) by (simp add: ps' sorted_insort_key principals_ok_def)
  ultimately show ?thesis using dist by (simp add: principals_ok_def ps')
qed

lemma principals_stage:
  assumes "try_fold (load_principal cluster) raws [] = Inr ps"
  shows "principals_ok cluster ps \<and> length ps = length raws"
proof
  show "principals_ok cluster ps"
    by (rule try_fold_invariant [OF assms]) (simp add: principals_ok_def, blast dest: load_principal_ok)
  have "length t' = Suc (length t)" if "load_principal cluster x t = Inr t'" for x t t'
    using that by (auto simp: load_principal_def split: if_splits)
  from try_fold_measure [OF assms, of length, OF this] show "length ps = length raws" by simp
qed

lemma checked_set_ok:
  assumes "checked_set values label (name_parse l) = Inr result"
  shows "value_set_ok result"
proof (cases "values")
  case None
  then show ?thesis using assms by (simp add: checked_set_def value_set_ok_def)
next
  case (Some vs)
  let ?f = "\<lambda>value result. and_then (map_err (Bad_Scope_Value label value) (name_parse l value)) (\<lambda>_.
    if value \<in> set result then Inl (Duplicate_Scope_Value label) else Inr (insort value result))"
  obtain r where vs: "vs \<noteq> []" and fold: "try_fold ?f vs [] = Inr r" and result: "result = Some r"
    using assms Some by (auto simp: checked_set_def split: if_splits)
  have "sorted r \<and> distinct r \<and> list_all valid_name r"
    by (rule try_fold_invariant [OF fold])
      (auto simp: sorted_insort distinct_insort set_insort_key list_all_iff split: if_splits)
  moreover have "length r = length ([] :: string list) + length vs"
    by (rule try_fold_measure [OF fold]) (auto split: if_splits)
  ultimately show ?thesis using vs by (auto simp: result value_set_ok_def)
qed

lemma checked_scope_ok: "checked_scope raw = Inr scope \<Longrightarrow> list_all value_set_ok (scope_dimensions scope)"
  by (auto simp: checked_scope_def scope_dimensions_def dest: checked_set_ok)

lemma allowed_length: "allowed_dimensions kind role = Inr allowed \<Longrightarrow> length allowed = 4"
  by (auto simp: allowed_dimensions_def split: PrincipalKind.splits PolicyRole.splits)

lemma dimensions_allowed_all2:
  assumes "dimensions_allowed scope allowed" "length allowed = 4"
  shows "list_all2 (\<lambda>d a. d = None \<or> a) (scope_dimensions scope) allowed"
proof -
  obtain a b c d where "allowed = [a, b, c, d]"
    using assms(2) by (auto simp: length_Suc_conv numeral_eq_Suc)
  then show ?thesis using assms(1) by (auto simp: dimensions_allowed_def scope_dimensions_def)
qed

definition assignment_inv :: "(string \<times> PrincipalKind) list \<Rightarrow> assignment_state \<Rightarrow> bool" where
  "assignment_inv ps st \<longleftrightarrow> list_all (assignment_ok ps) (st_assignments st) \<and>
    st_total st = sum_list (map (\<lambda>a. scope_count (ra_scope a)) (st_assignments st)) \<and>
    st_total st \<le> MAX_SCOPE_VALUES \<and>
    (\<forall>u. (case map_of (st_counts st) u of None \<Rightarrow> 0 | Some n \<Rightarrow> n) =
        length (filter (\<lambda>a. ra_principal a = u) (st_assignments st)) \<and>
      length (filter (\<lambda>a. ra_principal a = u) (st_assignments st)) \<le> MAX_ASSIGNMENTS_PER_PRINCIPAL)"

lemma load_assignment_shape:
  assumes "load_assignment ps item st = Inr st'"
  shows "\<exists>a n. assignment_ok ps a \<and> ra_principal a = rwa_principal item \<and>
    n = Suc (case map_of (st_counts st) (rwa_principal item) of None \<Rightarrow> 0 | Some m \<Rightarrow> m) \<and>
    n \<le> MAX_ASSIGNMENTS_PER_PRINCIPAL \<and> st_total st + scope_count (ra_scope a) \<le> MAX_SCOPE_VALUES \<and>
    st' = \<lparr>st_counts = alist_put (rwa_principal item) n (st_counts st),
      st_total = st_total st + scope_count (ra_scope a), st_assignments = st_assignments st @ [a]\<rparr>"
proof -
  obtain kind role allowed scope where
      k: "map_of ps (rwa_principal item) = Some kind" "kind \<in> {Human, ServiceAccount}"
    and a: "allowed_dimensions kind role = Inr allowed" "checked_scope (rwa_scope item) = Inr scope"
      "dimensions_allowed scope allowed"
    and c: "scope_count scope \<le> MAX_SCOPE_VALUES_PER_ASSIGNMENT" "st_total st + scope_count scope \<le> MAX_SCOPE_VALUES"
      "Suc (case map_of (st_counts st) (rwa_principal item) of None \<Rightarrow> 0 | Some n \<Rightarrow> n) \<le> MAX_ASSIGNMENTS_PER_PRINCIPAL"
    and st': "st' = \<lparr>st_counts = alist_put (rwa_principal item)
        (Suc (case map_of (st_counts st) (rwa_principal item) of None \<Rightarrow> 0 | Some n \<Rightarrow> n)) (st_counts st),
      st_total = st_total st + scope_count scope, st_assignments = st_assignments st @
        [\<lparr>ra_principal = rwa_principal item, ra_role = role, ra_scope = scope\<rparr>]\<rparr>"
    using assms unfolding load_assignment_def Let_def and_then_Inr ok_or_Inr
    by (auto simp: not_less split: if_splits)
  have "list_all2 (\<lambda>d a. d = None \<or> a) (scope_dimensions scope) allowed"
    by (rule dimensions_allowed_all2 [OF a(3) allowed_length [OF a(1)]])
  then have "assignment_ok ps \<lparr>ra_principal = rwa_principal item, ra_role = role, ra_scope = scope\<rparr>"
    using k a(1) c(1) checked_scope_ok [OF a(2)] by (simp add: assignment_ok_def scope_ok_def)
  with c st' show ?thesis by (intro exI conjI) (assumption | simp)+
qed

lemma load_assignment_inv:
  assumes "assignment_inv ps st" "load_assignment ps item st = Inr st'"
  shows "assignment_inv ps st' \<and> length (st_assignments st') = Suc (length (st_assignments st))"
proof -
  obtain a n where a: "assignment_ok ps a" "ra_principal a = rwa_principal item"
      "n = Suc (case map_of (st_counts st) (rwa_principal item) of None \<Rightarrow> 0 | Some m \<Rightarrow> m)"
      "n \<le> MAX_ASSIGNMENTS_PER_PRINCIPAL" "st_total st + scope_count (ra_scope a) \<le> MAX_SCOPE_VALUES"
    and st': "st' = \<lparr>st_counts = alist_put (rwa_principal item) n (st_counts st),
      st_total = st_total st + scope_count (ra_scope a), st_assignments = st_assignments st @ [a]\<rparr>"
    using load_assignment_shape [OF assms(2)] by blast
  have "n = Suc (length (filter (\<lambda>b. ra_principal b = rwa_principal item) (st_assignments st)))"
    using assms(1) a(3) by (simp only: assignment_inv_def)
  then show ?thesis
    using assms(1) a by (auto simp: assignment_inv_def st')
qed

lemma assignment_key_inj: "inj_on assignment_key A"
proof (rule inj_onI)
  fix a b assume "assignment_key a = assignment_key b"
  moreover from this have "ra_role a = ra_role b"
    by (cases "ra_role a"; cases "ra_role b") (simp_all add: assignment_key_def)
  ultimately show "a = b"
    by (auto simp: assignment_key_def intro: RoleAssignment.equality AssignmentScope.equality)
qed

lemma sorted_distinct_adj: "sorted xs \<Longrightarrow> distinct_adj xs \<Longrightarrow> distinct xs"
  by (induction xs rule: induct_list012) (auto simp: order.order_iff_strict)

lemma assignments_stage:
  assumes "load_assignments ps raws = Inr (as, n)"
  shows "assignments_ok ps as \<and> n = sum_list (map (\<lambda>a. scope_count (ra_scope a)) as) \<and> length as = length raws"
proof -
  let ?s = "\<lparr>st_counts = [], st_total = 0, st_assignments = []\<rparr>"
  obtain st where st: "try_fold (load_assignment ps) raws ?s = Inr st"
      "as = sort_key assignment_key (st_assignments st)" "distinct_adj as" "n = st_total st"
    using assms by (auto simp: load_assignments_def Let_def split: if_splits)
  have inv: "assignment_inv ps st"
    by (rule try_fold_invariant [OF st(1)])
      (simp add: assignment_inv_def, blast dest: load_assignment_inv)
  have len: "length (st_assignments st) = length (st_assignments ?s) + length raws"
    by (rule try_fold_measure [OF st(1)]) (auto dest!: load_assignment_shape)
  have "distinct_adj (map assignment_key as)"
    using st(3) by (simp add: distinct_adj_map_iff [OF assignment_key_inj])
  then have "distinct as"
    using sorted_distinct_adj [of "map assignment_key as"] st(2)
    by (simp add: distinct_map)
  moreover have "mset as = mset (st_assignments st)" by (simp add: st(2))
  then have "sum_list (map f as) = sum_list (map f (st_assignments st))" for f :: "RoleAssignment \<Rightarrow> nat"
    by (metis mset_map sum_mset_sum_list)
  moreover have "length (filter P as) = length (filter P (st_assignments st))" for P
    by (simp add: st(2) filter_sort)
  ultimately show ?thesis
    using inv len st(2,4) by (simp add: assignments_ok_def assignment_inv_def list_all_iff)
qed

definition manager_inv :: "policy_deps \<Rightarrow> string \<Rightarrow> (string \<times> PrincipalKind) list \<Rightarrow> manager_state \<Rightarrow> bool" where
  "manager_inv deps cluster ps st \<longleftrightarrow> ms_enrolled st = rev (map me_principal (ms_managers st)) \<and>
    ms_ids st = rev (map me_manager_id (ms_managers st)) \<and>
    ms_endpoints st = rev (map me_endpoint (ms_managers st)) \<and>
    distinct (map me_principal (ms_managers st)) \<and> distinct (map me_manager_id (ms_managers st)) \<and>
    distinct (map me_endpoint (ms_managers st)) \<and>
    list_all (\<lambda>m. manager_ok deps cluster m \<and> map_of ps (me_principal m) = Some Manager) (ms_managers st)"

lemma principal_of_cluster:
  assumes "principals_ok cluster ps" "valid_name cluster" "PrincipalUri_parse v = Inr u"
    and "map_of ps (uri_value u) = Some k"
  shows "v = uri_value u \<and> valid_name (uri_name u) \<and> v = principal_uri_format cluster k (uri_name u)"
proof -
  have v: "v = uri_value u" using PrincipalUri_parse_Inr [OF assms(3)] by blast
  obtain m where m: "valid_name m" "v = principal_uri_format cluster k m"
    using assms(1,4) v by (auto simp only: principals_ok_def)
  have "u = PrincipalUri_new cluster k m"
    using PrincipalUri_parse_new [OF assms(2) m(1), of k] assms(3) m(2) by simp
  then show ?thesis using v m by (simp add: PrincipalUri_new_def)
qed

lemma load_manager_inv:
  assumes "manager_inv deps cluster ps st" "principals_ok cluster ps" "valid_name cluster"
    and "load_manager deps ps item st = Inr st'"
  shows "manager_inv deps cluster ps st' \<and> length (ms_managers st') = Suc (length (ms_managers st))"
proof -
  obtain uri e where uri: "PrincipalUri_parse (me_principal item) = Inr uri"
      "map_of ps (uri_value uri) = Some Manager" "uri_name uri = me_manager_id item"
      "PeerHttpsUrl_parse (pd_uri deps) (me_endpoint item) = Inr e"
    and new: "me_principal item \<notin> set (ms_enrolled st)" "me_manager_id item \<notin> set (ms_ids st)"
      "me_endpoint item \<notin> set (ms_endpoints st)"
    and st': "st' = \<lparr>ms_enrolled = me_principal item # ms_enrolled st, ms_ids = me_manager_id item # ms_ids st,
      ms_endpoints = me_endpoint item # ms_endpoints st, ms_managers = ms_managers st @ [item]\<rparr>"
    using assms(4) by (auto simp: load_manager_def split: if_splits)
  have "manager_ok deps cluster item \<and> map_of ps (me_principal item) = Some Manager"
    using principal_of_cluster [OF assms(2,3) uri(1,2)] uri(2,3,4) by (auto simp: manager_ok_def)
  then show ?thesis using assms(1) new by (simp add: manager_inv_def st')
qed

lemma managers_stage:
  assumes "try_fold (load_manager deps ps) raws \<lparr>ms_enrolled = [], ms_ids = [], ms_endpoints = [], ms_managers = []\<rparr> = Inr st"
    and "principals_ok cluster ps" "valid_name cluster"
  shows "manager_inv deps cluster ps st \<and> length (ms_managers st) = length raws"
proof
  show "manager_inv deps cluster ps st"
    by (rule try_fold_invariant [OF assms(1)])
      (simp add: manager_inv_def, use assms(2,3) load_manager_inv in blast)
  have "length (ms_managers t') = Suc (length (ms_managers t))" if "load_manager deps ps x t = Inr t'" for x t t'
    using that by (auto simp: load_manager_def split: if_splits)
  from try_fold_measure [OF assms(1), of "\<lambda>t. length (ms_managers t)", OF this]
  show "length (ms_managers st) = length raws" by simp
qed

definition node_inv :: "(string \<times> PrincipalKind) list \<Rightarrow> PrincipalKind \<Rightarrow> string list \<Rightarrow> string list \<times> NodeEnrollment list \<Rightarrow> bool" where
  "node_inv ps kind enrolled st \<longleftrightarrow> fst st = rev (map ne_principal (snd st)) @ enrolled \<and> distinct (fst st) \<and>
    list_all (\<lambda>n. valid_name (ne_node_id n) \<and> map_of ps (ne_principal n) = Some kind) (snd st)"

lemma validate_node_inv:
  assumes "node_inv ps kind enrolled st" "validate_node ps kind item st = Inr st'"
  shows "node_inv ps kind enrolled st'"
proof -
  obtain uri where "PrincipalUri_parse (ne_principal item) = Inr uri" "map_of ps (uri_value uri) = Some kind"
      "valid_name (ne_node_id item)" "ne_principal item \<notin> set (fst st)"
      "st' = (ne_principal item # fst st, snd st @ [item])"
    using assms(2) by (auto simp: validate_node_def split: if_splits)
  moreover from this(1) have "uri_value uri = ne_principal item"
    using PrincipalUri_parse_Inr by metis
  ultimately show ?thesis using assms(1) by (cases st) (auto simp: node_inv_def)
qed

lemma nodes_stage:
  assumes "validate_nodes ps raws kind enrolled = Inr (enrolled', items)" "distinct enrolled"
  shows "length items = length raws \<and> list_all (\<lambda>n. valid_name (ne_node_id n)) items \<and>
    distinct (map ne_principal items) \<and> distinct enrolled' \<and>
    set enrolled' = set enrolled \<union> set (map ne_principal items) \<and>
    (\<forall>n \<in> set items. map_of ps (ne_principal n) = Some kind)"
proof -
  obtain raw_items where fold: "try_fold (validate_node ps kind) raws (enrolled, []) = Inr (enrolled', raw_items)"
    and items: "items = sort_key (\<lambda>e. (ne_principal e, ne_node_id e)) raw_items"
    using assms(1) by (auto simp: validate_nodes_def)
  have "node_inv ps kind enrolled (enrolled', raw_items)"
    by (rule try_fold_invariant [OF fold]) (simp add: node_inv_def assms(2), rule validate_node_inv)
  then have inv: "enrolled' = rev (map ne_principal raw_items) @ enrolled" "distinct enrolled'"
      "list_all (\<lambda>n. valid_name (ne_node_id n) \<and> map_of ps (ne_principal n) = Some kind) raw_items"
    unfolding node_inv_def fst_conv snd_conv by blast+
  have "length (snd (enrolled', raw_items)) = length (snd (enrolled, [] :: NodeEnrollment list)) + length raws"
    by (rule try_fold_measure [OF fold]) (auto simp: validate_node_def split: if_splits)
  moreover have "mset (map ne_principal items) = mset (map ne_principal raw_items)" by (simp add: items)
  then have "distinct (map ne_principal items)"
    using inv(1,2) mset_eq_imp_distinct_iff by (metis distinct_append distinct_rev)
  ultimately show ?thesis using inv by (auto simp: items list_all_iff)
qed

lemma revocations_stage:
  assumes "load_revocations values = Inr revoked"
  shows "revocations_ok revoked \<and> length revoked = length values"
proof -
  obtain checked where "list_all2 (\<lambda>x y. (if fingerprint x then Inr x else Inl (Fault
        ''revocation must be sha256:<64 lowercase hex>'')) = (Inr y :: policy_error + string)) values checked"
    and revoked: "revoked = sort (remdups checked)" "length revoked = length values"
    using assms by (auto simp: load_revocations_def Let_def try_map_Inr split: if_splits)
  then have "list_all2 (\<lambda>x y. fingerprint x \<and> y = x) values checked"
    by (auto elim!: list_all2_mono split: if_splits)
  then have "list_all fingerprint checked"
    by (induction rule: list_all2_induct) auto
  then show ?thesis using revoked by (simp add: revocations_ok_def list_all_iff)
qed

lemma enrolled_asI:
  assumes "distinct us" "\<And>u. u \<in> set us \<Longrightarrow> map_of ps u = Some kind"
    and "\<And>u. map_of ps u = Some kind \<Longrightarrow> u \<in> set us"
  shows "enrolled_as ps kind us"
  using assms by (auto simp: enrolled_as_def)

text \<open>
  When the enrolled principals are those of three lists, each of one kind, and every workload principal
  is enrolled, each list holds exactly the principals of its kind.
\<close>

lemma enrolled_as_split:
  assumes "\<And>u kind. map_of ps u = Some kind \<Longrightarrow> kind \<in> {k, l, m} \<Longrightarrow> u \<in> set all"
    and "set all = set us \<union> set vs \<union> set ws" "distinct us" "distinct vs" "distinct ws" "distinct [k, l, m]"
    and "\<forall>u \<in> set us. map_of ps u = Some k" "\<forall>u \<in> set vs. map_of ps u = Some l"
    and "\<forall>u \<in> set ws. map_of ps u = Some m"
  shows "enrolled_as ps k us \<and> enrolled_as ps l vs \<and> enrolled_as ps m ws"
proof (intro conjI enrolled_asI)
  fix u assume u: "map_of ps u = Some k"
  then show "u \<in> set us" using assms(1) [OF u] assms(2,6,7,8,9) by fastforce
next
  fix u assume u: "map_of ps u = Some l"
  then show "u \<in> set vs" using assms(1) [OF u] assms(2,6,7,8,9) by fastforce
next
  fix u assume u: "map_of ps u = Some m"
  then show "u \<in> set ws" using assms(1) [OF u] assms(2,6,7,8,9) by fastforce
qed (use assms in auto)

lemma check_enrolled_iff:
  "distinct (map fst ps) \<Longrightarrow> check_enrolled ps enrolled \<longleftrightarrow>
    (\<forall>u k. map_of ps u = Some k \<and> k \<in> {Manager, Proxy, NodeAgent} \<longrightarrow> u \<in> set enrolled)"
  by (auto simp: check_enrolled_def list_all_iff)

text \<open>The headroom and what the policy uses add up to the caps: no subtraction is cut off at zero.\<close>

definition headroom_exact :: "ValidatedPolicy \<Rightarrow> bool" where
  "headroom_exact p \<longleftrightarrow> (let c = vp_cap_headroom p in
    ch_principals c + length (vp_principals p) = MAX_PRINCIPALS \<and>
    ch_assignments c + length (vp_assignments p) = MAX_ASSIGNMENTS \<and>
    ch_scope_values c + sum_list (map (\<lambda>a. scope_count (ra_scope a)) (vp_assignments p)) = MAX_SCOPE_VALUES \<and>
    ch_managers c + length (vp_manager_enrollments p) = MAX_MANAGERS \<and>
    ch_proxies c + length (vp_proxy_enrollments p) = MAX_PROXIES \<and>
    ch_node_agents c + length (vp_node_agent_enrollments p) = MAX_NODE_AGENTS \<and>
    ch_revoked_fingerprints c + length (vp_revoked_leaf_fingerprints p) = MAX_REVOKED_FINGERPRINTS)"

lemma seal_policy_Inr:
  assumes "seal_policy deps n k q = Inr p"
  shows "\<exists>x h c. canonical_bytes q = Inr x \<and> length x \<le> MAX_POLICY_BYTES \<and>
    manager_set_hash deps (manager_targets (vp_manager_enrollments q)) = Inr h \<and>
    p = q\<lparr>vp_digest := policy_hash deps x, vp_manager_set_hash := h, vp_cap_headroom := c\<rparr>"
  using assms by (auto simp: seal_policy_def split: if_splits)

lemma seal_policy_headroom:
  assumes "seal_policy deps n k q = Inr p" "caps_ok q" "k \<le> MAX_SCOPE_VALUES"
    and "k = sum_list (map (\<lambda>a. scope_count (ra_scope a)) (vp_assignments q))"
  shows "headroom_exact p"
  using assms by (auto simp: seal_policy_def headroom_exact_def caps_ok_def Let_def split: if_splits)

lemma canonical_bytes_update [simp]:
  "canonical_bytes (q\<lparr>vp_digest := d, vp_manager_set_hash := h, vp_cap_headroom := c\<rparr>) = canonical_bytes q"
  by (simp add: canonical_bytes_def)

lemma policy_wf_update [simp]:
  "policy_wf deps (q\<lparr>vp_digest := d, vp_manager_set_hash := h, vp_cap_headroom := c\<rparr>) = policy_wf deps q"
  by (simp add: policy_wf_def caps_ok_def)

lemma manager_state_enrolled:
  assumes "manager_inv deps cluster ps st" "m = sort_key me_manager_id (ms_managers st)"
  shows "list_all (manager_ok deps cluster) m \<and> sorted (map me_manager_id m) \<and> distinct (map me_manager_id m) \<and>
    distinct (map me_endpoint m) \<and> distinct (map me_principal m) \<and> distinct (ms_enrolled st) \<and>
    set (ms_enrolled st) = set (map me_principal m) \<and> (\<forall>x \<in> set m. map_of ps (me_principal x) = Some Manager)"
proof -
  have "mset (map f m) = mset (map f (ms_managers st))" for f :: "ManagerEnrollment \<Rightarrow> string"
    by (simp add: assms(2))
  then have "distinct (map f m) = distinct (map f (ms_managers st))" for f :: "ManagerEnrollment \<Rightarrow> string"
    by (rule mset_eq_imp_distinct_iff)
  then show ?thesis using assms by (auto simp: manager_inv_def list_all_iff)
qed

lemma validate_raw_wf:
  assumes "check_raw bytes raw = Inr cluster" "validate_raw deps n cluster raw = Inr p"
  shows "policy_wf deps p \<and> headroom_exact p \<and>
    (\<exists>x. canonical_bytes p = Inr x \<and> length x \<le> MAX_POLICY_BYTES \<and> vp_digest p = policy_hash deps x) \<and>
    manager_set_hash deps (manager_targets (vp_manager_enrollments p)) = Inr (vp_manager_set_hash p)"
proof -
  have raw: "raw_generation raw \<noteq> 0" "valid_name cluster" and caps:
      "length (raw_principals raw) \<le> MAX_PRINCIPALS" "length (raw_assignments raw) \<le> MAX_ASSIGNMENTS"
      "length (raw_manager_enrollments raw) \<le> MAX_MANAGERS" "length (raw_proxy_enrollments raw) \<le> MAX_PROXIES"
      "length (raw_node_agent_enrollments raw) \<le> MAX_NODE_AGENTS"
      "length (raw_revoked_leaf_fingerprints raw) \<le> MAX_REVOKED_FINGERPRINTS"
    using assms(1) by (auto simp: check_raw_def not_less split: if_splits)
  obtain ps as k ms e1 proxies e2 agents revoked q where
      ps: "try_fold (load_principal cluster) (raw_principals raw) [] = Inr ps"
    and as: "load_assignments ps (raw_assignments raw) = Inr (as, k)"
    and ms: "try_fold (load_manager deps ps) (raw_manager_enrollments raw)
      \<lparr>ms_enrolled = [], ms_ids = [], ms_endpoints = [], ms_managers = []\<rparr> = Inr ms"
    and proxies: "validate_nodes ps (raw_proxy_enrollments raw) Proxy (ms_enrolled ms) = Inr (e1, proxies)"
    and agents: "validate_nodes ps (raw_node_agent_enrollments raw) NodeAgent e1 = Inr (e2, agents)"
    and all: "check_enrolled ps e2"
    and revoked: "load_revocations (raw_revoked_leaf_fingerprints raw) = Inr revoked"
    and seal: "seal_policy deps n k q = Inr p"
    and q: "vp_generation q = raw_generation raw" "vp_cluster_id q = cluster" "vp_principals q = ps"
      "vp_assignments q = as" "vp_manager_enrollments q = sort_key me_manager_id (ms_managers ms)"
      "vp_proxy_enrollments q = proxies" "vp_node_agent_enrollments q = agents"
      "vp_revoked_leaf_fingerprints q = revoked"
    using assms(2) by (auto simp: validate_raw_def split: if_splits)
  note P = principals_stage [OF ps]
  note A = assignments_stage [OF as]
  note M = managers_stage [OF ms conjunct1 [OF P] raw(2)]
  note E = manager_state_enrolled [OF conjunct1 [OF M] refl]
  note X = nodes_stage [OF proxies] and R = revocations_stage [OF revoked]
  have distinct: "distinct (ms_enrolled ms)" "distinct e1" using E X by blast+
  note Y = nodes_stage [OF agents distinct(2)]
  have sets: "set e2 = set (map me_principal (vp_manager_enrollments q)) \<union> set (map ne_principal proxies) \<union>
      set (map ne_principal agents)"
    using E X [OF distinct(1)] Y q(5) by simp
  have "enrolled_as ps Manager (map me_principal (vp_manager_enrollments q)) \<and>
      enrolled_as ps Proxy (map ne_principal proxies) \<and> enrolled_as ps NodeAgent (map ne_principal agents)"
  proof (rule enrolled_as_split [OF _ sets])
    fix u kind assume "map_of ps u = Some kind" "kind \<in> {Manager, Proxy, NodeAgent}"
    then show "u \<in> set e2" using all P check_enrolled_iff [of ps e2] unfolding principals_ok_def by blast
  qed (use E X [OF distinct(1)] Y q(5) in auto)
  moreover have "caps_ok q" using caps P A M X [OF distinct(1)] Y R q by (simp add: caps_ok_def)
  ultimately have "policy_wf deps q"
    using raw P A E X [OF distinct(1)] Y R q by (simp add: policy_wf_def)
  moreover have "headroom_exact p"
    using seal_policy_headroom [OF seal \<open>caps_ok q\<close>] A q(4) by (simp add: assignments_ok_def)
  ultimately show ?thesis using seal_policy_Inr [OF seal] by auto
qed

section \<open>Properties\<close>

text \<open>
  C20. A policy that passes validation is well formed: its principals are canonical URIs of its own
  cluster, roles are held only by human and service-account principals and only with the scope
  dimensions of the role, every manager, proxy and node-agent principal has exactly one enrollment of
  its kind, manager ids and endpoints are unique, revocations are sorted fingerprints, all caps hold,
  and the reported headroom and the use add up to the caps.
\<close>

theorem validate_policy_wf:
  assumes "validate_policy deps bytes = Inr p"
  shows "policy_wf deps p \<and> headroom_exact p"
proof -
  obtain raw cluster where "check_raw bytes raw = Inr cluster" "validate_raw deps (length bytes) cluster raw = Inr p"
    using assms by (auto simp: validate_policy_def split: if_splits)
  then show ?thesis using validate_raw_wf by blast
qed

text \<open>
  C34. The digest of a policy commits to its whole content: it is the hash of the canonical encoding, and
  the encodings of two validated policies are equal exactly when their version, generation, cluster,
  principals, assignments, enrollments and revocations are equal.
\<close>

theorem policy_digest_commits:
  assumes "validate_policy deps bytes = Inr p" "validate_policy deps bytes' = Inr q"
  shows "\<exists>x y. canonical_bytes p = Inr x \<and> canonical_bytes q = Inr y \<and>
    vp_digest p = policy_hash deps x \<and> vp_digest q = policy_hash deps y \<and>
    (x = y \<longleftrightarrow> policy_content p = policy_content q)"
proof -
  obtain x where "canonical_bytes p = Inr x" "vp_digest p = policy_hash deps x"
    using assms(1) validate_raw_wf by (fastforce simp: validate_policy_def split: if_splits)
  moreover obtain y where "canonical_bytes q = Inr y" "vp_digest q = policy_hash deps y"
    using assms(2) validate_raw_wf by (fastforce simp: validate_policy_def split: if_splits)
  ultimately show ?thesis using canonical_bytes_eq by blast
qed

lemma sorted_targets:
  assumes "policy_wf deps p"
  shows "sort_key rt_manager_id targets = manager_targets (vp_manager_enrollments p) \<longleftrightarrow>
    mset targets = mset (manager_targets (vp_manager_enrollments p))"
proof
  let ?m = "manager_targets (vp_manager_enrollments p)"
  have ids: "map rt_manager_id ?m = map me_manager_id (vp_manager_enrollments p)"
    by (simp add: manager_targets_def)
  assume "mset targets = mset ?m"
  moreover have "distinct (map rt_manager_id ?m)" "sorted (map rt_manager_id ?m)"
    using assms unfolding ids by (simp_all add: policy_wf_def)
  ultimately show "sort_key rt_manager_id targets = ?m"
    by (intro sort_key_inj_key_eq) (auto simp: distinct_map dest: mset_eq_setD)
next
  assume "sort_key rt_manager_id targets = manager_targets (vp_manager_enrollments p)"
  then show "mset targets = mset (manager_targets (vp_manager_enrollments p))" by (metis mset_sort)
qed

lemma declared_kind:
  assumes "policy_wf deps p" "map_of (vp_principals p) u = Some kind" "PrincipalUri_parse u = Inr uri"
  shows "uri_kind uri = kind \<and> uri_cluster_id uri = vp_cluster_id p \<and> uri_value uri = u"
proof -
  obtain n where "valid_name n" "u = principal_uri_format (vp_cluster_id p) kind n"
    using assms(1,2) unfolding policy_wf_def principals_ok_def by blast
  then have "uri = PrincipalUri_new (vp_cluster_id p) kind n"
    using PrincipalUri_parse_new assms(1,3) by (auto simp: policy_wf_def)
  then show ?thesis using \<open>u = _\<close> by (simp add: PrincipalUri_new_def)
qed

text \<open>
  A grant of a complete rollout: one assignment of the caller, in a role that may roll out, whose scope
  names no managers or every manager of the policy.
\<close>

definition rollout_grant :: "ValidatedPolicy \<Rightarrow> string \<Rightarrow> RoleAssignment \<Rightarrow> bool" where
  "rollout_grant p caller a \<longleftrightarrow> a \<in> set (vp_assignments p) \<and> ra_principal a = caller \<and>
    ((map_of (vp_principals p) caller = Some Human \<and> ra_role a \<in> {Admin, Infra}) \<or>
     (map_of (vp_principals p) caller = Some ServiceAccount \<and> ra_role a = Deploy)) \<and>
    (\<forall>allowed m. manager_ids (ra_scope a) = Some allowed \<and> m \<in> set (vp_manager_enrollments p) \<longrightarrow>
      me_manager_id m \<in> set allowed)"

lemma authorizes_rollout_iff:
  "authorizes_rollout p caller (map rt_manager_id (manager_targets (vp_manager_enrollments p))) \<longleftrightarrow>
    (\<exists>a. rollout_grant p caller a)"
  by (auto simp: authorizes_rollout_def rollout_grant_def manager_targets_def list_ex_iff list_all_iff
      split: option.splits)

lemma declared_parses:
  assumes "policy_wf deps p" "map_of (vp_principals p) u = Some kind"
  shows "\<exists>uri. PrincipalUri_parse u = Inr uri"
proof -
  obtain n where "valid_name n" "u = principal_uri_format (vp_cluster_id p) kind n"
    using assms unfolding policy_wf_def principals_ok_def by blast
  then show ?thesis using PrincipalUri_parse_new assms(1) by (auto simp: policy_wf_def)
qed

lemma rollout_grant_kind:
  "rollout_grant p u a \<Longrightarrow> \<exists>kind. map_of (vp_principals p) u = Some kind \<and> kind \<in> {Human, ServiceAccount}"
  by (auto simp: rollout_grant_def)

text \<open>
  C13. The checks before a rollout accept exactly the callers that may begin it: a caller whose
  certificate is not revoked, whose targets are the enrolled managers of the policy in any order, and
  who holds one assignment that alone covers all of them. The accepted evidence lists the managers in
  order, carries the hash of that set and the digest of the policy, and says that the caller can begin.
\<close>

theorem prevalidate_rollout_exact:
  assumes "validate_policy deps bytes = Inr p"
  shows "(is_ok (prevalidate_rollout_claims p caller fp targets) \<longleftrightarrow>
      fingerprint fp \<and> fp \<notin> set (vp_revoked_leaf_fingerprints p) \<and>
      mset targets = mset (manager_targets (vp_manager_enrollments p)) \<and> (\<exists>a. rollout_grant p caller a)) \<and>
    (\<forall>r. prevalidate_rollout_claims p caller fp targets = Inr r \<longrightarrow>
      rp_targets r = manager_targets (vp_manager_enrollments p) \<and>
      manager_set_hash deps (rp_targets r) = Inr (rp_target_set_hash r) \<and>
      rp_digest r = vp_digest p \<and> rp_caller_principal_uri r = caller \<and> rp_caller_can_begin r)"
proof -
  obtain raw cluster where raw: "check_raw bytes raw = Inr cluster" "validate_raw deps (length bytes) cluster raw = Inr p"
    using assms by (auto simp: validate_policy_def split: if_splits)
  have wf: "policy_wf deps p"
    and hash: "manager_set_hash deps (manager_targets (vp_manager_enrollments p)) = Inr (vp_manager_set_hash p)"
    using validate_raw_wf [OF raw] by auto
  have same: "uri_value uri = caller" if "PrincipalUri_parse caller = Inr uri" for uri
    using PrincipalUri_parse_Inr [OF that] by auto
  have kinds: "uri_kind uri \<in> {Human, ServiceAccount} \<and> uri_cluster_id uri = vp_cluster_id p"
    if "rollout_grant p caller a" "PrincipalUri_parse caller = Inr uri" for a uri
    using rollout_grant_kind [OF that(1)] declared_kind [OF wf _ that(2)] by blast
  have parses: "\<exists>uri. PrincipalUri_parse caller = Inr uri" if "rollout_grant p caller a" for a
    using rollout_grant_kind [OF that] declared_parses [OF wf] by blast
  show ?thesis
  proof (intro conjI allI impI iffI)
    assume "is_ok (prevalidate_rollout_claims p caller fp targets)"
    then show "fingerprint fp" "fp \<notin> set (vp_revoked_leaf_fingerprints p)"
        "mset targets = mset (manager_targets (vp_manager_enrollments p))" "\<exists>a. rollout_grant p caller a"
      using same sorted_targets [OF wf, of targets] authorizes_rollout_iff [of p caller]
      by (auto simp: is_ok_iff prevalidate_rollout_claims_def Let_def split: if_splits)
  next
    assume a: "fingerprint fp \<and> fp \<notin> set (vp_revoked_leaf_fingerprints p) \<and>
      mset targets = mset (manager_targets (vp_manager_enrollments p)) \<and> (\<exists>a. rollout_grant p caller a)"
    then obtain g uri where g: "rollout_grant p caller g" "PrincipalUri_parse caller = Inr uri"
      using parses by blast
    from a g kinds [OF g] same [OF g(2)] sorted_targets [OF wf, of targets] authorizes_rollout_iff [of p caller]
    show "is_ok (prevalidate_rollout_claims p caller fp targets)"
      by (auto simp: is_ok_iff prevalidate_rollout_claims_def Let_def)
  qed (use same hash sorted_targets [OF wf, of targets] in
    \<open>auto simp: prevalidate_rollout_claims_def Let_def split: if_splits\<close>)
qed

section \<open>A sample policy\<close>

definition no_scope :: AssignmentScope where
  "no_scope = \<lparr>namespace_ids = None, node_ids = None, job_queue_ids = None, manager_ids = None\<rparr>"

definition sample_raw_policy :: RawPolicy where
  "sample_raw_policy = \<lparr>raw_schema_version = 1, raw_generation = 7, raw_cluster_id = ''c1'',
    raw_principals = [\<lparr>rwp_uri = ''urn:wruntime:c1:manager:m1'', rwp_kind = ''manager''\<rparr>,
      \<lparr>rwp_uri = ''urn:wruntime:c1:human:ana'', rwp_kind = ''human''\<rparr>,
      \<lparr>rwp_uri = ''urn:wruntime:c1:proxy:p1'', rwp_kind = ''proxy''\<rparr>],
    raw_assignments = [\<lparr>rwa_principal = ''urn:wruntime:c1:human:ana'', rwa_role = ''infra'',
      rwa_scope = no_scope\<lparr>manager_ids := Some [''m1'']\<rparr>\<rparr>],
    raw_manager_enrollments = [\<lparr>me_principal = ''urn:wruntime:c1:manager:m1'', me_manager_id = ''m1'',
      me_endpoint = ''https://m1:7000''\<rparr>],
    raw_proxy_enrollments = [\<lparr>ne_principal = ''urn:wruntime:c1:proxy:p1'', ne_node_id = ''n1''\<rparr>],
    raw_node_agent_enrollments = [],
    raw_revoked_leaf_fingerprints = [''sha256:'' @ replicate 64 (CHR ''a'')]\<rparr>"

definition sample_policy_deps :: policy_deps where
  "sample_policy_deps = \<lparr>pd_toml = \<lambda>_. Some sample_raw_policy, pd_sha = \<lambda>_. replicate 32 (CHR ''0''),
    pd_uri = \<lambda>_. Some \<lparr>scheme_str = Some ''https'', uri_authority = Some ''m1:7000'', uri_host = Some ''m1'',
      port_u16 = Some 7000, uri_path = ''/'', uri_query = None\<rparr>\<rparr>"

lemma sample_policy_ok: "is_ok (validate_policy sample_policy_deps ''policy'')"
  by code_simp

theorem validate_policy_wf_witness:
  "\<exists>p. validate_policy sample_policy_deps ''policy'' = Inr p \<and> policy_wf sample_policy_deps p"
  using sample_policy_ok validate_policy_wf [of sample_policy_deps "''policy''"] by (auto simp: is_ok_iff)

theorem policy_digest_commits_witness:
  "\<exists>p x. validate_policy sample_policy_deps ''policy'' = Inr p \<and> canonical_bytes p = Inr x \<and>
    vp_digest p = policy_hash sample_policy_deps x"
  using sample_policy_ok policy_digest_commits [of sample_policy_deps "''policy''" _ "''policy''"]
  by (fastforce simp: is_ok_iff)

theorem prevalidate_rollout_exact_witness:
  "\<exists>p a. validate_policy sample_policy_deps ''policy'' = Inr p \<and>
    rollout_grant p ''urn:wruntime:c1:human:ana'' a"
proof -
  let ?fp = "''sha256:'' @ replicate 64 (CHR ''b'')"
  let ?ts = "[\<lparr>rt_manager_id = ''m1'', rt_endpoint = ''https://m1:7000''\<rparr>]"
  have "is_ok (and_then (validate_policy sample_policy_deps ''policy'')
      (\<lambda>p. prevalidate_rollout_claims p ''urn:wruntime:c1:human:ana'' ?fp ?ts))"
    by code_simp
  then obtain p where "validate_policy sample_policy_deps ''policy'' = Inr p"
      "is_ok (prevalidate_rollout_claims p ''urn:wruntime:c1:human:ana'' ?fp ?ts)"
    by (auto simp: is_ok_iff)
  then show ?thesis
    using prevalidate_rollout_exact [of sample_policy_deps "''policy''" p "''urn:wruntime:c1:human:ana''" ?fp ?ts]
    by blast
qed

end
