(* ===== verification/Snapshot.thy ===== *)
theory Snapshot
  imports Policy_Validation
begin

text \<open>
  Workload snapshots: \<open>wr-common/src/snapshot_consumer.rs\<close>. The producer projects a validated policy
  onto the principals one kind of workload may admit, the decoder accepts only complete, canonical and
  fresh snapshots, and the consumer keeps the state of the last accepted one and fails closed.

  Wall-clock times are nanoseconds since the Unix epoch (an integer, since the clock may precede it),
  monotonic instants and durations are natural numbers of nanoseconds. Parameters: the protobuf codec
  of the snapshot message and SHA-256. The helpers \<open>push_u32\<close> and \<open>push_str\<close> of this file are those of
  the policy encoding.
\<close>

section \<open>Data\<close>

definition SNAPSHOT_DOMAIN :: string where "SNAPSHOT_DOMAIN = ''wruntime-workload-snapshot-v1''"
definition NANOS :: nat where "NANOS = 1000000000"
definition SNAPSHOT_VALIDITY :: nat where "SNAPSHOT_VALIDITY = 30 * NANOS"
definition MAX_FUTURE_SKEW :: nat where "MAX_FUTURE_SKEW = 5 * NANOS"

datatype WorkloadProjectionKind = Unspecified_Projection | ProxyPeerV1 | EngineJobAdminV1

fun projection_number :: "WorkloadProjectionKind \<Rightarrow> 32 word" where
  "projection_number Unspecified_Projection = 0"
| "projection_number ProxyPeerV1 = 1"
| "projection_number EngineJobAdminV1 = 2"

record Timestamp =
  ts_seconds :: int
  ts_nanos :: int

record WorkloadEnrollmentV1 =
  we_principal_uri :: string
  we_workload_id :: string

record WorkloadSnapshotV1 =
  ws_schema_version :: "32 word"
  ws_projection_kind :: "32 word"
  ws_cluster_id :: string
  ws_policy_generation :: "64 word"
  ws_policy_digest :: string
  ws_projection_digest :: string
  ws_issued_at :: "Timestamp option"
  ws_valid_until :: "Timestamp option"
  ws_enrollment_count :: "32 word"
  ws_revoked_fingerprint_count :: "32 word"
  ws_enrollments :: "WorkloadEnrollmentV1 list"
  ws_revoked_leaf_fingerprints :: "string list"

datatype snapshot_error =
    Snapshot_Fault string
  | Snapshot_Identity identity_error
  | Snapshot_Length policy_error
  | Snapshot_Panic

record snapshot_deps =
  sd_sha :: "string \<Rightarrow> string"
  sd_encode :: "WorkloadSnapshotV1 \<Rightarrow> string"
  sd_decode :: "string \<Rightarrow> WorkloadSnapshotV1 option"

section \<open>Helpers\<close>

definition valid_digest :: "string \<Rightarrow> bool" where
  "valid_digest value \<longleftrightarrow> length value = 71 \<and> starts_with ''sha256:'' value \<and>
    list_all (\<lambda>b. (is_ascii_digit b \<or> (97 \<le> code b \<and> code b \<le> 102) \<or> (65 \<le> code b \<and> code b \<le> 70)) \<and>
      \<not> is_ascii_uppercase b) (drop 7 value)"

definition system_duration :: "int \<Rightarrow> snapshot_error + nat" where
  "system_duration wall =
    (if wall < 0 then Inl (Snapshot_Fault ''wall clock precedes Unix epoch'') else Inr (nat wall))"

definition snapshot_timestamp :: "int \<Rightarrow> snapshot_error + Timestamp" where
  "snapshot_timestamp wall =
    and_then (system_duration wall) (\<lambda>d.
    if d div NANOS \<ge> 2 ^ 63 then Inl (Snapshot_Fault ''out of range integral type conversion attempted'')
    else Inr \<lparr>ts_seconds = int (d div NANOS), ts_nanos = int (d mod NANOS)\<rparr>)"

definition timestamp_duration :: "Timestamp \<Rightarrow> snapshot_error + nat" where
  "timestamp_duration t =
    (if 0 \<le> ts_nanos t \<and> ts_nanos t < int NANOS \<and> ts_seconds t \<ge> 0
     then Inr (nat (ts_seconds t) * NANOS + nat (ts_nanos t))
     else Inl (Snapshot_Fault ''malformed snapshot timestamp''))"

definition push_enrollment :: "WorkloadEnrollmentV1 \<Rightarrow> string \<Rightarrow> policy_error + string" where
  "push_enrollment item out = and_then (push_str (we_principal_uri item) out) (push_str (we_workload_id item))"

definition projection_preimage :: "WorkloadSnapshotV1 \<Rightarrow> policy_error + string" where
  "projection_preimage s =
    and_then (push_str (ws_cluster_id s)
      (SNAPSHOT_DOMAIN @ be_bytes 4 (unat (ws_schema_version s)) @ be_bytes 4 (unat (ws_projection_kind s)))) (\<lambda>out.
    and_then (push_str (ws_policy_digest s) (out @ be_bytes 8 (unat (ws_policy_generation s)))) (\<lambda>out.
    and_then (push_list push_enrollment (ws_enrollments s) out)
      (push_list push_str (ws_revoked_leaf_fingerprints s))))"

definition projection_digest :: "snapshot_deps \<Rightarrow> WorkloadSnapshotV1 \<Rightarrow> snapshot_error + string" where
  "projection_digest deps s =
    and_then (map_err Snapshot_Length (projection_preimage s)) (\<lambda>bytes.
      Inr (''sha256:'' @ hex_string (sd_sha deps bytes)))"

section \<open>Producer\<close>

definition projected_enrollments :: "ValidatedPolicy \<Rightarrow> WorkloadProjectionKind \<Rightarrow> WorkloadEnrollmentV1 list" where
  "projected_enrollments p kind =
    (case kind of
       ProxyPeerV1 \<Rightarrow> map (\<lambda>e. \<lparr>we_principal_uri = ne_principal e, we_workload_id = ne_node_id e\<rparr>) (vp_proxy_enrollments p)
     | EngineJobAdminV1 \<Rightarrow>
        map (\<lambda>e. \<lparr>we_principal_uri = me_principal e, we_workload_id = me_manager_id e\<rparr>) (vp_manager_enrollments p)
     | Unspecified_Projection \<Rightarrow> [])"

definition enrollment_key :: "WorkloadEnrollmentV1 \<Rightarrow> string \<times> string" where
  "enrollment_key e = (we_principal_uri e, we_workload_id e)"

definition snapshot_of ::
    "ValidatedPolicy \<Rightarrow> WorkloadProjectionKind \<Rightarrow> Timestamp \<Rightarrow> Timestamp \<Rightarrow> WorkloadSnapshotV1" where
  "snapshot_of p kind issued until =
    (let enrollments = sort_key enrollment_key (projected_enrollments p kind);
         revoked = vp_revoked_leaf_fingerprints p in
     \<lparr>ws_schema_version = 1, ws_projection_kind = projection_number kind, ws_cluster_id = vp_cluster_id p,
      ws_policy_generation = vp_generation p, ws_policy_digest = vp_digest p, ws_projection_digest = [],
      ws_issued_at = Some issued, ws_valid_until = Some until,
      ws_enrollment_count = of_nat (length enrollments), ws_revoked_fingerprint_count = of_nat (length revoked),
      ws_enrollments = enrollments, ws_revoked_leaf_fingerprints = revoked\<rparr>)"

definition build_snapshot ::
    "snapshot_deps \<Rightarrow> ValidatedPolicy \<Rightarrow> WorkloadProjectionKind \<Rightarrow> int \<Rightarrow> snapshot_error + string" where
  "build_snapshot deps p kind now =
    (if kind = Unspecified_Projection then Inl (Snapshot_Fault ''unsupported workload projection kind'')
     else and_then (snapshot_timestamp now) (\<lambda>issued.
     and_then (snapshot_timestamp (now + int SNAPSHOT_VALIDITY)) (\<lambda>until.
     let snapshot = snapshot_of p kind issued until in
     and_then (projection_digest deps snapshot) (\<lambda>digest.
     let bytes = sd_encode deps (snapshot\<lparr>ws_projection_digest := digest\<rparr>) in
     if length bytes > MAX_WORKLOAD_PROJECTION_BYTES then Inl (Snapshot_Fault ''workload snapshot exceeds 2 MiB'')
     else Inr bytes))))"

section \<open>Decoder\<close>

record IndexedSnapshot =
  is_wire :: WorkloadSnapshotV1
  is_enrollments :: "(string \<times> string) list"
  is_revocations :: "string list"

record SnapshotIdentity =
  si_generation :: "64 word"
  si_policy_digest :: string
  si_projection_digest :: string

definition snapshot_identity :: "IndexedSnapshot \<Rightarrow> SnapshotIdentity" where
  "snapshot_identity s = \<lparr>si_generation = ws_policy_generation (is_wire s),
    si_policy_digest = ws_policy_digest (is_wire s), si_projection_digest = ws_projection_digest (is_wire s)\<rparr>"

definition admits :: "IndexedSnapshot \<Rightarrow> string \<Rightarrow> string \<Rightarrow> bool" where
  "admits s caller fp \<longleftrightarrow> map_of (is_enrollments s) caller \<noteq> None \<and> fp \<notin> set (is_revocations s)"

fun projection_cap :: "WorkloadProjectionKind \<Rightarrow> nat" where
  "projection_cap ProxyPeerV1 = MAX_PROXIES"
| "projection_cap EngineJobAdminV1 = MAX_MANAGERS"
| "projection_cap Unspecified_Projection = 0"

fun projection_principal :: "WorkloadProjectionKind \<Rightarrow> PrincipalKind option" where
  "projection_principal ProxyPeerV1 = Some Proxy"
| "projection_principal EngineJobAdminV1 = Some Manager"
| "projection_principal Unspecified_Projection = None"

definition workload_id_parse :: "WorkloadProjectionKind \<Rightarrow> string \<Rightarrow> identity_error + string" where
  "workload_id_parse kind w =
    (case kind of
       ProxyPeerV1 \<Rightarrow> NodeId_parse w
     | EngineJobAdminV1 \<Rightarrow> ManagerId_parse w
     | Unspecified_Projection \<Rightarrow> Inr w)"

record enrollment_scan =
  es_previous :: "(string \<times> string) option"
  es_enrollments :: "(string \<times> string) list"

definition index_enrollment ::
    "string \<Rightarrow> WorkloadProjectionKind \<Rightarrow> WorkloadEnrollmentV1 \<Rightarrow> enrollment_scan \<Rightarrow> snapshot_error + enrollment_scan" where
  "index_enrollment expected_cluster kind item st =
    and_then (map_err Snapshot_Identity (PrincipalUri_parse (we_principal_uri item))) (\<lambda>uri.
    if \<not> (uri_cluster_id uri = expected_cluster \<and> projection_principal kind = Some (uri_kind uri))
    then Inl (Snapshot_Fault ''workload enrollment principal mismatch'')
    else and_then (map_err Snapshot_Identity (workload_id_parse kind (we_workload_id item))) (\<lambda>_.
    if \<not> (case es_previous st of None \<Rightarrow> True | Some k \<Rightarrow> k < enrollment_key item)
    then Inl (Snapshot_Fault ''workload enrollments must be strictly sorted and unique'')
    else Inr \<lparr>es_previous = Some (enrollment_key item),
      es_enrollments = alist_put (we_principal_uri item) (we_workload_id item) (es_enrollments st)\<rparr>))"

definition index_revocation :: "string \<Rightarrow> string \<times> string list \<Rightarrow> snapshot_error + (string \<times> string list)" where
  "index_revocation fp st =
    (if valid_digest fp \<and> fst st < fp \<and> fp \<notin> set (snd st) then Inr (fp, insort fp (snd st))
     else Inl (Snapshot_Fault ''revocations must be valid, sorted, and unique''))"

text \<open>The last guard is the \<open>unreachable!\<close> of the code for the unspecified projection kind.\<close>

definition check_header ::
    "WorkloadSnapshotV1 \<Rightarrow> string \<Rightarrow> WorkloadProjectionKind \<Rightarrow> snapshot_error + unit" where
  "check_header s expected_cluster kind =
    (if \<not> (ws_schema_version s = 1 \<and> ws_policy_generation s > 0)
     then Inl (Snapshot_Fault ''invalid workload snapshot version/generation'')
     else if \<not> (ws_projection_kind s = projection_number kind \<and> ws_cluster_id s = expected_cluster)
     then Inl (Snapshot_Fault ''wrong workload snapshot cluster/projection'')
     else and_then (map_err Snapshot_Identity (ClusterId_parse (ws_cluster_id s))) (\<lambda>_.
     if \<not> (valid_digest (ws_policy_digest s) \<and> valid_digest (ws_projection_digest s))
     then Inl (Snapshot_Fault ''invalid workload snapshot digest'')
     else if \<not> (unat (ws_enrollment_count s) = length (ws_enrollments s) \<and>
         unat (ws_revoked_fingerprint_count s) = length (ws_revoked_leaf_fingerprints s))
     then Inl (Snapshot_Fault ''workload snapshot cardinality mismatch'')
     else if \<not> (length (ws_enrollments s) \<le> projection_cap kind \<and>
         length (ws_revoked_leaf_fingerprints s) \<le> MAX_REVOKED_FINGERPRINTS)
     then Inl (Snapshot_Fault ''workload snapshot cardinality cap exceeded'')
     else if projection_principal kind = None then Inl Snapshot_Panic
     else Inr ()))"

definition check_freshness :: "WorkloadSnapshotV1 \<Rightarrow> int \<Rightarrow> snapshot_error + unit" where
  "check_freshness s receipt_wall =
    and_then (ok_or (Snapshot_Fault ''issued_at is required'') (ws_issued_at s)) (\<lambda>issued_at.
    and_then (timestamp_duration issued_at) (\<lambda>issued.
    and_then (ok_or (Snapshot_Fault ''valid_until is required'') (ws_valid_until s)) (\<lambda>valid_until.
    and_then (timestamp_duration valid_until) (\<lambda>until.
    if \<not> (issued \<le> until \<and> until - issued = SNAPSHOT_VALIDITY)
    then Inl (Snapshot_Fault ''snapshot validity must be exactly 30 seconds'')
    else and_then (system_duration receipt_wall) (\<lambda>receipt.
    if \<not> (issued \<le> receipt + MAX_FUTURE_SKEW \<and> receipt < until)
    then Inl (Snapshot_Fault ''snapshot freshness envelope is invalid'')
    else Inr ())))))"

definition decode_snapshot ::
    "snapshot_deps \<Rightarrow> string \<Rightarrow> string \<Rightarrow> WorkloadProjectionKind \<Rightarrow> int \<Rightarrow> snapshot_error + IndexedSnapshot" where
  "decode_snapshot deps raw expected_cluster kind receipt_wall =
    (if length raw > MAX_WORKLOAD_PROJECTION_BYTES then Inl (Snapshot_Fault ''workload snapshot exceeds 2 MiB'')
     else and_then (ok_or (Snapshot_Fault ''malformed workload snapshot'') (sd_decode deps raw)) (\<lambda>s.
     if sd_encode deps s \<noteq> raw then Inl (Snapshot_Fault ''workload snapshot encoding is noncanonical'')
     else and_then (check_header s expected_cluster kind) (\<lambda>_.
     and_then (try_fold (index_enrollment expected_cluster kind) (ws_enrollments s)
       \<lparr>es_previous = None, es_enrollments = []\<rparr>) (\<lambda>scan.
     and_then (try_fold index_revocation (ws_revoked_leaf_fingerprints s) ([], [])) (\<lambda>(_, revocations).
     and_then (projection_digest deps s) (\<lambda>digest.
     if digest \<noteq> ws_projection_digest s then Inl (Snapshot_Fault ''workload projection digest mismatch'')
     else and_then (check_freshness s receipt_wall) (\<lambda>_.
     Inr \<lparr>is_wire = s, is_enrollments = es_enrollments scan, is_revocations = revocations\<rparr>)))))))"

section \<open>Consumer\<close>

datatype RecoveryPredicate = AnyCompleteValid | MatchingRetainedOrHigher | StrictlyHigherGeneration

datatype block_reason = Remote_Error string | Rejected snapshot_error | Block_Message string

datatype SnapshotConsumerState =
    Empty
  | Fresh IndexedSnapshot (accepted_at: nat) (fresh_until: nat)
  | Stale IndexedSnapshot
  | Blocked "IndexedSnapshot option" block_reason RecoveryPredicate

fun is_fresh :: "SnapshotConsumerState \<Rightarrow> nat \<Rightarrow> bool" where
  "is_fresh (Fresh s a u) now = (now < u)"
| "is_fresh _ now = False"

fun expire :: "nat \<Rightarrow> SnapshotConsumerState \<Rightarrow> SnapshotConsumerState" where
  "expire now (Fresh s a u) = (if now \<ge> u then Stale s else Fresh s a u)"
| "expire now st = st"

fun retained :: "SnapshotConsumerState \<Rightarrow> IndexedSnapshot option" where
  "retained (Fresh s a u) = Some s"
| "retained (Stale s) = Some s"
| "retained (Blocked r _ _) = r"
| "retained Empty = None"

fun recovery_of :: "SnapshotConsumerState \<Rightarrow> RecoveryPredicate option" where
  "recovery_of (Blocked _ _ r) = Some r"
| "recovery_of _ = None"

text \<open>An accepted snapshot was decoded, so its validity is present and well formed.\<close>

definition accept_snapshot :: "IndexedSnapshot \<Rightarrow> int \<Rightarrow> nat \<Rightarrow> SnapshotConsumerState" where
  "accept_snapshot candidate wall now =
    (let valid_until = (case Option.bind (ws_valid_until (is_wire candidate))
           (\<lambda>t. case timestamp_duration t of Inl _ \<Rightarrow> None | Inr d \<Rightarrow> Some d) of None \<Rightarrow> 0 | Some d \<Rightarrow> d);
         receipt = nat wall;
         budget = min SNAPSHOT_VALIDITY (valid_until - receipt) in
     Fresh candidate now (now + budget))"

definition decoded_candidate ::
    "snapshot_deps \<Rightarrow> string \<Rightarrow> WorkloadProjectionKind \<Rightarrow> string + string \<Rightarrow> int \<Rightarrow> bool \<Rightarrow>
      block_reason + IndexedSnapshot" where
  "decoded_candidate deps expected_cluster kind raw wall fence_matches =
    and_then (map_err Remote_Error raw) (\<lambda>bytes.
      if \<not> fence_matches then Inl (Block_Message ''ownership fence mismatch'')
      else map_err Rejected (decode_snapshot deps bytes expected_cluster kind wall))"

definition consume ::
    "snapshot_deps \<Rightarrow> string \<Rightarrow> WorkloadProjectionKind \<Rightarrow> string + string \<Rightarrow> int \<Rightarrow> nat \<Rightarrow> bool \<Rightarrow>
      SnapshotConsumerState \<Rightarrow> SnapshotConsumerState" where
  "consume deps expected_cluster kind raw wall now fence_matches state0 =
    (let state = expire now state0; old = retained state; recovery = recovery_of state;
         decoded = decoded_candidate deps expected_cluster kind raw wall fence_matches in
     case decoded of
       Inl reason \<Rightarrow>
         Blocked old reason (case recovery of Some r \<Rightarrow> r
           | None \<Rightarrow> if old \<noteq> None then MatchingRetainedOrHigher else AnyCompleteValid)
     | Inr candidate \<Rightarrow>
        (case old of
           None \<Rightarrow> accept_snapshot candidate wall now
         | Some o' \<Rightarrow>
            let cid = snapshot_identity candidate; oid = snapshot_identity o' in
            if si_generation cid < si_generation oid
            then Blocked old (Block_Message ''policy generation regressed'') MatchingRetainedOrHigher
            else if si_generation cid = si_generation oid \<and> cid \<noteq> oid
            then Blocked old (Block_Message ''same-generation snapshot digest conflict'') StrictlyHigherGeneration
            else if recovery = Some StrictlyHigherGeneration \<and> si_generation cid \<le> si_generation oid then state
            else if recovery = Some MatchingRetainedOrHigher \<and> si_generation cid = si_generation oid \<and> cid \<noteq> oid
            then state
            else accept_snapshot candidate wall now))"

section \<open>Loading a policy\<close>

datatype load_error = Load_Policy policy_error | Load_Projection snapshot_error

definition load_policy :: "policy_deps \<Rightarrow> snapshot_deps \<Rightarrow> string \<Rightarrow> load_error + ValidatedPolicy" where
  "load_policy pdeps sdeps bytes =
    and_then (map_err Load_Policy (validate_policy pdeps bytes)) (\<lambda>validated.
    and_then (map_err Load_Projection (build_snapshot sdeps validated ProxyPeerV1 0)) (\<lambda>_.
    and_then (map_err Load_Projection (build_snapshot sdeps validated EngineJobAdminV1 0)) (\<lambda>_.
      Inr validated)))"

section \<open>Digests and times\<close>

lemma hex_digit_lower:
  assumes "n < 16"
  shows "is_ascii_digit (hex_digit n) \<or> (97 \<le> code (hex_digit n) \<and> code (hex_digit n) \<le> 102)"
  using assms by (auto simp: hex_digit_def ascii_simps)

lemma hex_string_lower:
  "list_all (\<lambda>b. is_ascii_digit b \<or> (97 \<le> code b \<and> code b \<le> 102)) (hex_string bs)"
proof (induction bs)
  case Nil
  show ?case by (simp add: hex_string_def)
next
  case (Cons c bs)
  have "code c div 16 < 16" "code c mod 16 < 16" using code_less [of c] by linarith+
  then show ?case
    using Cons hex_digit_lower [of "code c div 16"] hex_digit_lower [of "code c mod 16"]
    by (simp add: hex_string_def hex02_def)
qed

lemma valid_digest_fingerprint: "valid_digest v \<longleftrightarrow> fingerprint v"
  by (auto simp: valid_digest_def fingerprint_def list_all_iff ascii_simps)

lemma digest_valid: "length h = 32 \<Longrightarrow> fingerprint (''sha256:'' @ hex_string h)"
  using hex_string_lower [of h] by (simp add: fingerprint_def starts_with_def hex_string_length)

lemma snapshot_timestamp_Inr:
  assumes "snapshot_timestamp w = Inr t"
  shows "0 \<le> w \<and> timestamp_duration t = Inr (nat w)"
proof -
  have "0 \<le> w" "t = \<lparr>ts_seconds = int (nat w div NANOS), ts_nanos = int (nat w mod NANOS)\<rparr>"
    using assms by (auto simp: snapshot_timestamp_def system_duration_def split: if_splits)
  moreover have "nat w mod NANOS < NANOS" by (simp add: NANOS_def)
  ultimately show ?thesis by (simp add: timestamp_duration_def)
qed

section \<open>Indexing sorted lists\<close>

definition enrollment_fits :: "string \<Rightarrow> WorkloadProjectionKind \<Rightarrow> WorkloadEnrollmentV1 \<Rightarrow> bool" where
  "enrollment_fits cluster kind e \<longleftrightarrow> valid_name cluster \<and> valid_name (we_workload_id e) \<and>
    (\<exists>k n. projection_principal kind = Some k \<and> valid_name n \<and> we_principal_uri e = principal_uri_format cluster k n)"

lemma workload_id_parse_ok: "valid_name w \<Longrightarrow> workload_id_parse kind w = Inr w"
  by (cases kind) (simp_all add: workload_id_parse_def)

lemma index_enrollment_ok:
  assumes "enrollment_fits cluster kind e" "\<forall>k. es_previous st = Some k \<longrightarrow> k < enrollment_key e"
  shows "index_enrollment cluster kind e st = Inr \<lparr>es_previous = Some (enrollment_key e),
    es_enrollments = alist_put (we_principal_uri e) (we_workload_id e) (es_enrollments st)\<rparr>"
proof -
  obtain k n where "projection_principal kind = Some k"
      "PrincipalUri_parse (we_principal_uri e) = Inr (PrincipalUri_new cluster k n)"
    using assms(1) PrincipalUri_parse_new unfolding enrollment_fits_def by metis
  then show ?thesis
    using assms workload_id_parse_ok
    by (auto simp: index_enrollment_def enrollment_fits_def PrincipalUri_new_def split: option.splits)
qed

lemma index_enrollments_ok:
  assumes "list_all (enrollment_fits cluster kind) es" "sorted_wrt (<) (map enrollment_key es)"
    and "\<forall>k e. es_previous st = Some k \<and> e \<in> set es \<longrightarrow> k < enrollment_key e"
  shows "\<exists>st'. try_fold (index_enrollment cluster kind) es st = Inr st' \<and>
    dom (map_of (es_enrollments st')) = dom (map_of (es_enrollments st)) \<union> we_principal_uri ` set es"
  using assms
proof (induction es arbitrary: st)
  case Nil
  then show ?case by simp
next
  case (Cons e es)
  let ?st = "\<lparr>es_previous = Some (enrollment_key e),
    es_enrollments = alist_put (we_principal_uri e) (we_workload_id e) (es_enrollments st)\<rparr>"
  have "\<exists>st'. try_fold (index_enrollment cluster kind) es ?st = Inr st' \<and>
      dom (map_of (es_enrollments st')) = dom (map_of (es_enrollments ?st)) \<union> we_principal_uri ` set es"
    using Cons.prems by (intro Cons.IH) auto
  moreover have "index_enrollment cluster kind e st = Inr ?st"
    using Cons.prems by (intro index_enrollment_ok) auto
  ultimately show ?case by auto
qed

lemma index_revocations_ok:
  assumes "list_all fingerprint rs" "sorted_wrt (<) rs" "\<forall>r \<in> set rs. fst st < r \<and> r \<notin> set (snd st)"
  shows "\<exists>st'. try_fold index_revocation rs st = Inr st' \<and> set (snd st') = set (snd st) \<union> set rs"
  using assms
proof (induction rs arbitrary: st)
  case Nil
  then show ?case by simp
next
  case (Cons r rs)
  have "\<exists>st'. try_fold index_revocation rs (r, insort r (snd st)) = Inr st' \<and>
      set (snd st') = set (snd (r, insort r (snd st))) \<union> set rs"
    using Cons.prems by (intro Cons.IH) (auto simp: set_insort_key)
  moreover have "index_revocation r st = Inr (r, insort r (snd st))"
    using Cons.prems by (simp add: index_revocation_def valid_digest_fingerprint)
  ultimately show ?case by (auto simp: set_insort_key)
qed

section \<open>What a snapshot projects\<close>

lemma projected_fits:
  assumes "policy_wf deps p" "kind \<noteq> Unspecified_Projection"
  shows "list_all (enrollment_fits (vp_cluster_id p) kind) (projected_enrollments p kind)"
proof -
  have names: "\<exists>n. valid_name n \<and> u = principal_uri_format (vp_cluster_id p) k n"
    if "map_of (vp_principals p) u = Some k" for u k
    using assms(1) that unfolding policy_wf_def principals_ok_def by blast
  have "valid_name (vp_cluster_id p)" using assms(1) by (simp add: policy_wf_def)
  moreover have "map_of (vp_principals p) (ne_principal e) = Some Proxy \<and> valid_name (ne_node_id e)"
    if "e \<in> set (vp_proxy_enrollments p)" for e
    using assms(1) that by (auto simp: policy_wf_def enrolled_as_def list_all_iff)
  moreover have "map_of (vp_principals p) (me_principal e) = Some Manager \<and> valid_name (me_manager_id e)"
    if "e \<in> set (vp_manager_enrollments p)" for e
    using assms(1) that by (auto simp: policy_wf_def enrolled_as_def list_all_iff manager_ok_def)
  ultimately show ?thesis
    using assms(2) names
    by (cases kind) (auto simp: projected_enrollments_def list_all_iff enrollment_fits_def)
qed

lemma projected_principals:
  assumes "policy_wf deps p" "projection_principal kind = Some k"
  shows "we_principal_uri ` set (projected_enrollments p kind) = {u. map_of (vp_principals p) u = Some k} \<and>
    distinct (map we_principal_uri (projected_enrollments p kind))"
  using assms
  by (cases kind) (auto simp: projected_enrollments_def policy_wf_def enrolled_as_def image_image comp_def)

lemma enrollment_key_sorted:
  assumes "distinct (map we_principal_uri es)"
  shows "sorted_wrt (<) (map enrollment_key (sort_key enrollment_key es))"
proof -
  have "distinct (map enrollment_key es)"
    using assms by (auto simp: distinct_map inj_on_def enrollment_key_def)
  then have "distinct (map enrollment_key (sort_key enrollment_key es))"
    by (simp add: map_sort_key)
  then show ?thesis
    by (simp add: strict_sorted_iff)
qed

lemma projected_length:
  assumes "policy_wf deps p"
  shows "length (projected_enrollments p kind) \<le> projection_cap kind \<and> length (projected_enrollments p kind) < 2 ^ 32 \<and>
    length (vp_revoked_leaf_fingerprints p) \<le> MAX_REVOKED_FINGERPRINTS"
  using assms
  by (cases kind) (auto simp: projected_enrollments_def policy_wf_def caps_ok_def MAX_PROXIES_def MAX_MANAGERS_def)

lemma projection_digest_irrelevant [simp]:
  "projection_digest deps (s\<lparr>ws_projection_digest := d\<rparr>) = projection_digest deps s"
  by (simp add: projection_digest_def projection_preimage_def)

lemma header_of_snapshot:
  assumes "policy_wf deps p" "kind \<noteq> Unspecified_Projection" "fingerprint (vp_digest p)" "fingerprint d"
  shows "check_header ((snapshot_of p kind t u)\<lparr>ws_projection_digest := d\<rparr>) (vp_cluster_id p) kind = Inr ()"
proof -
  have "valid_name (vp_cluster_id p)" "vp_generation p > 0"
    using assms(1) by (simp_all add: policy_wf_def word_gt_0)
  moreover have "length (projected_enrollments p kind) \<le> projection_cap kind"
      "unat (of_nat (length (projected_enrollments p kind)) :: 32 word) = length (projected_enrollments p kind)"
      "length (vp_revoked_leaf_fingerprints p) \<le> MAX_REVOKED_FINGERPRINTS"
      "unat (of_nat (length (vp_revoked_leaf_fingerprints p)) :: 32 word) = length (vp_revoked_leaf_fingerprints p)"
    using projected_length [OF assms(1), of kind]
    by (auto simp: unat_of_nat MAX_REVOKED_FINGERPRINTS_def take_bit_eq_mod)
  moreover have "projection_principal kind \<noteq> None" using assms(2) by (cases kind) auto
  ultimately show ?thesis
    using assms(3,4) by (simp add: check_header_def snapshot_of_def Let_def valid_digest_fingerprint)
qed

lemma freshness_of_snapshot:
  assumes "timestamp_duration t = Inr (nat now)" "timestamp_duration u = Inr (nat (now + int SNAPSHOT_VALIDITY))"
    and "0 \<le> now" "now \<le> receipt + int MAX_FUTURE_SKEW" "receipt < now + int SNAPSHOT_VALIDITY" "0 \<le> receipt"
    and "ws_issued_at s = Some t" "ws_valid_until s = Some u"
  shows "check_freshness s receipt = Inr ()"
  using assms by (simp add: check_freshness_def system_duration_def nat_add_distrib) linarith

lemma fingerprint_pos: "fingerprint r \<Longrightarrow> [] < r"
  by (cases r) (auto simp: fingerprint_def)

lemma enrollments_of_snapshot:
  assumes wf: "policy_wf deps p" and k: "projection_principal kind = Some k"
  shows "\<exists>st. try_fold (index_enrollment (vp_cluster_id p) kind) (ws_enrollments (snapshot_of p kind t u))
      \<lparr>es_previous = None, es_enrollments = []\<rparr> = Inr st \<and>
    dom (map_of (es_enrollments st)) = {u. map_of (vp_principals p) u = Some k}"
proof -
  have kind: "kind \<noteq> Unspecified_Projection" using k by auto
  let ?es = "sort_key enrollment_key (projected_enrollments p kind)"
  have "\<exists>st. try_fold (index_enrollment (vp_cluster_id p) kind) ?es \<lparr>es_previous = None, es_enrollments = []\<rparr> = Inr st \<and>
      dom (map_of (es_enrollments st)) =
        dom (map_of (es_enrollments \<lparr>es_previous = None, es_enrollments = []\<rparr>)) \<union> we_principal_uri ` set ?es"
    using projected_fits [OF wf kind] projected_principals [OF wf k] enrollment_key_sorted
    by (intro index_enrollments_ok) (auto simp: list_all_iff)
  then show ?thesis
    using projected_principals [OF wf k] by (simp add: snapshot_of_def Let_def)
qed

lemma revocations_of_snapshot:
  assumes "policy_wf deps p"
  shows "\<exists>r rv. try_fold index_revocation (ws_revoked_leaf_fingerprints (snapshot_of p kind t u)) ([], []) = Inr (r, rv) \<and>
    set rv = set (vp_revoked_leaf_fingerprints p)"
proof -
  have "revocations_ok (vp_revoked_leaf_fingerprints p)" using assms by (simp add: policy_wf_def)
  then have "\<exists>st. try_fold index_revocation (vp_revoked_leaf_fingerprints p) ([], []) = Inr st \<and>
      set (snd st) = set (snd ([] :: string, [] :: string list)) \<union> set (vp_revoked_leaf_fingerprints p)"
    by (intro index_revocations_ok)
      (auto simp: revocations_ok_def strict_sorted_iff list_all_iff fingerprint_pos)
  then show ?thesis by (auto simp: snapshot_of_def Let_def)
qed

section \<open>The consumer as a machine\<close>

record snapshot_event =
  ev_raw :: "string + string"
  ev_wall :: int
  ev_now :: nat
  ev_fence :: bool

definition consumer_step ::
    "snapshot_deps \<Rightarrow> string \<Rightarrow> WorkloadProjectionKind \<Rightarrow> snapshot_event \<Rightarrow> SnapshotConsumerState \<Rightarrow> SnapshotConsumerState" where
  "consumer_step deps cluster kind e = consume deps cluster kind (ev_raw e) (ev_wall e) (ev_now e) (ev_fence e)"

definition consumer_run ::
    "snapshot_deps \<Rightarrow> string \<Rightarrow> WorkloadProjectionKind \<Rightarrow> snapshot_event list \<Rightarrow> SnapshotConsumerState" where
  "consumer_run deps cluster kind es = fold (consumer_step deps cluster kind) es Empty"

definition valid_until_of :: "IndexedSnapshot \<Rightarrow> nat" where
  "valid_until_of s = (case Option.bind (ws_valid_until (is_wire s))
    (\<lambda>t. case timestamp_duration t of Inl _ \<Rightarrow> None | Inr d \<Rightarrow> Some d) of None \<Rightarrow> 0 | Some d \<Rightarrow> d)"

text \<open>
  A fresh state holds a snapshot that was decoded at some wall-clock time, for at most the validity
  period and never past the end of its validity as seen from that time.
\<close>

fun consumer_inv :: "snapshot_deps \<Rightarrow> string \<Rightarrow> WorkloadProjectionKind \<Rightarrow> SnapshotConsumerState \<Rightarrow> bool" where
  "consumer_inv deps cluster kind (Fresh s a u) =
    (\<exists>raw wall. decode_snapshot deps raw cluster kind wall = Inr s \<and> 0 \<le> wall \<and> a \<le> u \<and>
      u - a \<le> SNAPSHOT_VALIDITY \<and> nat wall + (u - a) \<le> valid_until_of s)"
| "consumer_inv deps cluster kind st =
    (\<forall>s. retained st = Some s \<longrightarrow> (\<exists>raw wall. decode_snapshot deps raw cluster kind wall = Inr s))"

definition retained_generation :: "SnapshotConsumerState \<Rightarrow> 64 word" where
  "retained_generation st = (case retained st of None \<Rightarrow> 0 | Some s \<Rightarrow> si_generation (snapshot_identity s))"

lemma retained_expire [simp]: "retained (expire now st) = retained st"
  by (cases st) auto

lemma decoded_times:
  assumes "decode_snapshot deps raw cluster kind wall = Inr s"
  shows "0 \<le> wall \<and> nat wall < valid_until_of s"
proof -
  have "check_freshness (is_wire s) wall = Inr ()"
    using assms by (auto simp: decode_snapshot_def split: if_splits)
  then show ?thesis
    by (auto simp: check_freshness_def system_duration_def valid_until_of_def split: if_splits)
qed

lemma accept_inv:
  assumes "decode_snapshot deps raw cluster kind wall = Inr s"
  shows "consumer_inv deps cluster kind (accept_snapshot s wall now)"
  using assms decoded_times [OF assms] unfolding accept_snapshot_def Let_def valid_until_of_def [symmetric]
  by (auto intro!: exI [of _ raw] exI [of _ wall])

lemma expire_inv: "consumer_inv deps cluster kind st \<Longrightarrow> consumer_inv deps cluster kind (expire now st)"
  by (cases st) auto

lemma inv_retained:
  "consumer_inv deps cluster kind st \<Longrightarrow> retained st = Some s \<Longrightarrow>
    \<exists>raw wall. decode_snapshot deps raw cluster kind wall = Inr s"
  by (cases st) auto

text \<open>The outcomes of one step: a blocked state that keeps what is retained, no change, or acceptance.\<close>

lemma consume_cases:
  fixes st :: SnapshotConsumerState and now :: nat
  defines "state \<equiv> expire now st"
  obtains (blocked) reason r where "consume deps cluster kind raw wall now fence st = Blocked (retained state) reason r"
  | (unchanged) "consume deps cluster kind raw wall now fence st = state" "recovery_of state = Some StrictlyHigherGeneration"
  | (accepted) bytes s where "raw = Inr bytes" "fence" "decode_snapshot deps bytes cluster kind wall = Inr s"
      "consume deps cluster kind raw wall now fence st = accept_snapshot s wall now"
      "\<forall>old. retained state = Some old \<longrightarrow>
        si_generation (snapshot_identity old) < si_generation (snapshot_identity s) \<or>
        (snapshot_identity old = snapshot_identity s \<and> recovery_of state \<noteq> Some StrictlyHigherGeneration)"
proof -
  let ?D = "decoded_candidate deps cluster kind raw wall fence"
  show thesis
  proof (cases ?D)
    case (Inl e)
    show ?thesis by (rule blocked) (simp only: consume_def Let_def Inl sum.case state_def)
  next
    case (Inr s)
    then obtain bytes where good: "raw = Inr bytes" "fence" "decode_snapshot deps bytes cluster kind wall = Inr s"
      by (auto simp: decoded_candidate_def split: if_splits)
    show ?thesis
    proof (cases "retained state")
      case None
      with good Inr show ?thesis by (intro accepted) (auto simp: consume_def Let_def state_def)
    next
      case (Some old)
      let ?c = "snapshot_identity s" and ?o = "snapshot_identity old"
      have step: "consume deps cluster kind raw wall now fence st =
          (if si_generation ?c < si_generation ?o
           then Blocked (retained state) (Block_Message ''policy generation regressed'') MatchingRetainedOrHigher
           else if si_generation ?c = si_generation ?o \<and> ?c \<noteq> ?o
           then Blocked (retained state) (Block_Message ''same-generation snapshot digest conflict'') StrictlyHigherGeneration
           else if recovery_of state = Some StrictlyHigherGeneration \<and> si_generation ?c \<le> si_generation ?o then state
           else if recovery_of state = Some MatchingRetainedOrHigher \<and> si_generation ?c = si_generation ?o \<and> ?c \<noteq> ?o
           then state else accept_snapshot s wall now)"
        using Inr Some by (simp add: consume_def Let_def state_def)
      consider "si_generation ?c < si_generation ?o" | "si_generation ?c = si_generation ?o" "?c \<noteq> ?o"
        | "?c = ?o" "recovery_of state = Some StrictlyHigherGeneration"
        | "?c = ?o" "recovery_of state \<noteq> Some StrictlyHigherGeneration" | "si_generation ?o < si_generation ?c"
        using linorder_less_linear [of "si_generation ?c" "si_generation ?o"] by blast
      then show ?thesis
      proof cases
        case 1
        then show ?thesis using step by (intro blocked) simp
      next
        case 2
        then show ?thesis using step by (intro blocked) simp
      next
        case 3
        then show ?thesis using step by (intro unchanged) simp_all
      next
        case 4
        then show ?thesis using step good Some by (intro accepted) auto
      next
        case 5
        then have "\<not> si_generation ?c < si_generation ?o" "si_generation ?c \<noteq> si_generation ?o"
            "\<not> si_generation ?c \<le> si_generation ?o"
          by (auto dest: less_asym simp: not_le)
        then show ?thesis using step good Some 5 by (intro accepted) (assumption | simp)+
      qed
    qed
  qed
qed

lemma consumer_step_inv: "consumer_inv deps cluster kind st \<Longrightarrow> consumer_inv deps cluster kind (consumer_step deps cluster kind e st)"
proof (unfold consumer_step_def, cases rule: consume_cases [where deps = deps and cluster = cluster and kind = kind
      and raw = "ev_raw e" and wall = "ev_wall e" and now = "ev_now e" and fence = "ev_fence e" and st = st])
  case (blocked reason r)
  assume "consumer_inv deps cluster kind st"
  then show "consumer_inv deps cluster kind (consume deps cluster kind (ev_raw e) (ev_wall e) (ev_now e) (ev_fence e) st)"
    unfolding blocked using inv_retained [of deps cluster kind st] by simp
qed (use accept_inv expire_inv in simp_all)

lemma consumer_step_generation:
  "retained_generation st \<le> retained_generation (consumer_step deps cluster kind e st)"
proof (unfold consumer_step_def, cases rule: consume_cases [where deps = deps and cluster = cluster and kind = kind
      and raw = "ev_raw e" and wall = "ev_wall e" and now = "ev_now e" and fence = "ev_fence e" and st = st])
  case (blocked reason r)
  then show "retained_generation st \<le>
      retained_generation (consume deps cluster kind (ev_raw e) (ev_wall e) (ev_now e) (ev_fence e) st)"
    by (simp add: retained_generation_def)
next
  case unchanged
  then show "retained_generation st \<le>
      retained_generation (consume deps cluster kind (ev_raw e) (ev_wall e) (ev_now e) (ev_fence e) st)"
    by (simp add: retained_generation_def)
next
  case (accepted bytes s)
  then show "retained_generation st \<le>
      retained_generation (consume deps cluster kind (ev_raw e) (ev_wall e) (ev_now e) (ev_fence e) st)"
    by (auto simp: retained_generation_def accept_snapshot_def Let_def split: option.splits)
qed

interpretation consumer_runs: monotone_machine "consumer_inv deps cluster kind" "consumer_step deps cluster kind"
    retained_generation for deps cluster kind
  by unfold_locales (rule consumer_step_inv, assumption, rule consumer_step_generation)

lemma fresh_only_accepted:
  assumes "is_fresh (consume deps cluster kind raw wall now fence st) t"
  shows "\<exists>bytes s. raw = Inr bytes \<and> fence \<and> decode_snapshot deps bytes cluster kind wall = Inr s \<and>
    consume deps cluster kind raw wall now fence st = accept_snapshot s wall now"
proof (cases rule: consume_cases [where deps = deps and cluster = cluster and kind = kind and raw = raw
      and wall = wall and now = now and fence = fence and st = st])
  case unchanged
  then show ?thesis using assms by (cases "expire now st") auto
qed (use assms in auto)

section \<open>Properties\<close>

text \<open>
  C19. A snapshot built from a validated policy is accepted by the consumers it is meant for: within the
  freshness envelope it decodes, with the identity of the policy, and it admits exactly the callers
  whose principal the policy declares with the workload kind of the projection and whose certificate
  is not revoked.
\<close>

theorem snapshot_round_trip:
  assumes "validate_policy pdeps bytes = Inr p" "build_snapshot sdeps p kind now = Inr raw"
    and "\<And>s. sd_encode sdeps s = raw \<Longrightarrow> sd_decode sdeps raw = Some s"
    and "\<And>x. length (sd_sha sdeps x) = 32" "\<And>x. length (pd_sha pdeps x) = 32"
    and "now \<le> receipt + int MAX_FUTURE_SKEW" "receipt < now + int SNAPSHOT_VALIDITY" "0 \<le> receipt"
  shows "\<exists>s. decode_snapshot sdeps raw (vp_cluster_id p) kind receipt = Inr s \<and>
    si_generation (snapshot_identity s) = vp_generation p \<and> si_policy_digest (snapshot_identity s) = vp_digest p \<and>
    (\<forall>u fp. admits s u fp \<longleftrightarrow> (\<exists>k. projection_principal kind = Some k \<and> map_of (vp_principals p) u = Some k) \<and>
      fp \<notin> set (vp_revoked_leaf_fingerprints p))"
proof -
  obtain raw_policy cluster where "check_raw bytes raw_policy = Inr cluster"
      "validate_raw pdeps (length bytes) cluster raw_policy = Inr p"
    using assms(1) by (auto simp: validate_policy_def split: if_splits)
  then have wf: "policy_wf pdeps p" and digest: "fingerprint (vp_digest p)"
    using validate_raw_wf digest_valid [OF assms(5)] by (fastforce simp: policy_hash_def)+
  obtain t u d where k: "kind \<noteq> Unspecified_Projection"
    and t: "snapshot_timestamp now = Inr t" "snapshot_timestamp (now + int SNAPSHOT_VALIDITY) = Inr u"
    and d: "projection_digest sdeps (snapshot_of p kind t u) = Inr d"
    and raw: "raw = sd_encode sdeps ((snapshot_of p kind t u)\<lparr>ws_projection_digest := d\<rparr>)"
      "length raw \<le> MAX_WORKLOAD_PROJECTION_BYTES"
    using assms(2) by (auto simp: build_snapshot_def Let_def split: if_splits)
  let ?w = "(snapshot_of p kind t u)\<lparr>ws_projection_digest := d\<rparr>"
  have "fingerprint d" using d digest_valid [OF assms(4)] by (auto simp: projection_digest_def)
  note header = header_of_snapshot [OF wf k digest this]
  obtain pk where pk: "projection_principal kind = Some pk" using k by (cases kind) auto
  obtain st where st: "try_fold (index_enrollment (vp_cluster_id p) kind) (ws_enrollments ?w)
      \<lparr>es_previous = None, es_enrollments = []\<rparr> = Inr st"
      "dom (map_of (es_enrollments st)) = {u. map_of (vp_principals p) u = Some pk}"
    using enrollments_of_snapshot [OF wf pk, of t u] by auto
  obtain r1 rv where rv: "try_fold index_revocation (ws_revoked_leaf_fingerprints ?w) ([], []) = Inr (r1, rv)"
      "set rv = set (vp_revoked_leaf_fingerprints p)"
    using revocations_of_snapshot [OF wf, of kind t u] by auto
  have "check_freshness ?w receipt = Inr ()"
    using snapshot_timestamp_Inr [OF t(1)] snapshot_timestamp_Inr [OF t(2)] assms(6,7,8)
    by (intro freshness_of_snapshot [where t = t and u = u and now = now]) (auto simp: snapshot_of_def Let_def)
  then have "decode_snapshot sdeps raw (vp_cluster_id p) kind receipt =
      Inr \<lparr>is_wire = ?w, is_enrollments = es_enrollments st, is_revocations = rv\<rparr>"
    using raw header st(1) rv(1) d assms(3) by (simp add: decode_snapshot_def)
  moreover have "map_of (es_enrollments st) v \<noteq> None \<longleftrightarrow> map_of (vp_principals p) v = Some pk" for v
    using st(2) by (auto simp: dom_def)
  ultimately show ?thesis
    using rv(2) pk by (simp add: snapshot_identity_def admits_def snapshot_of_def Let_def)
qed

text \<open>
  C14. The consumer never goes back and fails closed: over any sequence of deliveries the generation it
  retains never decreases, a fresh state holds a snapshot that passed decoding and stays fresh for at
  most 30 seconds and never past the end of its validity, and after a delivery the state is fresh only
  if that delivery itself was received under a matching ownership fence and decoded.
\<close>

theorem consumer_fails_closed:
  "retained_generation (consumer_run deps cluster kind es) \<le> retained_generation (consumer_run deps cluster kind (es @ fs)) \<and>
    (\<forall>s a u. consumer_run deps cluster kind es = Fresh s a u \<longrightarrow> (\<exists>raw wall. decode_snapshot deps raw cluster kind wall = Inr s \<and>
      u - a \<le> SNAPSHOT_VALIDITY \<and> nat wall + (u - a) \<le> valid_until_of s)) \<and>
    (\<forall>e t. is_fresh (consumer_run deps cluster kind (es @ [e])) t \<longrightarrow> ev_fence e \<and> t < ev_now e + SNAPSHOT_VALIDITY \<and>
      (\<exists>bytes s. ev_raw e = Inr bytes \<and> decode_snapshot deps bytes cluster kind (ev_wall e) = Inr s \<and>
        retained (consumer_run deps cluster kind (es @ [e])) = Some s))"
proof (intro conjI allI impI)
  have start: "consumer_inv deps cluster kind Empty" by simp
  show "retained_generation (consumer_run deps cluster kind es) \<le> retained_generation (consumer_run deps cluster kind (es @ fs))"
    unfolding consumer_run_def by (rule consumer_runs.run_rank_between [OF start])
  fix s a u assume "consumer_run deps cluster kind es = Fresh s a u"
  then show "\<exists>raw wall. decode_snapshot deps raw cluster kind wall = Inr s \<and>
      u - a \<le> SNAPSHOT_VALIDITY \<and> nat wall + (u - a) \<le> valid_until_of s"
    using consumer_runs.run_inv [OF start, of es] by (auto simp: consumer_run_def)
next
  fix e t assume "is_fresh (consumer_run deps cluster kind (es @ [e])) t"
  then have fresh: "is_fresh (consume deps cluster kind (ev_raw e) (ev_wall e) (ev_now e) (ev_fence e) (consumer_run deps cluster kind es)) t"
    by (simp add: consumer_run_def consumer_step_def)
  obtain bytes s where *: "ev_raw e = Inr bytes" "ev_fence e" "decode_snapshot deps bytes cluster kind (ev_wall e) = Inr s"
      "consume deps cluster kind (ev_raw e) (ev_wall e) (ev_now e) (ev_fence e) (consumer_run deps cluster kind es) = accept_snapshot s (ev_wall e) (ev_now e)"
    using fresh_only_accepted [OF fresh] by auto
  then show "ev_fence e" by simp
  show "t < ev_now e + SNAPSHOT_VALIDITY"
    using fresh unfolding *(4) by (simp add: accept_snapshot_def Let_def)
  show "\<exists>bytes s. ev_raw e = Inr bytes \<and> decode_snapshot deps bytes cluster kind (ev_wall e) = Inr s \<and>
      retained (consumer_run deps cluster kind (es @ [e])) = Some s"
    using * by (simp add: consumer_run_def consumer_step_def accept_snapshot_def Let_def)
qed

text \<open>
  C39. The requirement of a strictly higher generation, which the consumer sets after two different
  snapshots of one generation, can be escaped: delivered directly, the retained snapshot is refused,
  but a valid snapshot of a lower generation first weakens the requirement, and the retained snapshot
  is then accepted again and admits callers.
\<close>

theorem strict_recovery_escaped:
  assumes "decode_snapshot deps raw_low cluster kind wall1 = Inr low"
    and "decode_snapshot deps raw_old cluster kind wall2 = Inr s"
    and "si_generation (snapshot_identity low) < si_generation (snapshot_identity old)"
    and "snapshot_identity s = snapshot_identity old"
  shows "consume deps cluster kind (Inr raw_old) wall2 now2 True (Blocked (Some old) reason StrictlyHigherGeneration) =
      Blocked (Some old) reason StrictlyHigherGeneration \<and>
    is_fresh (consume deps cluster kind (Inr raw_old) wall2 now2 True
      (consume deps cluster kind (Inr raw_low) wall1 now1 True (Blocked (Some old) reason StrictlyHigherGeneration))) now2"
proof -
  have low: "decoded_candidate deps cluster kind (Inr raw_low) wall1 True = Inr low"
    using assms(1) by (simp add: decoded_candidate_def map_err_def)
  have s: "decoded_candidate deps cluster kind (Inr raw_old) wall2 True = Inr s"
    using assms(2) by (simp add: decoded_candidate_def map_err_def)
  have "is_fresh (accept_snapshot s wall2 now2) now2"
    using decoded_times [OF assms(2)]
    unfolding accept_snapshot_def Let_def valid_until_of_def [symmetric] by (simp add: SNAPSHOT_VALIDITY_def NANOS_def)
  then show ?thesis
    using assms(3,4) by (simp add: consume_def low s Let_def)
qed

section \<open>Sample snapshots\<close>

definition zero_digest :: string where
  "zero_digest = ''sha256:'' @ hex_string (replicate 32 (CHR ''0''))"

definition sample_wire :: "64 word \<Rightarrow> WorkloadSnapshotV1" where
  "sample_wire generation = \<lparr>ws_schema_version = 1, ws_projection_kind = 1, ws_cluster_id = ''c1'',
    ws_policy_generation = generation, ws_policy_digest = zero_digest, ws_projection_digest = zero_digest,
    ws_issued_at = Some \<lparr>ts_seconds = 1000, ts_nanos = 0\<rparr>, ws_valid_until = Some \<lparr>ts_seconds = 1030, ts_nanos = 0\<rparr>,
    ws_enrollment_count = 1, ws_revoked_fingerprint_count = 1,
    ws_enrollments = [\<lparr>we_principal_uri = ''urn:wruntime:c1:proxy:p1'', we_workload_id = ''n1''\<rparr>],
    ws_revoked_leaf_fingerprints = [''sha256:'' @ replicate 64 (CHR ''a'')]\<rparr>"

text \<open>A codec for the sample snapshots: one byte for each of the generations 6 and 7.\<close>

definition sample_snapshot_deps :: snapshot_deps where
  "sample_snapshot_deps = \<lparr>sd_sha = \<lambda>_. replicate 32 (CHR ''0''),
    sd_encode = \<lambda>s. if s = sample_wire 7 then ''H'' else if s = sample_wire 6 then ''L'' else ''other'',
    sd_decode = \<lambda>b. if b = ''H'' then Some (sample_wire 7) else if b = ''L'' then Some (sample_wire 6) else None\<rparr>"

abbreviation sample_wall :: int where
  "sample_wall \<equiv> 1001 * 1000000000"

definition sample_indexed :: "64 word \<Rightarrow> IndexedSnapshot" where
  "sample_indexed generation = \<lparr>is_wire = sample_wire generation, is_enrollments = [(''urn:wruntime:c1:proxy:p1'', ''n1'')],
    is_revocations = [''sha256:'' @ replicate 64 (CHR ''a'')]\<rparr>"

lemma sample_decodes:
  "decode_snapshot sample_snapshot_deps ''H'' ''c1'' ProxyPeerV1 sample_wall = Inr (sample_indexed 7)"
  "decode_snapshot sample_snapshot_deps ''L'' ''c1'' ProxyPeerV1 sample_wall = Inr (sample_indexed 6)"
  by code_simp+

theorem strict_recovery_escaped_witness:
  "is_fresh (consume sample_snapshot_deps ''c1'' ProxyPeerV1 (Inr ''H'') sample_wall 20 True
    (consume sample_snapshot_deps ''c1'' ProxyPeerV1 (Inr ''L'') sample_wall 10 True
      (Blocked (Some (sample_indexed 7)) (Block_Message ''conflict'') StrictlyHigherGeneration))) 20"
  by (rule strict_recovery_escaped [OF sample_decodes(2) sample_decodes(1), THEN conjunct2])
    (simp_all add: snapshot_identity_def sample_indexed_def sample_wire_def)

theorem consumer_fails_closed_witness:
  "\<exists>s. retained (consumer_run sample_snapshot_deps ''c1'' ProxyPeerV1
      ([] @ [\<lparr>ev_raw = Inr ''H'', ev_wall = sample_wall, ev_now = 20, ev_fence = True\<rparr>])) = Some s \<and>
    decode_snapshot sample_snapshot_deps ''H'' ''c1'' ProxyPeerV1 sample_wall = Inr s"
proof -
  let ?e = "\<lparr>ev_raw = Inr ''H'', ev_wall = sample_wall, ev_now = 20, ev_fence = True\<rparr>"
  have "is_fresh (consumer_run sample_snapshot_deps ''c1'' ProxyPeerV1 ([] @ [?e])) 20"
    by code_simp
  then show ?thesis
    using consumer_fails_closed [where es = "[]" and fs = "[]" and deps = sample_snapshot_deps
        and cluster = "''c1''" and kind = ProxyPeerV1]
    by fastforce
qed

lemma sample_policy_fields:
  "and_then (validate_policy sample_policy_deps ''policy'') (\<lambda>p. Inr (vp_cluster_id p, vp_generation p, vp_digest p,
      vp_proxy_enrollments p, vp_manager_enrollments p, vp_revoked_leaf_fingerprints p)) =
    Inr (''c1'', 7, zero_digest, [\<lparr>ne_principal = ''urn:wruntime:c1:proxy:p1'', ne_node_id = ''n1''\<rparr>],
      raw_manager_enrollments sample_raw_policy, [''sha256:'' @ replicate 64 (CHR ''a'')])"
  by code_simp

lemma sample_wire_preimage: "is_ok (projection_preimage (sample_wire 7))"
  by code_simp

lemma sample_timestamps:
  "snapshot_timestamp (1000 * 1000000000) = Inr \<lparr>ts_seconds = 1000, ts_nanos = 0\<rparr>"
  "snapshot_timestamp (1000 * 1000000000 + int SNAPSHOT_VALIDITY) = Inr \<lparr>ts_seconds = 1030, ts_nanos = 0\<rparr>"
  by (simp_all add: snapshot_timestamp_def system_duration_def NANOS_def SNAPSHOT_VALIDITY_def)

lemma sample_snapshot_of:
  assumes "validate_policy sample_policy_deps ''policy'' = Inr p"
  shows "snapshot_of p ProxyPeerV1 \<lparr>ts_seconds = 1000, ts_nanos = 0\<rparr> \<lparr>ts_seconds = 1030, ts_nanos = 0\<rparr> =
    (sample_wire 7)\<lparr>ws_projection_digest := []\<rparr>"
  using sample_policy_fields assms
  by (simp add: snapshot_of_def projected_enrollments_def sample_wire_def Let_def)

lemma sample_build:
  assumes "validate_policy sample_policy_deps ''policy'' = Inr p"
  shows "build_snapshot sample_snapshot_deps p ProxyPeerV1 (1000 * 1000000000) = Inr ''H''"
proof -
  have "projection_digest sample_snapshot_deps (sample_wire 7) = Inr zero_digest"
    using sample_wire_preimage by (auto simp: is_ok_iff projection_digest_def map_err_def sample_snapshot_deps_def zero_digest_def)
  moreover have "(sample_wire 7)\<lparr>ws_projection_digest := zero_digest\<rparr> = sample_wire 7"
    by (simp add: sample_wire_def)
  moreover have "sd_encode sample_snapshot_deps (sample_wire 7) = ''H''"
    by (simp add: sample_snapshot_deps_def)
  ultimately show ?thesis
    by (simp add: build_snapshot_def sample_timestamps [simplified] sample_snapshot_of [OF assms] Let_def
        MAX_WORKLOAD_PROJECTION_BYTES_def)
qed

theorem snapshot_round_trip_witness:
  "\<exists>p s. validate_policy sample_policy_deps ''policy'' = Inr p \<and>
    build_snapshot sample_snapshot_deps p ProxyPeerV1 (1000 * 1000000000) = Inr ''H'' \<and>
    decode_snapshot sample_snapshot_deps ''H'' (vp_cluster_id p) ProxyPeerV1 sample_wall = Inr s"
proof -
  obtain p where p: "validate_policy sample_policy_deps ''policy'' = Inr p"
    using sample_policy_ok by (auto simp: is_ok_iff)
  note build = sample_build [OF p]
  have "sd_encode sample_snapshot_deps s = ''H'' \<Longrightarrow> sd_decode sample_snapshot_deps ''H'' = Some s" for s
    by (simp add: sample_snapshot_deps_def split: if_splits)
  moreover have "length (sd_sha sample_snapshot_deps x) = 32" "length (pd_sha sample_policy_deps x) = 32" for x
    by (simp_all add: sample_snapshot_deps_def sample_policy_deps_def)
  ultimately show ?thesis
    using snapshot_round_trip [OF p build, of sample_wall] p build
    by (fastforce simp: MAX_FUTURE_SKEW_def SNAPSHOT_VALIDITY_def NANOS_def)
qed

end
