(* ===== verification/Leaf_Identity.thy ===== *)
theory Leaf_Identity
  imports Identity
begin

text \<open>
  The identity of an authenticated certificate and the separation of trust roots, the checks of
  \<open>wr-common/src/tls.rs\<close>. Parsing X.509 and hashing belong to libraries: \<open>tls_deps\<close> has a parser that
  yields the undecoded rest and the decoded certificate, and SHA-256. Reading files is left out, so a
  CA bundle is the list of its certificates.
\<close>

datatype LeafProfile = Client_Leaf | Server_Leaf

datatype GeneralName = San_URI string | San_DNS string | San_IP string | San_Other

record ExtendedKeyUsage =
  eku_any :: bool
  eku_server_auth :: bool
  eku_client_auth :: bool
  eku_code_signing :: bool
  eku_email_protection :: bool
  eku_time_stamping :: bool
  eku_ocsp_signing :: bool
  eku_other :: "string list"

datatype tls_error = Tls_Fault string | Tls_Identity identity_error

text \<open>The extensions a certificate may have: absent is \<open>Inr None\<close>, unreadable is \<open>Inl\<close>.\<close>

record X509Certificate =
  x_eku :: "unit + ExtendedKeyUsage option"
  x_san :: "unit + GeneralName list option"
  x_basic_constraints_ca :: "unit + bool option"
  x_key_cert_sign :: "unit + bool option"
  x_spki :: string
  x_serial :: string

record tls_deps =
  td_from_der :: "string \<Rightarrow> (string \<times> X509Certificate) option"
  td_sha256 :: "string \<Rightarrow> string"

record LeafEvidence =
  le_profile :: LeafProfile
  le_principal :: "PrincipalUri option"
  le_endpoint_dns_names :: "string list"
  le_endpoint_ip_addresses :: "string list"
  le_fingerprint :: string
  le_serial :: string
  le_spki_fingerprint :: string

definition certificate_fingerprint_sha256 :: "tls_deps \<Rightarrow> string \<Rightarrow> string" where
  "certificate_fingerprint_sha256 deps der = ''sha256:'' @ hex_string (td_sha256 deps der)"

definition no_other_eku :: "ExtendedKeyUsage \<Rightarrow> bool" where
  "no_other_eku e \<longleftrightarrow> \<not> eku_any e \<and> \<not> eku_code_signing e \<and> \<not> eku_email_protection e \<and> \<not> eku_time_stamping e \<and>
    \<not> eku_ocsp_signing e \<and> eku_other e = []"

definition check_eku :: "LeafProfile \<Rightarrow> ExtendedKeyUsage \<Rightarrow> tls_error + unit" where
  "check_eku profile e = (case profile of
      Client_Leaf \<Rightarrow> if eku_client_auth e \<and> \<not> eku_server_auth e \<and> no_other_eku e then Inr ()
        else Inl (Tls_Fault ''client leaf requires clientAuth only'')
    | Server_Leaf \<Rightarrow> if eku_server_auth e \<and> \<not> eku_client_auth e \<and> no_other_eku e then Inr ()
        else Inl (Tls_Fault ''server leaf requires serverAuth only''))"

record san_names =
  sn_uris :: "string list"
  sn_dns :: "string list"
  sn_ips :: "string list"
  sn_unsupported :: nat

definition collect_san :: "GeneralName \<Rightarrow> san_names \<Rightarrow> tls_error + san_names" where
  "collect_san name s = (case name of
      San_URI u \<Rightarrow> Inr (s\<lparr>sn_uris := sn_uris s @ [u]\<rparr>)
    | San_DNS d \<Rightarrow> Inr (s\<lparr>sn_dns := sn_dns s @ [d]\<rparr>)
    | San_IP b \<Rightarrow> if length b = 4 \<or> length b = 16 then Inr (s\<lparr>sn_ips := sn_ips s @ [b]\<rparr>)
        else Inl (Tls_Fault ''endpoint SAN contains malformed IP address'')
    | San_Other \<Rightarrow> Inr (s\<lparr>sn_unsupported := sn_unsupported s + 1\<rparr>))"

definition no_sans :: san_names where
  "no_sans = \<lparr>sn_uris = [], sn_dns = [], sn_ips = [], sn_unsupported = 0\<rparr>"

definition leaf_principal :: "LeafProfile \<Rightarrow> ClusterId option \<Rightarrow> san_names \<Rightarrow> tls_error + PrincipalUri option" where
  "leaf_principal profile expected_cluster s = (case profile of
      Client_Leaf \<Rightarrow>
        if length (sn_uris s) \<noteq> 1 then Inl (Tls_Fault ''client leaf requires exactly one URI SAN'')
        else if sn_dns s \<noteq> [] \<or> sn_ips s \<noteq> [] \<or> sn_unsupported s \<noteq> 0
        then Inl (Tls_Fault ''client leaf must contain only its URI SAN'')
        else and_then (map_err Tls_Identity (PrincipalUri_parse (hd (sn_uris s)))) (\<lambda>p.
          (case expected_cluster of
             Some cluster \<Rightarrow> if uri_cluster_id p \<noteq> cluster
               then Inl (Tls_Fault ''client principal belongs to the wrong cluster'') else Inr (Some p)
           | None \<Rightarrow> Inr (Some p)))
    | Server_Leaf \<Rightarrow>
        if sn_uris s \<noteq> [] \<or> sn_unsupported s \<noteq> 0
        then Inl (Tls_Fault ''server leaf must contain only endpoint DNS/IP SANs'')
        else if sn_dns s = [] \<and> sn_ips s = [] then Inl (Tls_Fault ''server leaf requires a DNS or IP SAN'')
        else Inr None)"

definition parse_leaf_evidence ::
    "tls_deps \<Rightarrow> string \<Rightarrow> LeafProfile \<Rightarrow> ClusterId option \<Rightarrow> tls_error + LeafEvidence" where
  "parse_leaf_evidence deps der profile expected_cluster =
    and_then (ok_or (Tls_Fault ''failed to parse X.509 leaf'') (td_from_der deps der)) (\<lambda>(remaining, cert).
    if remaining \<noteq> [] then Inl (Tls_Fault ''trailing bytes after X.509 leaf'')
    else and_then (map_err (\<lambda>_. Tls_Fault ''failed to parse extended key usage'') (x_eku cert)) (\<lambda>eku.
    and_then (ok_or (Tls_Fault ''leaf certificate requires explicit extended key usage'') eku) (\<lambda>e.
    and_then (check_eku profile e) (\<lambda>_.
    and_then (map_err (\<lambda>_. Tls_Fault ''failed to parse subject alternative name'') (x_san cert)) (\<lambda>san.
    and_then (ok_or (Tls_Fault ''leaf certificate requires subject alternative names'') san) (\<lambda>names.
    and_then (try_fold collect_san names no_sans) (\<lambda>s.
    and_then (leaf_principal profile expected_cluster s) (\<lambda>p.
    Inr \<lparr>le_profile = profile, le_principal = p, le_endpoint_dns_names = sn_dns s,
      le_endpoint_ip_addresses = sn_ips s, le_fingerprint = certificate_fingerprint_sha256 deps der,
      le_serial = x_serial cert, le_spki_fingerprint = certificate_fingerprint_sha256 deps (x_spki cert)\<rparr>))))))))"

definition validate_client_leaf :: "tls_deps \<Rightarrow> string \<Rightarrow> ClusterId \<Rightarrow> tls_error + LeafEvidence" where
  "validate_client_leaf deps der cluster = parse_leaf_evidence deps der Client_Leaf (Some cluster)"

section \<open>Trust roots\<close>

definition validate_root :: "tls_deps \<Rightarrow> string \<Rightarrow> tls_error + string" where
  "validate_root deps der =
    and_then (ok_or (Tls_Fault ''failed to parse root certificate'') (td_from_der deps der)) (\<lambda>(remaining, cert).
    if remaining \<noteq> [] then Inl (Tls_Fault ''trailing bytes after root certificate'')
    else and_then (map_err (\<lambda>_. Tls_Fault ''failed to parse root basic constraints'') (x_basic_constraints_ca cert)) (\<lambda>bc.
    and_then (ok_or (Tls_Fault ''root requires basic constraints'') bc) (\<lambda>ca.
    if \<not> ca then Inl (Tls_Fault ''root bundle contains a non-CA certificate'')
    else and_then (map_err (\<lambda>_. Tls_Fault ''failed to parse root key usage'') (x_key_cert_sign cert)) (\<lambda>usage.
    if usage = Some False then Inl (Tls_Fault ''root CA lacks keyCertSign usage'')
    else Inr (certificate_fingerprint_sha256 deps der)))))"

definition validate_root_bundle :: "tls_deps \<Rightarrow> string list \<Rightarrow> tls_error + string list" where
  "validate_root_bundle deps certificates =
    (if certificates = [] then Inl (Tls_Fault ''CA bundle contains no certificates'')
     else try_map (validate_root deps) certificates)"

definition own_root :: "tls_deps \<Rightarrow> string \<Rightarrow> string \<Rightarrow> (string \<times> string) list \<Rightarrow> tls_error + (string \<times> string) list" where
  "own_root deps domain der owners =
    (let fp = certificate_fingerprint_sha256 deps der in
     case map_of owners fp of
       Some existing \<Rightarrow> Inl (Tls_Fault (''TLS trust domains '' @ [CHR 0x27] @ existing @ [CHR 0x27] @ '' and '' @ [CHR 0x27] @
         domain @ [CHR 0x27] @ '' share a CA certificate''))
     | None \<Rightarrow> Inr ((fp, domain) # owners))"

definition own_roots :: "tls_deps \<Rightarrow> string \<times> string list \<Rightarrow> (string \<times> string) list \<Rightarrow> tls_error + (string \<times> string) list" where
  "own_roots deps d owners =
    (case d of (domain, certificates) \<Rightarrow>
      and_then (validate_root_bundle deps certificates) (\<lambda>_. try_fold (own_root deps domain) certificates owners))"

definition ensure_disjoint_ca_roots :: "tls_deps \<Rightarrow> (string \<times> string list) list \<Rightarrow> tls_error + unit" where
  "ensure_disjoint_ca_roots deps domains = and_then (try_fold (own_roots deps) domains []) (\<lambda>_. Inr ())"

section \<open>What accepted evidence says\<close>

lemma collect_san_names:
  "try_fold collect_san names s = Inr s' \<Longrightarrow>
    length (sn_uris s') + length (sn_dns s') + length (sn_ips s') + sn_unsupported s' =
      length (sn_uris s) + length (sn_dns s) + length (sn_ips s) + sn_unsupported s + length names \<and>
    (\<exists>us. sn_uris s' = sn_uris s @ us \<and> (\<forall>u\<in>set us. San_URI u \<in> set names))"
proof (induction names arbitrary: s)
  case (Cons n names)
  then obtain t where t: "collect_san n s = Inr t" "try_fold collect_san names t = Inr s'" by auto
  from Cons.IH [OF t(2)] obtain us where us: "sn_uris s' = sn_uris t @ us" "\<forall>u\<in>set us. San_URI u \<in> set names" by blast
  from t(1) have "\<exists>vs. sn_uris t = sn_uris s @ vs \<and> (\<forall>u\<in>set vs. n = San_URI u)"
    by (auto simp: collect_san_def split: GeneralName.splits if_splits)
  with us have "\<exists>us. sn_uris s' = sn_uris s @ us \<and> (\<forall>u\<in>set us. San_URI u \<in> set (n # names))" by fastforce
  moreover have "length (sn_uris t) + length (sn_dns t) + length (sn_ips t) + sn_unsupported t =
      Suc (length (sn_uris s) + length (sn_dns s) + length (sn_ips s) + sn_unsupported s)"
    using t(1) by (auto simp: collect_san_def split: GeneralName.splits if_splits)
  ultimately show ?case using Cons.IH [OF t(2)] by simp
qed auto

text \<open>An accepted client leaf names exactly one principal, in its only subject alternative name.\<close>

lemma client_leaf_identity:
  assumes "parse_leaf_evidence deps der Client_Leaf cluster = Inr ev"
  obtains cert e p where "td_from_der deps der = Some ([], cert)" "x_eku cert = Inr (Some e)"
    "eku_client_auth e" "\<not> eku_server_auth e" "no_other_eku e"
    "x_san cert = Inr (Some [San_URI (uri_value p)])" "PrincipalUri_parse (uri_value p) = Inr p"
    "le_principal ev = Some p" "\<forall>c. cluster = Some c \<longrightarrow> uri_cluster_id p = c"
    "le_fingerprint ev = certificate_fingerprint_sha256 deps der"
proof -
  from assms obtain cert e names s pr where c: "td_from_der deps der = Some ([], cert)" "x_eku cert = Inr (Some e)"
      "check_eku Client_Leaf e = Inr ()" "x_san cert = Inr (Some names)" "try_fold collect_san names no_sans = Inr s"
      "leaf_principal Client_Leaf cluster s = Inr pr" "le_principal ev = pr"
      "le_fingerprint ev = certificate_fingerprint_sha256 deps der"
    by (auto simp: parse_leaf_evidence_def ok_or_def split: if_splits option.splits)
  from c(6) obtain p u where p: "sn_uris s = [u]" "sn_dns s = []" "sn_ips s = []" "sn_unsupported s = 0"
      "PrincipalUri_parse u = Inr p" "pr = Some p" "\<forall>c. cluster = Some c \<longrightarrow> uri_cluster_id p = c"
    by (cases "sn_uris s") (auto simp: leaf_principal_def split: if_splits option.splits)
  have "length names = 1" using collect_san_names [OF c(5)] p(1-4) by (simp add: no_sans_def)
  moreover have "San_URI u \<in> set names" using collect_san_names [OF c(5)] p(1) by (auto simp: no_sans_def)
  ultimately have "names = [San_URI u]" by (cases names) auto
  moreover have "uri_value p = u" using p(5) by (auto simp: PrincipalUri_parse_def Let_def split: if_splits)
  ultimately show thesis using that [of cert e p] c p by (auto simp: check_eku_def split: if_splits)
qed

text \<open>
  Trust roots are accepted only if every certificate is a CA certificate and no certificate is in two
  domains, or twice in one.
\<close>

lemma own_root_owners:
  "try_fold (own_root deps domain) certs owners = Inr owners' \<Longrightarrow> distinct (map fst owners) \<Longrightarrow>
    owners' = rev (map (\<lambda>c. (certificate_fingerprint_sha256 deps c, domain)) certs) @ owners \<and> distinct (map fst owners')"
proof (induction certs arbitrary: owners)
  case (Cons c certs)
  then obtain o1 where o1: "own_root deps domain c owners = Inr o1" "try_fold (own_root deps domain) certs o1 = Inr owners'"
    by auto
  then have o1': "o1 = (certificate_fingerprint_sha256 deps c, domain) # owners" "certificate_fingerprint_sha256 deps c \<notin> fst ` set owners"
    by (auto simp: own_root_def Let_def map_of_eq_None_iff split: option.splits)
  with Cons.prems(2) have "distinct (map fst o1)" by simp
  note ih = Cons.IH [OF o1(2) this]
  show ?case
  proof (intro conjI)
    show "owners' = rev (map (\<lambda>c. (certificate_fingerprint_sha256 deps c, domain)) (c # certs)) @ owners"
      using ih o1'(1) by simp
    show "distinct (map fst owners')" using ih by blast
  qed
qed simp

lemma own_roots_owners:
  "try_fold (own_roots deps) domains owners = Inr owners' \<Longrightarrow> distinct (map fst owners) \<Longrightarrow>
    map fst owners' = rev (map (certificate_fingerprint_sha256 deps) (concat (map snd domains))) @ map fst owners \<and>
    distinct (map fst owners')"
proof (induction domains arbitrary: owners)
  case (Cons d domains)
  obtain name certs where d: "d = (name, certs)" by fastforce
  with Cons.prems obtain o1 where o0: "own_roots deps (name, certs) owners = Inr o1"
    and "try_fold (own_roots deps) domains o1 = Inr owners'" by auto
  from o0 have "try_fold (own_root deps name) certs owners = Inr o1" by (auto simp: own_roots_def)
  note o1 = this \<open>try_fold (own_roots deps) domains o1 = Inr owners'\<close>
  note roots = own_root_owners [OF o1(1) Cons.prems(2)]
  note ih = Cons.IH [OF o1(2) conjunct2 [OF roots]]
  show ?case
  proof (intro conjI)
    have "map fst o1 = rev (map (certificate_fingerprint_sha256 deps) certs) @ map fst owners"
      using roots by (simp add: rev_map comp_def)
    with ih d show "map fst owners' =
        rev (map (certificate_fingerprint_sha256 deps) (concat (map snd (d # domains)))) @ map fst owners" by simp
    show "distinct (map fst owners')" using ih by blast
  qed
qed simp

lemma ensure_disjoint_ca_roots_distinct:
  assumes "ensure_disjoint_ca_roots deps domains = Inr ()"
  shows "distinct (map (certificate_fingerprint_sha256 deps) (concat (map snd domains)))"
proof -
  from assms obtain owners where "try_fold (own_roots deps) domains [] = Inr owners"
    by (auto simp: ensure_disjoint_ca_roots_def)
  then show ?thesis using own_roots_owners [of deps domains "[]" owners]
    by (metis append_Nil2 distinct.simps(1) distinct_rev list.simps(8))
qed

end
