(* ===== verification/Admission_Gate.thy ===== *)
theory Admission_Gate
  imports Prelude
begin

text \<open>
  The admission gate of \<open>wr-common/src/lifecycle_service.rs\<close> and its shutdown: threads that enter and
  leave, and a controller that opens and closes the gate and waits until it is idle.

  Each atomic operation of \<open>try_enter\<close>, \<open>leave\<close>, \<open>close\<close> and \<open>wait_for_idle\<close> is one step, and steps of
  different threads interleave. The flag \<open>open\<close> is stored with \<open>Release\<close> and loaded with \<open>Acquire\<close>
  ordering, which lets the controller's later loads overtake its store. \<open>buffered\<close> says whether that
  happens: if so, a store waits in the controller's store buffer until it is flushed, and otherwise it
  is visible at once. Waking the waiters flushes the buffer.
\<close>

datatype enter_pc =
    Outside
  | Saw_Open
  | Counted
  | Refused
  | Admitted

datatype control_pc = Serving | Flag_Stored | Awaiting | Drained | Expired nat

record gate =
  g_open :: bool
  g_buffer :: "bool list"
  g_in_flight :: nat
  g_threads :: "enter_pc list"
  g_control :: control_pc








section \<open>The gate drains when stores are visible at once\<close>

definition inside :: "enter_pc \<Rightarrow> bool" where
  "inside pc \<longleftrightarrow> pc = Counted \<or> pc = Refused \<or> pc = Admitted"

definition insiders :: "gate \<Rightarrow> nat" where
  "insiders g = length (filter inside (g_threads g))"




lemma insiders_simps [simp]:
  "insiders (g\<lparr>g_in_flight := n\<rparr>) = insiders g" "insiders (g\<lparr>g_open := v\<rparr>) = insiders g"
  "insiders (g\<lparr>g_control := c\<rparr>) = insiders g" "insiders (g\<lparr>g_buffer := vs\<rparr>) = insiders g"
  by (simp_all add: insiders_def)









section \<open>The race with a buffered store\<close>






end
