(* ===== verification/Job_Queue.thy ===== *)
theory Job_Queue
  imports Prelude "HOL-Library.List_Lexorder" "HOL-Library.Product_Lexorder"
begin

text \<open>
  The worker job queue: the table of \<open>wr-engine/migrations/jobs/V1__canonical_job_queue.sql\<close>, the
  value types of \<open>wr-common/src/lifecycle.rs\<close> and the statements and dispatch of
  \<open>wr-engine/src/worker.rs\<close>.

  The table is the list of its rows. Each SQL statement is one atomic function on it, with the time
  \<open>now()\<close> of its transaction, the generated UUID and the set of rows locked by other transactions
  (skipped by \<open>SKIP LOCKED\<close>) as arguments. A statement whose result violates a \<open>CHECK\<close> constraint
  fails and changes nothing, as does one with a \<open>TEXT\<close> value that contains a NUL byte, which PostgreSQL
  does not store. Times are microseconds, as PostgreSQL keeps them. Rows of equal \<open>created_at\<close> are
  claimed in table order: the order of the list is arbitrary, so every choice of the database is
  the choice for some table.
\<close>

section \<open>Limits and value types\<close>

definition MAX_JOB_BLOB_BYTES :: nat where "MAX_JOB_BLOB_BYTES = 1024 * 1024"
definition MAX_JOB_ERROR_BYTES :: nat where "MAX_JOB_ERROR_BYTES = 1024 * 1024"
definition MAX_JOB_METADATA_BYTES :: nat where "MAX_JOB_METADATA_BYTES = 64 * 1024"
definition MAX_JOB_SUBMIT_MESSAGE_BYTES :: nat where "MAX_JOB_SUBMIT_MESSAGE_BYTES = 2 * 1024 * 1024"

datatype JobState = Pending | Running | Complete | Dead

fun JobState_as_str :: "JobState \<Rightarrow> string" where
  "JobState_as_str Pending = ''pending''"
| "JobState_as_str Running = ''running''"
| "JobState_as_str Complete = ''complete''"
| "JobState_as_str Dead = ''dead''"

datatype job_error = Job_Fault string | Check_Violation | Duplicate_Key | Invalid_Text | Int_Range

definition JobState_try_from :: "string \<Rightarrow> job_error + JobState" where
  "JobState_try_from s =
    (if s = ''pending'' then Inr Pending
     else if s = ''running'' then Inr Running
     else if s = ''complete'' then Inr Complete
     else if s = ''dead'' then Inr Dead
     else Inl (Job_Fault (''unknown job state '' @ [CHR 0x27] @ s @ [CHR 0x27])))"

text \<open>The checked newtypes over \<open>u32\<close>: positive values, and a count bounded by a maximum.\<close>

definition positive_u32 :: "string \<Rightarrow> nat \<Rightarrow> job_error + nat" where
  "positive_u32 label n = (if n = 0 then Inl (Job_Fault (label @ '' must be > 0'')) else Inr n)"

abbreviation MaxAttempts_new :: "nat \<Rightarrow> job_error + nat" where
  "MaxAttempts_new \<equiv> positive_u32 ''max attempts''"

abbreviation JobTimeoutSecs_new :: "nat \<Rightarrow> job_error + nat" where
  "JobTimeoutSecs_new \<equiv> positive_u32 ''job timeout''"

definition AttemptCount_validate :: "nat \<Rightarrow> nat \<Rightarrow> job_error + nat" where
  "AttemptCount_validate n max_attempts =
    (if n \<le> max_attempts then Inr n else Inl (Job_Fault ''attempt count exceeds max attempts''))"

definition i32_try_from :: "nat \<Rightarrow> job_error + int" where
  "i32_try_from n = (if n < 2 ^ 31 then Inr (int n) else Inl Int_Range)"

definition u32_try_from :: "int \<Rightarrow> job_error + nat" where
  "u32_try_from n = (if 0 \<le> n \<and> n < 2 ^ 32 then Inr (nat n) else Inl Int_Range)"

section \<open>The table\<close>

record job_row =
  job_id :: string
  worker_namespace :: string
  worker_name :: string
  worker_version :: string
  job_type :: string
  job_payload :: string
  job_status :: JobState
  job_result :: "string option"
  error_message :: "string option"
  job_attempt :: int
  max_attempts :: int
  timeout_secs :: int
  created_at :: int
  updated_at :: int
  claimed_at :: "int option"
  completed_at :: "int option"
  claimed_by :: "string option"
  source_namespace :: string
  source_module :: string
  claim_id :: "string option"
  lease_expires_at :: "int option"

type_synonym job_table = "job_row list"

definition no_claim :: "job_row \<Rightarrow> bool" where
  "no_claim r \<longleftrightarrow> claimed_at r = None \<and> claimed_by r = None \<and> claim_id r = None \<and> lease_expires_at r = None"

definition claim_metadata_valid :: "job_row \<Rightarrow> bool" where
  "claim_metadata_valid r \<longleftrightarrow>
    (if job_status r = Running
     then claimed_at r \<noteq> None \<and> claimed_by r \<noteq> None \<and> claim_id r \<noteq> None \<and> lease_expires_at r \<noteq> None
     else no_claim r)"

definition dead_lifecycle_valid :: "job_row \<Rightarrow> bool" where
  "dead_lifecycle_valid r \<longleftrightarrow> job_status r \<noteq> Dead \<or>
    (job_attempt r = max_attempts r \<and> error_message r \<noteq> None \<and> error_message r \<noteq> Some [] \<and>
     job_result r = None \<and> completed_at r = None \<and> no_claim r)"

definition check_row :: "job_row \<Rightarrow> bool" where
  "check_row r \<longleftrightarrow> timeout_secs r > 0 \<and> max_attempts r > 0 \<and> 0 \<le> job_attempt r \<and> job_attempt r \<le> max_attempts r \<and>
    claim_metadata_valid r \<and> dead_lifecycle_valid r"

definition bind_text :: "string list \<Rightarrow> job_error + unit" where
  "bind_text values = (if list_all (\<lambda>v. CHR 0x00 \<notin> set v) values then Inr () else Inl Invalid_Text)"

definition db_update :: "(job_row \<Rightarrow> bool) \<Rightarrow> (job_row \<Rightarrow> job_row) \<Rightarrow> job_table \<Rightarrow> job_error + (nat \<times> job_table)" where
  "db_update p f t =
    (if list_all (\<lambda>r. p r \<longrightarrow> check_row (f r)) t
     then Inr (length (filter p t), map (\<lambda>r. if p r then f r else r) t)
     else Inl Check_Violation)"

definition db_insert :: "job_row \<Rightarrow> job_table \<Rightarrow> job_error + job_table" where
  "db_insert r t =
    (if list_ex (\<lambda>x. job_id x = job_id r) t then Inl Duplicate_Key
     else if check_row r then Inr (t @ [r]) else Inl Check_Violation)"

section \<open>Submission and status\<close>

definition metadata_bytes :: "string list \<Rightarrow> job_error + nat" where
  "metadata_bytes values = try_fold (\<lambda>v n. if n + length v < 2 ^ 64 then Inr (n + length v)
    else Inl (Job_Fault ''job metadata length overflow'')) values 0"

definition insert_job ::
    "int \<Rightarrow> string \<Rightarrow> string \<Rightarrow> string \<Rightarrow> string \<Rightarrow> string \<Rightarrow> string \<Rightarrow> 32 word \<Rightarrow> 32 word \<Rightarrow> string \<Rightarrow> string \<Rightarrow>
      job_table \<Rightarrow> job_error + (string \<times> job_table)" where
  "insert_job now uuid namespace name version jtype payload timeout attempts src_namespace src_module t =
    (if length payload > MAX_JOB_BLOB_BYTES then Inl (Job_Fault (''job payload exceeds '' @ dec_string MAX_JOB_BLOB_BYTES @ '' bytes''))
     else and_then (metadata_bytes [namespace, name, version, jtype, src_namespace, src_module]) (\<lambda>n.
     if n > MAX_JOB_METADATA_BYTES then Inl (Job_Fault (''job metadata exceeds '' @ dec_string MAX_JOB_METADATA_BYTES @ '' bytes''))
     else and_then (JobTimeoutSecs_new (if timeout = 0 then 300 else unat timeout)) (\<lambda>timeout'.
     and_then (MaxAttempts_new (if attempts = 0 then 3 else unat attempts)) (\<lambda>attempts'.
     and_then (i32_try_from timeout') (\<lambda>timeout''.
     and_then (i32_try_from attempts') (\<lambda>attempts''.
     and_then (bind_text [uuid, namespace, name, version, jtype, src_namespace, src_module]) (\<lambda>_.
     and_then (db_insert \<lparr>job_id = uuid, worker_namespace = namespace, worker_name = name, worker_version = version,
       job_type = jtype, job_payload = payload, job_status = Pending, job_result = None, error_message = None,
       job_attempt = 0, max_attempts = attempts'', timeout_secs = timeout'', created_at = now, updated_at = now,
       claimed_at = None, completed_at = None, claimed_by = None, source_namespace = src_namespace,
       source_module = src_module, claim_id = None, lease_expires_at = None\<rparr> t) (\<lambda>t'.
     Inr (uuid, t')))))))))"

record JobStatus =
  js_job_id :: string
  js_status :: JobState
  js_result :: string
  js_error_message :: string
  js_attempt :: nat
  js_max_attempts :: nat

definition or_default :: "string option \<Rightarrow> string" where
  "or_default x = (case x of None \<Rightarrow> [] | Some s \<Rightarrow> s)"

definition get_job_status :: "string \<Rightarrow> job_table \<Rightarrow> job_error + JobStatus option" where
  "get_job_status i t = and_then (bind_text [i]) (\<lambda>_.
    (case List.find (\<lambda>r. job_id r = i) t of
       None \<Rightarrow> Inr None
     | Some r \<Rightarrow>
        and_then (JobState_try_from (JobState_as_str (job_status r))) (\<lambda>state.
        and_then (u32_try_from (max_attempts r)) (\<lambda>max_raw.
        and_then (MaxAttempts_new max_raw) (\<lambda>m.
        and_then (u32_try_from (job_attempt r)) (\<lambda>attempt_raw.
        and_then (AttemptCount_validate attempt_raw m) (\<lambda>a.
        Inr (Some \<lparr>js_job_id = job_id r, js_status = state, js_result = or_default (job_result r),
          js_error_message = or_default (error_message r), js_attempt = a, js_max_attempts = m\<rparr>))))))))"

section \<open>Claims\<close>

record ClaimedJob =
  cj_job_id :: string
  cj_job_type :: string
  cj_payload :: string
  cj_claim_id :: string

datatype Finalization = Applied | Stale_Claim

definition from_affected_rows :: "nat \<Rightarrow> Finalization" where
  "from_affected_rows rows = (if rows = 1 then Applied else Stale_Claim)"

definition SECOND :: int where "SECOND = 1000000"

definition claimable :: "string \<Rightarrow> string \<Rightarrow> string \<Rightarrow> job_row \<Rightarrow> bool" where
  "claimable namespace name version r \<longleftrightarrow> worker_namespace r = namespace \<and> worker_name r = name \<and>
    (worker_version r = version \<or> worker_version r = []) \<and> job_status r = Pending"

definition claim_row :: "int \<Rightarrow> string \<Rightarrow> string \<Rightarrow> job_row \<Rightarrow> job_row" where
  "claim_row now engine uuid r = r\<lparr>job_status := Running, claimed_at := Some now,
    lease_expires_at := Some (now + timeout_secs r * SECOND), claimed_by := Some engine,
    job_attempt := job_attempt r + 1, claim_id := Some uuid, updated_at := now\<rparr>"

definition claim_job ::
    "int \<Rightarrow> (string \<Rightarrow> bool) \<Rightarrow> string \<Rightarrow> string \<Rightarrow> string \<Rightarrow> string \<Rightarrow> string \<Rightarrow> job_table \<Rightarrow>
      job_error + (ClaimedJob option \<times> job_table)" where
  "claim_job now locked uuid namespace name version engine t = and_then (bind_text [namespace, name, version, engine]) (\<lambda>_.
    (case sort_key created_at (filter (\<lambda>r. claimable namespace name version r \<and> \<not> locked (job_id r)) t) of
       [] \<Rightarrow> Inr (None, t)
     | r # _ \<Rightarrow>
        and_then (db_update (\<lambda>x. job_id x = job_id r) (claim_row now engine uuid) t) (\<lambda>(_, t').
        Inr (Some \<lparr>cj_job_id = job_id r, cj_job_type = job_type r, cj_payload = job_payload r, cj_claim_id = uuid\<rparr>, t'))))"

definition holds_claim :: "string \<Rightarrow> string \<Rightarrow> job_row \<Rightarrow> bool" where
  "holds_claim i claim r \<longleftrightarrow> job_id r = i \<and> job_status r = Running \<and> claim_id r = Some claim"

definition release_claim :: "int \<Rightarrow> job_row \<Rightarrow> job_row" where
  "release_claim now r = r\<lparr>claimed_at := None, claimed_by := None, claim_id := None, lease_expires_at := None,
    updated_at := now\<rparr>"

definition complete_row :: "int \<Rightarrow> string \<Rightarrow> job_row \<Rightarrow> job_row" where
  "complete_row now result r =
    (release_claim now r)\<lparr>job_status := Complete, job_result := Some result, completed_at := Some now\<rparr>"

definition complete_job ::
    "int \<Rightarrow> string \<Rightarrow> string \<Rightarrow> string \<Rightarrow> job_table \<Rightarrow> job_error + (Finalization \<times> job_table)" where
  "complete_job now i claim result t =
    (if length result > MAX_JOB_BLOB_BYTES then Inl (Job_Fault (''job result exceeds '' @ dec_string MAX_JOB_BLOB_BYTES @ '' bytes''))
     else and_then (bind_text [i]) (\<lambda>_.
       and_then (db_update (holds_claim i claim) (complete_row now result) t) (\<lambda>(rows, t').
       Inr (from_affected_rows rows, t'))))"

definition retry_or_dead :: "job_row \<Rightarrow> JobState" where
  "retry_or_dead r = (if job_attempt r < max_attempts r then Pending else Dead)"

definition fail_row :: "int \<Rightarrow> string \<Rightarrow> job_row \<Rightarrow> job_row" where
  "fail_row now msg r = (release_claim now r)\<lparr>job_status := retry_or_dead r, error_message := Some msg\<rparr>"

definition fail_job ::
    "int \<Rightarrow> string \<Rightarrow> string \<Rightarrow> string \<Rightarrow> job_table \<Rightarrow> job_error + (Finalization \<times> job_table)" where
  "fail_job now i claim error_msg t =
    (if error_msg = [] then Inl (Job_Fault ''job error must not be empty'')
     else if length error_msg > MAX_JOB_ERROR_BYTES then Inl (Job_Fault (''job error exceeds '' @ dec_string MAX_JOB_ERROR_BYTES @ '' bytes''))
     else and_then (bind_text [i, error_msg]) (\<lambda>_.
       and_then (db_update (holds_claim i claim) (fail_row now error_msg) t) (\<lambda>(rows, t').
       Inr (from_affected_rows rows, t'))))"

section \<open>Recovery of expired leases\<close>

text \<open>\<open>LEFT(text, n)\<close>: the first \<open>n\<close> characters of a UTF-8 string.\<close>

definition is_continuation :: "char \<Rightarrow> bool" where
  "is_continuation c \<longleftrightarrow> 128 \<le> code c \<and> code c \<le> 191"

fun left_chars :: "nat \<Rightarrow> string \<Rightarrow> string" where
  "left_chars n [] = []"
| "left_chars n (c # cs) =
    (if is_continuation c then c # left_chars n cs
     else (case n of 0 \<Rightarrow> [] | Suc m \<Rightarrow> c # left_chars m cs))"

definition retained_error_chars :: nat where
  "retained_error_chars = MAX_JOB_ERROR_BYTES div 4 - 32"

definition recovered_error :: "job_row \<Rightarrow> string" where
  "recovered_error r = left_chars retained_error_chars (or_default (error_message r)) @ '' [stale recovery]''"

definition lease_expired :: "int \<Rightarrow> job_row \<Rightarrow> bool" where
  "lease_expired now r \<longleftrightarrow> job_status r = Running \<and> (case lease_expires_at r of None \<Rightarrow> False | Some l \<Rightarrow> l \<le> now)"

definition recover_row :: "int \<Rightarrow> job_row \<Rightarrow> job_row" where
  "recover_row now r = (release_claim now r)\<lparr>job_status := retry_or_dead r, error_message := Some (recovered_error r)\<rparr>"

definition recover_stale_jobs :: "int \<Rightarrow> (string \<Rightarrow> bool) \<Rightarrow> job_table \<Rightarrow> job_error + (nat \<times> job_table)" where
  "recover_stale_jobs now locked t =
    (let expired = map (\<lambda>r. (job_id r, claim_id r)) (filter (\<lambda>r. lease_expired now r \<and> \<not> locked (job_id r)) t) in
     db_update (\<lambda>r. job_status r = Running \<and> claim_id r \<noteq> None \<and> (job_id r, claim_id r) \<in> set expired)
       (recover_row now) t)"

section \<open>Channels\<close>

definition LONG_IDENTITY_WORKER_CHANNEL :: string where
  "LONG_IDENTITY_WORKER_CHANNEL = ''wr_jobs_long_identity''"

definition MAX_POSTGRES_CHANNEL_BYTES :: nat where "MAX_POSTGRES_CHANNEL_BYTES = 63"

definition worker_channel :: "string \<Rightarrow> string \<Rightarrow> string \<Rightarrow> string" where
  "worker_channel namespace name version =
    (let channel = (if version = [] then ''wr_jobs_'' @ namespace @ ''_'' @ name @ ''_unversioned''
                    else ''wr_jobs_'' @ namespace @ ''_'' @ name @ ''_'' @ version) in
     if length channel > MAX_POSTGRES_CHANNEL_BYTES then LONG_IDENTITY_WORKER_CHANNEL else channel)"

text \<open>The channel the insert trigger \<open>notify_new_job\<close> notifies.\<close>

definition notify_new_job :: "job_row \<Rightarrow> string" where
  "notify_new_job r =
    (let channel_name = (if worker_version r = []
       then ''wr_jobs_'' @ worker_namespace r @ ''_'' @ worker_name r @ ''_unversioned''
       else ''wr_jobs_'' @ worker_namespace r @ ''_'' @ worker_name r @ ''_'' @ worker_version r) in
     if length channel_name > 63 then ''wr_jobs_long_identity'' else channel_name)"

definition pool_channels :: "string \<Rightarrow> string \<Rightarrow> string \<Rightarrow> string list" where
  "pool_channels namespace name version = [worker_channel namespace name version, worker_channel namespace name []]"

section \<open>Dispatch\<close>

text \<open>
  \<open>String::from_utf8_lossy\<close>: a well-formed sequence is kept, and each maximal ill-formed prefix of one
  becomes the replacement character. \<open>utf8_step\<close> says whether the bytes start with a well-formed
  sequence, and how many bytes that sequence or ill-formed prefix has.
\<close>

definition utf8_step :: "nat list \<Rightarrow> bool \<times> nat" where
  "utf8_step s = (case s of
      [] \<Rightarrow> (False, 1)
    | a # bs \<Rightarrow>
       if a < 128 then (True, 1)
       else if 194 \<le> a \<and> a \<le> 223 then
         (case bs of b # _ \<Rightarrow> if 128 \<le> b \<and> b \<le> 191 then (True, 2) else (False, 1) | [] \<Rightarrow> (False, 1))
       else if 224 \<le> a \<and> a \<le> 239 then
         (case bs of
            b # cs \<Rightarrow>
              if (if a = 224 then 160 else 128) \<le> b \<and> b \<le> (if a = 237 then 159 else 191) then
                (case cs of c # _ \<Rightarrow> if 128 \<le> c \<and> c \<le> 191 then (True, 3) else (False, 2) | [] \<Rightarrow> (False, 2))
              else (False, 1)
          | [] \<Rightarrow> (False, 1))
       else if 240 \<le> a \<and> a \<le> 244 then
         (case bs of
            b # cs \<Rightarrow>
              if (if a = 240 then 144 else 128) \<le> b \<and> b \<le> (if a = 244 then 143 else 191) then
                (case cs of
                   c # ds \<Rightarrow>
                     if 128 \<le> c \<and> c \<le> 191 then
                       (case ds of d # _ \<Rightarrow> if 128 \<le> d \<and> d \<le> 191 then (True, 4) else (False, 3) | [] \<Rightarrow> (False, 3))
                     else (False, 2)
                 | [] \<Rightarrow> (False, 2))
              else (False, 1)
          | [] \<Rightarrow> (False, 1))
       else (False, 1))"

lemma utf8_step_pos: "snd (utf8_step s) > 0"
  by (simp add: utf8_step_def split: list.splits)

function from_utf8_lossy :: "string \<Rightarrow> string" where
  "from_utf8_lossy s = (if s = [] then [] else
    (let (ok, n) = utf8_step (map of_char s) in
     (if ok then take n s else [CHR 0xEF, CHR 0xBF, CHR 0xBD]) @ from_utf8_lossy (drop n s)))"
  by pat_completeness auto
termination
  by (relation "measure length") (auto, metis diff_less length_greater_0_conv snd_conv utf8_step_pos)

declare from_utf8_lossy.simps [simp del]

text \<open>
  The request sent to the module. The request builder of the HTTP library is the argument \<open>build\<close>, which
  gives the error of a request it rejects. The module is the argument \<open>reply\<close>: what its channel and
  its response yield for a request within the timeout.
\<close>

record job_request =
  jr_method :: string
  jr_uri :: string
  jr_headers :: "(string \<times> string) list"
  jr_body :: string

datatype module_reply =
  Channel_Closed | Response_Dropped | Body_Failed string | Response nat string | Timed_Out

definition build_request :: "nat \<Rightarrow> ClaimedJob \<Rightarrow> job_request" where
  "build_request timeout job = \<lparr>jr_method = ''POST'', jr_uri = ''http://localhost'' @ cj_job_type job,
    jr_headers = [(''x-wr-job-id'', cj_job_id job), (''x-wr-timeout'', dec_string timeout),
      (''content-type'', ''application/x-protobuf'')], jr_body = cj_payload job\<rparr>"

definition is_success :: "nat \<Rightarrow> bool" where
  "is_success status \<longleftrightarrow> 200 \<le> status \<and> status \<le> 299"

definition error_body_limit :: nat where "error_body_limit = MAX_JOB_ERROR_BYTES div 4"

text \<open>The outcome of a dispatched job: the result to store, or the failure message.\<close>

definition dispatch_outcome ::
    "(job_request \<Rightarrow> string option) \<Rightarrow> (job_request \<Rightarrow> module_reply) \<Rightarrow> nat \<Rightarrow> ClaimedJob \<Rightarrow> string + string" where
  "dispatch_outcome build reply timeout job =
    (let request = build_request timeout job in
     case build request of
       Some e \<Rightarrow> Inl (''build request: '' @ e)
     | None \<Rightarrow>
        (case reply request of
           Channel_Closed \<Rightarrow> Inl ''module channel closed''
         | Response_Dropped \<Rightarrow> Inl ''module dropped response''
         | Body_Failed e \<Rightarrow> Inl (''response body: '' @ e)
         | Timed_Out \<Rightarrow> Inl (''job timed out after '' @ dec_string timeout @ ''s'')
         | Response status body \<Rightarrow>
            if length body > MAX_JOB_BLOB_BYTES then Inl ''response body: length limit exceeded''
            else if is_success status then Inr body
            else Inl (''HTTP '' @ dec_string status @ '': '' @ from_utf8_lossy (take error_body_limit body))))"

definition finalize_failure :: "int \<Rightarrow> string \<Rightarrow> string \<Rightarrow> string \<Rightarrow> job_table \<Rightarrow> job_table" where
  "finalize_failure now i claim message t =
    (case fail_job now i claim message t of Inr (_, t') \<Rightarrow> t' | Inl _ \<Rightarrow> t)"

definition dispatch_job ::
    "(job_request \<Rightarrow> string option) \<Rightarrow> (job_request \<Rightarrow> module_reply) \<Rightarrow> int \<Rightarrow> nat \<Rightarrow> ClaimedJob \<Rightarrow> job_table \<Rightarrow>
      job_table" where
  "dispatch_job build reply now timeout job t =
    (case dispatch_outcome build reply timeout job of
       Inr body \<Rightarrow>
        (case complete_job now (cj_job_id job) (cj_claim_id job) body t of Inr (_, t') \<Rightarrow> t' | Inl _ \<Rightarrow> t)
     | Inl message \<Rightarrow> finalize_failure now (cj_job_id job) (cj_claim_id job) message t)"

section \<open>The worker loop\<close>

text \<open>
  The inner loop of \<open>worker_loop\<close>: claim and dispatch until the admission gate is closed, the claim fails
  or there is nothing to claim. A \<open>worker_turn\<close> is what one iteration takes from its environment; the
  list of turns is the fuel, and running out of it is \<open>None\<close>.
\<close>

record worker_cfg =
  wc_namespace :: string
  wc_name :: string
  wc_version :: string
  wc_engine_id :: string
  wc_timeout :: nat

record worker_turn =
  wt_admitted :: bool
  wt_claim_now :: int
  wt_locked :: "string \<Rightarrow> bool"
  wt_uuid :: string
  wt_reply :: "job_request \<Rightarrow> module_reply"
  wt_now :: int

fun drain_jobs ::
    "(job_request \<Rightarrow> string option) \<Rightarrow> worker_cfg \<Rightarrow> worker_turn list \<Rightarrow> job_table \<Rightarrow> job_table option" where
  "drain_jobs build cfg [] t = None"
| "drain_jobs build cfg (e # es) t =
    (if \<not> wt_admitted e then Some t
     else (case claim_job (wt_claim_now e) (wt_locked e) (wt_uuid e) (wc_namespace cfg) (wc_name cfg) (wc_version cfg)
         (wc_engine_id cfg) t of
       Inl _ \<Rightarrow> Some t
     | Inr (None, _) \<Rightarrow> Some t
     | Inr (Some job, t') \<Rightarrow>
        drain_jobs build cfg es (dispatch_job build (wt_reply e) (wt_now e) (wc_timeout cfg) job t')))"

end
