(* ===== verification/Job_Admin.thy ===== *)
theory Job_Admin
  imports Job_Queue
begin

text \<open>
  Job administration on the queue's table, the operations of \<open>wr-engine/src/job_admin_queue.rs\<close>: filters
  and cursors, the checked views of a row, listing by pages, summaries, and the retry of a dead job.

  The encodings of a cursor (RFC 3339, JSON, base64, SHA-256) and the conversion of a time to a
  database parameter belong to libraries and are the fields of \<open>cursor_deps\<close>. A filter's times are
  nanoseconds, the table's are microseconds. \<open>job_id\<close>s are compared bytewise.
\<close>

definition DEFAULT_PAGE_SIZE :: "32 word" where "DEFAULT_PAGE_SIZE = 50"
definition MAX_PAGE_SIZE :: "32 word" where "MAX_PAGE_SIZE = 200"

record JobFilter =
  jf_worker_namespace :: "string option"
  jf_worker_name :: "string option"
  jf_worker_version :: "string option"
  jf_job_type :: "string option"
  jf_source_namespace :: "string option"
  jf_source_module :: "string option"
  jf_created_at_from :: "int option"
  jf_created_at_before :: "int option"

datatype JobAdminError =
  Invalid string | NotFound | FailedPrecondition string | Database job_error

definition JobFilter_validate :: "JobFilter \<Rightarrow> JobAdminError + unit" where
  "JobFilter_validate f =
    (if jf_worker_name f \<noteq> None \<and> jf_worker_namespace f = None
     then Inl (Invalid ''worker_namespace is required with worker_name'')
     else if jf_worker_version f \<noteq> None \<and> jf_worker_name f = None
     then Inl (Invalid ''worker_name is required with worker_version'')
     else if jf_source_module f \<noteq> None \<and> jf_source_namespace f = None
     then Inl (Invalid ''source_namespace is required with source_module'')
     else if (case (jf_created_at_from f, jf_created_at_before f) of
         (Some from, Some before) \<Rightarrow> from \<ge> before | _ \<Rightarrow> False)
     then Inl (Invalid ''created_at_from must be earlier than created_at_before'')
     else Inr ())"

section \<open>Cursors\<close>

record CursorV1 =
  cv_v :: nat
  cv_created_at :: string
  cv_job_id :: string
  cv_filter :: string

record cursor_deps =
  cd_encode :: "CursorV1 \<Rightarrow> string"
  cd_decode :: "string \<Rightarrow> CursorV1 option"
  cd_to_rfc3339 :: "int \<Rightarrow> string"
  cd_parse_rfc3339 :: "string \<Rightarrow> int option"
  cd_sha256 :: "string \<Rightarrow> string"
  cd_bind_time :: "int \<Rightarrow> int"

definition UNIT_SEPARATOR :: string where "UNIT_SEPARATOR = [CHR 0x1F]"

definition JobFilter_fingerprint :: "cursor_deps \<Rightarrow> JobFilter \<Rightarrow> JobState option \<Rightarrow> string" where
  "JobFilter_fingerprint deps f status =
    hex_string (cd_sha256 deps (join_with UNIT_SEPARATOR
      [or_default (jf_worker_namespace f), or_default (jf_worker_name f), or_default (jf_worker_version f),
       or_default (jf_job_type f), or_default (jf_source_namespace f), or_default (jf_source_module f),
       or_default (map_option (cd_to_rfc3339 deps) (jf_created_at_from f)),
       or_default (map_option (cd_to_rfc3339 deps) (jf_created_at_before f)),
       or_default (map_option JobState_as_str status)]))"

definition decode_cursor ::
    "cursor_deps \<Rightarrow> string \<Rightarrow> JobFilter \<Rightarrow> JobState option \<Rightarrow> JobAdminError + (int \<times> string) option" where
  "decode_cursor deps value f status =
    (if value = [] then Inr None
     else and_then (ok_or (Invalid ''cursor is malformed'') (cd_decode deps value)) (\<lambda>cursor.
     if cv_v cursor \<noteq> 1 \<or> cv_filter cursor \<noteq> JobFilter_fingerprint deps f status
     then Inl (Invalid ''cursor does not match the requested filters'')
     else and_then (ok_or (Invalid ''cursor is malformed'') (cd_parse_rfc3339 deps (cv_created_at cursor))) (\<lambda>t.
     if cv_job_id cursor = [] then Inl (Invalid ''cursor is malformed'')
     else Inr (Some (t, cv_job_id cursor)))))"

section \<open>Views of a row\<close>

record JobListItem =
  li_job_id :: string
  li_worker_namespace :: string
  li_worker_name :: string
  li_worker_version :: string
  li_job_type :: string
  li_status :: JobState
  li_attempt :: nat
  li_max_attempts :: nat
  li_source_namespace :: string
  li_source_module :: string
  li_created_at :: int
  li_updated_at :: int

definition encode_cursor :: "cursor_deps \<Rightarrow> JobListItem \<Rightarrow> JobFilter \<Rightarrow> JobState option \<Rightarrow> string" where
  "encode_cursor deps item f status = cd_encode deps
    \<lparr>cv_v = 1, cv_created_at = cd_to_rfc3339 deps (li_created_at item * 1000), cv_job_id = li_job_id item,
     cv_filter = JobFilter_fingerprint deps f status\<rparr>"

abbreviation db_fault :: "string \<Rightarrow> JobAdminError" where
  "db_fault m \<equiv> Database (Job_Fault m)"

definition checked_counts :: "job_row \<Rightarrow> JobAdminError + nat \<times> nat" where
  "checked_counts r =
    and_then (map_err (\<lambda>_. db_fault ''negative attempt'') (u32_try_from (job_attempt r))) (\<lambda>a.
    and_then (map_err (\<lambda>_. db_fault ''invalid max attempts'')
      (and_then (u32_try_from (max_attempts r)) MaxAttempts_new)) (\<lambda>m.
    and_then (map_err Database (AttemptCount_validate a m)) (\<lambda>a'. Inr (a', m))))"

definition list_item :: "job_row \<Rightarrow> JobAdminError + JobListItem" where
  "list_item r =
    and_then (map_err Database (JobState_try_from (JobState_as_str (job_status r)))) (\<lambda>status.
    and_then (checked_counts r) (\<lambda>(a, m).
    if status \<noteq> Pending \<and> a = 0 then Inl (db_fault ''non-pending job has zero attempts'')
    else if status = Dead \<and> a \<noteq> m then Inl (db_fault ''dead job has remaining attempts'')
    else if updated_at r < created_at r then Inl (db_fault ''job updated_at precedes created_at'')
    else and_then (map_err Database (metadata_bytes [job_id r, worker_namespace r, worker_name r, worker_version r,
        job_type r, source_namespace r, source_module r])) (\<lambda>n.
      if n > MAX_JOB_METADATA_BYTES then Inl (db_fault ''job metadata exceeds configured size bounds'')
      else Inr \<lparr>li_job_id = job_id r, li_worker_namespace = worker_namespace r, li_worker_name = worker_name r,
        li_worker_version = worker_version r, li_job_type = job_type r, li_status = status, li_attempt = a,
        li_max_attempts = m, li_source_namespace = source_namespace r, li_source_module = source_module r,
        li_created_at = created_at r, li_updated_at = updated_at r\<rparr>)))"

record JobDetail =
  jd_summary :: JobListItem
  jd_payload :: string
  jd_result :: string
  jd_last_error :: string
  jd_timeout :: nat
  jd_claimed_at :: "int option"
  jd_lease_expires_at :: "int option"
  jd_completed_at :: "int option"
  jd_claimed_by :: string

definition validate_dead_lifecycle :: "nat \<Rightarrow> nat \<Rightarrow> string option \<Rightarrow> JobAdminError + unit" where
  "validate_dead_lifecycle a m last_error =
    (if a \<noteq> m \<or> \<not> (case last_error of None \<Rightarrow> False | Some v \<Rightarrow> v \<noteq> [])
     then Inl (db_fault ''dead job has inconsistent attempt or failure metadata'') else Inr ())"

text \<open>The branch of \<open>detail\<close> for the row's state.\<close>

definition check_lifecycle :: "job_row \<Rightarrow> JobListItem \<Rightarrow> JobAdminError + unit" where
  "check_lifecycle r s =
    (case li_status s of
       Pending \<Rightarrow>
         if \<not> no_claim r \<or> completed_at r \<noteq> None \<or> job_result r \<noteq> None
         then Inl (db_fault ''pending job has terminal or claim metadata'') else Inr ()
     | Dead \<Rightarrow>
         and_then (validate_dead_lifecycle (li_attempt s) (li_max_attempts s) (error_message r)) (\<lambda>_.
         if \<not> no_claim r \<or> completed_at r \<noteq> None \<or> job_result r \<noteq> None
         then Inl (db_fault ''dead job has terminal or claim metadata'') else Inr ())
     | Running \<Rightarrow>
         (case (claimed_at r, lease_expires_at r, claimed_by r, claim_id r) of
            (Some c, Some l, Some b, Some _) \<Rightarrow>
              if b = [] \<or> completed_at r \<noteq> None \<or> job_result r \<noteq> None \<or> c < li_created_at s \<or>
                 c > li_updated_at s \<or> l \<le> c
              then Inl (db_fault ''running job has inconsistent lifecycle metadata'') else Inr ()
          | _ \<Rightarrow> Inl (db_fault ''running job is missing claim metadata''))
     | Complete \<Rightarrow>
         (case completed_at r of
            None \<Rightarrow> Inl (db_fault ''complete job is missing completed_at'')
          | Some c \<Rightarrow>
              if \<not> no_claim r \<or> job_result r = None \<or> c < li_created_at s \<or> c > li_updated_at s
              then Inl (db_fault ''complete job has inconsistent lifecycle metadata'') else Inr ()))"

definition detail :: "job_row \<Rightarrow> JobAdminError + JobDetail" where
  "detail r =
    and_then (list_item r) (\<lambda>s.
    and_then (map_err (\<lambda>_. db_fault ''invalid job timeout'')
      (and_then (u32_try_from (timeout_secs r)) JobTimeoutSecs_new)) (\<lambda>timeout.
    if length (job_payload r) > MAX_JOB_BLOB_BYTES \<or> length (or_default (job_result r)) > MAX_JOB_BLOB_BYTES \<or>
       length (or_default (error_message r)) > MAX_JOB_ERROR_BYTES
    then Inl (db_fault ''job detail exceeds configured size bounds'')
    else and_then (map_err Database (metadata_bytes [li_worker_namespace s, li_worker_name s, li_worker_version s,
        li_job_type s, li_source_namespace s, li_source_module s])) (\<lambda>n.
    if n > MAX_JOB_METADATA_BYTES then Inl (db_fault ''job metadata exceeds configured size bounds'')
    else and_then (check_lifecycle r s) (\<lambda>_.
    Inr \<lparr>jd_summary = s, jd_payload = job_payload r, jd_result = or_default (job_result r),
      jd_last_error = or_default (error_message r), jd_timeout = timeout, jd_claimed_at = claimed_at r,
      jd_lease_expires_at = lease_expires_at r, jd_completed_at = completed_at r,
      jd_claimed_by = or_default (claimed_by r)\<rparr>))))"

section \<open>Listing\<close>

definition text_filter :: "string option \<Rightarrow> string \<Rightarrow> bool" where
  "text_filter f v = (case f of None \<Rightarrow> True | Some x \<Rightarrow> v = x)"

definition filter_predicates :: "cursor_deps \<Rightarrow> JobFilter \<Rightarrow> job_row \<Rightarrow> bool" where
  "filter_predicates deps f r \<longleftrightarrow>
    text_filter (jf_worker_namespace f) (worker_namespace r) \<and> text_filter (jf_worker_name f) (worker_name r) \<and>
    text_filter (jf_worker_version f) (worker_version r) \<and> text_filter (jf_job_type f) (job_type r) \<and>
    text_filter (jf_source_namespace f) (source_namespace r) \<and> text_filter (jf_source_module f) (source_module r) \<and>
    (case jf_created_at_from f of None \<Rightarrow> True | Some t \<Rightarrow> created_at r \<ge> cd_bind_time deps t) \<and>
    (case jf_created_at_before f of None \<Rightarrow> True | Some t \<Rightarrow> created_at r < cd_bind_time deps t)"

definition filter_texts :: "JobFilter \<Rightarrow> string list" where
  "filter_texts f = map or_default [jf_worker_namespace f, jf_worker_name f, jf_worker_version f, jf_job_type f,
    jf_source_namespace f, jf_source_module f]"

definition page_key :: "job_row \<Rightarrow> int \<times> string" where
  "page_key r = (created_at r, job_id r)"

definition matching :: "cursor_deps \<Rightarrow> JobFilter \<Rightarrow> JobState option \<Rightarrow> job_row \<Rightarrow> bool" where
  "matching deps f status r \<longleftrightarrow> filter_predicates deps f r \<and> (case status of None \<Rightarrow> True | Some s \<Rightarrow> job_status r = s)"

record JobPage =
  jp_jobs :: "JobListItem list"
  jp_next_cursor :: "string option"

definition effective_page_size :: "32 word \<Rightarrow> JobAdminError + nat" where
  "effective_page_size page_size =
    (let n = (if page_size = 0 then DEFAULT_PAGE_SIZE else page_size) in
     if 1 \<le> n \<and> n \<le> MAX_PAGE_SIZE then Inr (unat n)
     else Inl (Invalid (''page_size must be in 1..='' @ dec_string (unat MAX_PAGE_SIZE))))"

definition list_jobs ::
    "cursor_deps \<Rightarrow> JobFilter \<Rightarrow> JobState option \<Rightarrow> 32 word \<Rightarrow> string \<Rightarrow> job_table \<Rightarrow> JobAdminError + JobPage" where
  "list_jobs deps f status page_size cursor t =
    and_then (JobFilter_validate f) (\<lambda>_.
    and_then (effective_page_size page_size) (\<lambda>n.
    and_then (decode_cursor deps cursor f status) (\<lambda>c.
    and_then (map_err Database (bind_text (filter_texts f @ (case c of None \<Rightarrow> [] | Some (_, i) \<Rightarrow> [i])))) (\<lambda>_.
    let after = (\<lambda>r. case c of None \<Rightarrow> True | Some (at, i) \<Rightarrow> page_key r < (cd_bind_time deps at, i));
        rows = take (n + 1) (rev (sort_key page_key (filter (\<lambda>r. matching deps f status r \<and> after r) t)))
    in and_then (try_map list_item (take n rows)) (\<lambda>jobs.
      Inr \<lparr>jp_jobs = jobs,
        jp_next_cursor = (if length rows > n \<and> jobs \<noteq> [] then Some (encode_cursor deps (last jobs) f status)
          else None)\<rparr>)))))"

section \<open>Summaries, lookup and retry\<close>

record JobQueueSummary =
  qs_observed_at :: int
  qs_pending :: nat
  qs_running :: nat
  qs_complete :: nat
  qs_dead :: nat
  qs_total :: nat
  qs_oldest_pending_at :: "int option"

definition oldest :: "int list \<Rightarrow> int option" where
  "oldest ts = (case ts of [] \<Rightarrow> None | t # r \<Rightarrow> Some (fold min r t))"

definition summarize_jobs :: "cursor_deps \<Rightarrow> int \<Rightarrow> JobFilter \<Rightarrow> job_table \<Rightarrow> JobAdminError + JobQueueSummary" where
  "summarize_jobs deps now f t =
    and_then (JobFilter_validate f) (\<lambda>_.
    and_then (map_err Database (bind_text (filter_texts f))) (\<lambda>_.
    let rows = filter (filter_predicates deps f) t;
        number = (\<lambda>s. length (filter (\<lambda>r. job_status r = s) rows))
    in Inr \<lparr>qs_observed_at = now, qs_pending = number Pending, qs_running = number Running,
         qs_complete = number Complete, qs_dead = number Dead, qs_total = length rows,
         qs_oldest_pending_at = oldest (map created_at (filter (\<lambda>r. job_status r = Pending) rows))\<rparr>))"

text \<open>\<open>str::trim().is_empty()\<close>: every character of the string is white space.\<close>

function blank_bytes :: "nat list \<Rightarrow> bool" where
  "blank_bytes bs = (if bs = [] then True else if white_space_at bs
    then blank_bytes (drop (if hd bs < 128 then 1 else if hd bs = 194 then 2 else 3) bs) else False)"
  by pat_completeness auto
termination
  by (relation "measure length") auto

declare blank_bytes.simps [simp del]

definition is_blank :: "string \<Rightarrow> bool" where
  "is_blank s = blank_bytes (map of_char s)"

definition get_job :: "string \<Rightarrow> job_table \<Rightarrow> JobAdminError + JobDetail" where
  "get_job i t =
    (if is_blank i then Inl (Invalid ''job_id is required'')
     else and_then (map_err Database (bind_text [i])) (\<lambda>_.
     and_then (ok_or NotFound (List.find (\<lambda>r. job_id r = i) t)) detail))"

definition retry_row :: "int \<Rightarrow> job_row \<Rightarrow> job_row" where
  "retry_row now r =
    (release_claim now r)\<lparr>job_status := Pending, job_attempt := 0, job_result := None, completed_at := None\<rparr>"

text \<open>
  The transaction of \<open>retry_dead_job\<close>. It yields the new detail, the committed table and the channel
  notified; an error rolls the table back.
\<close>

definition retry_dead_job ::
    "int \<Rightarrow> string \<Rightarrow> job_table \<Rightarrow> JobAdminError + (JobDetail \<times> job_table \<times> string)" where
  "retry_dead_job now i t =
    (if is_blank i then Inl (Invalid ''job_id is required'')
     else and_then (map_err Database (bind_text [i])) (\<lambda>_.
     and_then (ok_or NotFound (List.find (\<lambda>r. job_id r = i) t)) (\<lambda>r.
     and_then (map_err Database (JobState_try_from (JobState_as_str (job_status r)))) (\<lambda>state.
     if state \<noteq> Dead
     then Inl (FailedPrecondition (''job is '' @ JobState_as_str state @ '', only dead jobs can be retried''))
     else and_then (map_err Database (db_update (\<lambda>x. job_id x = i) (retry_row now) t)) (\<lambda>(_, t').
     and_then (detail (retry_row now r)) (\<lambda>d.
     Inr (d, t', worker_channel (worker_namespace r) (worker_name r) (worker_version r))))))))"

end
