(* ===== verification/Job_Lifecycle.thy ===== *)
theory Job_Lifecycle
  imports Job_Admin
begin

text \<open>
  The life of a job. The statements of the queue, issued in any order by any number of engines and
  administrators, are the steps of a machine on the table. Every change they make to a row is one of
  five row transitions, from which follow the invariant of the table, the fencing of claims and the
  refinement of an abstract job with a budget of attempts. The last part is about dispatch and the
  worker loop.
\<close>

section \<open>The machine\<close>

datatype job_op =
    Submit string string string string string string "32 word" "32 word" string string
  | Claim "string \<Rightarrow> bool" string string string string string
  | Finish string string string
  | Fail string string string
  | Recover "string \<Rightarrow> bool"
  | Retry string

text \<open>A completion or failure report of a claim.\<close>

fun finalize :: "int \<Rightarrow> job_op \<Rightarrow> job_table \<Rightarrow> job_error + (Finalization \<times> job_table)" where
  "finalize now (Finish i c result) t = complete_job now i c result t"
| "finalize now (Fail i c message) t = fail_job now i c message t"
| "finalize now op t = Inl (Job_Fault [])"

fun finalizes :: "string \<Rightarrow> job_op \<Rightarrow> bool" where
  "finalizes c (Finish _ d _) = (d = c)"
| "finalizes c (Fail _ d _) = (d = c)"
| "finalizes c _ = False"

definition run_op :: "int \<Rightarrow> job_op \<Rightarrow> job_table \<Rightarrow> JobAdminError + job_table" where
  "run_op now op t = (case op of
      Submit uuid ns name ver jt payload timeout attempts sns sm \<Rightarrow>
        map_err Database (and_then (insert_job now uuid ns name ver jt payload timeout attempts sns sm t) (\<lambda>(_, t'). Inr t'))
    | Claim locked uuid ns name ver engine \<Rightarrow>
        map_err Database (and_then (claim_job now locked uuid ns name ver engine t) (\<lambda>(_, t'). Inr t'))
    | Recover locked \<Rightarrow> map_err Database (and_then (recover_stale_jobs now locked t) (\<lambda>(_, t'). Inr t'))
    | Retry i \<Rightarrow> and_then (retry_dead_job now i t) (\<lambda>(_, t', _). Inr t')
    | _ \<Rightarrow> map_err Database (and_then (finalize now op t) (\<lambda>(_, t'). Inr t')))"

record job_queue =
  q_rows :: job_table
  q_clock :: int
  q_claims :: "string list"

text \<open>
  What a statement is given: a generated claim id is new, an engine has a name, and a message is a
  Rust string. The clock does not run backwards between statements.
\<close>

fun op_input :: "job_queue \<Rightarrow> job_op \<Rightarrow> bool" where
  "op_input q (Claim _ uuid _ _ _ engine) = (uuid \<notin> set (q_claims q) \<and> engine \<noteq> [])"
| "op_input q (Fail _ _ message) = is_utf8 message"
| "op_input q _ = True"

fun op_claims :: "job_op \<Rightarrow> string list" where
  "op_claims (Claim _ uuid _ _ _ _) = [uuid]"
| "op_claims _ = []"

inductive queue_step :: "job_op \<Rightarrow> job_queue \<Rightarrow> job_queue \<Rightarrow> bool" where
  commit: "\<lbrakk>q_clock q \<le> now; op_input q op; run_op now op (q_rows q) = Inr t\<rbrakk> \<Longrightarrow>
    queue_step op q \<lparr>q_rows = t, q_clock = now, q_claims = op_claims op @ q_claims q\<rparr>"
| reject: "\<lbrakk>q_clock q \<le> now; op_input q op; run_op now op (q_rows q) = Inl e\<rbrakk> \<Longrightarrow>
    queue_step op q (q\<lparr>q_clock := now, q_claims := op_claims op @ q_claims q\<rparr>)"

inductive queue_run :: "job_queue \<Rightarrow> job_queue \<Rightarrow> bool" where
  stop: "queue_run q q"
| step: "queue_run q q' \<Longrightarrow> queue_step op q' q'' \<Longrightarrow> queue_run q q''"

definition empty_queue :: job_queue where
  "empty_queue = \<lparr>q_rows = [], q_clock = 0, q_claims = []\<rparr>"

section \<open>The invariant\<close>

definition submitted_bytes :: "job_row \<Rightarrow> nat" where
  "submitted_bytes r = length (worker_namespace r) + length (worker_name r) + length (worker_version r) +
    length (job_type r) + length (source_namespace r) + length (source_module r)"

definition row_bounds :: "job_row \<Rightarrow> bool" where
  "row_bounds r \<longleftrightarrow> max_attempts r < 2 ^ 31 \<and> timeout_secs r < 2 ^ 31 \<and>
    length (job_payload r) \<le> MAX_JOB_BLOB_BYTES \<and> length (or_default (job_result r)) \<le> MAX_JOB_BLOB_BYTES \<and>
    length (or_default (error_message r)) \<le> MAX_JOB_ERROR_BYTES \<and> is_utf8 (or_default (error_message r)) \<and>
    submitted_bytes r \<le> MAX_JOB_METADATA_BYTES"

definition row_life :: "job_row \<Rightarrow> bool" where
  "row_life r \<longleftrightarrow> (case job_status r of
      Pending \<Rightarrow> job_attempt r < max_attempts r \<and> job_result r = None \<and> completed_at r = None
    | Running \<Rightarrow> job_attempt r > 0 \<and> job_result r = None \<and> completed_at r = None \<and> claimed_by r \<noteq> Some []
    | Complete \<Rightarrow> job_attempt r > 0 \<and> job_result r \<noteq> None \<and> completed_at r \<noteq> None
    | Dead \<Rightarrow> True)"

definition row_times :: "job_row \<Rightarrow> bool" where
  "row_times r \<longleftrightarrow> created_at r \<le> updated_at r \<and>
    (case claimed_at r of None \<Rightarrow> True
     | Some c \<Rightarrow> created_at r \<le> c \<and> c \<le> updated_at r \<and> lease_expires_at r = Some (c + timeout_secs r * SECOND)) \<and>
    (case completed_at r of None \<Rightarrow> True | Some c \<Rightarrow> created_at r \<le> c \<and> c \<le> updated_at r)"

definition row_core :: "job_row \<Rightarrow> bool" where
  "row_core r \<longleftrightarrow> check_row r \<and> row_bounds r \<and> row_life r"

definition row_ok :: "job_row \<Rightarrow> bool" where
  "row_ok r \<longleftrightarrow> row_core r \<and> row_times r"

definition active_claims :: "job_table \<Rightarrow> string set" where
  "active_claims t = {c. \<exists>r\<in>set t. claim_id r = Some c}"

definition queue_ok :: "job_queue \<Rightarrow> bool" where
  "queue_ok q \<longleftrightarrow> (\<forall>r\<in>set (q_rows q). row_ok r \<and> updated_at r \<le> q_clock q) \<and> distinct (map job_id (q_rows q)) \<and>
    active_claims (q_rows q) \<subseteq> set (q_claims q) \<and>
    (\<forall>r\<in>set (q_rows q). \<forall>x\<in>set (q_rows q). claim_id r \<noteq> None \<longrightarrow> claim_id r = claim_id x \<longrightarrow> r = x)"

section \<open>Row transitions\<close>

inductive row_step :: "int \<Rightarrow> job_op \<Rightarrow> job_row \<Rightarrow> job_row \<Rightarrow> bool" where
  claim: "job_status r = Pending \<Longrightarrow> row_step now (Claim l u a b c e) r (claim_row now e u r)"
| finish: "job_status r = Running \<Longrightarrow> length result \<le> MAX_JOB_BLOB_BYTES \<Longrightarrow> claim_id r = Some c \<Longrightarrow>
    row_step now (Finish (job_id r) c result) r (complete_row now result r)"
| failed: "job_status r = Running \<Longrightarrow> m \<noteq> [] \<Longrightarrow> length m \<le> MAX_JOB_ERROR_BYTES \<Longrightarrow> claim_id r = Some c \<Longrightarrow>
    row_step now (Fail (job_id r) c m) r (fail_row now m r)"
| recover: "job_status r = Running \<Longrightarrow> lease_expired now r \<Longrightarrow> row_step now (Recover l) r (recover_row now r)"
| retry: "job_status r = Dead \<Longrightarrow> row_step now (Retry (job_id r)) r (retry_row now r)"

lemmas row_effects = claim_row_def complete_row_def fail_row_def recover_row_def retry_row_def release_claim_def

section \<open>UTF-8 prefixes\<close>

lemma valid_utf8_char:
  assumes "valid_utf8 (map of_char (a # s))"
  obtains k rest where "s = k @ rest" "length k \<le> 3" "list_all is_continuation k" "\<not> is_continuation a"
    "valid_utf8 (map of_char rest)" "\<forall>r. valid_utf8 (map of_char (a # k @ r)) = valid_utf8 (map of_char r)"
proof -
  let ?c = "of_char a :: nat"
  consider "?c < 128" | "194 \<le> ?c" "?c \<le> 223" | "224 \<le> ?c" "?c \<le> 239" | "240 \<le> ?c" "?c \<le> 244"
    using assms by (simp split: if_splits)
  then show thesis
  proof cases
    case 1
    with assms show thesis by (intro that [of "[]" s]) (auto simp: is_continuation_def)
  next
    case 2
    with assms obtain b r where "s = b # r" by (cases s) auto
    with 2 assms show thesis by (intro that [of "[b]" r]) (auto simp: is_continuation_def)
  next
    case 3
    with assms obtain b c r where "s = b # c # r" by (cases s; cases "tl s") auto
    with 3 assms show thesis by (intro that [of "[b, c]" r]) (auto simp: is_continuation_def split: if_splits)
  next
    case 4
    with assms obtain b c d r where "s = b # c # d # r" by (cases s; cases "tl s"; cases "tl (tl s)") auto
    with 4 assms show thesis by (intro that [of "[b, c, d]" r]) (auto simp: is_continuation_def split: if_splits)
  qed
qed

lemma left_chars_continuation: "list_all is_continuation k \<Longrightarrow> left_chars n (k @ s) = k @ left_chars n s"
  by (induction k) auto

lemma left_chars_utf8:
  "valid_utf8 (map of_char s) \<Longrightarrow> length (left_chars n s) \<le> 4 * n \<and> valid_utf8 (map of_char (left_chars n s))"
proof (induction s arbitrary: n rule: length_induct)
  case (1 s)
  show ?case
  proof (cases s)
    case Nil
    then show ?thesis by simp
  next
    case (Cons a s')
    from "1.prems" obtain k rest where k: "s' = k @ rest" "length k \<le> 3" "list_all is_continuation k"
      "\<not> is_continuation a" "valid_utf8 (map of_char rest)"
      "\<forall>r. valid_utf8 (map of_char (a # k @ r)) = valid_utf8 (map of_char r)"
      unfolding Cons using valid_utf8_char by blast
    show ?thesis
    proof (cases n)
      case 0
      with Cons k(4) show ?thesis by simp
    next
      case (Suc m)
      from "1.IH" k(1,5) Cons have "length (left_chars m rest) \<le> 4 * m \<and> valid_utf8 (map of_char (left_chars m rest))"
        by simp
      moreover have "left_chars n s = a # k @ left_chars m rest"
        using Cons Suc k(1,3,4) by (simp add: left_chars_continuation)
      ultimately show ?thesis using Suc k(2) k(6) by simp
    qed
  qed
qed

lemma valid_utf8_ascii: "list_all (\<lambda>c. of_char c < (128 :: nat)) s \<Longrightarrow> valid_utf8 (map of_char s)"
  by (induction s) auto

lemma valid_utf8_append:
  "valid_utf8 (map of_char s) \<Longrightarrow> valid_utf8 (map of_char (s @ r)) = valid_utf8 (map of_char r)"
proof (induction s rule: length_induct)
  case (1 s)
  show ?case
  proof (cases s)
    case (Cons a s')
    from "1.prems" obtain k rest where k: "s' = k @ rest" "valid_utf8 (map of_char rest)"
      "\<forall>r. valid_utf8 (map of_char (a # k @ r)) = valid_utf8 (map of_char r)"
      unfolding Cons using valid_utf8_char by blast
    have "s @ r = a # k @ (rest @ r)" using Cons k(1) by simp
    then have "valid_utf8 (map of_char (s @ r)) = valid_utf8 (map of_char (rest @ r))" using k(3) by metis
    also have "\<dots> = valid_utf8 (map of_char r)" using "1.IH" Cons k(1,2) by simp
    finally show ?thesis .
  qed simp
qed

lemma recovered_error_ok:
  assumes "is_utf8 (or_default (error_message r))"
  shows "length (recovered_error r) \<le> MAX_JOB_ERROR_BYTES \<and> is_utf8 (recovered_error r) \<and> recovered_error r \<noteq> []"
proof -
  have l: "length (left_chars retained_error_chars (or_default (error_message r))) \<le> 4 * retained_error_chars"
    "valid_utf8 (map of_char (left_chars retained_error_chars (or_default (error_message r))))"
    using left_chars_utf8 assms by (auto simp: is_utf8_def)
  then have "is_utf8 (recovered_error r)"
    unfolding is_utf8_def recovered_error_def by (subst valid_utf8_append) auto
  with l show ?thesis by (simp add: recovered_error_def retained_error_chars_def MAX_JOB_ERROR_BYTES_def)
qed

section \<open>Row transitions keep the row invariant\<close>

lemmas check_defs = check_row_def claim_metadata_valid_def dead_lifecycle_valid_def no_claim_def

lemma or_default_Some [simp]: "or_default (Some s) = s" "or_default None = []"
  by (simp_all add: or_default_def)

lemma row_step_check:
  assumes "row_step now op r r'" "row_core r"
  shows "check_row r'"
  using assms
  by cases (auto simp: row_core_def check_defs row_effects row_life_def row_bounds_def retry_or_dead_def recovered_error_def)

lemma row_step_core:
  assumes "row_step now op r r'" "row_core r" "op_input q op"
  shows "row_core r'"
proof -
  have "row_bounds r'" using assms
    by cases (auto simp: row_core_def row_effects row_bounds_def submitted_bytes_def recovered_error_ok)
  moreover have "row_life r'" using assms
    by cases (auto simp: row_core_def row_effects row_life_def check_defs retry_or_dead_def)
  ultimately show ?thesis using row_step_check [OF assms(1,2)] by (simp add: row_core_def)
qed

lemma row_step_times:
  assumes "row_step now op r r'" "row_ok r" "updated_at r \<le> now"
  shows "row_times r' \<and> updated_at r' = now"
  using assms
  by cases (auto simp: row_ok_def row_core_def row_effects row_times_def check_defs row_life_def split: option.splits)

lemma row_step_ok:
  assumes "row_step now op r r'" "row_ok r" "op_input q op" "updated_at r \<le> now"
  shows "row_ok r' \<and> updated_at r' \<le> now"
  using row_step_core [OF assms(1) _ assms(3)] row_step_times [OF assms(1,2,4)] assms(2) by (simp add: row_ok_def)

lemma row_step_key: "row_step now op r r' \<Longrightarrow> job_id r' = job_id r \<and> max_attempts r' = max_attempts r"
  by (cases rule: row_step.cases) (auto simp: row_effects)

lemma row_step_claims: "row_step now op r r' \<Longrightarrow> claim_id r' = Some c \<Longrightarrow> c \<in> set (op_claims op)"
  by (cases rule: row_step.cases) (auto simp: row_effects)

section \<open>The effect of a statement\<close>

text \<open>
  The rows a statement other than a submission updates, and how. Only a recovery scan updates more
  than one row.
\<close>

definition updates :: "int \<Rightarrow> job_op \<Rightarrow> job_table \<Rightarrow> job_table \<Rightarrow> bool" where
  "updates now op t t' \<longleftrightarrow>
    (\<exists>p f. t' = map (\<lambda>r. if p r then f r else r) t \<and> (\<forall>r\<in>set t. p r \<longrightarrow> row_step now op r (f r)) \<and>
      ((\<exists>l. op = Recover l) \<or> (\<forall>r\<in>set t. \<forall>x\<in>set t. p r \<longrightarrow> p x \<longrightarrow> r = x)))"

lemma updates_refl: "updates now op t t"
  unfolding updates_def by (rule exI [of _ "\<lambda>_. False"]) simp

lemma db_update_Inr:
  "db_update p f t = Inr (n, t') \<longleftrightarrow>
    (\<forall>r\<in>set t. p r \<longrightarrow> check_row (f r)) \<and> n = length (filter p t) \<and> t' = map (\<lambda>r. if p r then f r else r) t"
  by (auto simp: db_update_def list_all_iff)

lemma db_update_updates:
  assumes "db_update p f t = Inr (n, t')" "\<And>r. r \<in> set t \<Longrightarrow> p r \<Longrightarrow> row_step now op r (f r)"
    "distinct (map job_id t)" "(\<exists>l. op = Recover l) \<or> (\<forall>r. p r \<longrightarrow> job_id r = i)"
  shows "updates now op t t'"
proof -
  have "(\<exists>l. op = Recover l) \<or> (\<forall>r\<in>set t. \<forall>x\<in>set t. p r \<longrightarrow> p x \<longrightarrow> r = x)"
    using assms(3,4) by (auto simp: distinct_map inj_on_def)
  then show ?thesis using assms(1,2) unfolding updates_def db_update_Inr by blast
qed

lemma db_update_no_violation:
  assumes "\<And>r. r \<in> set t \<Longrightarrow> p r \<Longrightarrow> row_step now op r (f r)" "\<forall>r\<in>set t. row_core r"
  shows "db_update p f t = Inr (length (filter p t), map (\<lambda>r. if p r then f r else r) t)"
  unfolding db_update_Inr using assms row_step_check by blast

lemma claim_rows:
  assumes "distinct (map job_id t)" "job_id x = job_id r" "x \<in> set t"
    "sort_key created_at (filter (\<lambda>r. claimable a b c r \<and> \<not> l (job_id r)) t) = r # rest"
  shows "x = r \<and> row_step now (Claim l u a b c e) x (claim_row now e u x)"
proof -
  have "set (r # rest) = set (filter (\<lambda>r. claimable a b c r \<and> \<not> l (job_id r)) t)"
    using assms(4) by (metis set_sort)
  then have r: "r \<in> set t" "claimable a b c r" by auto
  with assms(1-3) have "x = r" by (auto simp: distinct_map inj_on_def)
  with r show ?thesis by (auto intro: row_step.claim simp: claimable_def)
qed

lemma finish_rows: "holds_claim i c r \<Longrightarrow> length result \<le> MAX_JOB_BLOB_BYTES \<Longrightarrow>
    row_step now (Finish i c result) r (complete_row now result r)"
  using row_step.finish [of r result c now] by (auto simp: holds_claim_def)

lemma failed_rows: "holds_claim i c r \<Longrightarrow> m \<noteq> [] \<Longrightarrow> length m \<le> MAX_JOB_ERROR_BYTES \<Longrightarrow>
    row_step now (Fail i c m) r (fail_row now m r)"
  using row_step.failed [of r m c now] by (auto simp: holds_claim_def)

lemma recover_rows:
  assumes "distinct (map job_id t)" "r \<in> set t" "job_status r = Running"
    "(job_id r, claim_id r) \<in> set (map (\<lambda>r. (job_id r, claim_id r)) (filter (\<lambda>r. lease_expired now r \<and> \<not> l (job_id r)) t))"
  shows "row_step now (Recover l) r (recover_row now r)"
proof -
  from assms(4) obtain x where x: "x \<in> set t" "lease_expired now x" "job_id x = job_id r" by auto
  with assms(1,2) have "x = r" by (auto simp: distinct_map inj_on_def)
  with x assms(3) show ?thesis by (auto intro: row_step.recover)
qed

lemma find_row:
  assumes "distinct (map job_id t)" "List.find (\<lambda>r. job_id r = i) t = Some r" "x \<in> set t" "job_id x = i"
  shows "x = r"
  using assms by (auto simp: find_Some_iff distinct_map inj_on_def)

fun is_submit :: "job_op \<Rightarrow> bool" where
  "is_submit (Submit _ _ _ _ _ _ _ _ _ _) = True"
| "is_submit _ = False"

lemma claim_job_updates:
  assumes "claim_job now l u a b c e t = Inr (j, t')" "distinct (map job_id t)"
  shows "updates now (Claim l u a b c e) t t'"
proof (cases "sort_key created_at (filter (\<lambda>r. claimable a b c r \<and> \<not> l (job_id r)) t)")
  case Nil
  with assms(1) show ?thesis by (auto simp: claim_job_def and_then_Inr updates_refl)
next
  case (Cons r rest)
  with assms(1) obtain n where "db_update (\<lambda>x. job_id x = job_id r) (claim_row now e u) t = Inr (n, t')"
    by (auto simp: claim_job_def and_then_Inr)
  then show ?thesis
    by (rule db_update_updates [where i = "job_id r"]) (use claim_rows [OF assms(2) _ _ Cons] assms(2) in blast)+
qed

lemma recover_updates:
  assumes "recover_stale_jobs now l t = Inr (n, t')" "distinct (map job_id t)"
  shows "updates now (Recover l) t t'"
  using assms(1) unfolding recover_stale_jobs_def Let_def
  by (rule db_update_updates) (use recover_rows [OF assms(2)] assms(2) in blast)+

lemma finalize_updates:
  assumes "finalize now op t = Inr (x, t')" "distinct (map job_id t)"
  shows "updates now op t t'"
proof (cases op)
  case (Finish i c result)
  with assms obtain n where "db_update (holds_claim i c) (complete_row now result) t = Inr (n, t')"
    and "length result \<le> MAX_JOB_BLOB_BYTES"
    by (auto simp: complete_job_def and_then_Inr split: if_splits)
  with Finish assms(2) show ?thesis
    by (auto intro!: db_update_updates [where i = i] finish_rows simp: holds_claim_def)
next
  case (Fail i c m)
  with assms obtain n where "db_update (holds_claim i c) (fail_row now m) t = Inr (n, t')"
    and "m \<noteq> []" "length m \<le> MAX_JOB_ERROR_BYTES"
    by (auto simp: fail_job_def and_then_Inr split: if_splits)
  with Fail assms(2) show ?thesis
    by (auto intro!: db_update_updates [where i = i] failed_rows simp: holds_claim_def)
qed (use assms in auto)

lemma JobState_round_trip [simp]: "JobState_try_from (JobState_as_str s) = Inr s"
  by (cases s) (auto simp: JobState_try_from_def)

lemma retry_dead_job_Inr:
  assumes "retry_dead_job now i t = Inr (d, t', ch)"
  obtains r n where "List.find (\<lambda>r. job_id r = i) t = Some r" "job_status r = Dead"
    "db_update (\<lambda>x. job_id x = i) (retry_row now) t = Inr (n, t')" "detail (retry_row now r) = Inr d"
    "ch = worker_channel (worker_namespace r) (worker_name r) (worker_version r)"
  using assms by (auto simp: retry_dead_job_def and_then_Inr ok_or_def split: if_splits option.splits)

lemma retry_updates:
  assumes "retry_dead_job now i t = Inr (d, t', ch)" "distinct (map job_id t)"
  shows "updates now (Retry i) t t'"
  using assms(1)
proof (rule retry_dead_job_Inr)
  fix r n
  assume r: "List.find (\<lambda>r. job_id r = i) t = Some r" "job_status r = Dead"
    and u: "db_update (\<lambda>x. job_id x = i) (retry_row now) t = Inr (n, t')"
  show ?thesis
    by (rule db_update_updates [OF u, where i = i]) (use find_row [OF assms(2) r(1)] r(2) row_step.retry assms(2) in blast)+
qed

lemma run_op_updates:
  assumes "run_op now op t = Inr t'" "distinct (map job_id t)" "\<not> is_submit op"
  shows "updates now op t t'"
  using assms claim_job_updates recover_updates finalize_updates retry_updates
  by (cases op) (auto simp: run_op_def and_then_Inr)

text \<open>A submission adds one pending row with all its attempts left.\<close>

definition fresh_row :: "int \<Rightarrow> job_row \<Rightarrow> bool" where
  "fresh_row now r \<longleftrightarrow> row_ok r \<and> job_status r = Pending \<and> job_attempt r = 0 \<and> updated_at r = now"

lemma try_fold_checked_add:
  "try_fold (\<lambda>v n. if n + length v < b then Inr (n + length v) else Inl e) vs m = Inr n \<longleftrightarrow>
    (if vs = [] then n = m else n = m + sum_list (map length vs) \<and> n < b)"
proof (induction vs arbitrary: m)
  case (Cons v vs)
  show ?case
  proof (cases "m + length v < b")
    case True
    then show ?thesis by (simp only: try_fold.simps and_then_simps if_True Cons.IH) (auto simp: add.assoc)
  next
    case False
    then show ?thesis by (simp only: try_fold.simps and_then_simps if_False) auto
  qed
qed auto

lemma metadata_bytes_Inr:
  "metadata_bytes vs = Inr n \<longleftrightarrow> (if vs = [] then n = 0 else n = sum_list (map length vs) \<and> n < 2 ^ 64)"
  by (simp add: metadata_bytes_def try_fold_checked_add)

lemma positive_u32_Inr: "positive_u32 l n = Inr m \<longleftrightarrow> m = n \<and> n > 0"
  by (auto simp: positive_u32_def)

lemma i32_try_from_Inr: "i32_try_from n = Inr z \<longleftrightarrow> z = int n \<and> n < 2 ^ 31"
  by (auto simp: i32_try_from_def)

lemma db_insert_Inr: "db_insert r t = Inr t' \<longleftrightarrow> job_id r \<notin> job_id ` set t \<and> check_row r \<and> t' = t @ [r]"
  unfolding db_insert_def list_ex_iff image_iff by (cases "check_row r") (simp_all, metis+)

lemma insert_job_Inr:
  assumes "insert_job now u a b c jt payload timeout attempts sa sm t = Inr (i, t')"
  shows "\<exists>r. t' = t @ [r] \<and> fresh_row now r \<and> job_id r = u \<and> claim_id r = None \<and> i = u \<and> u \<notin> job_id ` set t"
proof -
  from assms obtain n d e d' e' where *: "length payload \<le> MAX_JOB_BLOB_BYTES" "n \<le> MAX_JOB_METADATA_BYTES"
      "n = sum_list (map length [a, b, c, jt, sa, sm])" "i = u"
    and de: "JobTimeoutSecs_new (if timeout = 0 then 300 else unat timeout) = Inr d" "i32_try_from d = Inr d'"
      "MaxAttempts_new (if attempts = 0 then 3 else unat attempts) = Inr e" "i32_try_from e = Inr e'"
    and ins: "db_insert \<lparr>job_id = u, worker_namespace = a, worker_name = b, worker_version = c,
       job_type = jt, job_payload = payload, job_status = Pending, job_result = None, error_message = None,
       job_attempt = 0, max_attempts = e', timeout_secs = d', created_at = now, updated_at = now,
       claimed_at = None, completed_at = None, claimed_by = None, source_namespace = sa,
       source_module = sm, claim_id = None, lease_expires_at = None\<rparr> t = Inr t'" (is "db_insert ?r t = _")
    by (auto simp: insert_job_def metadata_bytes_Inr simp del: sum_list_simps split: if_split_asm)
  from de have "0 < d'" "d' < 2 ^ 31" "0 < e'" "e' < 2 ^ 31"
    by (auto simp: positive_u32_Inr i32_try_from_Inr)
  with * ins have "row_ok ?r"
    by (simp add: db_insert_Inr row_ok_def row_core_def row_bounds_def row_life_def row_times_def submitted_bytes_def is_utf8_def)
  with ins *(4) show ?thesis by (auto simp: db_insert_Inr fresh_row_def)
qed

section \<open>The invariant holds throughout\<close>

lemma updates_rows:
  assumes "updates now op t t'" "r' \<in> set t'"
  obtains r where "r \<in> set t" "r' = r \<or> row_step now op r r'"
  using assms unfolding updates_def by (auto split: if_splits)

lemma updates_keys: "updates now op t t' \<Longrightarrow> map job_id t' = map job_id t"
  unfolding updates_def using row_step_key by fastforce

lemma updates_claims:
  assumes "updates now op t t'" "c \<in> active_claims t'"
  shows "c \<in> active_claims t \<or> c \<in> set (op_claims op)"
proof -
  from assms(2) obtain r' where r': "r' \<in> set t'" "claim_id r' = Some c" by (auto simp: active_claims_def)
  with assms(1) obtain r where "r \<in> set t" "r' = r \<or> row_step now op r r'" by (blast elim: updates_rows)
  with r' show ?thesis by (auto simp: active_claims_def dest: row_step_claims)
qed

lemma updates_unique_claims:
  assumes u: "updates now op t t'" and ok: "op_input q op" "active_claims t \<subseteq> set (q_claims q)"
    and t: "\<forall>r\<in>set t. \<forall>x\<in>set t. claim_id r \<noteq> None \<longrightarrow> claim_id r = claim_id x \<longrightarrow> r = x"
    and r: "r \<in> set t'" "x \<in> set t'" "claim_id r = Some c" "claim_id x = Some c"
  shows "r = x"
proof -
  from u obtain p f where t': "t' = map (\<lambda>r. if p r then f r else r) t"
    and pf: "\<forall>r\<in>set t. p r \<longrightarrow> row_step now op r (f r)"
    and one: "(\<exists>l. op = Recover l) \<or> (\<forall>r\<in>set t. \<forall>x\<in>set t. p r \<longrightarrow> p x \<longrightarrow> r = x)"
    unfolding updates_def by blast
  from t' r(1,2) obtain r0 x0 where 0: "r0 \<in> set t" "x0 \<in> set t" "r = (if p r0 then f r0 else r0)" "x = (if p x0 then f x0 else x0)"
    by auto
  have new: "c \<in> set (op_claims op)" if "y \<in> set t" "p y" "claim_id (f y) = Some c" for y
    using that pf row_step_claims by blast
  have old: "c \<notin> set (op_claims op)" if "y \<in> set t" "claim_id y = Some c" for y
    using that ok by (cases op) (auto simp: active_claims_def)
  show ?thesis
  proof (cases "c \<in> set (op_claims op)")
    case True
    then have "\<not> (\<exists>l. op = Recover l)" by auto
    with True old 0 r one show ?thesis by (metis (no_types, lifting))
  next
    case False
    with new 0 r t show ?thesis by (metis (no_types, lifting) option.distinct(1))
  qed
qed

lemma queue_ok_distinct: "queue_ok q \<Longrightarrow> distinct (map job_id (q_rows q))"
  by (simp add: queue_ok_def)

lemma queue_ok_clock: "queue_ok q \<Longrightarrow> q_clock q \<le> now \<Longrightarrow> queue_ok (q\<lparr>q_clock := now, q_claims := cs @ q_claims q\<rparr>)"
  by (fastforce simp: queue_ok_def)

lemma queue_ok_submit:
  assumes "queue_ok q" "q_clock q \<le> now" "fresh_row now r" "claim_id r = None" "job_id r \<notin> job_id ` set (q_rows q)"
  shows "queue_ok \<lparr>q_rows = q_rows q @ [r], q_clock = now, q_claims = q_claims q\<rparr>"
proof -
  have "\<forall>x\<in>set (q_rows q @ [r]). row_ok x \<and> updated_at x \<le> now"
    using assms(1-3) by (fastforce simp: queue_ok_def fresh_row_def)
  moreover have "active_claims (q_rows q @ [r]) = active_claims (q_rows q)"
    using assms(4) by (auto simp: active_claims_def)
  moreover have "distinct (map job_id (q_rows q @ [r]))" using assms(1,5) by (simp add: queue_ok_def)
  ultimately show ?thesis using assms(1,4) by (auto simp: queue_ok_def)
qed

lemma queue_ok_updates:
  assumes "queue_ok q" "q_clock q \<le> now" "op_input q op" "updates now op (q_rows q) t"
  shows "queue_ok \<lparr>q_rows = t, q_clock = now, q_claims = op_claims op @ q_claims q\<rparr>"
proof -
  have "row_ok r' \<and> updated_at r' \<le> now" if "r' \<in> set t" for r'
  proof -
    from assms(4) that obtain r where "r \<in> set (q_rows q)" "r' = r \<or> row_step now op r r'" by (rule updates_rows)
    moreover from this(1) assms(1,2) have "row_ok r" "updated_at r \<le> now" by (fastforce simp: queue_ok_def)+
    ultimately show ?thesis using row_step_ok assms(3) by blast
  qed
  moreover have "distinct (map job_id t)" using assms(1) updates_keys [OF assms(4)] by (simp add: queue_ok_def)
  moreover have "active_claims t \<subseteq> set (op_claims op @ q_claims q)"
    using assms(1) updates_claims [OF assms(4)] by (auto simp: queue_ok_def)
  moreover have "r = x" if "r \<in> set t" "x \<in> set t" "claim_id r \<noteq> None" "claim_id r = claim_id x" for r x
    using updates_unique_claims [OF assms(4,3)] assms(1) that by (auto simp: queue_ok_def)
  ultimately show ?thesis unfolding queue_ok_def job_queue.simps by blast
qed

lemma queue_step_ok: "queue_step op q q' \<Longrightarrow> queue_ok q \<Longrightarrow> queue_ok q'"
proof (induction rule: queue_step.induct)
  case (commit q now op t)
  show ?case
  proof (cases "is_submit op")
    case True
    with commit.hyps(3) obtain r where "t = q_rows q @ [r]" "fresh_row now r" "claim_id r = None"
      "job_id r \<notin> job_id ` set (q_rows q)" "op_claims op = []"
      by (cases op) (auto simp: run_op_def dest!: insert_job_Inr)
    with commit.prems commit.hyps(1) show ?thesis using queue_ok_submit by simp
  next
    case False
    with commit have "updates now op (q_rows q) t" by (intro run_op_updates queue_ok_distinct)
    with commit show ?thesis by (intro queue_ok_updates)
  qed
next
  case (reject q now op e)
  then show ?case by (simp add: queue_ok_clock)
qed

lemma queue_run_ok: "queue_run q q' \<Longrightarrow> queue_ok q \<Longrightarrow> queue_ok q'"
  by (induction rule: queue_run.induct) (auto intro: queue_step_ok)

lemma empty_queue_ok: "queue_ok empty_queue"
  by (simp add: queue_ok_def empty_queue_def active_claims_def)

lemmas reachable_ok = queue_run_ok [OF _ empty_queue_ok]

text \<open>Statements never run into a \<open>CHECK\<close> constraint.\<close>

lemma db_update_not_Inl:
  assumes "\<And>r. r \<in> set t \<Longrightarrow> p r \<Longrightarrow> row_step now op r (f r)" "\<forall>r\<in>set t. row_core r"
  shows "db_update p f t \<noteq> Inl e"
  using db_update_no_violation [of t p now op f] assms by simp

lemma bind_text_Inl: "bind_text vs = Inl e \<Longrightarrow> e = Invalid_Text"
  by (simp add: bind_text_def split: if_splits)

lemma metadata_bytes_Inl: "metadata_bytes vs = Inl e \<Longrightarrow> e = Job_Fault ''job metadata length overflow''"
proof -
  have "try_fold (\<lambda>v n. if n + length v < b then Inr (n + length v) else Inl x) vs m = Inl e \<Longrightarrow> e = x"
    for b m and x :: job_error
    by (induction vs arbitrary: m) (auto split: if_splits)
  then show "metadata_bytes vs = Inl e \<Longrightarrow> e = Job_Fault ''job metadata length overflow''"
    by (simp add: metadata_bytes_def)
qed

lemma map_err_Inl: "map_err f x = Inl e \<longleftrightarrow> (\<exists>y. x = Inl y \<and> e = f y)"
  by (cases x) (auto simp: map_err_def)

lemma uint_pos_iff: "0 < uint w \<longleftrightarrow> w \<noteq> 0"
  using uint_0_iff [of w] by (auto simp: order_less_le)

lemma insert_job_checked: "insert_job now u a b c jt payload timeout attempts sa sm t \<noteq> Inl Check_Violation"
proof
  assume "insert_job now u a b c jt payload timeout attempts sa sm t = Inl Check_Violation"
  then show False
    by (auto simp: insert_job_def positive_u32_Inr i32_try_from_Inr db_insert_def check_defs
        dest!: bind_text_Inl metadata_bytes_Inl split: if_split_asm)
      (auto simp: positive_u32_def i32_try_from_def uint_pos_iff split: if_splits)
qed

definition errs :: "('e \<Rightarrow> bool) \<Rightarrow> 'e + 'a \<Rightarrow> bool" where
  "errs P x \<longleftrightarrow> (\<forall>e. x = Inl e \<longrightarrow> P e)"

lemma errs_simps [simp]: "errs P (Inr x)" "errs P (Inl e) = P e"
  by (auto simp: errs_def)

lemma errs_and_then: "errs P x \<Longrightarrow> (\<And>y. errs P (f y)) \<Longrightarrow> errs P (and_then x f)"
  by (cases x) (auto simp: errs_def)

lemma errs_map_err: "errs (\<lambda>e. P (f e)) x \<Longrightarrow> errs P (map_err f x)"
  by (cases x) (auto simp: errs_def map_err_def)

lemma errs_If: "errs P x \<Longrightarrow> errs P y \<Longrightarrow> errs P (if b then x else y)"
  by simp

fun is_fault :: "JobAdminError \<Rightarrow> bool" where
  "is_fault (Database (Job_Fault m)) = True"
| "is_fault _ = False"

lemma metadata_bytes_errs: "errs (\<lambda>e. is_fault (Database e)) (metadata_bytes vs)"
  by (auto simp: errs_def dest: metadata_bytes_Inl)

lemma checked_counts_errs: "errs is_fault (checked_counts r)"
  unfolding checked_counts_def
  by (intro errs_and_then errs_map_err) (auto simp: AttemptCount_validate_def errs_def)

lemma list_item_errs: "errs is_fault (list_item r)"
  unfolding list_item_def case_prod_beta
  by (intro errs_and_then errs_map_err errs_If checked_counts_errs metadata_bytes_errs) auto

lemma check_lifecycle_errs: "errs is_fault (check_lifecycle r s)"
  by (auto simp: check_lifecycle_def validate_dead_lifecycle_def split: JobState.splits option.splits)

lemma detail_errs: "errs is_fault (detail r)"
  unfolding detail_def
  by (intro errs_and_then errs_If list_item_errs check_lifecycle_errs errs_map_err metadata_bytes_errs) (auto simp: errs_def)

lemma detail_Inl: "detail r = Inl e \<Longrightarrow> is_fault e"
  using detail_errs by (simp add: errs_def)

lemma claim_job_Inl:
  assumes "claim_job now l u a b c e t = Inl err" "\<forall>r\<in>set t. row_core r" "distinct (map job_id t)"
  shows "err = Invalid_Text \<and> is_ok (bind_text [a, b, c, e]) = False"
proof (cases "sort_key created_at (filter (\<lambda>r. claimable a b c r \<and> \<not> l (job_id r)) t)")
  case Nil
  with assms(1) show ?thesis by (auto simp: claim_job_def is_ok_def dest: bind_text_Inl)
next
  case (Cons r rest)
  have "db_update (\<lambda>x. job_id x = job_id r) (claim_row now e u) t \<noteq> Inl err"
    by (rule db_update_not_Inl) (use claim_rows [OF assms(3) _ _ Cons] assms(2) in blast)+
  with Cons assms(1) show ?thesis by (auto simp: claim_job_def is_ok_def dest: bind_text_Inl)
qed

lemma run_op_checked:
  assumes ok: "queue_ok q"
  shows "run_op now op (q_rows q) \<noteq> Inl (Database Check_Violation)"
proof -
  have rows: "\<forall>r\<in>set (q_rows q). row_core r" and dist: "distinct (map job_id (q_rows q))"
    using ok by (auto simp: queue_ok_def row_ok_def)
  show ?thesis
  proof (cases op)
    case (Claim l u a b c e)
    have "claim_job now l u a b c e (q_rows q) \<noteq> Inl Check_Violation"
      using claim_job_Inl [OF _ rows dist] by blast
    with Claim show ?thesis by (auto simp: run_op_def map_err_Inl)
  next
    case (Finish i c result)
    have "complete_job now i c result (q_rows q) \<noteq> Inl Check_Violation"
      using db_update_not_Inl [of "q_rows q" "holds_claim i c" now "Finish i c result" "complete_row now result"]
        finish_rows rows by (auto simp: complete_job_def dest: bind_text_Inl)
    with Finish show ?thesis by (auto simp: run_op_def map_err_Inl)
  next
    case (Fail i c m)
    have "fail_job now i c m (q_rows q) \<noteq> Inl Check_Violation"
      using db_update_not_Inl [of "q_rows q" "holds_claim i c" now "Fail i c m" "fail_row now m"]
        failed_rows rows by (auto simp: fail_job_def dest: bind_text_Inl)
    with Fail show ?thesis by (auto simp: run_op_def map_err_Inl)
  next
    case (Recover l)
    have "recover_stale_jobs now l (q_rows q) \<noteq> Inl Check_Violation"
      unfolding recover_stale_jobs_def Let_def
      by (rule db_update_not_Inl) (use recover_rows [OF dist] rows in blast)+
    with Recover show ?thesis by (auto simp: run_op_def map_err_Inl)
  next
    case (Retry i)
    have "db_update (\<lambda>x. job_id x = i) (retry_row now) (q_rows q) \<noteq> Inl Check_Violation"
      if r: "List.find (\<lambda>r. job_id r = i) (q_rows q) = Some r" "job_status r = Dead" for r
      by (rule db_update_not_Inl) (use find_row [OF dist r(1)] r(2) row_step.retry rows in blast)+
    then have "retry_dead_job now i (q_rows q) \<noteq> Inl (Database Check_Violation)"
      by (auto simp: retry_dead_job_def map_err_Inl ok_or_def dest!: detail_Inl bind_text_Inl split: if_splits option.splits)
    with Retry show ?thesis by (auto simp: run_op_def)
  qed (use insert_job_checked in \<open>auto simp: run_op_def map_err_Inl\<close>)
qed

section \<open>Claims are fenced\<close>

lemma finalize_rows:
  assumes "finalizes c op" "finalize now op t = Inr (x, t')"
  obtains i f where "x = from_affected_rows (length (filter (holds_claim i c) t))"
    "t' = map (\<lambda>r. if holds_claim i c r then f r else r) t" "\<forall>r. claim_id (f r) = None"
proof (cases op)
  case (Finish i d result)
  with assms show thesis
    by (intro that [of i "complete_row now result"])
      (auto simp: complete_job_def db_update_Inr complete_row_def release_claim_def split: if_split_asm)
next
  case (Fail i d m)
  with assms show thesis
    by (intro that [of i "fail_row now m"])
      (auto simp: fail_job_def db_update_Inr fail_row_def release_claim_def split: if_split_asm)
qed (use assms in auto)

lemma inactive_stale:
  assumes "finalizes c op" "finalize now op t = Inr (x, t')" "c \<notin> active_claims t"
  shows "x = Stale_Claim \<and> t' = t"
proof -
  from assms(1,2) obtain i f where "x = from_affected_rows (length (filter (holds_claim i c) t))"
    "t' = map (\<lambda>r. if holds_claim i c r then f r else r) t" by (rule finalize_rows)
  moreover have "\<not> holds_claim i c r" if "r \<in> set t" for r
    using assms(3) that by (auto simp: active_claims_def holds_claim_def)
  ultimately show ?thesis by (simp add: from_affected_rows_def cong: map_cong)
qed

lemma applied_inactive:
  assumes "finalizes c op" "finalize now op (q_rows q) = Inr (Applied, t)" "queue_ok q"
  shows "c \<in> set (q_claims q) \<and> c \<notin> active_claims t"
proof -
  from assms(1,2) obtain i f where n: "Applied = from_affected_rows (length (filter (holds_claim i c) (q_rows q)))"
    and t: "t = map (\<lambda>r. if holds_claim i c r then f r else r) (q_rows q)" and f: "\<forall>r. claim_id (f r) = None"
    by (rule finalize_rows)
  from n have "filter (holds_claim i c) (q_rows q) \<noteq> []" by (auto simp: from_affected_rows_def)
  then obtain h where h: "h \<in> set (q_rows q)" "holds_claim i c h" by (auto simp: filter_empty_conv)
  then have hc: "claim_id h = Some c" by (simp add: holds_claim_def)
  with h(1) have "c \<in> active_claims (q_rows q)" by (auto simp: active_claims_def)
  moreover have "c \<notin> active_claims t"
  proof
    assume "c \<in> active_claims t"
    then obtain r where "r \<in> set (q_rows q)" "claim_id r = Some c" "\<not> holds_claim i c r"
      using f by (auto simp: active_claims_def t split: if_splits)
    with h hc assms(3) show False unfolding queue_ok_def by (metis option.distinct(1))
  qed
  ultimately show ?thesis using assms(3) by (auto simp: queue_ok_def)
qed

lemma queue_step_spent:
  assumes "queue_step op q q'" "queue_ok q" "c \<in> set (q_claims q)" "c \<notin> active_claims (q_rows q)"
  shows "c \<in> set (q_claims q') \<and> c \<notin> active_claims (q_rows q')"
  using assms
proof (induction rule: queue_step.induct)
  case (commit q now op t)
  have "c \<notin> active_claims t"
  proof (cases "is_submit op")
    case True
    with commit.hyps(3) obtain r where "t = q_rows q @ [r]" "claim_id r = None"
      by (cases op) (auto simp: run_op_def dest!: insert_job_Inr)
    with commit.prems(3) show ?thesis by (auto simp: active_claims_def)
  next
    case False
    with commit have "updates now op (q_rows q) t" by (intro run_op_updates queue_ok_distinct)
    moreover have "c \<notin> set (op_claims op)" using commit.hyps(2) commit.prems(2) by (cases op) auto
    ultimately show ?thesis using updates_claims commit.prems(3) by blast
  qed
  with commit.prems(2) show ?case by simp
qed simp

lemma queue_run_spent:
  assumes "queue_run q q'" "queue_ok q" "c \<in> set (q_claims q)" "c \<notin> active_claims (q_rows q)"
  shows "c \<in> set (q_claims q') \<and> c \<notin> active_claims (q_rows q')"
  using assms
proof (induction rule: queue_run.induct)
  case (step q q' op q'')
  then show ?case using queue_step_spent queue_run_ok by blast
qed simp

text \<open>
  C2. Finalization of a claim takes effect at most once. Once a completion or a failure report for a
  claim has been applied, every later report for the same claim, after any further statements of any
  engine or administrator, is stale and leaves the table as it is.
\<close>

theorem claim_finalized_once:
  assumes "queue_run empty_queue q" "q_clock q \<le> now" "op_input q op"
    and "finalizes c op" "finalize now op (q_rows q) = Inr (Applied, t)"
    and "queue_run \<lparr>q_rows = t, q_clock = now, q_claims = q_claims q\<rparr> q'"
    and "finalizes c op'" "finalize now' op' (q_rows q') = Inr (x, t')"
  shows "x = Stale_Claim \<and> t' = q_rows q'"
proof -
  let ?p = "\<lparr>q_rows = t, q_clock = now, q_claims = q_claims q\<rparr>"
  have ok: "queue_ok q" using assms(1) by (rule reachable_ok)
  have "op_claims op = []" using assms(4) by (cases op) auto
  with queue_ok_updates [OF ok assms(2,3) finalize_updates [OF assms(5) queue_ok_distinct [OF ok]]]
  have "queue_ok ?p" by simp
  moreover have "c \<in> set (q_claims ?p)" "c \<notin> active_claims (q_rows ?p)"
    using applied_inactive [OF assms(4,5) ok] by simp_all
  ultimately have "c \<notin> active_claims (q_rows q')" using queue_run_spent [OF assms(6)] by blast
  then show ?thesis using inactive_stale assms(7,8) by blast
qed

section \<open>The abstract job\<close>

text \<open>
  A job as its users see it: waiting with a number of attempts left, held under a claim, done, or
  buried. It is retried until the attempts are used up, and an administrator revives a buried job
  with all of them.
\<close>

datatype abs_job = Waiting nat | Held nat string | Done | Buried

inductive abs_step :: "nat \<Rightarrow> abs_job \<Rightarrow> abs_job \<Rightarrow> bool" where
  take: "abs_step m (Waiting (Suc n)) (Held n c)"
| succeed: "abs_step m (Held n c) Done"
| again: "n > 0 \<Longrightarrow> abs_step m (Held n c) (Waiting n)"
| give_up: "abs_step m (Held 0 c) Buried"
| revive: "abs_step m Buried (Waiting m)"

inductive_simps abs_step_simps:
  "abs_step m (Waiting n) j" "abs_step m (Held n c) j" "abs_step m Done j" "abs_step m Buried j"

definition attempts_left :: "job_row \<Rightarrow> nat" where
  "attempts_left r = nat (max_attempts r - job_attempt r)"

definition abs_of :: "job_row \<Rightarrow> abs_job" where
  "abs_of r = (case job_status r of
      Pending \<Rightarrow> Waiting (attempts_left r)
    | Running \<Rightarrow> Held (attempts_left r) (or_default (claim_id r))
    | Complete \<Rightarrow> Done
    | Dead \<Rightarrow> Buried)"

lemma row_step_refines:
  assumes "row_step now op r r'" "row_core r"
  shows "abs_step (nat (max_attempts r)) (abs_of r) (abs_of r')"
  using assms(1)
proof cases
  case (claim l u a b c e)
  with assms(2) have "attempts_left r = Suc (attempts_left r')"
    by (auto simp: row_core_def row_life_def attempts_left_def row_effects)
  with claim show ?thesis by (simp add: abs_of_def row_effects abs_step.take)
next
  case (retry)
  then show ?thesis by (simp add: abs_of_def row_effects attempts_left_def abs_step.revive)
qed (auto simp: abs_of_def row_effects attempts_left_def retry_or_dead_def abs_step_simps)

text \<open>
  C7. The queue refines the abstract job: in a reachable table every statement leaves a row as it is or
  takes the abstract job behind it one step, keeps its identity and its maximum, and adds at most the
  submitted job, waiting with all its attempts.
\<close>

theorem queue_refines:
  assumes "queue_run empty_queue q" "queue_step op q q'"
  shows "list_all2 (\<lambda>r r'. job_id r' = job_id r \<and> max_attempts r' = max_attempts r \<and>
      (r' = r \<or> abs_step (nat (max_attempts r)) (abs_of r) (abs_of r')))
      (q_rows q) (take (length (q_rows q)) (q_rows q')) \<and>
    (\<forall>r\<in>set (drop (length (q_rows q)) (q_rows q')). is_submit op \<and> abs_of r = Waiting (nat (max_attempts r)))"
proof -
  have ok: "queue_ok q" using assms(1) by (rule reachable_ok)
  from assms(2) show ?thesis
  proof cases
    case (commit now t)
    show ?thesis
    proof (cases "is_submit op")
      case True
      with commit(4) obtain r where "t = q_rows q @ [r]" "fresh_row now r"
        by (cases op) (auto simp: run_op_def dest!: insert_job_Inr)
      with True commit(1) show ?thesis by (simp add: fresh_row_def abs_of_def attempts_left_def list_all2_same)
    next
      case False
      with commit ok have "updates now op (q_rows q) t" by (intro run_op_updates queue_ok_distinct)
      then obtain p f where t: "t = map (\<lambda>r. if p r then f r else r) (q_rows q)"
        and pf: "\<forall>r\<in>set (q_rows q). p r \<longrightarrow> row_step now op r (f r)" unfolding updates_def by blast
      have "\<forall>r\<in>set (q_rows q). p r \<longrightarrow> job_id (f r) = job_id r \<and> max_attempts (f r) = max_attempts r \<and>
          abs_step (nat (max_attempts r)) (abs_of r) (abs_of (f r))"
        using pf row_step_key row_step_refines ok unfolding queue_ok_def row_ok_def by blast
      with commit(1) t show ?thesis by (simp add: list_all2_map2 list_all2_same)
    qed
  next
    case reject
    then show ?thesis by (simp add: list_all2_same)
  qed
qed

text \<open>
  C12. In every table the statements can produce, each row satisfies the lifecycle invariant, job ids are
  unique, every claim id was generated for one claim and is held by at most one row, and no further
  statement violates a \<open>CHECK\<close> constraint.
\<close>

theorem queue_invariant:
  assumes "queue_run empty_queue q"
  shows "queue_ok q \<and> run_op now op (q_rows q) \<noteq> Inl (Database Check_Violation)"
  using reachable_ok [OF assms] run_op_checked by blast

section \<open>A concrete run\<close>

definition sample_row :: job_row where
  "sample_row = \<lparr>job_id = ''j1'', worker_namespace = ''ns'', worker_name = ''w'', worker_version = [],
     job_type = ''/t'', job_payload = ''p'', job_status = Pending, job_result = None, error_message = None,
     job_attempt = 0, max_attempts = 2, timeout_secs = 300, created_at = 5, updated_at = 5, claimed_at = None,
     completed_at = None, claimed_by = None, source_namespace = [], source_module = [], claim_id = None,
     lease_expires_at = None\<rparr>"

definition sample_submitted :: job_queue where
  "sample_submitted = \<lparr>q_rows = [sample_row], q_clock = 5, q_claims = []\<rparr>"

definition sample_claimed :: job_queue where
  "sample_claimed = \<lparr>q_rows = [claim_row 9 ''e1'' ''c1'' sample_row], q_clock = 9, q_claims = [''c1'']\<rparr>"

definition sample_claim :: job_op where
  "sample_claim = Claim (\<lambda>_. False) ''c1'' ''ns'' ''w'' ''1'' ''e1''"

lemmas sample_defs = sample_row_def sample_submitted_def sample_claimed_def sample_claim_def
lemmas limit_defs = MAX_JOB_BLOB_BYTES_def MAX_JOB_METADATA_BYTES_def MAX_JOB_ERROR_BYTES_def

lemma sample_submit_step:
  "queue_step (Submit ''j1'' ''ns'' ''w'' [] ''/t'' ''p'' 0 2 [] []) empty_queue sample_submitted"
  using queue_step.commit [of empty_queue 5 "Submit ''j1'' ''ns'' ''w'' [] ''/t'' ''p'' 0 2 [] []" "[sample_row]"]
  by (simp add: empty_queue_def sample_defs run_op_def insert_job_def limit_defs metadata_bytes_def positive_u32_def
      i32_try_from_def bind_text_def db_insert_def check_defs)

lemma sample_claim_step: "queue_step sample_claim sample_submitted sample_claimed"
  using queue_step.commit [of sample_submitted 9 sample_claim "[claim_row 9 ''e1'' ''c1'' sample_row]"]
  by (simp add: sample_defs run_op_def claim_job_def bind_text_def claimable_def db_update_def claim_row_def check_defs)

lemma sample_submitted_run: "queue_run empty_queue sample_submitted"
  by (rule queue_run.step [OF queue_run.stop sample_submit_step])

lemma sample_claimed_run: "queue_run empty_queue sample_claimed"
  by (rule queue_run.step [OF sample_submitted_run sample_claim_step])

theorem queue_invariant_witness:
  "queue_run empty_queue sample_claimed \<and> queue_ok sample_claimed \<and>
    run_op 10 (Recover (\<lambda>_. False)) (q_rows sample_claimed) \<noteq> Inl (Database Check_Violation)"
  using queue_invariant [OF sample_claimed_run] sample_claimed_run by blast

theorem queue_refines_witness:
  "queue_run empty_queue sample_submitted \<and> queue_step sample_claim sample_submitted sample_claimed \<and>
    abs_step 2 (abs_of sample_row) (abs_of (claim_row 9 ''e1'' ''c1'' sample_row))"
  using queue_refines [OF sample_submitted_run sample_claim_step] sample_submitted_run sample_claim_step
  by (simp add: sample_defs claim_row_def)

definition sample_done :: job_row where
  "sample_done = complete_row 12 ''ok'' (claim_row 9 ''e1'' ''c1'' sample_row)"

lemma sample_finish: "finalize 12 (Finish ''j1'' ''c1'' ''ok'') (q_rows sample_claimed) = Inr (Applied, [sample_done])"
  by (simp add: sample_defs sample_done_def complete_job_def limit_defs bind_text_def db_update_def holds_claim_def
      row_effects check_defs from_affected_rows_def)

lemma sample_late: "finalize 13 (Fail ''j1'' ''c1'' ''late'') [sample_done] = Inr (Stale_Claim, [sample_done])"
  by (simp add: sample_defs sample_done_def fail_job_def limit_defs bind_text_def db_update_def holds_claim_def
      row_effects check_defs from_affected_rows_def)

theorem claim_finalized_once_witness:
  "finalize 12 (Finish ''j1'' ''c1'' ''ok'') (q_rows sample_claimed) = Inr (Applied, [sample_done]) \<and>
    (\<exists>x t. finalize 13 (Fail ''j1'' ''c1'' ''late'') [sample_done] = Inr (x, t) \<and> x = Stale_Claim \<and> t = [sample_done])"
proof -
  have "Stale_Claim = Stale_Claim \<and> [sample_done] = q_rows \<lparr>q_rows = [sample_done], q_clock = 12, q_claims = q_claims sample_claimed\<rparr>"
    by (rule claim_finalized_once [where op' = "Fail ''j1'' ''c1'' ''late''" and now' = 13,
        OF sample_claimed_run _ _ _ sample_finish queue_run.stop])
      (use sample_late in \<open>simp_all add: sample_claimed_def\<close>)
  then show ?thesis using sample_finish sample_late by simp
qed

end
