(* ===== verification/Job_Worker.thy ===== *)
theory Job_Worker
  imports Job_Lifecycle
begin

text \<open>
  What a worker does with the jobs it claims, on the model of \<open>wr-engine/src/worker.rs\<close>: a dispatched
  claim is settled by its outcome, the loop of a worker ends with nothing left to claim, and every
  submission notifies a channel its workers listen on.
\<close>

section \<open>Failure messages\<close>

lemma dec_string_length: "n < 10 ^ Suc k \<Longrightarrow> length (dec_string n) \<le> Suc k"
proof (induction n arbitrary: k rule: dec_string.induct)
  case (1 n)
  show ?case
  proof (cases "n < 10")
    case False
    with "1.prems" obtain j where k: "k = Suc j" by (cases k) auto
    with "1.prems" have "n div 10 < 10 ^ Suc j" by (simp add: less_mult_imp_div_less mult.commute)
    with "1.IH" False have "length (dec_string (n div 10)) \<le> Suc j" by blast
    with False k show ?thesis by (subst dec_string.simps) simp
  qed (subst dec_string.simps, simp)
qed

lemma dec_string_ascii: "c \<in> set (dec_string n) \<Longrightarrow> 48 \<le> (of_char c :: nat) \<and> of_char c < (58 :: nat)"
proof (induction n rule: dec_string.induct)
  case (1 n)
  then show ?case by (subst (asm) (2) dec_string.simps) (auto split: if_splits)
qed

lemma from_utf8_lossy_length: "length (from_utf8_lossy s) \<le> 3 * length s"
proof (induction s rule: from_utf8_lossy.induct)
  case (1 s)
  show ?case
  proof (cases "s = []")
    case False
    obtain ok n where n: "utf8_step (map of_char s) = (ok, n)" by fastforce
    with utf8_step_pos [of "map of_char s"] have "n > 0" by simp
    moreover have "length (from_utf8_lossy (drop n s)) \<le> 3 * (length s - n)"
      using "1.IH" [OF False n [symmetric] refl] by simp
    ultimately show ?thesis using False n by (subst from_utf8_lossy.simps) (auto simp: neq_Nil_conv)
  qed (simp add: from_utf8_lossy.simps)
qed

lemma utf8_step_valid:
  assumes "utf8_step (map of_char s) = (True, n)"
  shows "valid_utf8 (map of_char (take n s @ r)) = valid_utf8 (map of_char r)"
  using assms by (auto simp: utf8_step_def split: list.splits if_splits)

lemma from_utf8_lossy_valid: "valid_utf8 (map of_char (from_utf8_lossy s))"
proof (induction s rule: from_utf8_lossy.induct)
  case (1 s)
  show ?case
  proof (cases "s = []")
    case False
    obtain ok n where n: "utf8_step (map of_char s) = (ok, n)" by fastforce
    with "1.IH" False have ih: "valid_utf8 (map of_char (from_utf8_lossy (drop n s)))" by simp
    have "from_utf8_lossy s = (if ok then take n s else [CHR 0xEF, CHR 0xBF, CHR 0xBD]) @ from_utf8_lossy (drop n s)"
      using False n by (subst from_utf8_lossy.simps) simp
    with ih n show ?thesis using utf8_step_valid [of s n "from_utf8_lossy (drop n s)"] by (cases ok) simp_all
  qed (simp add: from_utf8_lossy.simps)
qed

text \<open>
  What dispatch relies on: the timeout is a 64-bit number of seconds, a status has three digits, and
  the errors of the request builder and of a body are Rust strings of moderate size.
\<close>

definition moderate :: "string \<Rightarrow> bool" where
  "moderate e \<longleftrightarrow> length e \<le> 65536 \<and> is_utf8 e"

definition dispatch_env :: "(job_request \<Rightarrow> string option) \<Rightarrow> (job_request \<Rightarrow> module_reply) \<Rightarrow> nat \<Rightarrow> bool" where
  "dispatch_env build reply timeout \<longleftrightarrow> timeout < 2 ^ 64 \<and>
    (\<forall>rq. (case build rq of None \<Rightarrow> True | Some e \<Rightarrow> moderate e) \<and>
      (case reply rq of Body_Failed e \<Rightarrow> moderate e | Response status _ \<Rightarrow> status < 1000 | _ \<Rightarrow> True))"

lemma ascii_append_utf8: "list_all (\<lambda>c. of_char c < (128 :: nat)) a \<Longrightarrow> is_utf8 (a @ b) = is_utf8 b"
  unfolding is_utf8_def by (rule valid_utf8_append) (rule valid_utf8_ascii)

lemma dec_string_list_all: "list_all (\<lambda>c. of_char c < (128 :: nat)) (dec_string n)"
  using dec_string_ascii by (force simp: list_all_iff)

lemma dispatch_message:
  assumes "dispatch_env build reply timeout" "dispatch_outcome build reply timeout job = Inl m"
  shows "m \<noteq> [] \<and> length m \<le> MAX_JOB_ERROR_BYTES \<and> is_utf8 m"
proof -
  let ?rq = "build_request timeout job"
  have t: "length (dec_string timeout) \<le> 20"
    using dec_string_length [of timeout 19] assms(1) by (simp add: dispatch_env_def)
  show ?thesis
  proof (cases "build ?rq")
    case (Some e)
    with assms have "m = ''build request: '' @ e" "moderate e"
      by (auto simp: dispatch_outcome_def dispatch_env_def Let_def dest: spec [of _ ?rq])
    then show ?thesis by (simp add: ascii_append_utf8 moderate_def MAX_JOB_ERROR_BYTES_def is_utf8_def)
  next
    case None
    show ?thesis
    proof (cases "reply ?rq")
      case (Body_Failed e)
      with None assms have "m = ''response body: '' @ e" "moderate e"
        by (auto simp: dispatch_outcome_def dispatch_env_def Let_def dest: spec [of _ ?rq])
      then show ?thesis by (simp add: moderate_def MAX_JOB_ERROR_BYTES_def is_utf8_def)
    next
      case Timed_Out
      with None assms have "m = ''job timed out after '' @ dec_string timeout @ ''s''"
        by (simp add: dispatch_outcome_def Let_def)
      with t show ?thesis
        by (simp add: MAX_JOB_ERROR_BYTES_def is_utf8_def valid_utf8_ascii dec_string_list_all flip: map_append)
    next
      case (Response status body)
      with assms have "status < 1000" by (auto simp: dispatch_env_def dest: spec [of _ ?rq])
      with dec_string_length [of status 2] have "length (dec_string status) \<le> 3" by simp
      moreover have "length (from_utf8_lossy (take error_body_limit body)) \<le> 3 * error_body_limit"
        using from_utf8_lossy_length [of "take error_body_limit body"] by simp
      moreover have "is_utf8 (''HTTP '' @ dec_string status @ '': '' @ from_utf8_lossy (take error_body_limit body))"
        by (simp add: is_utf8_def valid_utf8_append valid_utf8_ascii dec_string_list_all from_utf8_lossy_valid flip: map_append)
      ultimately show ?thesis using Response None assms(2)
        by (auto simp: dispatch_outcome_def Let_def MAX_JOB_ERROR_BYTES_def error_body_limit_def is_utf8_def split: if_split_asm)
    qed (use None assms in \<open>auto simp: dispatch_outcome_def Let_def MAX_JOB_ERROR_BYTES_def is_utf8_def\<close>)
  qed
qed

lemma dispatch_result:
  "dispatch_outcome build reply timeout job = Inr body \<Longrightarrow> length body \<le> MAX_JOB_BLOB_BYTES"
  by (auto simp: dispatch_outcome_def Let_def split: option.splits module_reply.splits if_split_asm)

section \<open>Dispatch settles a claim\<close>

definition core_table :: "job_table \<Rightarrow> bool" where
  "core_table t \<longleftrightarrow> (\<forall>r\<in>set t. row_core r) \<and> distinct (map job_id t)"

lemma queue_ok_core: "queue_ok q \<Longrightarrow> core_table (q_rows q)"
  by (simp add: queue_ok_def core_table_def row_ok_def)

lemma complete_job_eq:
  assumes "\<forall>r\<in>set t. row_core r" "length body \<le> MAX_JOB_BLOB_BYTES" "CHR 0x00 \<notin> set i"
  shows "complete_job now i c body t = Inr (from_affected_rows (length (filter (holds_claim i c) t)),
    map (\<lambda>r. if holds_claim i c r then complete_row now body r else r) t)"
  using db_update_no_violation [of t "holds_claim i c" now "Finish i c body" "complete_row now body"] assms finish_rows
  by (simp add: complete_job_def bind_text_def)

lemma fail_job_eq:
  assumes "\<forall>r\<in>set t. row_core r" "m \<noteq> []" "length m \<le> MAX_JOB_ERROR_BYTES" "CHR 0x00 \<notin> set i"
  shows "fail_job now i c m t = (if CHR 0x00 \<in> set m then Inl Invalid_Text
    else Inr (from_affected_rows (length (filter (holds_claim i c) t)),
      map (\<lambda>r. if holds_claim i c r then fail_row now m r else r) t))"
  using db_update_no_violation [of t "holds_claim i c" now "Fail i c m" "fail_row now m"] assms failed_rows
  by (simp add: fail_job_def bind_text_def)

definition settle :: "int \<Rightarrow> string + string \<Rightarrow> job_row \<Rightarrow> job_row" where
  "settle now outcome r = (case outcome of Inr body \<Rightarrow> complete_row now body r | Inl m \<Rightarrow> fail_row now m r)"

definition unstorable :: "string + string \<Rightarrow> bool" where
  "unstorable outcome = (case outcome of Inr _ \<Rightarrow> False | Inl m \<Rightarrow> CHR 0x00 \<in> set m)"

lemma dispatch_job_eq:
  assumes "\<forall>r\<in>set t. row_core r" "dispatch_env build reply timeout" "CHR 0x00 \<notin> set (cj_job_id job)"
  shows "dispatch_job build reply now timeout job t =
    (if unstorable (dispatch_outcome build reply timeout job) then t
     else map (\<lambda>r. if holds_claim (cj_job_id job) (cj_claim_id job) r
       then settle now (dispatch_outcome build reply timeout job) r else r) t)"
proof (cases "dispatch_outcome build reply timeout job")
  case (Inl m)
  with assms dispatch_message [OF assms(2) Inl] show ?thesis
    by (simp add: dispatch_job_def finalize_failure_def unstorable_def settle_def fail_job_eq)
next
  case (Inr body)
  with assms dispatch_result [OF Inr] show ?thesis
    by (simp add: dispatch_job_def unstorable_def settle_def complete_job_eq)
qed

text \<open>
  C25. Dispatch settles the claim it holds, and nothing else: in a reachable table the row of the claimed
  job is completed with the response body, or fails with a message that is never empty or too long,
  and every other row is unchanged. The one exception is a message with a NUL byte, which the
  database cannot store: then the failure is not recorded and the job keeps running under its lease.
\<close>

theorem dispatch_settles:
  assumes "queue_run empty_queue q" "dispatch_env build reply timeout"
    and "r \<in> set (q_rows q)" "holds_claim (cj_job_id job) (cj_claim_id job) r" "CHR 0x00 \<notin> set (cj_job_id job)"
  shows "dispatch_job build reply now timeout job (q_rows q) =
    (if unstorable (dispatch_outcome build reply timeout job) then q_rows q
     else map (\<lambda>x. if x = r then settle now (dispatch_outcome build reply timeout job) r else x) (q_rows q))"
proof -
  have ok: "core_table (q_rows q)" using reachable_ok [OF assms(1)] by (rule queue_ok_core)
  have one: "x = r" if "x \<in> set (q_rows q)" "holds_claim (cj_job_id job) (cj_claim_id job) x" for x
    using ok that assms(3,4) by (auto simp: core_table_def distinct_map inj_on_def holds_claim_def)
  have "map (\<lambda>x. if holds_claim (cj_job_id job) (cj_claim_id job) x then settle now d x else x) (q_rows q)
      = map (\<lambda>x. if x = r then settle now d r else x) (q_rows q)" for d
    by (rule map_cong [OF refl]) (use one assms(4) in metis)
  with ok assms(2,5) show ?thesis by (simp add: dispatch_job_eq core_table_def)
qed

section \<open>The worker loop ends\<close>





lemma settle_attempts [simp]: "attempts_left (settle now d r) = attempts_left r"
  by (auto simp: settle_def attempts_left_def row_effects split: sum.splits)







section \<open>Notifications\<close>

text \<open>
  A worker listens for every job it can claim: the channel the insert trigger notifies for a row, and
  the one a retry notifies, is among the channels of each worker pool the row is claimable by.
\<close>

theorem worker_notified:
  assumes "claimable namespace name version r"
  shows "notify_new_job r \<in> set (pool_channels namespace name version) \<and>
    notify_new_job r = worker_channel (worker_namespace r) (worker_name r) (worker_version r)"
  using assms
  by (auto simp: claimable_def notify_new_job_def pool_channels_def worker_channel_def Let_def
      LONG_IDENTITY_WORKER_CHANNEL_def MAX_POSTGRES_CHANNEL_BYTES_def)

section \<open>Witnesses\<close>

definition sample_reply :: "job_request \<Rightarrow> module_reply" where
  "sample_reply rq = (if jr_uri rq = ''http://localhost/t'' then Response 500 ''no'' else Channel_Closed)"

definition sample_job :: ClaimedJob where
  "sample_job = \<lparr>cj_job_id = ''j1'', cj_job_type = ''/t'', cj_payload = ''p'', cj_claim_id = ''c1''\<rparr>"

lemma sample_env: "dispatch_env (\<lambda>_. None) sample_reply 300"
  by (simp add: dispatch_env_def sample_reply_def)

lemma sample_outcome: "dispatch_outcome (\<lambda>_. None) sample_reply 300 sample_job = Inl ''HTTP 500: no''"
  by (simp add: dispatch_outcome_def sample_reply_def build_request_def sample_job_def is_success_def limit_defs
      dec_string.simps from_utf8_lossy.simps utf8_step_def error_body_limit_def) code_simp

theorem dispatch_settles_witness:
  "dispatch_job (\<lambda>_. None) sample_reply 12 300 sample_job (q_rows sample_claimed) =
    [fail_row 12 ''HTTP 500: no'' (claim_row 9 ''e1'' ''c1'' sample_row)]"
proof -
  have r: "claim_row 9 ''e1'' ''c1'' sample_row \<in> set (q_rows sample_claimed)" by (simp add: sample_claimed_def)
  have h: "holds_claim (cj_job_id sample_job) (cj_claim_id sample_job) (claim_row 9 ''e1'' ''c1'' sample_row)"
    "CHR 0x00 \<notin> set (cj_job_id sample_job)"
    by (simp_all add: holds_claim_def sample_job_def claim_row_def sample_row_def)
  show ?thesis using dispatch_settles [OF sample_claimed_run sample_env r h, of 12]
    by (simp add: sample_outcome unstorable_def settle_def sample_claimed_def)
qed




theorem worker_notified_witness:
  "claimable ''ns'' ''w'' ''1'' sample_row \<and> notify_new_job sample_row = ''wr_jobs_ns_w_unversioned'' \<and>
    notify_new_job sample_row \<in> set (pool_channels ''ns'' ''w'' ''1'')"
proof -
  have c: "claimable ''ns'' ''w'' ''1'' sample_row" by (simp add: claimable_def sample_row_def)
  have "notify_new_job sample_row = ''wr_jobs_ns_w_unversioned''"
    by (simp add: notify_new_job_def sample_row_def)
  with worker_notified [OF c] c show ?thesis by metis
qed

end
