(* ===== verification/Job_Pages.thy ===== *)
theory Job_Pages
  imports Job_Lifecycle
begin

text \<open>
  What an administrator sees of the queue, on the model of \<open>wr-engine/src/job_admin_queue.rs\<close>: which rows
  are readable and retryable, and that following the cursors of \<open>list_jobs\<close> enumerates the matching rows.
\<close>

section \<open>Readable rows\<close>

definition described_bytes :: "job_row \<Rightarrow> nat" where
  "described_bytes r = length (job_id r) + submitted_bytes r"

lemma u32_try_from_eq: "0 \<le> n \<Longrightarrow> n < 2 ^ 31 \<Longrightarrow> u32_try_from n = Inr (nat n)"
  by (simp add: u32_try_from_def)

lemma metadata_bytes_small: "sum_list (map length vs) < 2 ^ 64 \<Longrightarrow> metadata_bytes vs = Inr (sum_list (map length vs))"
  using metadata_bytes_Inr [of vs "sum_list (map length vs)"] by (cases vs) auto

lemma checked_counts_eq:
  assumes "row_core r"
  shows "checked_counts r = Inr (nat (job_attempt r), nat (max_attempts r))"
proof -
  from assms have b: "0 \<le> job_attempt r" "job_attempt r \<le> max_attempts r" "0 < max_attempts r" "max_attempts r < 2 ^ 31"
    by (auto simp: row_core_def check_row_def row_bounds_def)
  then show ?thesis
    by (simp add: checked_counts_def u32_try_from_eq map_err_def positive_u32_def AttemptCount_validate_def nat_mono)
qed

definition row_item :: "job_row \<Rightarrow> JobListItem" where
  "row_item r = \<lparr>li_job_id = job_id r, li_worker_namespace = worker_namespace r, li_worker_name = worker_name r,
    li_worker_version = worker_version r, li_job_type = job_type r, li_status = job_status r,
    li_attempt = nat (job_attempt r), li_max_attempts = nat (max_attempts r), li_source_namespace = source_namespace r,
    li_source_module = source_module r, li_created_at = created_at r, li_updated_at = updated_at r\<rparr>"

lemma list_item_eq:
  assumes "row_ok r" "described_bytes r < 2 ^ 64"
  shows "list_item r = (if described_bytes r \<le> MAX_JOB_METADATA_BYTES then Inr (row_item r)
    else Inl (db_fault ''job metadata exceeds configured size bounds''))"
proof -
  have core: "row_core r" and t: "created_at r \<le> updated_at r" using assms(1) by (auto simp: row_ok_def row_times_def)
  have m: "metadata_bytes [job_id r, worker_namespace r, worker_name r, worker_version r, job_type r,
      source_namespace r, source_module r] = Inr (described_bytes r)"
    using assms(2) by (subst metadata_bytes_small) (simp_all add: described_bytes_def submitted_bytes_def)
  have "job_status r = Pending \<or> \<not> job_attempt r \<le> 0" "job_status r \<noteq> Dead \<or> job_attempt r = max_attempts r"
    using core by (auto simp: row_core_def row_life_def check_defs split: JobState.splits)
  then show ?thesis using t
    unfolding list_item_def JobState_round_trip checked_counts_eq [OF core] m map_err_def sum.case and_then_simps prod.case
    by (auto simp: row_item_def)
qed

lemma check_lifecycle_ok: "row_ok r \<Longrightarrow> check_lifecycle r (row_item r) = Inr ()"
  by (cases "job_status r")
    (auto simp: check_lifecycle_def row_item_def row_ok_def row_core_def check_defs row_life_def row_times_def
      validate_dead_lifecycle_def SECOND_def split: option.splits)

lemma detail_ok_iff:
  assumes "row_ok r" "described_bytes r < 2 ^ 64"
  shows "is_ok (detail r) \<longleftrightarrow> described_bytes r \<le> MAX_JOB_METADATA_BYTES"
proof (cases "described_bytes r \<le> MAX_JOB_METADATA_BYTES")
  case True
  have b: "0 < timeout_secs r" "timeout_secs r < 2 ^ 31" and rb: "row_bounds r"
    using assms(1) by (auto simp: row_ok_def row_core_def check_row_def row_bounds_def)
  have m: "metadata_bytes [li_worker_namespace (row_item r), li_worker_name (row_item r), li_worker_version (row_item r),
      li_job_type (row_item r), li_source_namespace (row_item r), li_source_module (row_item r)] = Inr (submitted_bytes r)"
    using assms(2) by (subst metadata_bytes_small) (simp_all add: row_item_def described_bytes_def submitted_bytes_def)
  have "submitted_bytes r \<le> MAX_JOB_METADATA_BYTES" using True by (simp add: described_bytes_def)
  with True assms b rb check_lifecycle_ok [OF assms(1)] show ?thesis
    by (simp add: detail_def list_item_eq m map_err_def u32_try_from_eq positive_u32_def row_bounds_def is_ok_def not_less)
next
  case False
  with assms show ?thesis by (simp add: detail_def list_item_eq is_ok_def)
qed

lemma retry_ok_iff:
  assumes "queue_ok q" "q_clock q \<le> now" "r \<in> set (q_rows q)" "job_status r = Dead"
    and "\<not> is_blank (job_id r)" "CHR 0x00 \<notin> set (job_id r)" "described_bytes r < 2 ^ 64"
  shows "is_ok (retry_dead_job now (job_id r) (q_rows q)) \<longleftrightarrow> described_bytes r \<le> MAX_JOB_METADATA_BYTES"
proof -
  have r: "row_ok r" "updated_at r \<le> now" and d: "distinct (map job_id (q_rows q))"
    and core: "\<forall>r\<in>set (q_rows q). row_core r"
    using assms(1-3) by (fastforce simp: queue_ok_def row_ok_def)+
  have f: "List.find (\<lambda>x. job_id x = job_id r) (q_rows q) = Some r"
    using d assms(3) find_row [OF d] by (cases "List.find (\<lambda>x. job_id x = job_id r) (q_rows q)") (auto simp: find_None_iff)
  have step: "row_step now (Retry (job_id r)) x (retry_row now x)" if "x \<in> set (q_rows q)" "job_id x = job_id r" for x
    using find_row [OF d f that] row_step.retry [OF assms(4)] by simp
  have u: "db_update (\<lambda>x. job_id x = job_id r) (retry_row now) (q_rows q) \<noteq> Inl e" for e
    by (rule db_update_not_Inl [OF step core])
  have "row_ok (retry_row now r)" using row_step_ok [OF step [OF assms(3) refl] r(1) _ r(2), of empty_queue] by simp
  moreover have "described_bytes (retry_row now r) = described_bytes r"
    by (simp add: described_bytes_def submitted_bytes_def row_effects)
  ultimately have "is_ok (detail (retry_row now r)) \<longleftrightarrow> described_bytes r \<le> MAX_JOB_METADATA_BYTES"
    using detail_ok_iff assms(7) by metis
  moreover have "is_ok (retry_dead_job now (job_id r) (q_rows q)) = is_ok (detail (retry_row now r))"
    using assms(4-6) f u by (auto simp: retry_dead_job_def bind_text_def ok_or_def map_err_def is_ok_def split: sum.splits)
  ultimately show ?thesis by simp
qed

text \<open>
  C37. A row of a reachable table can be listed, shown in detail and, if dead, retried exactly when its
  metadata together with its job id is within the metadata limit. Submission applies that limit to the
  metadata alone, so a job accepted just below it is executed but cannot be listed, inspected or retried.
\<close>

theorem job_readable:
  assumes "queue_run empty_queue q" "r \<in> set (q_rows q)" "length (job_id r) < 2 ^ 32"
  shows "submitted_bytes r \<le> MAX_JOB_METADATA_BYTES \<and>
    (is_ok (list_item r) \<longleftrightarrow> described_bytes r \<le> MAX_JOB_METADATA_BYTES) \<and>
    (is_ok (detail r) \<longleftrightarrow> described_bytes r \<le> MAX_JOB_METADATA_BYTES) \<and>
    (job_status r = Dead \<longrightarrow> \<not> is_blank (job_id r) \<longrightarrow> CHR 0x00 \<notin> set (job_id r) \<longrightarrow> q_clock q \<le> now \<longrightarrow>
      (is_ok (retry_dead_job now (job_id r) (q_rows q)) \<longleftrightarrow> described_bytes r \<le> MAX_JOB_METADATA_BYTES))"
proof -
  have q: "queue_ok q" using assms(1) by (rule reachable_ok)
  with assms(2) have ok: "row_ok r" by (auto simp: queue_ok_def)
  then have s: "submitted_bytes r \<le> MAX_JOB_METADATA_BYTES" by (simp add: row_ok_def row_core_def row_bounds_def)
  with assms(3) have b: "described_bytes r < 2 ^ 64" by (simp add: described_bytes_def MAX_JOB_METADATA_BYTES_def)
  have "is_ok (list_item r) \<longleftrightarrow> described_bytes r \<le> MAX_JOB_METADATA_BYTES"
    using list_item_eq [OF ok b] by (simp add: is_ok_def)
  with s detail_ok_iff [OF ok b] retry_ok_iff [OF q _ assms(2) _ _ _ b] show ?thesis by blast
qed

section \<open>Following the cursors\<close>

text \<open>A client that follows \<open>next_cursor\<close> until there is none, with fuel for the number of pages.\<close>

fun follow_pages ::
    "cursor_deps \<Rightarrow> JobFilter \<Rightarrow> JobState option \<Rightarrow> 32 word \<Rightarrow> job_table \<Rightarrow> nat \<Rightarrow> string \<Rightarrow> JobListItem list option" where
  "follow_pages deps f status n t 0 cursor = None"
| "follow_pages deps f status n t (Suc k) cursor =
    (case list_jobs deps f status n cursor t of
       Inl _ \<Rightarrow> None
     | Inr page \<Rightarrow>
        (case jp_next_cursor page of
           None \<Rightarrow> Some (jp_jobs page)
         | Some c \<Rightarrow> map_option (\<lambda>rest. jp_jobs page @ rest) (follow_pages deps f status n t k c)))"

text \<open>What the cursor relies on of its encodings: they are inverted by their decoders.\<close>

definition cursor_codec :: "cursor_deps \<Rightarrow> bool" where
  "cursor_codec deps \<longleftrightarrow>
    (\<forall>c. cd_decode deps (cd_encode deps c) = Some c \<and> cd_encode deps c \<noteq> []) \<and>
    (\<forall>t. cd_parse_rfc3339 deps (cd_to_rfc3339 deps t) = Some t) \<and> (\<forall>t. cd_bind_time deps (t * 1000) = t)"

definition listing :: "cursor_deps \<Rightarrow> JobFilter \<Rightarrow> JobState option \<Rightarrow> job_table \<Rightarrow> job_table" where
  "listing deps f status t = rev (sort_key page_key (filter (matching deps f status) t))"

definition after_cursor :: "cursor_deps \<Rightarrow> (int \<times> string) option \<Rightarrow> job_row \<Rightarrow> bool" where
  "after_cursor deps c r = (case c of None \<Rightarrow> True | Some (at, i) \<Rightarrow> page_key r < (cd_bind_time deps at, i))"

definition listable :: "cursor_deps \<Rightarrow> JobFilter \<Rightarrow> JobState option \<Rightarrow> job_table \<Rightarrow> bool" where
  "listable deps f status t \<longleftrightarrow> JobFilter_validate f = Inr () \<and> bind_text (filter_texts f) = Inr () \<and>
    distinct (map job_id t) \<and> (\<forall>r\<in>set t. job_id r \<noteq> [] \<and> CHR 0x00 \<notin> set (job_id r) \<and> list_item r = Inr (row_item r))"

lemma try_map_map: "(\<And>x. x \<in> set xs \<Longrightarrow> f x = Inr (g x)) \<Longrightarrow> try_map f xs = Inr (map g xs)"
  by (induction xs) auto

lemma listing_after:
  "rev (sort_key page_key (filter (\<lambda>r. matching deps f status r \<and> p r) t)) = filter p (listing deps f status t)"
proof -
  have "filter (\<lambda>r. matching deps f status r \<and> p r) t = filter p (filter (matching deps f status) t)"
    by (simp add: conj_commute)
  then show ?thesis by (simp only: listing_def filter_sort [symmetric] rev_filter)
qed

lemma listing_sorted:
  assumes "distinct (map job_id t)"
  shows "sorted_wrt (\<lambda>a b. page_key b < page_key a) (listing deps f status t)"
proof -
  let ?s = "sort_key page_key (filter (matching deps f status) t)"
  have "distinct (map page_key (filter (matching deps f status) t))"
    using assms by (auto simp: distinct_map page_key_def inj_on_def)
  then have "distinct (map page_key ?s)" by (simp add: distinct_map)
  then have "sorted_wrt (<) (map page_key ?s)" by (simp add: strict_sorted_iff)
  then show ?thesis by (simp add: listing_def sorted_wrt_map sorted_wrt_rev)
qed

lemma list_jobs_eq:
  assumes "listable deps f status t" "effective_page_size sz = Inr n" "decode_cursor deps cursor f status = Inr c"
    and "\<forall>i at. c = Some (at, i) \<longrightarrow> CHR 0x00 \<notin> set i"
    and "filter (after_cursor deps c) (listing deps f status t) = rows" "0 < n"
  shows "list_jobs deps f status sz cursor t = Inr \<lparr>jp_jobs = map row_item (take n rows),
    jp_next_cursor = (if length rows > n then Some (encode_cursor deps (row_item (rows ! (n - 1))) f status) else None)\<rparr>"
proof -
  have sub: "set rows \<subseteq> set t" using assms(5) by (auto simp: listing_def)
  have items: "try_map list_item (take n rows) = Inr (map row_item (take n rows))"
    using assms(1) sub by (intro try_map_map) (auto simp: listable_def dest!: in_set_takeD)
  have bind: "bind_text (filter_texts f @ (case c of None \<Rightarrow> [] | Some (_, i) \<Rightarrow> [i])) = Inr ()"
    using assms(1,4) by (auto simp: listable_def bind_text_def split: if_splits option.splits)
  have rows: "rev (sort_key page_key (filter (\<lambda>r. matching deps f status r \<and>
      (case c of None \<Rightarrow> True | Some (at, i) \<Rightarrow> page_key r < (cd_bind_time deps at, i))) t)) = rows"
    using listing_after [of deps f status "after_cursor deps c" t] assms(5) by (simp add: after_cursor_def)
  have "last (map row_item (take n rows)) = row_item (rows ! (n - 1))" if "n < length rows"
    using that assms(6) by (subst last_conv_nth) (auto simp: min_def)
  moreover have "JobFilter_validate f = Inr ()" using assms(1) by (simp add: listable_def)
  moreover have "take n (take (n + 1) rows) = take n rows" "length (take (n + 1) rows) > n \<longleftrightarrow> length rows > n"
    by (auto simp: min_def)
  ultimately show ?thesis
    unfolding list_jobs_def assms(2,3) and_then_simps
    by (simp add: bind map_err_def Let_def rows items del: take_take length_take map_is_Nil_conv) (use assms(6) in auto)
qed

lemma decode_encode_cursor:
  assumes "cursor_codec deps" "job_id r \<noteq> []"
  shows "decode_cursor deps (encode_cursor deps (row_item r) f status) f status =
    Inr (Some (created_at r * 1000, job_id r))"
  using assms by (simp add: decode_cursor_def encode_cursor_def cursor_codec_def row_item_def ok_or_def)

lemma filter_after_nth:
  assumes "sorted_wrt (\<lambda>a b. page_key b < page_key a) xs" "i < length xs"
  shows "filter (\<lambda>r. page_key r < page_key (xs ! i)) xs = drop (Suc i) xs"
proof -
  have s: "xs = take (Suc i) xs @ drop (Suc i) xs" by simp
  have "\<not> page_key x < page_key (xs ! i)" if "x \<in> set (take (Suc i) xs)" for x
  proof -
    from that obtain j where "j \<le> i" "x = xs ! j" using assms(2) by (force simp: in_set_conv_nth less_Suc_eq_le)
    with assms show ?thesis by (cases "j = i") (auto dest: sorted_wrt_nth_less [of _ xs j i])
  qed
  moreover have "page_key x < page_key (xs ! i)" if "x \<in> set (drop (Suc i) xs)" for x
  proof -
    from that obtain k where "k < length xs - Suc i" "x = xs ! (Suc i + k)"
      using assms(2) by (force simp: in_set_conv_nth)
    with assms show ?thesis by (auto dest: sorted_wrt_nth_less [of _ xs i "Suc i + k"])
  qed
  ultimately have "filter (\<lambda>r. page_key r < page_key (xs ! i)) (take (Suc i) xs) = []"
    "filter (\<lambda>r. page_key r < page_key (xs ! i)) (drop (Suc i) xs) = drop (Suc i) xs"
    by (simp_all add: filter_empty_conv filter_id_conv)
  then show ?thesis by (metis s filter_append append_Nil)
qed

lemma follow_pages_suffix:
  assumes "cursor_codec deps" "listable deps f status t" "effective_page_size sz = Inr n" "0 < n"
    and "decode_cursor deps cursor f status = Inr c" "\<forall>i at. c = Some (at, i) \<longrightarrow> CHR 0x00 \<notin> set i"
    and "filter (after_cursor deps c) (listing deps f status t) = drop m (listing deps f status t)"
    and "length (listing deps f status t) < m + k" "m \<le> length (listing deps f status t)"
  shows "follow_pages deps f status sz t k cursor = Some (map row_item (drop m (listing deps f status t)))"
  using assms(5-9)
proof (induction k arbitrary: cursor c m)
  case 0
  then show ?case by simp
next
  case (Suc k)
  let ?L = "listing deps f status t" and ?rows = "drop m (listing deps f status t)"
  have page: "list_jobs deps f status sz cursor t = Inr \<lparr>jp_jobs = map row_item (take n ?rows),
      jp_next_cursor = (if length ?rows > n then Some (encode_cursor deps (row_item (?rows ! (n - 1))) f status) else None)\<rparr>"
    using list_jobs_eq [OF assms(2,3) Suc.prems(1-3) assms(4)] .
  show ?case
  proof (cases "length ?rows > n")
    case True
    let ?r = "?L ! (m + n - 1)"
    have r: "?rows ! (n - 1) = ?r" "m + n - 1 < length ?L" using True assms(4) by (simp_all add: nth_drop)
    then have "?r \<in> set t" using nth_mem [of "m + n - 1" ?L] by (auto simp: listing_def)
    with assms(2) have ri: "job_id ?r \<noteq> []" "CHR 0x00 \<notin> set (job_id ?r)" and d: "distinct (map job_id t)"
      by (auto simp: listable_def)
    have "cd_bind_time deps (created_at ?r * 1000) = created_at ?r" using assms(1) by (simp add: cursor_codec_def)
    then have "after_cursor deps (Some (created_at ?r * 1000, job_id ?r)) = (\<lambda>x. page_key x < page_key ?r)"
      by (simp add: after_cursor_def page_key_def fun_eq_iff)
    then have next_rows: "filter (after_cursor deps (Some (created_at ?r * 1000, job_id ?r))) ?L = drop (m + n) ?L"
      using filter_after_nth [OF listing_sorted [OF d] r(2)] assms(4) by simp
    have "follow_pages deps f status sz t k (encode_cursor deps (row_item ?r) f status) = Some (map row_item (drop (m + n) ?L))"
      by (rule Suc.IH [OF decode_encode_cursor [OF assms(1) ri(1)] _ next_rows]) (use ri(2) Suc.prems(4) assms(4) True in auto)
    with True page r(1) show ?thesis
      by (simp add: map_append [symmetric] add.commute [of m n] flip: drop_drop del: map_append)
  next
    case False
    with page show ?thesis by simp
  qed
qed

text \<open>
  C26. Following the cursors of \<open>list_jobs\<close> from the first page ends and yields the matching rows of the
  table, each exactly once and newest first, for every admissible page size.
\<close>

theorem pages_complete:
  assumes "cursor_codec deps" "listable deps f status t" "effective_page_size sz = Inr n" "length t < k"
  shows "follow_pages deps f status sz t k [] = Some (map row_item (listing deps f status t)) \<and>
    distinct (listing deps f status t) \<and> set (listing deps f status t) = {r \<in> set t. matching deps f status r} \<and>
    sorted_wrt (\<lambda>a b. page_key b < page_key a) (listing deps f status t)"
proof -
  have "0 < n" using assms(3) by (auto simp: effective_page_size_def Let_def word_le_nat_alt split: if_splits)
  moreover have "length (listing deps f status t) < 0 + k"
    using le_less_trans [OF length_filter_le assms(4)] by (simp add: listing_def)
  ultimately have "follow_pages deps f status sz t k [] = Some (map row_item (drop 0 (listing deps f status t)))"
    by (intro follow_pages_suffix [OF assms(1-3), where c = None]) (simp_all add: decode_cursor_def after_cursor_def)
  moreover have "sorted_wrt (\<lambda>a b. page_key b < page_key a) (listing deps f status t)"
    using assms(2) by (intro listing_sorted) (simp add: listable_def)
  moreover have "distinct (listing deps f status t)"
    using assms(2) by (auto simp: listing_def listable_def distinct_map)
  ultimately show ?thesis by (auto simp: listing_def)
qed

section \<open>Witnesses\<close>

theorem job_readable_witness:
  "queue_run empty_queue sample_claimed \<and> is_ok (list_item (claim_row 9 ''e1'' ''c1'' sample_row)) \<and>
    is_ok (detail (claim_row 9 ''e1'' ''c1'' sample_row))"
proof -
  let ?r = "claim_row 9 ''e1'' ''c1'' sample_row"
  have "?r \<in> set (q_rows sample_claimed)" "length (job_id ?r) < 2 ^ 32" "described_bytes ?r \<le> MAX_JOB_METADATA_BYTES"
    by (simp_all add: sample_claimed_def claim_row_def sample_row_def described_bytes_def submitted_bytes_def limit_defs)
  then show ?thesis using job_readable [OF sample_claimed_run, of ?r] sample_claimed_run by blast
qed

text \<open>An encoding of cursors by unary length prefixes, and of times by unary numbers.\<close>

definition sized :: "string \<Rightarrow> string" where
  "sized s = replicate (length s) CHR ''1'' @ CHR ''0'' # s"

definition unsized :: "string \<Rightarrow> string \<times> string" where
  "unsized s = (let n = length (takeWhile (\<lambda>c. c = CHR ''1'') s); r = drop (Suc n) s in (take n r, drop n r))"

definition sample_encode :: "CursorV1 \<Rightarrow> string" where
  "sample_encode c = sized (replicate (cv_v c) CHR ''v'') @ sized (cv_created_at c) @ sized (cv_job_id c) @ sized (cv_filter c)"

definition sample_decode :: "string \<Rightarrow> CursorV1 option" where
  "sample_decode s = (let (v, s1) = unsized s; (a, s2) = unsized s1; (i, s3) = unsized s2; (f, _) = unsized s3
    in Some \<lparr>cv_v = length v, cv_created_at = a, cv_job_id = i, cv_filter = f\<rparr>)"

definition sample_time :: "int \<Rightarrow> string" where
  "sample_time t = (if t < 0 then CHR ''-'' else CHR ''+'') # replicate (nat (abs t)) CHR ''x''"

definition sample_parse_time :: "string \<Rightarrow> int option" where
  "sample_parse_time s = (case s of [] \<Rightarrow> None
    | c # r \<Rightarrow> Some (if c = CHR ''-'' then - int (length r) else int (length r)))"

definition sample_cursor_deps :: cursor_deps where
  "sample_cursor_deps = \<lparr>cd_encode = sample_encode, cd_decode = sample_decode, cd_to_rfc3339 = sample_time,
    cd_parse_rfc3339 = sample_parse_time, cd_sha256 = take 32, cd_bind_time = (\<lambda>t. t div 1000)\<rparr>"

lemma unsized_sized: "unsized (sized s @ r) = (s, r)"
proof -
  have "takeWhile (\<lambda>c. c = CHR ''1'') (sized s @ r) = replicate (length s) CHR ''1''"
    unfolding sized_def by (induction "length s" arbitrary: s) (simp_all add: takeWhile_append)
  then show ?thesis by (simp add: unsized_def sized_def)
qed

lemma sample_codec: "cursor_codec sample_cursor_deps"
proof -
  have "sample_decode (sample_encode c) = Some c" for c
    using unsized_sized [of "cv_filter c" "[]"] by (simp add: sample_decode_def sample_encode_def unsized_sized)
  then show ?thesis
    by (simp add: cursor_codec_def sample_cursor_deps_def sample_encode_def sized_def sample_time_def sample_parse_time_def)
qed

definition any_filter :: JobFilter where
  "any_filter = \<lparr>jf_worker_namespace = None, jf_worker_name = None, jf_worker_version = None, jf_job_type = None,
    jf_source_namespace = None, jf_source_module = None, jf_created_at_from = None, jf_created_at_before = None\<rparr>"

definition sample_jobs :: job_table where
  "sample_jobs = [sample_row, sample_row\<lparr>job_id := ''j2'', created_at := 7, updated_at := 7\<rparr>]"

theorem pages_complete_witness:
  "follow_pages sample_cursor_deps any_filter (Some Pending) 1 sample_jobs 3 [] =
    Some (map row_item [sample_row\<lparr>job_id := ''j2'', created_at := 7, updated_at := 7\<rparr>, sample_row])"
proof -
  have "listable sample_cursor_deps any_filter (Some Pending) sample_jobs"
    by (simp add: listable_def any_filter_def JobFilter_validate_def bind_text_def filter_texts_def sample_jobs_def
        sample_row_def list_item_def checked_counts_def u32_try_from_def positive_u32_def AttemptCount_validate_def
        metadata_bytes_def limit_defs map_err_def row_item_def JobState_try_from_def)
  moreover have "effective_page_size 1 = Inr 1" by (simp add: effective_page_size_def MAX_PAGE_SIZE_def)
  moreover have "listing sample_cursor_deps any_filter (Some Pending) sample_jobs =
      [sample_row\<lparr>job_id := ''j2'', created_at := 7, updated_at := 7\<rparr>, sample_row]"
    by (simp add: listing_def sample_jobs_def matching_def filter_predicates_def text_filter_def any_filter_def
        sample_row_def page_key_def)
  ultimately show ?thesis
    using pages_complete [OF sample_codec, of any_filter "Some Pending" sample_jobs 1 1 3]
    by (simp add: sample_jobs_def)
qed

end
