(* ===== verification/Job_Api.thy ===== *)
theory Job_Api
  imports Job_Lifecycle Leaf_Identity Snapshot Naming Http_Headers
begin

text \<open>
  The two interfaces to the job queue: submission and status over HTTP (\<open>wr-engine/src/worker_http.rs\<close>),
  and the administration service for managers (\<open>wr-engine/src/job_admin.rs\<close>), which composes the
  certificate identity, the policy snapshot and the queue operations.

  Message bodies are the values that are encoded; decoders, header text, version parsing and printing
  and the texts of database errors belong to libraries and are fields of \<open>worker_deps\<close>.
\<close>

section \<open>Worker HTTP\<close>

definition SUBMIT_JOB_PATH :: string where "SUBMIT_JOB_PATH = ''/wruntime.WorkerService/SubmitJob''"
definition GET_JOB_STATUS_PATH :: string where "GET_JOB_STATUS_PATH = ''/wruntime.WorkerService/GetJobStatus''"

definition canonical_worker_path :: "string \<Rightarrow> string option" where
  "canonical_worker_path path =
    (if path = SUBMIT_JOB_PATH then Some SUBMIT_JOB_PATH
     else if path = GET_JOB_STATUS_PATH then Some GET_JOB_STATUS_PATH
     else None)"

record WorkerPolicy =
  wp_max_attempts :: "32 word"
  wp_timeout_secs :: "32 word"

datatype ModuleMode = Service_Mode | Worker_Mode

record ModuleConfig =
  mc_namespace :: string
  mc_name :: string
  mc_version :: string
  mc_mode :: ModuleMode
  mc_worker_max_attempts :: "32 word"
  mc_worker_job_timeout_secs :: "64 word"

type_synonym 'v WorkerDefaults = "('v ModuleId \<times> WorkerPolicy) list"

definition u32_saturate :: "64 word \<Rightarrow> 32 word" where
  "u32_saturate n = (if unat n < 2 ^ 32 then of_nat (unat n) else - 1)"

definition module_defaults ::
    "(string \<Rightarrow> 'v option) \<Rightarrow> ModuleConfig \<Rightarrow> 'v WorkerDefaults \<Rightarrow> identity_error + 'v WorkerDefaults" where
  "module_defaults version_parse module policies =
    (if mc_mode module = Worker_Mode then
       and_then (ModuleId_parse version_parse (mc_namespace module) (mc_name module) (mc_version module)) (\<lambda>mid.
       Inr (alist_put mid \<lparr>wp_max_attempts = mc_worker_max_attempts module,
         wp_timeout_secs = u32_saturate (mc_worker_job_timeout_secs module)\<rparr> policies))
     else Inr policies)"

definition WorkerDefaults_from_modules ::
    "(string \<Rightarrow> 'v option) \<Rightarrow> ModuleConfig list \<Rightarrow> identity_error + 'v WorkerDefaults" where
  "WorkerDefaults_from_modules version_parse modules = try_fold (module_defaults version_parse) modules []"

definition fallback_policy :: WorkerPolicy where
  "fallback_policy = \<lparr>wp_max_attempts = 3, wp_timeout_secs = 300\<rparr>"

definition policy_for :: "'v WorkerDefaults \<Rightarrow> 'v ModuleId \<Rightarrow> WorkerPolicy" where
  "policy_for defaults mid = (case map_of defaults mid of None \<Rightarrow> fallback_policy | Some p \<Rightarrow> p)"

record SubmitJobRequest =
  sj_worker_namespace :: string
  sj_worker_name :: string
  sj_worker_version :: string
  sj_job_type :: string
  sj_payload :: string
  sj_timeout_secs :: "32 word"
  sj_max_attempts :: "32 word"

record GetJobStatusResponse =
  gs_job_id :: string
  gs_status :: int
  gs_result :: string
  gs_error_message :: string
  gs_attempt :: nat
  gs_max_attempts :: nat

datatype worker_body = Error_Body string | Submit_Body string | Status_Body GetJobStatusResponse

record worker_response =
  wr_status :: nat
  wr_content_type :: string
  wr_body :: worker_body

definition worker_error :: "nat \<Rightarrow> string \<Rightarrow> worker_response" where
  "worker_error status message =
    \<lparr>wr_status = status, wr_content_type = ''application/json'', wr_body = Error_Body message\<rparr>"

definition proto_response :: "worker_body \<Rightarrow> worker_response" where
  "proto_response b = \<lparr>wr_status = 200, wr_content_type = ''application/x-protobuf'', wr_body = b\<rparr>"

record 'v worker_deps =
  wd_to_str :: "string \<Rightarrow> string option"
  wd_version_parse :: "string \<Rightarrow> 'v option"
  wd_version_str :: "'v \<Rightarrow> string"
  wd_decode_submit :: "string \<Rightarrow> string + SubmitJobRequest"
  wd_decode_status :: "string \<Rightarrow> string + string"
  wd_error_text :: "job_error \<Rightarrow> string"

definition wire_state :: "JobState \<Rightarrow> int" where
  "wire_state s = (case s of Pending \<Rightarrow> 1 | Running \<Rightarrow> 2 | Complete \<Rightarrow> 3 | Dead \<Rightarrow> 4)"

definition handle_submit_job ::
    "'v worker_deps \<Rightarrow> int \<Rightarrow> string \<Rightarrow> 'v WorkerDefaults \<Rightarrow> string option \<Rightarrow> string option \<Rightarrow> string option \<Rightarrow> string \<Rightarrow>
      job_table \<Rightarrow> worker_response \<times> job_table" where
  "handle_submit_job deps now uuid defaults routed_namespace routed_module routed_version body t =
    (case wd_decode_submit deps body of
       Inl e \<Rightarrow> (worker_error 400 (''decode: '' @ e), t)
     | Inr request \<Rightarrow>
      (case (routed_namespace, routed_module) of
         (Some namespace, Some module) \<Rightarrow>
          if sj_worker_namespace request \<noteq> namespace \<or> sj_worker_name request \<noteq> module
          then (worker_error 400 ''SubmitJobRequest worker identity does not match routed destination'', t)
          else if sj_worker_version request \<noteq> [] \<and>
            (case routed_version of None \<Rightarrow> False | Some v \<Rightarrow> v \<noteq> sj_worker_version request)
          then (worker_error 400 ''x-wr-version does not match SubmitJobRequest.worker_version'', t)
          else
           let defaults_version = (if sj_worker_version request = [] then or_default routed_version
                 else sj_worker_version request);
               policy = (case ModuleId_parse (wd_version_parse deps) (sj_worker_namespace request)
                   (sj_worker_name request) defaults_version of
                 Inr mid \<Rightarrow> policy_for defaults mid | Inl _ \<Rightarrow> fallback_policy);
               attempts = (if sj_max_attempts request > 0 then sj_max_attempts request else wp_max_attempts policy);
               timeout = (if sj_timeout_secs request > 0 then sj_timeout_secs request else wp_timeout_secs policy)
           in (case insert_job now uuid (sj_worker_namespace request) (sj_worker_name request)
                 (sj_worker_version request) (sj_job_type request) (sj_payload request) timeout attempts [] [] t of
               Inr (job, t') \<Rightarrow> (proto_response (Submit_Body job), t')
             | Inl e \<Rightarrow> (worker_error 500 (''insert: '' @ wd_error_text deps e), t))
       | _ \<Rightarrow> (worker_error 400 ''missing routed worker identity headers'', t)))"

definition handle_get_job_status :: "'v worker_deps \<Rightarrow> string \<Rightarrow> job_table \<Rightarrow> worker_response" where
  "handle_get_job_status deps body t =
    (case wd_decode_status deps body of
       Inl e \<Rightarrow> worker_error 400 (''decode: '' @ e)
     | Inr i \<Rightarrow>
      (case get_job_status i t of
         Inr (Some s) \<Rightarrow> proto_response (Status_Body \<lparr>gs_job_id = js_job_id s, gs_status = wire_state (js_status s),
           gs_result = js_result s, gs_error_message = js_error_message s, gs_attempt = js_attempt s,
           gs_max_attempts = js_max_attempts s\<rparr>)
       | Inr None \<Rightarrow> worker_error 404 ''job not found''
       | Inl e \<Rightarrow> worker_error 500 (''query: '' @ wd_error_text deps e)))"

definition handle_worker_grpc_bytes ::
    "'v worker_deps \<Rightarrow> int \<Rightarrow> string \<Rightarrow> 'v WorkerDefaults \<Rightarrow> string option \<Rightarrow> string option \<Rightarrow> string option \<Rightarrow>
      string \<Rightarrow> string \<Rightarrow> job_table option \<Rightarrow> worker_response \<times> job_table option" where
  "handle_worker_grpc_bytes deps now uuid defaults routed_namespace routed_module routed_version path body pool =
    (case canonical_worker_path path of
       None \<Rightarrow> (worker_error 404 ''unknown worker endpoint'', pool)
     | Some p \<Rightarrow>
      (case pool of
         None \<Rightarrow> (worker_error 503 ''no database configured'', None)
       | Some t \<Rightarrow>
          if p = SUBMIT_JOB_PATH
          then (case handle_submit_job deps now uuid defaults routed_namespace routed_module routed_version body t of
            (r, t') \<Rightarrow> (r, Some t'))
          else (handle_get_job_status deps body t, Some t)))"

definition routed_identity :: "'v worker_deps \<Rightarrow> HeaderMap \<Rightarrow> 'v ModuleId option" where
  "routed_identity deps headers =
    (let text = (\<lambda>name. Option.bind (hdr_get headers name) (wd_to_str deps)) in
     case (text WR_NAMESPACE, text WR_MODULE, text WR_VERSION) of
       (Some namespace, Some module, Some version) \<Rightarrow>
        (case ModuleId_parse (wd_version_parse deps) namespace module version of Inr mid \<Rightarrow> Some mid | Inl _ \<Rightarrow> None)
     | _ \<Rightarrow> None)"

text \<open>A request body is the collected bytes, or \<open>None\<close> if reading it fails.\<close>

definition handle_worker_http_request ::
    "'v worker_deps \<Rightarrow> int \<Rightarrow> string \<Rightarrow> 'v WorkerDefaults \<Rightarrow> HeaderMap \<Rightarrow> string \<Rightarrow> string option \<Rightarrow> job_table option \<Rightarrow>
      worker_response \<times> job_table option" where
  "handle_worker_http_request deps now uuid defaults headers path body pool =
    (let routed = routed_identity deps headers in
     case body of
       Some bytes \<Rightarrow>
        if length bytes > MAX_JOB_SUBMIT_MESSAGE_BYTES
        then (worker_error 413 ''worker request body is malformed or exceeds the configured job limit'', pool)
        else handle_worker_grpc_bytes deps now uuid defaults (map_option (rk_namespace \<circ> mi_route) routed)
          (map_option (rk_module \<circ> mi_route) routed) (map_option (wd_version_str deps \<circ> mi_version) routed) path bytes pool
     | None \<Rightarrow> (worker_error 413 ''worker request body is malformed or exceeds the configured job limit'', pool))"

section \<open>The administration service\<close>

datatype grpc_status =
    Permission_Denied string | Invalid_Argument string | Unavailable string | Not_Found string
  | Failed_Precondition string | Internal string

record admin_api =
  aa_queue_id :: string
  aa_ready :: bool
  aa_open :: bool
  aa_policy :: SnapshotConsumerState
  aa_table :: job_table

definition authorize_manager :: "tls_deps \<Rightarrow> nat \<Rightarrow> nat \<Rightarrow> string list option \<Rightarrow> admin_api \<Rightarrow> (grpc_status + unit) \<times> admin_api" where
  "authorize_manager tls now now' peer_certs api =
    (case Option.bind peer_certs (\<lambda>cs. case cs of [] \<Rightarrow> None | c # _ \<Rightarrow> Some c) of
       None \<Rightarrow> (Inl (Permission_Denied ''authenticated manager certificate is required''), api)
     | Some cert \<Rightarrow>
      (case parse_leaf_evidence tls cert Client_Leaf None of
         Inl _ \<Rightarrow> (Inl (Permission_Denied ''invalid manager client identity''), api)
       | Inr evidence \<Rightarrow>
        (case le_principal evidence of
           None \<Rightarrow> (Inl (Permission_Denied ''manager principal is required''), api)
         | Some p \<Rightarrow>
            if uri_kind p \<noteq> Manager then (Inl (Permission_Denied ''caller is not a manager workload''), api)
            else
             let api' = api\<lparr>aa_policy := expire now (aa_policy api)\<rparr> in
             if \<not> is_fresh (aa_policy api') now' \<or>
               \<not> (case retained (aa_policy api') of None \<Rightarrow> False
                  | Some s \<Rightarrow> ws_cluster_id (is_wire s) = uri_cluster_id p \<and> admits s (uri_value p) (le_fingerprint evidence))
             then (Inl (Permission_Denied ''manager is not enrolled in a fresh engine policy snapshot''), api')
             else (Inr (), api'))))"

definition require_queue :: "string \<Rightarrow> admin_api \<Rightarrow> grpc_status + unit" where
  "require_queue queue_id api =
    (if queue_id \<noteq> aa_queue_id api
     then Inl (Invalid_Argument (''job_queue_id does not match this engine'' @ [CHR 0x27] @ ''s configured queue''))
     else if \<not> aa_ready api then Inl (Unavailable ''job queue migrations are not complete'')
     else if \<not> aa_open api then Inl (Unavailable ''job administration is stopping'')
     else Inr ())"

definition domain_state :: "int \<Rightarrow> grpc_status + JobState" where
  "domain_state v =
    (if v = 1 then Inr Pending else if v = 2 then Inr Running else if v = 3 then Inr Complete
     else if v = 4 then Inr Dead else Inl (Invalid_Argument ''unsupported job status''))"

text \<open>\<open>in_range\<close> is the range of times the date library represents.\<close>

definition from_timestamp :: "(int \<Rightarrow> bool) \<Rightarrow> Timestamp \<Rightarrow> string \<Rightarrow> grpc_status + int" where
  "from_timestamp in_range v field =
    (if 0 \<le> ts_nanos v \<and> ts_nanos v < 1000000000 then
       (if in_range (ts_seconds v) then Inr (ts_seconds v * 1000000000 + ts_nanos v)
        else Inl (Invalid_Argument (field @ '' is out of range'')))
     else Inl (Invalid_Argument (field @ '' is malformed'')))"

definition to_timestamp :: "int \<Rightarrow> Timestamp" where
  "to_timestamp micros = \<lparr>ts_seconds = micros div SECOND, ts_nanos = (micros mod SECOND) * 1000\<rparr>"

record wire_filter =
  wf_worker_namespace :: string
  wf_worker_name :: string
  wf_worker_version :: string
  wf_job_type :: string
  wf_source_namespace :: string
  wf_source_module :: string
  wf_created_at_from :: "Timestamp option"
  wf_created_at_before :: "Timestamp option"

definition nonempty :: "string \<Rightarrow> string option" where
  "nonempty v = (if v \<noteq> [] then Some v else None)"

definition transpose_opt :: "('a \<Rightarrow> 'e + 'b) \<Rightarrow> 'a option \<Rightarrow> 'e + 'b option" where
  "transpose_opt f x = (case x of None \<Rightarrow> Inr None | Some v \<Rightarrow> and_then (f v) (\<lambda>y. Inr (Some y)))"

definition default_filter :: wire_filter where
  "default_filter = \<lparr>wf_worker_namespace = [], wf_worker_name = [], wf_worker_version = [], wf_job_type = [],
    wf_source_namespace = [], wf_source_module = [], wf_created_at_from = None, wf_created_at_before = None\<rparr>"

definition convert_filter :: "(int \<Rightarrow> bool) \<Rightarrow> wire_filter option \<Rightarrow> grpc_status + JobFilter" where
  "convert_filter in_range wire =
    (let f = (case wire of None \<Rightarrow> default_filter | Some f \<Rightarrow> f) in
     and_then (transpose_opt (\<lambda>v. from_timestamp in_range v ''created_at_from'') (wf_created_at_from f)) (\<lambda>from.
     and_then (transpose_opt (\<lambda>v. from_timestamp in_range v ''created_at_before'') (wf_created_at_before f)) (\<lambda>before.
     Inr \<lparr>jf_worker_namespace = nonempty (wf_worker_namespace f), jf_worker_name = nonempty (wf_worker_name f),
       jf_worker_version = nonempty (wf_worker_version f), jf_job_type = nonempty (wf_job_type f),
       jf_source_namespace = nonempty (wf_source_namespace f), jf_source_module = nonempty (wf_source_module f),
       jf_created_at_from = from, jf_created_at_before = before\<rparr>)))"

definition map_error :: "JobAdminError \<Rightarrow> grpc_status" where
  "map_error e = (case e of
      Invalid m \<Rightarrow> Invalid_Argument m
    | NotFound \<Rightarrow> Not_Found ''job not found''
    | FailedPrecondition m \<Rightarrow> Failed_Precondition m
    | Database _ \<Rightarrow> Internal ''job queue database operation failed'')"

record JobSummary =
  jm_job_id :: string
  jm_worker_namespace :: string
  jm_worker_name :: string
  jm_worker_version :: string
  jm_job_type :: string
  jm_status :: int
  jm_attempt :: nat
  jm_max_attempts :: nat
  jm_source_namespace :: string
  jm_source_module :: string
  jm_created_at :: Timestamp
  jm_updated_at :: Timestamp

definition job_summary :: "JobListItem \<Rightarrow> JobSummary" where
  "job_summary v = \<lparr>jm_job_id = li_job_id v, jm_worker_namespace = li_worker_namespace v,
    jm_worker_name = li_worker_name v, jm_worker_version = li_worker_version v, jm_job_type = li_job_type v,
    jm_status = wire_state (li_status v), jm_attempt = li_attempt v, jm_max_attempts = li_max_attempts v,
    jm_source_namespace = li_source_namespace v, jm_source_module = li_source_module v,
    jm_created_at = to_timestamp (li_created_at v), jm_updated_at = to_timestamp (li_updated_at v)\<rparr>"

record wire_detail =
  wj_summary :: JobSummary
  wj_payload :: string
  wj_result :: string
  wj_last_error :: string
  wj_timeout_secs :: nat
  wj_claimed_at :: "Timestamp option"
  wj_lease_expires_at :: "Timestamp option"
  wj_completed_at :: "Timestamp option"
  wj_claimed_by :: string

text \<open>The wire detail repeats the fields of the summary; here it contains the summary.\<close>

definition job_detail :: "JobDetail \<Rightarrow> wire_detail" where
  "job_detail v = \<lparr>wj_summary = job_summary (jd_summary v), wj_payload = jd_payload v, wj_result = jd_result v,
    wj_last_error = jd_last_error v, wj_timeout_secs = jd_timeout v,
    wj_claimed_at = map_option to_timestamp (jd_claimed_at v),
    wj_lease_expires_at = map_option to_timestamp (jd_lease_expires_at v),
    wj_completed_at = map_option to_timestamp (jd_completed_at v), wj_claimed_by = jd_claimed_by v\<rparr>"

text \<open>
  The handlers. Each takes the peer's certificates and the clock readings of \<open>authorize_manager\<close>; the
  authorization comes first, then the queue, then the operation.
\<close>

record admin_env =
  ae_tls :: tls_deps
  ae_now :: nat
  ae_now' :: nat
  ae_db_now :: int
  ae_cursor :: cursor_deps
  ae_in_range :: "int \<Rightarrow> bool"

definition with_queue ::
    "admin_env \<Rightarrow> string list option \<Rightarrow> string \<Rightarrow> (admin_api \<Rightarrow> (grpc_status + 'r) \<times> admin_api) \<Rightarrow> admin_api \<Rightarrow>
      (grpc_status + 'r) \<times> admin_api" where
  "with_queue env certs queue_id f api =
    (case authorize_manager (ae_tls env) (ae_now env) (ae_now' env) certs api of
       (Inl s, api') \<Rightarrow> (Inl s, api')
     | (Inr _, api') \<Rightarrow> (case require_queue queue_id api' of Inl s \<Rightarrow> (Inl s, api') | Inr _ \<Rightarrow> f api'))"

definition check_job_queue :: "admin_env \<Rightarrow> string list option \<Rightarrow> string \<Rightarrow> admin_api \<Rightarrow> (grpc_status + bool) \<times> admin_api" where
  "check_job_queue env certs queue_id = with_queue env certs queue_id (\<lambda>api. (Inr True, api))"

definition list_jobs_call ::
    "admin_env \<Rightarrow> string list option \<Rightarrow> string \<Rightarrow> wire_filter option \<Rightarrow> int option \<Rightarrow> 32 word \<Rightarrow> string \<Rightarrow> admin_api \<Rightarrow>
      (grpc_status + JobSummary list \<times> string) \<times> admin_api" where
  "list_jobs_call env certs queue_id wire status page_size cursor = with_queue env certs queue_id (\<lambda>api.
    (and_then (convert_filter (ae_in_range env) wire) (\<lambda>f.
     and_then (transpose_opt domain_state status) (\<lambda>st.
     and_then (map_err map_error (list_jobs (ae_cursor env) f st page_size cursor (aa_table api))) (\<lambda>page.
     Inr (map job_summary (jp_jobs page), or_default (jp_next_cursor page))))), api))"

definition get_job_queue_summary ::
    "admin_env \<Rightarrow> string list option \<Rightarrow> string \<Rightarrow> wire_filter option \<Rightarrow> admin_api \<Rightarrow>
      (grpc_status + JobQueueSummary) \<times> admin_api" where
  "get_job_queue_summary env certs queue_id wire = with_queue env certs queue_id (\<lambda>api.
    (and_then (convert_filter (ae_in_range env) wire) (\<lambda>f.
     map_err map_error (summarize_jobs (ae_cursor env) (ae_db_now env) f (aa_table api))), api))"

definition get_job_call ::
    "admin_env \<Rightarrow> string list option \<Rightarrow> string \<Rightarrow> string \<Rightarrow> admin_api \<Rightarrow> (grpc_status + wire_detail) \<times> admin_api" where
  "get_job_call env certs queue_id i = with_queue env certs queue_id (\<lambda>api.
    (and_then (map_err map_error (get_job i (aa_table api))) (\<lambda>d. Inr (job_detail d)), api))"

definition retry_job ::
    "admin_env \<Rightarrow> string list option \<Rightarrow> string \<Rightarrow> string \<Rightarrow> admin_api \<Rightarrow> (grpc_status + wire_detail) \<times> admin_api" where
  "retry_job env certs queue_id i = with_queue env certs queue_id (\<lambda>api.
    (case retry_dead_job (ae_db_now env) i (aa_table api) of
       Inl e \<Rightarrow> (Inl (map_error e), api)
     | Inr (d, t, _) \<Rightarrow> (Inr (job_detail d), api\<lparr>aa_table := t\<rparr>)))"

section \<open>Only enrolled managers reach the queue\<close>

definition is_denied :: "grpc_status + 'r \<Rightarrow> bool" where
  "is_denied r = (case r of Inl (Permission_Denied _) \<Rightarrow> True | _ \<Rightarrow> False)"

lemma is_denied_simps [simp]: "is_denied (Inr x) = False" "is_denied (Inl s) = (\<exists>m. s = Permission_Denied m)"
  by (auto simp: is_denied_def split: grpc_status.splits)

text \<open>
  The caller presents a client certificate whose only name is that of a manager of the cluster, and the
  policy holds a snapshot that enrols this manager, does not revoke the certificate and is still fresh.
\<close>

definition manager_admitted :: "admin_env \<Rightarrow> string list option \<Rightarrow> SnapshotConsumerState \<Rightarrow> bool" where
  "manager_admitted env certs policy \<longleftrightarrow> (\<exists>cert rest x p s a u. certs = Some (cert # rest) \<and>
    td_from_der (ae_tls env) cert = Some ([], x) \<and> x_san x = Inr (Some [San_URI (uri_value p)]) \<and>
    PrincipalUri_parse (uri_value p) = Inr p \<and> uri_kind p = Manager \<and>
    policy = Fresh s a u \<and> ae_now env < u \<and> ae_now' env < u \<and> ws_cluster_id (is_wire s) = uri_cluster_id p \<and>
    admits s (uri_value p) (certificate_fingerprint_sha256 (ae_tls env) cert))"

lemma authorize_manager_cases:
  assumes "authorize_manager (ae_tls env) (ae_now env) (ae_now' env) certs api = (res, api')"
  shows "aa_table api' = aa_table api \<and> (res = Inr () \<and> manager_admitted env certs (aa_policy api) \<or> is_denied res)"
proof (cases "res = Inr ()")
  case False
  with assms show ?thesis
    by (auto simp: authorize_manager_def Let_def split: option.splits sum.splits if_splits)
next
  case True
  with assms obtain cert rest ev p where c: "certs = Some (cert # rest)"
      "parse_leaf_evidence (ae_tls env) cert Client_Leaf None = Inr ev" "le_principal ev = Some p" "uri_kind p = Manager"
    and t: "api' = api\<lparr>aa_policy := expire (ae_now env) (aa_policy api)\<rparr>"
    and f: "is_fresh (expire (ae_now env) (aa_policy api)) (ae_now' env)"
    and s: "case retained (expire (ae_now env) (aa_policy api)) of None \<Rightarrow> False
      | Some s \<Rightarrow> ws_cluster_id (is_wire s) = uri_cluster_id p \<and> admits s (uri_value p) (le_fingerprint ev)"
    by (auto simp: authorize_manager_def Let_def bind_eq_Some_conv split: option.splits sum.splits if_splits list.splits)
  obtain w a u where fresh: "aa_policy api = Fresh w a u" "ae_now env < u" "ae_now' env < u"
    using f by (cases "aa_policy api") (auto split: if_splits)
  from c(2) obtain x p' where x: "td_from_der (ae_tls env) cert = Some ([], x)"
      "x_san x = Inr (Some [San_URI (uri_value p')])" "PrincipalUri_parse (uri_value p') = Inr p'"
      "le_principal ev = Some p'" "le_fingerprint ev = certificate_fingerprint_sha256 (ae_tls env) cert"
    by (rule client_leaf_identity)
  with c(3) have "p' = p" by simp
  with x c fresh s True t show ?thesis by (auto simp: manager_admitted_def)
qed

text \<open>An operation that changes no job when it answers with a denial.\<close>

definition quiet :: "(admin_api \<Rightarrow> (grpc_status + 'r) \<times> admin_api) \<Rightarrow> bool" where
  "quiet f \<longleftrightarrow> (\<forall>a. is_denied (fst (f a)) \<longrightarrow> aa_table (snd (f a)) = aa_table a)"

lemma with_queue_guard:
  assumes "with_queue env certs queue_id f api = (res, api')" "quiet f"
  shows "is_denied res \<and> aa_table api' = aa_table api \<or> manager_admitted env certs (aa_policy api) \<and>
    (is_denied res \<longrightarrow> aa_table api' = aa_table api) \<and>
    (aa_table api' = aa_table api \<or>
     queue_id = aa_queue_id api \<and> aa_ready api \<and> aa_open api)"
proof -
  obtain r a where a: "authorize_manager (ae_tls env) (ae_now env) (ae_now' env) certs api = (r, a)" by fastforce
  have same: "aa_queue_id a = aa_queue_id api \<and> aa_ready a = aa_ready api \<and> aa_open a = aa_open api"
    using a by (auto simp: authorize_manager_def Let_def split: option.splits sum.splits if_splits)
  note auth = authorize_manager_cases [OF a]
  show ?thesis
  proof (cases r)
    case (Inl s)
    with a assms(1) auth show ?thesis by (auto simp: with_queue_def)
  next
    case (Inr u)
    show ?thesis
    proof (cases "require_queue queue_id a")
      case (Inl s)
      with Inr a assms(1) auth show ?thesis by (auto simp: with_queue_def)
    next
      case (Inr v)
      then have "queue_id = aa_queue_id api \<and> aa_ready api \<and> aa_open api"
        using same by (auto simp: require_queue_def split: if_splits)
      moreover from Inr \<open>r = _\<close> a assms(1) have "f a = (res, api')" by (simp add: with_queue_def)
      ultimately show ?thesis using auth assms(2) \<open>r = _\<close> unfolding quiet_def
        by (metis fst_conv snd_conv is_denied_simps(1))
    qed
  qed
qed

text \<open>The requests of the service and what each answers, with the response forgotten.\<close>

datatype admin_request =
    Check_Queue
  | List_Jobs "wire_filter option" "int option" "32 word" string
  | Queue_Summary "wire_filter option"
  | Get_Job string
  | Retry_Job string

definition forget :: "(grpc_status + 'r) \<times> admin_api \<Rightarrow> (grpc_status + unit) \<times> admin_api" where
  "forget x = (case fst x of Inl s \<Rightarrow> Inl s | Inr _ \<Rightarrow> Inr (), snd x)"

fun serve :: "admin_env \<Rightarrow> string list option \<Rightarrow> string \<Rightarrow> admin_request \<Rightarrow> admin_api \<Rightarrow> (grpc_status + unit) \<times> admin_api" where
  "serve env certs q Check_Queue api = forget (check_job_queue env certs q api)"
| "serve env certs q (List_Jobs f st n c) api = forget (list_jobs_call env certs q f st n c api)"
| "serve env certs q (Queue_Summary f) api = forget (get_job_queue_summary env certs q f api)"
| "serve env certs q (Get_Job i) api = forget (get_job_call env certs q i api)"
| "serve env certs q (Retry_Job i) api = forget (retry_job env certs q i api)"

lemma map_error_not_denied [simp]: "map_error e \<noteq> Permission_Denied m"
  by (cases e) (simp_all add: map_error_def)

lemma forget_with_queue:
  "quiet f \<Longrightarrow> \<exists>g. quiet g \<and> forget (with_queue env certs q f api) = with_queue env certs q g api"
  by (intro exI [of _ "\<lambda>a. forget (f a)"]) (auto simp: quiet_def forget_def with_queue_def split: sum.splits prod.splits)

lemma quiet_read: "quiet (\<lambda>a. (h a, a))"
  by (simp add: quiet_def)

lemma quiet_retry:
  "quiet (\<lambda>api. case retry_dead_job now i (aa_table api) of Inl e \<Rightarrow> (Inl (map_error e), api)
    | Inr (d, t, _) \<Rightarrow> (Inr (job_detail d), api\<lparr>aa_table := t\<rparr>))"
  by (auto simp: quiet_def split: sum.splits)

lemma serve_with_queue: "\<exists>f. quiet f \<and> serve env certs q r api = with_queue env certs q f api"
  by (cases r) (simp_all add: check_job_queue_def list_jobs_call_def get_job_queue_summary_def get_job_call_def
      retry_job_def forget_with_queue quiet_read quiet_retry)

text \<open>
  C18. Job administration is for enrolled managers only. With a policy state reached by any sequence of
  snapshot deliveries, a request is answered with anything but a denial only if the peer's certificate
  names a manager that a decoded and still fresh snapshot of its own cluster enrols, unrevoked; a
  denied request changes no job, and jobs change only through the configured, ready and open queue.
\<close>

theorem job_admin_authorized:
  assumes "aa_policy api = consumer_run sdeps cluster EngineJobAdminV1 es"
    and "serve env certs queue_id request api = (res, api')"
  shows "(is_denied res \<longrightarrow> aa_table api' = aa_table api) \<and>
    (\<not> is_denied res \<longrightarrow> manager_admitted env certs (aa_policy api) \<and>
      (\<exists>raw wall s. retained (aa_policy api) = Some s \<and> decode_snapshot sdeps raw cluster EngineJobAdminV1 wall = Inr s)) \<and>
    (aa_table api' \<noteq> aa_table api \<longrightarrow> queue_id = aa_queue_id api \<and> aa_ready api \<and> aa_open api)"
proof -
  obtain f where f: "quiet f" "with_queue env certs queue_id f api = (res, api')" using serve_with_queue assms(2) by metis
  note guard = with_queue_guard [OF f(2,1)]
  have "consumer_inv sdeps cluster EngineJobAdminV1 (aa_policy api)"
    unfolding assms(1) consumer_run_def by (rule consumer_runs.run_inv) simp
  then have "\<exists>raw wall s. retained (aa_policy api) = Some s \<and> decode_snapshot sdeps raw cluster EngineJobAdminV1 wall = Inr s"
    if "manager_admitted env certs (aa_policy api)"
    using that by (auto simp: manager_admitted_def) blast
  with guard show ?thesis by blast
qed

section \<open>A witness\<close>

definition admin_wire :: WorkloadSnapshotV1 where
  "admin_wire = \<lparr>ws_schema_version = 1, ws_projection_kind = 2, ws_cluster_id = ''c1'',
    ws_policy_generation = 7, ws_policy_digest = zero_digest, ws_projection_digest = zero_digest,
    ws_issued_at = Some \<lparr>ts_seconds = 1000, ts_nanos = 0\<rparr>, ws_valid_until = Some \<lparr>ts_seconds = 1030, ts_nanos = 0\<rparr>,
    ws_enrollment_count = 1, ws_revoked_fingerprint_count = 0,
    ws_enrollments = [\<lparr>we_principal_uri = ''urn:wruntime:c1:manager:m1'', we_workload_id = ''m1''\<rparr>],
    ws_revoked_leaf_fingerprints = []\<rparr>"

definition admin_snapshot_deps :: snapshot_deps where
  "admin_snapshot_deps = \<lparr>sd_sha = \<lambda>_. replicate 32 (CHR ''0''), sd_encode = \<lambda>_. ''A'',
    sd_decode = \<lambda>b. if b = ''A'' then Some admin_wire else None\<rparr>"

definition admin_events :: "snapshot_event list" where
  "admin_events = [\<lparr>ev_raw = Inr ''A'', ev_wall = sample_wall, ev_now = 20, ev_fence = True\<rparr>]"

definition manager_certificate :: X509Certificate where
  "manager_certificate = \<lparr>x_eku = Inr (Some \<lparr>eku_any = False, eku_server_auth = False, eku_client_auth = True,
      eku_code_signing = False, eku_email_protection = False, eku_time_stamping = False, eku_ocsp_signing = False,
      eku_other = []\<rparr>),
    x_san = Inr (Some [San_URI ''urn:wruntime:c1:manager:m1'']), x_basic_constraints_ca = Inr None,
    x_key_cert_sign = Inr None, x_spki = ''k'', x_serial = ''01''\<rparr>"

definition sample_admin_env :: admin_env where
  "sample_admin_env = \<lparr>ae_tls = \<lparr>td_from_der = \<lambda>_. Some ([], manager_certificate), td_sha256 = \<lambda>_. replicate 32 (CHR ''0'')\<rparr>,
    ae_now = 21, ae_now' = 22, ae_db_now = 30,
    ae_cursor = \<lparr>cd_encode = cv_job_id, cd_decode = \<lambda>_. None, cd_to_rfc3339 = \<lambda>_. [], cd_parse_rfc3339 = \<lambda>_. None,
      cd_sha256 = id, cd_bind_time = \<lambda>t. t div 1000\<rparr>,
    ae_in_range = \<lambda>_. True\<rparr>"

definition sample_admin_api :: admin_api where
  "sample_admin_api = \<lparr>aa_queue_id = ''q1'', aa_ready = True, aa_open = True,
    aa_policy = consumer_run admin_snapshot_deps ''c1'' EngineJobAdminV1 admin_events, aa_table = [sample_row]\<rparr>"

definition admin_indexed :: IndexedSnapshot where
  "admin_indexed = \<lparr>is_wire = admin_wire, is_enrollments = [(''urn:wruntime:c1:manager:m1'', ''m1'')],
    is_revocations = []\<rparr>"

lemma admin_checks:
  "check_header admin_wire ''c1'' EngineJobAdminV1 = Inr ()"
  "try_fold (index_enrollment ''c1'' EngineJobAdminV1) (ws_enrollments admin_wire) \<lparr>es_previous = None, es_enrollments = []\<rparr> =
    Inr \<lparr>es_previous = Some (''urn:wruntime:c1:manager:m1'', ''m1''), es_enrollments = [(''urn:wruntime:c1:manager:m1'', ''m1'')]\<rparr>"
  "projection_digest admin_snapshot_deps admin_wire = Inr zero_digest"
  "check_freshness admin_wire sample_wall = Inr ()"
  by code_simp+

lemma admin_decodes: "decode_snapshot admin_snapshot_deps ''A'' ''c1'' EngineJobAdminV1 sample_wall = Inr admin_indexed"
proof -
  have "sd_decode admin_snapshot_deps ''A'' = Some admin_wire" "sd_encode admin_snapshot_deps admin_wire = ''A''"
    "ws_revoked_leaf_fingerprints admin_wire = []" "ws_projection_digest admin_wire = zero_digest"
    "length ''A'' \<le> MAX_WORKLOAD_PROJECTION_BYTES"
    by (simp_all add: admin_snapshot_deps_def admin_wire_def MAX_WORKLOAD_PROJECTION_BYTES_def)
  with admin_checks show ?thesis by (simp add: decode_snapshot_def ok_or_def admin_indexed_def)
qed

lemma admin_policy:
  "consumer_run admin_snapshot_deps ''c1'' EngineJobAdminV1 admin_events = Fresh admin_indexed 20 29000000020"
proof -
  have "accept_snapshot admin_indexed sample_wall 20 = Fresh admin_indexed 20 29000000020"
    by (simp add: admin_indexed_def admin_wire_def) code_simp
  then show ?thesis using admin_decodes
    by (simp add: consumer_run_def consumer_step_def admin_events_def consume_def decoded_candidate_def map_err_def)
qed

definition sample_manager :: PrincipalUri where
  "sample_manager = \<lparr>uri_value = ''urn:wruntime:c1:manager:m1'', uri_cluster_id = ''c1'', uri_kind = Manager, uri_name = ''m1''\<rparr>"

lemma sample_manager_parses: "PrincipalUri_parse ''urn:wruntime:c1:manager:m1'' = Inr sample_manager"
  by code_simp

lemma sample_evidence:
  "\<exists>ev. parse_leaf_evidence (ae_tls sample_admin_env) ''der'' Client_Leaf None = Inr ev \<and>
    le_principal ev = Some sample_manager \<and> le_fingerprint ev = ''sha256:'' @ hex_string (replicate 32 (CHR ''0''))"
  by (simp add: parse_leaf_evidence_def sample_admin_env_def manager_certificate_def ok_or_def map_err_def check_eku_def
      no_other_eku_def collect_san_def no_sans_def leaf_principal_def sample_manager_parses certificate_fingerprint_sha256_def)

lemma sample_admits: "admits admin_indexed (uri_value sample_manager) (''sha256:'' @ hex_string (replicate 32 (CHR ''0'')))"
  by code_simp

lemma sample_admin_served: "fst (serve sample_admin_env (Some [''der'']) ''q1'' Check_Queue sample_admin_api) = Inr ()"
proof -
  obtain ev where ev: "parse_leaf_evidence (ae_tls sample_admin_env) ''der'' Client_Leaf None = Inr ev"
    "le_principal ev = Some sample_manager" "le_fingerprint ev = ''sha256:'' @ hex_string (replicate 32 (CHR ''0''))"
    using sample_evidence by blast
  have "uri_kind sample_manager = Manager" "uri_cluster_id sample_manager = ''c1''" "ws_cluster_id (is_wire admin_indexed) = ''c1''"
    by (simp_all add: sample_manager_def admin_indexed_def admin_wire_def sample_wire_def)
  with ev sample_admits show ?thesis
    by (simp add: check_job_queue_def forget_def with_queue_def authorize_manager_def require_queue_def
        sample_admin_api_def admin_policy Let_def) (simp add: sample_admin_env_def)
qed

theorem job_admin_authorized_witness:
  "fst (serve sample_admin_env (Some [''der'']) ''q1'' Check_Queue sample_admin_api) = Inr () \<and>
    manager_admitted sample_admin_env (Some [''der'']) (aa_policy sample_admin_api)"
proof -
  obtain res api' where s: "serve sample_admin_env (Some [''der'']) ''q1'' Check_Queue sample_admin_api = (res, api')"
    by fastforce
  have p: "aa_policy sample_admin_api = consumer_run admin_snapshot_deps ''c1'' EngineJobAdminV1 admin_events"
    by (simp add: sample_admin_api_def)
  have "res = Inr ()" using s sample_admin_served by simp
  then show ?thesis using job_admin_authorized [OF p s] sample_admin_served by simp
qed

end
