(* ===== verification/Manager_Auth.thy ===== *)
theory Manager_Auth
  imports Leaf_Identity Snapshot
begin

text \<open>
  The authorization of manager RPCs, \<open>wr-manager/src/auth.rs\<close>: the table of RPCs, the catalogue of
  handler bindings, the roles of each RPC, the authorization of a request and the checks a handler
  repeats; and the policy service of \<open>wr-manager/src/service.rs\<close> on top of it. An admission gate is read
  once per call, so its answer is an argument.
\<close>

section \<open>The table of RPCs\<close>

definition MANAGER_SERVICE_SET :: "string list" where
  "MANAGER_SERVICE_SET = [''wruntime.ClusterService'', ''wruntime.InfrastructureService'', ''wruntime.NodeService'',
    ''wruntime.JobService'', ''wruntime.PolicyService'', ''wruntime.LifecycleService'']"

datatype WorkloadBinding = NotApplicable | ProxyBound | NodeAgentBound | EnrolledGlobal | ProxyEnrolledGlobal

datatype ControlProfile = SmallRead | LargeRead | ConfigWrite | Heartbeat | Operation | Job | Snapshot_Control | RolloutControl

record RpcAuthorizationRow =
  row_service :: string
  row_method :: string
  capability_and_policy :: string
  extract_and_lookup :: string
  response_filter :: string
  row_workload :: WorkloadBinding
  row_control :: ControlProfile

definition row ::
    "string \<Rightarrow> string \<Rightarrow> string \<Rightarrow> string \<Rightarrow> string \<Rightarrow> WorkloadBinding \<Rightarrow> ControlProfile \<Rightarrow> RpcAuthorizationRow" where
  "row service method cap extract flt workload control =
    \<lparr>row_service = ''wruntime.'' @ service, row_method = method, capability_and_policy = cap,
     extract_and_lookup = extract, response_filter = flt, row_workload = workload, row_control = control\<rparr>"

datatype WorkloadKind = Manager_Workload | Proxy_Workload | NodeAgent_Workload

record EnrolledWorkload =
  ew_kind :: WorkloadKind
  ew_node_id :: "string option"

definition workload_binding_matches ::
    "WorkloadBinding \<Rightarrow> EnrolledWorkload option \<Rightarrow> string option \<Rightarrow> bool" where
  "workload_binding_matches binding enrollment requested_node =
    (case binding of
       NotApplicable \<Rightarrow> True
     | ProxyBound \<Rightarrow> (case enrollment of None \<Rightarrow> False | Some w \<Rightarrow>
         ew_kind w = Proxy_Workload \<and> ew_node_id w \<noteq> None \<and> ew_node_id w = requested_node)
     | NodeAgentBound \<Rightarrow> (case enrollment of None \<Rightarrow> False | Some w \<Rightarrow>
         ew_kind w = NodeAgent_Workload \<and> ew_node_id w \<noteq> None \<and> ew_node_id w = requested_node)
     | EnrolledGlobal \<Rightarrow> enrollment \<noteq> None
     | ProxyEnrolledGlobal \<Rightarrow> (case enrollment of None \<Rightarrow> False | Some w \<Rightarrow> ew_kind w = Proxy_Workload))"

definition MANAGER_RPC_ROWS :: "RpcAuthorizationRow list" where
  "MANAGER_RPC_ROWS = [
    row ''ClusterService'' ''ListEngines''
      ''cluster.engines.read; H:view/admin, S:status''
      ''node/namespace selectors; engine registry''
      ''rows/count/page by matching tuples'' NotApplicable LargeRead,
    row ''ClusterService'' ''GetRoutingTable''
      ''cluster.routes.read; H:view/admin, S:status, W:proxy''
      ''namespace selector; routing repository''
      ''scoped human/SA; complete cluster routing for proxy'' ProxyEnrolledGlobal LargeRead,
    row ''ClusterService'' ''UpsertRoutingRule''
      ''cluster.routes.write; H:admin, S:route''
      ''namespace/rule; routing repository''
      ''n/a'' NotApplicable ConfigWrite,
    row ''ClusterService'' ''DeleteRoutingRule''
      ''cluster.routes.write; H:admin, S:route''
      ''namespace/rule; routing repository''
      ''n/a'' NotApplicable ConfigWrite,
    row ''ClusterService'' ''ListManagers''
      ''cluster.managers.read; H:view/admin, S:status, W:proxy''
      ''manager lease repository''
      ''bounded complete status'' ProxyEnrolledGlobal SmallRead,
    row ''ClusterService'' ''GetClusterStatus''
      ''cluster.status.read; H:view/admin, S:status''
      ''selectors; composed status owner''
      ''components/aggregates by tuples'' NotApplicable LargeRead,
    row ''ClusterService'' ''GetSchema''
      ''cluster.schema.read; H:view/admin, S:status, W:proxy''
      ''namespace/module; schema repository''
      ''requested schema'' ProxyEnrolledGlobal LargeRead,
    row ''ClusterService'' ''SetSecret''
      ''cluster.secrets.write; H:admin, S:secret''
      ''namespace/key; secret repository''
      ''n/a'' NotApplicable ConfigWrite,
    row ''ClusterService'' ''DeleteSecret''
      ''cluster.secrets.write; H:admin, S:secret''
      ''namespace/key; secret repository''
      ''n/a'' NotApplicable ConfigWrite,
    row ''ClusterService'' ''ListSecrets''
      ''cluster.secrets.read; H:admin, S:secret''
      ''namespace/all; secret metadata repository''
      ''metadata/count/page by tuples; never values'' NotApplicable LargeRead,
    row ''ClusterService'' ''UpsertSchedule''
      ''cluster.schedules.write; H:admin, S:schedule''
      ''namespace/schedule; schedule repository''
      ''n/a'' NotApplicable ConfigWrite,
    row ''ClusterService'' ''DeleteSchedule''
      ''cluster.schedules.write; H:admin, S:schedule''
      ''namespace/schedule; schedule repository''
      ''n/a'' NotApplicable ConfigWrite,
    row ''ClusterService'' ''ListSchedules''
      ''cluster.schedules.read; H:view/admin, S:status/schedule''
      ''namespace/all; schedule repository''
      ''rows/count/page by tuples'' NotApplicable LargeRead,
    row ''InfrastructureService'' ''GetStatus''
      ''infrastructure.status.read; H:view/infra/admin, S:status/infra''
      ''node selectors; status owner''
      ''nodes/operations/counts by tuples'' NotApplicable LargeRead,
    row ''InfrastructureService'' ''SubmitOperation''
      ''infrastructure.operations.write; H:infra/admin, S:infra''
      ''request token plus node/target; operation repository''
      ''n/a'' NotApplicable Operation,
    row ''InfrastructureService'' ''GetOperation''
      ''infrastructure.operations.read; H:view/infra/admin, S:status/infra''
      ''operation ID; repository resolves node first''
      ''one operation after node match'' NotApplicable SmallRead,
    row ''InfrastructureService'' ''ListOperations''
      ''infrastructure.operations.read; H:view/infra/admin, S:status/infra''
      ''node/status selectors; operation repository''
      ''rows/count/page by resolved node'' NotApplicable LargeRead,
    row ''InfrastructureService'' ''ResumeOperation''
      ''infrastructure.operations.write; H:infra/admin, S:infra''
      ''operation ID; locked node/state lookup''
      ''n/a'' NotApplicable Operation,
    row ''InfrastructureService'' ''CancelOperation''
      ''infrastructure.operations.write; H:infra/admin, S:infra''
      ''operation ID; locked node/state lookup''
      ''n/a'' NotApplicable Operation,
    row ''InfrastructureService'' ''BeginDeployment''
      ''infrastructure.deployments.write; H:infra/admin, S:deploy''
      ''request token plus node/deployment/revision; deployment repository''
      ''n/a'' NotApplicable Operation,
    row ''InfrastructureService'' ''VerifyDeployment''
      ''infrastructure.deployments.write; H:infra/admin, S:deploy''
      ''deployment operation ID; node/revision lookup''
      ''n/a'' NotApplicable Operation,
    row ''InfrastructureService'' ''FinalizeDeployment''
      ''infrastructure.deployments.write; H:infra/admin, S:deploy''
      ''node/revision/state; locked deployment lookup''
      ''n/a'' NotApplicable Operation,
    row ''InfrastructureService'' ''AbandonDeployment''
      ''infrastructure.deployments.write; H:infra/admin, S:deploy''
      ''request token plus node; locked deployment and evidence lookup''
      ''n/a'' NotApplicable Operation,
    row ''InfrastructureService'' ''BeginRollback''
      ''infrastructure.deployments.write; H:infra/admin, S:deploy''
      ''request token plus deployment/target revision; authority lookup''
      ''n/a'' NotApplicable Operation,
    row ''InfrastructureService'' ''BeginManagerRollout''
      ''infrastructure.manager-rollout.write; H:infra/admin, S:deploy; bootstrap/recovery exceptions''
      ''caller UUID plus canonical target generation/digest/expected set and one-use recovery permit; rollout repository''
      ''original rollout ID/state on exact token replay'' NotApplicable RolloutControl,
    row ''InfrastructureService'' ''ResetFailedManagerRollout''
      ''infrastructure.manager-rollout.write; while closed only recorded deployment principal''
      ''exact failed rollout and stopped uniform-policy evidence; rollout guard CAS''
      ''stable reset receipt'' NotApplicable RolloutControl,
    row ''InfrastructureService'' ''AdvanceManagerRollout''
      ''infrastructure.manager-rollout.write; while closed only recorded deployment principal''
      ''rollout ID, expected phase/member outcomes; rollout CAS''
      ''committed phase/members'' NotApplicable RolloutControl,
    row ''InfrastructureService'' ''GetManagerRollout''
      ''rollout read roles while open; recorded principal while closed''
      ''rollout ID; rollout repository''
      ''bounded phase/member status'' NotApplicable RolloutControl,
    row ''InfrastructureService'' ''PutNodeAgentPolicy''
      ''infrastructure.node-agent-policy.write; H:infra/admin, S:deploy''
      ''bound node; policy repository''
      ''n/a'' NotApplicable ConfigWrite,
    row ''InfrastructureService'' ''GetNodeCleanupStatus''
      ''infrastructure.cleanup.read; H:view/infra/admin, S:status/infra''
      ''bound node; cleanup repository''
      ''one bounded summary'' NotApplicable SmallRead,
    row ''InfrastructureService'' ''RetryNodeCleanup''
      ''infrastructure.cleanup.write; H:infra/admin, S:infra''
      ''bound node/generation; cleanup repository''
      ''queued generation'' NotApplicable Operation,
    row ''NodeService'' ''RegisterProxy''
      ''node.proxies.register; W:proxy''
      ''authenticated proxy principal + bound node + process; inventory repository''
      ''accepted exact tuple'' ProxyBound Operation,
    row ''NodeService'' ''ReportProxyInventory''
      ''node.proxies.report; W:proxy''
      ''authenticated proxy principal + bound node + process; inventory repository''
      ''manager receipt identity/time'' ProxyBound Heartbeat,
    row ''NodeService'' ''DeregisterProxy''
      ''node.proxies.deregister; W:proxy''
      ''authenticated proxy principal + bound node + exact process; inventory repository''
      ''clean tombstone'' ProxyBound Operation,
    row ''NodeService'' ''RegisterEngine''
      ''node.engines.register; W:proxy''
      ''node + operation/revision/slot/activation; desired deployment/owner lookup''
      ''credentials/current policy/fence for owner'' ProxyBound Operation,
    row ''NodeService'' ''DeregisterEngine''
      ''node.engines.deregister; W:proxy''
      ''complete ownership fence; locked owner lookup''
      ''n/a'' ProxyBound Operation,
    row ''NodeService'' ''Heartbeat''
      ''node.engines.heartbeat; W:proxy''
      ''complete ownership fence; owner lookup''
      ''matching complete engine snapshot'' ProxyBound Heartbeat,
    row ''NodeService'' ''BeginEngineDrain''
      ''node.engines.drain; W:proxy''
      ''complete ownership fence; locked owner lookup''
      ''n/a'' ProxyBound Operation,
    row ''NodeService'' ''Attest''
      ''node.attestations.write; W:node-agent''
      ''bound node; agent policy lookup''
      ''attestation decision and conditions'' NodeAgentBound Heartbeat,
    row ''NodeService'' ''ClaimOperation''
      ''node.operations.claim; W:node-agent''
      ''bound node; queue selects that node''
      ''returned operation matches node'' NodeAgentBound Operation,
    row ''NodeService'' ''RenewOperationLease''
      ''node.operations.renew; W:node-agent''
      ''operation/lease epoch; owner/node lookup''
      ''n/a'' NodeAgentBound Heartbeat,
    row ''NodeService'' ''ClaimNodeCleanup''
      ''node.cleanup.claim; W:node-agent''
      ''bound node/generation; cleanup repository''
      ''exact authority'' NodeAgentBound Operation,
    row ''NodeService'' ''RenewNodeCleanupLease''
      ''node.cleanup.renew; W:node-agent''
      ''bound node/generation/claim; cleanup repository''
      ''lease or superseded'' NodeAgentBound Heartbeat,
    row ''NodeService'' ''ReportNodeCleanupResult''
      ''node.cleanup.report; W:node-agent''
      ''bound node/generation/claim; cleanup repository''
      ''accepted or superseded'' NodeAgentBound Operation,
    row ''NodeService'' ''ReportObservation''
      ''node.observations.write; W:node-agent''
      ''operation/node; node lookup''
      ''n/a'' NodeAgentBound Operation,
    row ''NodeService'' ''ReportStepResult''
      ''node.steps.write; W:node-agent''
      ''operation/step/lease; owner/node lookup''
      ''n/a'' NodeAgentBound Operation,
    row ''JobService'' ''ListJobQueues''
      ''jobs.read; H:job-view/job-admin/admin, S:job-view/job-admin''
      ''queue catalog''
      ''rows/counts by whole-grant union'' NotApplicable LargeRead,
    row ''JobService'' ''ListJobs''
      ''jobs.read; H:job-view/job-admin/admin, S:job-view/job-admin''
      ''queue/page; delegate lookup''
      ''authorized queue'' NotApplicable Job,
    row ''JobService'' ''GetJobQueueSummary''
      ''jobs.read; H:job-view/job-admin/admin, S:job-view/job-admin''
      ''queue; delegate lookup''
      ''authorized queue summary'' NotApplicable Job,
    row ''JobService'' ''GetJob''
      ''jobs.read; H:job-view/job-admin/admin, S:job-view/job-admin''
      ''queue/job; delegate lookup''
      ''authorized queue/job'' NotApplicable Job,
    row ''JobService'' ''RetryJob''
      ''jobs.retry; H:job-admin/admin, S:job-admin''
      ''queue/job; deterministic delegate then locked engine queue lookup''
      ''mutation result'' NotApplicable Job,
    row ''PolicyService'' ''GetPolicyStatus''
      ''policy.status.read; H:view/admin, S:status, W:manager/proxy/node-agent''
      ''immutable policy/admission snapshot''
      ''bounded summary only'' EnrolledGlobal SmallRead,
    row ''PolicyService'' ''GetWorkloadSnapshot''
      ''policy.workload.read; W:proxy''
      ''authenticated proxy; precomputed projection''
      ''complete peer enrollments/revocations'' ProxyEnrolledGlobal Snapshot_Control,
    row ''LifecycleService'' ''GetStatus''
      ''lifecycle status roles and all enrolled workloads''
      ''internal lifecycle/rollout observation''
      ''bounded readiness/generation/digest/admission/rollout'' EnrolledGlobal SmallRead]"

definition matching_rows :: "string \<Rightarrow> string \<Rightarrow> RpcAuthorizationRow list" where
  "matching_rows service method = filter (\<lambda>r. row_service r = service \<and> row_method r = method) MANAGER_RPC_ROWS"

definition find_row :: "string \<Rightarrow> string \<Rightarrow> RpcAuthorizationRow option" where
  "find_row service method = find (\<lambda>r. row_service r = service \<and> row_method r = method) MANAGER_RPC_ROWS"

section \<open>Tuple grants\<close>

text \<open>The dimensions of a grant as the list of their entries, \<open>None\<close> for an unscoped one.\<close>

type_synonym ResourceAssignment = "(string \<times> string list option) list"

definition scoped :: "string \<Rightarrow> string list \<Rightarrow> ResourceAssignment \<Rightarrow> ResourceAssignment" where
  "scoped dimension vals a = alist_put dimension (Some (sort (remdups vals))) a"

definition unscoped :: "string \<Rightarrow> ResourceAssignment \<Rightarrow> ResourceAssignment" where
  "unscoped dimension a = alist_put dimension None a"

definition covers :: "ResourceAssignment \<Rightarrow> (string \<times> string) list \<Rightarrow> bool" where
  "covers a resource = list_all (\<lambda>(dimension, v).
    (case map_of a dimension of Some None \<Rightarrow> True | Some (Some vals) \<Rightarrow> v \<in> set vals | None \<Rightarrow> False)) resource"

definition assignment_union_covers :: "ResourceAssignment list \<Rightarrow> (string \<times> string) list \<Rightarrow> bool" where
  "assignment_union_covers assignments resource = list_ex (\<lambda>a. covers a resource) assignments"

definition filter_authorized :: "'r list \<Rightarrow> ResourceAssignment list \<Rightarrow> ('r \<Rightarrow> (string \<times> string) list) \<Rightarrow> 'r list" where
  "filter_authorized rows assignments resource = filter (\<lambda>r. assignment_union_covers assignments (resource r)) rows"

section \<open>Handler bindings and roles\<close>

record AuthorizedPrincipal =
  ap_name :: string
  ap_kind :: PrincipalKind
  ap_node_id :: "string option"
  ap_fingerprint :: string

datatype RequestExtractorClass =
    No_Extractor | Namespace_Extractor | Node_Extractor | AttestationNode_Extractor | JobQueue_Extractor
  | ManagerSet_Extractor | EngineOwnership_Extractor | OperationId_Extractor | RoutingRule_Extractor

datatype AuthoritativeLookupClass =
    No_Lookup | EngineRegistry_Lookup | RoutingRepository_Lookup | ManagerLease_Lookup | StatusRepository_Lookup
  | SchemaRepository_Lookup | SecretRepository_Lookup | ScheduleRepository_Lookup | OperationRepository_Lookup
  | DeploymentRepository_Lookup | RolloutRepository_Lookup | DesiredDeployment_Lookup | JobDelegate_Lookup

datatype ResponseFilterClass =
    No_Filter | NamespaceTuple_Filter | NodeTuple_Filter | JobQueueTuple_Filter | BoundedStatus_Filter | WorkloadSnapshot_Filter

record HandlerAdapterBinding =
  hb_extractor :: RequestExtractorClass
  hb_lookup :: AuthoritativeLookupClass
  hb_filter :: ResponseFilterClass
  hb_workload :: WorkloadBinding

text \<open>The arms of the two matches in source order, the first that fits taken; a method list of \<open>None\<close> is the wildcard.\<close>

definition adapter_arms :: "(string \<times> string list \<times> RequestExtractorClass \<times> AuthoritativeLookupClass \<times> ResponseFilterClass) list" where
  "adapter_arms = [
    (''wruntime.ClusterService'', [''ListEngines''], No_Extractor, EngineRegistry_Lookup, NodeTuple_Filter),
    (''wruntime.ClusterService'', [''GetRoutingTable''], No_Extractor, RoutingRepository_Lookup, NamespaceTuple_Filter),
    (''wruntime.ClusterService'', [''UpsertRoutingRule''], RoutingRule_Extractor, RoutingRepository_Lookup, No_Filter),
    (''wruntime.ClusterService'', [''DeleteRoutingRule''], OperationId_Extractor, RoutingRepository_Lookup, No_Filter),
    (''wruntime.ClusterService'', [''ListManagers''], No_Extractor, ManagerLease_Lookup, BoundedStatus_Filter),
    (''wruntime.ClusterService'', [''GetClusterStatus''], No_Extractor, StatusRepository_Lookup, NodeTuple_Filter),
    (''wruntime.ClusterService'', [''GetSchema''], Namespace_Extractor, SchemaRepository_Lookup, NamespaceTuple_Filter),
    (''wruntime.ClusterService'', [''SetSecret'', ''DeleteSecret''], Namespace_Extractor, SecretRepository_Lookup, No_Filter),
    (''wruntime.ClusterService'', [''ListSecrets''], Namespace_Extractor, SecretRepository_Lookup, NamespaceTuple_Filter),
    (''wruntime.ClusterService'', [''UpsertSchedule'', ''DeleteSchedule''], Namespace_Extractor, ScheduleRepository_Lookup, No_Filter),
    (''wruntime.ClusterService'', [''ListSchedules''], Namespace_Extractor, ScheduleRepository_Lookup, NamespaceTuple_Filter),
    (''wruntime.InfrastructureService'', [''GetStatus''], Node_Extractor, StatusRepository_Lookup, NodeTuple_Filter),
    (''wruntime.InfrastructureService'', [''SubmitOperation''], Node_Extractor, OperationRepository_Lookup, No_Filter),
    (''wruntime.InfrastructureService'', [''GetOperation'', ''ResumeOperation'', ''CancelOperation''], OperationId_Extractor, OperationRepository_Lookup, No_Filter),
    (''wruntime.InfrastructureService'', [''ListOperations''], Node_Extractor, OperationRepository_Lookup, NodeTuple_Filter),
    (''wruntime.InfrastructureService'', [''BeginDeployment''], Node_Extractor, DeploymentRepository_Lookup, No_Filter),
    (''wruntime.InfrastructureService'', [''VerifyDeployment'', ''FinalizeDeployment'', ''AbandonDeployment'', ''BeginRollback''], Node_Extractor, DeploymentRepository_Lookup, No_Filter),
    (''wruntime.InfrastructureService'', [''PutNodeAgentPolicy'', ''GetNodeCleanupStatus'', ''RetryNodeCleanup''], Node_Extractor, OperationRepository_Lookup, No_Filter),
    (''wruntime.InfrastructureService'', [''BeginManagerRollout''], ManagerSet_Extractor, RolloutRepository_Lookup, BoundedStatus_Filter),
    (''wruntime.InfrastructureService'', [''ResetFailedManagerRollout'', ''AdvanceManagerRollout'', ''GetManagerRollout''], OperationId_Extractor, RolloutRepository_Lookup, BoundedStatus_Filter),
    (''wruntime.NodeService'', [''RegisterProxy'', ''ReportProxyInventory'', ''DeregisterProxy''], Node_Extractor, StatusRepository_Lookup, No_Filter),
    (''wruntime.NodeService'', [''RegisterEngine''], EngineOwnership_Extractor, DesiredDeployment_Lookup, WorkloadSnapshot_Filter),
    (''wruntime.NodeService'', [''DeregisterEngine'', ''Heartbeat'', ''BeginEngineDrain''], EngineOwnership_Extractor, EngineRegistry_Lookup, No_Filter),
    (''wruntime.NodeService'', [''Attest''], AttestationNode_Extractor, OperationRepository_Lookup, NodeTuple_Filter),
    (''wruntime.NodeService'', [''ClaimOperation'', ''ClaimNodeCleanup''], Node_Extractor, OperationRepository_Lookup, NodeTuple_Filter),
    (''wruntime.NodeService'', [''RenewOperationLease'', ''ReportObservation'', ''ReportStepResult'', ''RenewNodeCleanupLease'', ''ReportNodeCleanupResult''], OperationId_Extractor, OperationRepository_Lookup, No_Filter),
    (''wruntime.JobService'', [''ListJobQueues''], No_Extractor, JobDelegate_Lookup, JobQueueTuple_Filter),
    (''wruntime.JobService'', [''ListJobs'', ''GetJobQueueSummary'', ''GetJob'', ''RetryJob''], JobQueue_Extractor, JobDelegate_Lookup, JobQueueTuple_Filter),
    (''wruntime.PolicyService'', [''GetPolicyStatus''], No_Extractor, No_Lookup, BoundedStatus_Filter),
    (''wruntime.PolicyService'', [''GetWorkloadSnapshot''], No_Extractor, No_Lookup, WorkloadSnapshot_Filter),
    (''wruntime.LifecycleService'', [''GetStatus''], No_Extractor, No_Lookup, BoundedStatus_Filter)]"

definition role_arms :: "(string \<times> string list option \<times> PrincipalKind \<times> PolicyRole list) list" where
  "role_arms = [
    (''wruntime.ClusterService'', Some [''UpsertRoutingRule'', ''DeleteRoutingRule''], Human, [Admin]),
    (''wruntime.ClusterService'', Some [''UpsertRoutingRule'', ''DeleteRoutingRule''], ServiceAccount, [Route]),
    (''wruntime.ClusterService'', Some [''SetSecret'', ''DeleteSecret'', ''ListSecrets''], Human, [Admin]),
    (''wruntime.ClusterService'', Some [''SetSecret'', ''DeleteSecret'', ''ListSecrets''], ServiceAccount, [Secret]),
    (''wruntime.ClusterService'', Some [''UpsertSchedule'', ''DeleteSchedule''], Human, [Admin]),
    (''wruntime.ClusterService'', Some [''UpsertSchedule'', ''DeleteSchedule''], ServiceAccount, [Schedule]),
    (''wruntime.ClusterService'', Some [''ListSchedules''], Human, [Admin, View]),
    (''wruntime.ClusterService'', Some [''ListSchedules''], ServiceAccount, [Status, Schedule]),
    (''wruntime.ClusterService'', None, Human, [Admin, View]),
    (''wruntime.ClusterService'', None, ServiceAccount, [Status]),
    (''wruntime.InfrastructureService'', Some [''SubmitOperation'', ''ResumeOperation'', ''CancelOperation'', ''RetryNodeCleanup''], Human, [Admin, Infra]),
    (''wruntime.InfrastructureService'', Some [''SubmitOperation'', ''ResumeOperation'', ''CancelOperation'', ''RetryNodeCleanup''], ServiceAccount, [Infra]),
    (''wruntime.InfrastructureService'', Some [''BeginDeployment'', ''VerifyDeployment'', ''FinalizeDeployment'', ''AbandonDeployment'', ''PutNodeAgentPolicy'', ''BeginRollback'', ''BeginManagerRollout'', ''ResetFailedManagerRollout'', ''AdvanceManagerRollout''], Human, [Admin, Infra]),
    (''wruntime.InfrastructureService'', Some [''BeginDeployment'', ''VerifyDeployment'', ''FinalizeDeployment'', ''AbandonDeployment'', ''PutNodeAgentPolicy'', ''BeginRollback'', ''BeginManagerRollout'', ''ResetFailedManagerRollout'', ''AdvanceManagerRollout''], ServiceAccount, [Deploy]),
    (''wruntime.InfrastructureService'', None, Human, [Admin, Infra, View]),
    (''wruntime.InfrastructureService'', Some [''GetManagerRollout''], ServiceAccount, [Deploy, Infra, Status]),
    (''wruntime.InfrastructureService'', None, ServiceAccount, [Infra, Status]),
    (''wruntime.JobService'', Some [''RetryJob''], Human, [Admin, JobAdmin]),
    (''wruntime.JobService'', Some [''RetryJob''], ServiceAccount, [JobAdmin]),
    (''wruntime.JobService'', None, Human, [Admin, JobAdmin, JobView]),
    (''wruntime.JobService'', None, ServiceAccount, [JobAdmin, JobView]),
    (''wruntime.PolicyService'', None, Human, [Admin, View]),
    (''wruntime.PolicyService'', None, ServiceAccount, [Status]),
    (''wruntime.LifecycleService'', None, Human, [Admin, View, Infra]),
    (''wruntime.LifecycleService'', None, ServiceAccount, [Status, Infra, Deploy])]"

definition handler_adapter_binding :: "string \<Rightarrow> string \<Rightarrow> HandlerAdapterBinding option" where
  "handler_adapter_binding service method =
    (case find (\<lambda>(s, ms, _). s = service \<and> method \<in> set ms) adapter_arms of
       None \<Rightarrow> None
     | Some (_, _, e, l, f) \<Rightarrow>
        (case find_row service method of
           None \<Rightarrow> None
         | Some r \<Rightarrow> Some \<lparr>hb_extractor = e, hb_lookup = l, hb_filter = f, hb_workload = row_workload r\<rparr>))"

definition roles_for_row :: "RpcAuthorizationRow \<Rightarrow> PrincipalKind \<Rightarrow> PolicyRole list" where
  "roles_for_row r kind =
    (case find (\<lambda>(s, ms, k, _). s = row_service r \<and> (case ms of None \<Rightarrow> True | Some l \<Rightarrow> row_method r \<in> set l) \<and> k = kind) role_arms of
       None \<Rightarrow> []
     | Some (_, _, _, roles) \<Rightarrow> roles)"

section \<open>Authorization of a request\<close>

record AuthorizationResource =
  res_namespace_id :: "string option"
  res_node_id :: "string option"
  res_job_queue_id :: "string option"
  res_manager_ids :: "string list"

definition default_resource :: AuthorizationResource where
  "default_resource = \<lparr>res_namespace_id = None, res_node_id = None, res_job_queue_id = None, res_manager_ids = []\<rparr>"

record OwnedAuthorizationResource = AuthorizationResource +
  namespace_filter :: "string list option"
  node_filter :: "string list option"
  job_queue_filter :: "string list option"
  manager_filter :: "string list option"

record AuthorizedCall =
  ac_service :: string
  ac_method :: string
  ac_principal :: AuthorizedPrincipal
  ac_resource :: OwnedAuthorizationResource
  ac_assignments :: "RoleAssignment list"

text \<open>
  What the code reads of a request: the peer's certificates and the extensions. A status is its code and
  message; the two whose message is the text of another error carry that error.
\<close>

record rpc_request =
  rq_peer_certs :: "string list option"
  rq_principal :: "AuthorizedPrincipal option"
  rq_call :: "AuthorizedCall option"

datatype auth_status =
    Unauthenticated string | Invalid_Leaf tls_error | Denied string | Admission_Closed string
  | Projection_Failed snapshot_error | Panicked string

definition scope_allows :: "string list option \<Rightarrow> string option \<Rightarrow> bool" where
  "scope_allows allowed v =
    (case v of None \<Rightarrow> True | Some x \<Rightarrow> (case allowed of None \<Rightarrow> True | Some xs \<Rightarrow> x \<in> set xs))"

definition allows_collection_item ::
    "AuthorizedCall \<Rightarrow> string option \<Rightarrow> string option \<Rightarrow> string option \<Rightarrow> string option \<Rightarrow> bool" where
  "allows_collection_item call namespace_id node_id job_queue_id manager_id \<longleftrightarrow>
    ac_assignments call = [] \<or> list_ex (\<lambda>a. scope_allows (namespace_ids (ra_scope a)) namespace_id \<and>
      scope_allows (node_ids (ra_scope a)) node_id \<and> scope_allows (job_queue_ids (ra_scope a)) job_queue_id \<and>
      scope_allows (manager_ids (ra_scope a)) manager_id) (ac_assignments call)"

definition verify :: "AuthorizedCall \<Rightarrow> string \<Rightarrow> string \<Rightarrow> auth_status + unit" where
  "verify call service method =
    (if ac_service call \<noteq> service \<or> ac_method call \<noteq> method
     then Inl (Denied ''authorized caller context does not match the invoked RPC'') else Inr ())"

definition allowed_while_closed :: "string \<Rightarrow> string \<Rightarrow> bool" where
  "allowed_while_closed service method \<longleftrightarrow> service = ''wruntime.LifecycleService'' \<or>
    (service = ''wruntime.InfrastructureService'' \<and>
     method \<in> set [''BeginManagerRollout'', ''ResetFailedManagerRollout'', ''AdvanceManagerRollout'', ''GetManagerRollout''])"

definition peer_evidence :: "tls_deps \<Rightarrow> ValidatedPolicy \<Rightarrow> rpc_request \<Rightarrow> auth_status + LeafEvidence" where
  "peer_evidence tls pol req =
    and_then (ok_or (Unauthenticated ''client certificate identity is unavailable'')
      (Option.bind (rq_peer_certs req) (\<lambda>cs. case cs of [] \<Rightarrow> None | c # _ \<Rightarrow> Some c))) (\<lambda>certificate.
    map_err Invalid_Leaf (validate_client_leaf tls certificate (vp_cluster_id pol)))"

definition enrolled_node :: "NodeEnrollment list \<Rightarrow> string \<Rightarrow> string option" where
  "enrolled_node es uri = map_option ne_node_id (find (\<lambda>e. ne_principal e = uri) es)"

definition manager_enrolled :: "ValidatedPolicy \<Rightarrow> string \<Rightarrow> bool" where
  "manager_enrolled pol uri = list_ex (\<lambda>e. me_principal e = uri) (vp_manager_enrollments pol)"

text \<open>
  A failing \<open>expect\<close> is \<open>Panicked\<close>; a validated client leaf has a principal, so \<open>peer\<close> never panics.
\<close>

definition peer :: "tls_deps \<Rightarrow> ValidatedPolicy \<Rightarrow> rpc_request \<Rightarrow> auth_status + AuthorizedPrincipal" where
  "peer tls pol req =
    (case rq_principal req of
       Some p \<Rightarrow> Inr p
     | None \<Rightarrow> and_then (peer_evidence tls pol req) (\<lambda>evidence.
        if le_fingerprint evidence \<in> set (vp_revoked_leaf_fingerprints pol)
        then Inl (Denied ''client certificate leaf is revoked'')
        else and_then (ok_or (Panicked ''validated client leaf has URI'') (le_principal evidence)) (\<lambda>uri.
        and_then (ok_or (Denied ''client principal is not declared by policy'') (map_of (vp_principals pol) (uri_value uri))) (\<lambda>kind.
        and_then (case kind of
            Proxy \<Rightarrow> Inr (enrolled_node (vp_proxy_enrollments pol) (uri_value uri))
          | NodeAgent \<Rightarrow> Inr (enrolled_node (vp_node_agent_enrollments pol) (uri_value uri))
          | Manager \<Rightarrow> if manager_enrolled pol (uri_value uri) then Inr None else Inl (Denied ''manager principal is not enrolled'')
          | _ \<Rightarrow> Inr None) (\<lambda>node_id.
        Inr \<lparr>ap_name = uri_value uri, ap_kind = kind, ap_node_id = node_id, ap_fingerprint = le_fingerprint evidence\<rparr>)))))"

definition has_role :: "ValidatedPolicy \<Rightarrow> AuthorizedPrincipal \<Rightarrow> PolicyRole list \<Rightarrow> bool" where
  "has_role pol p roles = list_ex (\<lambda>a. ra_principal a = ap_name p \<and> ra_role a \<in> set roles) (vp_assignments pol)"

definition has_node_grant ::
    "ValidatedPolicy \<Rightarrow> AuthorizedPrincipal \<Rightarrow> PolicyRole list \<Rightarrow> PolicyRole list \<Rightarrow> string option \<Rightarrow> bool" where
  "has_node_grant pol p human_roles service_roles node_id =
    (if ap_kind p \<noteq> Human \<and> ap_kind p \<noteq> ServiceAccount then False
     else let roles = (if ap_kind p = Human then human_roles else service_roles) in
       list_ex (\<lambda>a. ra_principal a = ap_name p \<and> ra_role a \<in> set roles \<and>
         scope_allows (node_ids (ra_scope a)) node_id) (vp_assignments pol))"

definition is_workload :: "PrincipalKind \<Rightarrow> bool" where
  "is_workload kind \<longleftrightarrow> kind = Manager \<or> kind = Proxy \<or> kind = NodeAgent"

definition enrollment_of :: "ValidatedPolicy \<Rightarrow> PrincipalKind \<Rightarrow> string \<Rightarrow> string option" where
  "enrollment_of pol kind uri =
    (case kind of
       Proxy \<Rightarrow> enrolled_node (vp_proxy_enrollments pol) uri
     | NodeAgent \<Rightarrow> enrolled_node (vp_node_agent_enrollments pol) uri
     | Manager \<Rightarrow> if manager_enrolled pol uri then Some [] else None
     | _ \<Rightarrow> None)"

definition workload_kind :: "PrincipalKind \<Rightarrow> WorkloadKind" where
  "workload_kind kind = (if kind = Manager then Manager_Workload else if kind = Proxy then Proxy_Workload else NodeAgent_Workload)"

definition assignment_covers :: "RoleAssignment \<Rightarrow> string \<Rightarrow> PolicyRole list \<Rightarrow> AuthorizationResource \<Rightarrow> bool" where
  "assignment_covers a name roles resource \<longleftrightarrow> ra_principal a = name \<and> ra_role a \<in> set roles \<and>
    scope_allows (namespace_ids (ra_scope a)) (res_namespace_id resource) \<and>
    scope_allows (node_ids (ra_scope a)) (res_node_id resource) \<and>
    scope_allows (job_queue_ids (ra_scope a)) (res_job_queue_id resource) \<and>
    (case manager_ids (ra_scope a) of None \<Rightarrow> True | Some allowed \<Rightarrow> list_all (\<lambda>v. v \<in> set allowed) (res_manager_ids resource))"

definition authorize_row_evidence ::
    "ValidatedPolicy \<Rightarrow> string \<Rightarrow> string \<Rightarrow> LeafEvidence \<Rightarrow> AuthorizationResource \<Rightarrow> auth_status + AuthorizedPrincipal" where
  "authorize_row_evidence pol service method evidence resource =
    (if le_profile evidence \<noteq> Client_Leaf then Inl (Unauthenticated ''authenticated leaf is not a client profile'')
     else and_then (ok_or (Unauthenticated ''client certificate principal is unavailable'') (le_principal evidence)) (\<lambda>uri.
     if uri_cluster_id uri \<noteq> vp_cluster_id pol then Inl (Denied ''client principal belongs to the wrong cluster'')
     else if le_fingerprint evidence \<in> set (vp_revoked_leaf_fingerprints pol)
     then Inl (Denied ''client certificate leaf is revoked'')
     else and_then (ok_or (Denied ''client principal is not declared by policy'')
       (case map_of (vp_principals pol) (uri_value uri) of
          None \<Rightarrow> None | Some kind \<Rightarrow> if kind = uri_kind uri then Some kind else None)) (\<lambda>kind.
     let node_id = enrollment_of pol kind (uri_value uri) in
     if is_workload kind \<and> node_id = None then Inl (Denied ''workload principal is not enrolled'')
     else and_then (ok_or (Denied ''RPC has no authorization row'') (find_row service method)) (\<lambda>r.
     and_then (ok_or (Denied ''RPC has no handler adapter binding'') (handler_adapter_binding service method)) (\<lambda>_.
     let p = \<lparr>ap_name = uri_value uri, ap_kind = kind,
       ap_node_id = (case node_id of None \<Rightarrow> None | Some v \<Rightarrow> if v = [] then None else Some v),
       ap_fingerprint = le_fingerprint evidence\<rparr> in
     if is_workload kind
     then if row_workload r \<noteq> NotApplicable \<and> workload_binding_matches (row_workload r)
            (Some \<lparr>ew_kind = workload_kind kind, ew_node_id = ap_node_id p\<rparr>) (res_node_id resource)
          then Inr p else Inl (Denied ''workload binding does not authorize this RPC'')
     else if \<not> list_ex (\<lambda>a. assignment_covers a (ap_name p) (roles_for_row r kind) resource) (vp_assignments pol)
     then Inl (Denied ''role scope does not cover the complete resource tuple'')
     else Inr p)))))"

definition collect_scope :: "(AssignmentScope \<Rightarrow> string list option) \<Rightarrow> RoleAssignment list \<Rightarrow> string list option" where
  "collect_scope select assignments =
    (if list_ex (\<lambda>a. select (ra_scope a) = None) assignments then None
     else Some (sort (remdups (concat (List.map_filter (\<lambda>a. select (ra_scope a)) assignments)))))"

definition effective_resource :: "ValidatedPolicy \<Rightarrow> LeafEvidence \<Rightarrow> AuthorizationResource \<Rightarrow> AuthorizationResource" where
  "effective_resource pol evidence resource =
    (case res_node_id resource of
       Some _ \<Rightarrow> resource
     | None \<Rightarrow> (case le_principal evidence of
          None \<Rightarrow> resource
        | Some p \<Rightarrow> resource\<lparr>res_node_id :=
            enrolled_node (vp_proxy_enrollments pol @ vp_node_agent_enrollments pol) (uri_value p)\<rparr>))"

definition authorized_call ::
    "ValidatedPolicy \<Rightarrow> string \<Rightarrow> string \<Rightarrow> AuthorizedPrincipal \<Rightarrow> AuthorizationResource \<Rightarrow> RpcAuthorizationRow \<Rightarrow> AuthorizedCall" where
  "authorized_call pol service method p effective r =
    (let roles = roles_for_row r (ap_kind p);
         assignments = filter (\<lambda>a. ra_principal a = ap_name p \<and> ra_role a \<in> set roles) (vp_assignments pol) in
     \<lparr>ac_service = service, ac_method = method, ac_principal = p,
      ac_resource = \<lparr>res_namespace_id = res_namespace_id effective, res_node_id = res_node_id effective,
        res_job_queue_id = res_job_queue_id effective, res_manager_ids = res_manager_ids effective,
        namespace_filter = collect_scope namespace_ids assignments, node_filter = collect_scope node_ids assignments,
        job_queue_filter = collect_scope job_queue_ids assignments, manager_filter = collect_scope manager_ids assignments\<rparr>,
      ac_assignments = assignments\<rparr>)"

definition authorize ::
    "tls_deps \<Rightarrow> ValidatedPolicy \<Rightarrow> bool \<Rightarrow> rpc_request \<Rightarrow> string \<Rightarrow> string \<Rightarrow> AuthorizationResource \<Rightarrow>
      (auth_status + AuthorizedCall) \<times> rpc_request" where
  "authorize tls pol is_open req service method resource =
    (if length (matching_rows service method) \<noteq> 1 \<or> handler_adapter_binding service method = None
     then (Inl (Denied ''RPC authorization metadata is missing or ambiguous''), req)
     else case peer_evidence tls pol req of
       Inl e \<Rightarrow> (Inl e, req)
     | Inr evidence \<Rightarrow>
        let effective = effective_resource pol evidence resource in
        (case authorize_row_evidence pol service method evidence effective of
           Inl e \<Rightarrow> (Inl e, req)
         | Inr p \<Rightarrow>
            if \<not> is_open \<and> \<not> allowed_while_closed service method
            then (Inl (Admission_Closed ''privileged manager admission is closed''), req)
            else (case find_row service method of
                None \<Rightarrow> (Inl (Panicked ''unique row checked above''), req)
              | Some r \<Rightarrow>
                 let call = authorized_call pol service method p effective r in
                 (Inr call, req\<lparr>rq_principal := Some p, rq_call := Some call\<rparr>))))"

section \<open>The checks of the handlers\<close>

definition allows_infrastructure_read :: "ValidatedPolicy \<Rightarrow> AuthorizedPrincipal \<Rightarrow> string \<Rightarrow> bool" where
  "allows_infrastructure_read pol p node_id =
    has_node_grant pol p [Admin, View, Infra] [Status, Infra] (Some node_id)"

text \<open>Every check of a handler takes the peer, tests it, and leaves it in the request.\<close>

definition checked_peer ::
    "tls_deps \<Rightarrow> ValidatedPolicy \<Rightarrow> (AuthorizedPrincipal \<Rightarrow> bool) \<Rightarrow> string \<Rightarrow> rpc_request \<Rightarrow>
      (auth_status + AuthorizedPrincipal) \<times> rpc_request" where
  "checked_peer tls pol test message req =
    (case peer tls pol req of
       Inl e \<Rightarrow> (Inl e, req)
     | Inr p \<Rightarrow> if \<not> test p then (Inl (Denied message), req) else (Inr p, req\<lparr>rq_principal := Some p\<rparr>))"

definition authorize_infrastructure_read ::
    "tls_deps \<Rightarrow> ValidatedPolicy \<Rightarrow> rpc_request \<Rightarrow> string option \<Rightarrow> (auth_status + AuthorizedPrincipal) \<times> rpc_request" where
  "authorize_infrastructure_read tls pol req node_id =
    checked_peer tls pol (\<lambda>p. has_node_grant pol p [Admin, View, Infra] [Status, Infra] node_id)
      ''infrastructure read scope does not cover the requested node'' req"

definition authorize_infrastructure_write ::
    "tls_deps \<Rightarrow> ValidatedPolicy \<Rightarrow> rpc_request \<Rightarrow> string \<Rightarrow> (auth_status + AuthorizedPrincipal) \<times> rpc_request" where
  "authorize_infrastructure_write tls pol req node_id =
    checked_peer tls pol (\<lambda>p. has_node_grant pol p [Admin, Infra] [Infra] (Some node_id))
      ''infrastructure write scope does not cover the requested node'' req"

definition authorize_read :: "tls_deps \<Rightarrow> ValidatedPolicy \<Rightarrow> rpc_request \<Rightarrow> (auth_status + AuthorizedPrincipal) \<times> rpc_request" where
  "authorize_read tls pol req =
    checked_peer tls pol (\<lambda>p. has_role pol p [Admin, View, Infra, Status, Deploy]) ''read role is required'' req"

definition authorize_operator :: "tls_deps \<Rightarrow> ValidatedPolicy \<Rightarrow> rpc_request \<Rightarrow> (auth_status + AuthorizedPrincipal) \<times> rpc_request" where
  "authorize_operator tls pol req =
    checked_peer tls pol (\<lambda>p. has_role pol p [Admin, Infra, Deploy]) ''infrastructure write role is required'' req"

definition authorize_enrolled :: "tls_deps \<Rightarrow> ValidatedPolicy \<Rightarrow> rpc_request \<Rightarrow> (auth_status + AuthorizedPrincipal) \<times> rpc_request" where
  "authorize_enrolled tls pol req =
    checked_peer tls pol (\<lambda>p. (ap_kind p = Human \<or> ap_kind p = ServiceAccount) \<and>
        has_role pol p [Admin, View, Infra, Status, Deploy] \<or> is_workload (ap_kind p))
      ''policy status role or workload enrollment is required'' req"

definition authorize_proxy :: "tls_deps \<Rightarrow> ValidatedPolicy \<Rightarrow> rpc_request \<Rightarrow> (auth_status + AuthorizedPrincipal) \<times> rpc_request" where
  "authorize_proxy tls pol req =
    checked_peer tls pol (\<lambda>p. ap_kind p = Proxy \<and> ap_node_id p \<noteq> None) ''enrolled proxy identity is required'' req"

definition authorize_agent ::
    "tls_deps \<Rightarrow> ValidatedPolicy \<Rightarrow> rpc_request \<Rightarrow> string \<Rightarrow> (auth_status + AuthorizedPrincipal) \<times> rpc_request" where
  "authorize_agent tls pol req requested_node_id =
    checked_peer tls pol (\<lambda>p. ap_kind p = NodeAgent \<and> ap_node_id p = Some requested_node_id)
      ''node-agent principal is not bound to the requested node'' req"

section \<open>The policy service\<close>

record GetPolicyStatusResponse =
  gp_generation :: "64 word"
  gp_digest :: string
  gp_admission :: string
  gp_schema_version :: "32 word"
  gp_validator_version :: nat
  gp_cap_headroom :: CapHeadroom

record GetWorkloadSnapshotResponse =
  gw_generation :: "64 word"
  gw_digest :: string
  gw_serialized_snapshot :: string

text \<open>\<open>entered\<close> is the answer of \<open>try_enter\<close>; the name of the admission state is read from the lifecycle.\<close>

definition require_admission :: "bool \<Rightarrow> auth_status + unit" where
  "require_admission entered = (if entered then Inr () else Inl (Admission_Closed ''privileged manager admission is closed''))"

definition inner_policy_status ::
    "tls_deps \<Rightarrow> ValidatedPolicy \<Rightarrow> bool \<Rightarrow> string \<Rightarrow> rpc_request \<Rightarrow> auth_status + GetPolicyStatusResponse" where
  "inner_policy_status tls pol entered admission req =
    and_then (require_admission entered) (\<lambda>_.
    and_then (fst (authorize_enrolled tls pol req)) (\<lambda>_.
    Inr \<lparr>gp_generation = vp_generation pol, gp_digest = vp_digest pol, gp_admission = admission,
      gp_schema_version = vp_schema_version pol, gp_validator_version = AUTHORIZATION_POLICY_VALIDATOR_VERSION,
      gp_cap_headroom = vp_cap_headroom pol\<rparr>))"

definition inner_workload_snapshot ::
    "tls_deps \<Rightarrow> snapshot_deps \<Rightarrow> ValidatedPolicy \<Rightarrow> bool \<Rightarrow> int \<Rightarrow> rpc_request \<Rightarrow> auth_status + GetWorkloadSnapshotResponse" where
  "inner_workload_snapshot tls deps pol entered now req =
    and_then (require_admission entered) (\<lambda>_.
    and_then (fst (authorize_proxy tls pol req)) (\<lambda>_.
    and_then (map_err Projection_Failed (build_snapshot deps pol ProxyPeerV1 now)) (\<lambda>bytes.
    Inr \<lparr>gw_generation = vp_generation pol, gw_digest = vp_digest pol, gw_serialized_snapshot = bytes\<rparr>)))"

definition authorized_rpc ::
    "tls_deps \<Rightarrow> ValidatedPolicy \<Rightarrow> bool \<Rightarrow> string \<Rightarrow> string \<Rightarrow> (rpc_request \<Rightarrow> auth_status + 'r) \<Rightarrow> rpc_request \<Rightarrow> auth_status + 'r" where
  "authorized_rpc tls pol is_open service method inner req =
    (case authorize tls pol is_open req service method default_resource of
       (Inl e, _) \<Rightarrow> Inl e
     | (Inr call, req') \<Rightarrow> and_then (verify call service method) (\<lambda>_. inner req'))"

definition get_policy_status ::
    "tls_deps \<Rightarrow> ValidatedPolicy \<Rightarrow> bool \<Rightarrow> bool \<Rightarrow> string \<Rightarrow> rpc_request \<Rightarrow> auth_status + GetPolicyStatusResponse" where
  "get_policy_status tls pol is_open entered admission =
    authorized_rpc tls pol is_open ''wruntime.PolicyService'' ''GetPolicyStatus'' (inner_policy_status tls pol entered admission)"

definition get_workload_snapshot ::
    "tls_deps \<Rightarrow> snapshot_deps \<Rightarrow> ValidatedPolicy \<Rightarrow> bool \<Rightarrow> bool \<Rightarrow> int \<Rightarrow> rpc_request \<Rightarrow> auth_status + GetWorkloadSnapshotResponse" where
  "get_workload_snapshot tls deps pol is_open entered now =
    authorized_rpc tls pol is_open ''wruntime.PolicyService'' ''GetWorkloadSnapshot'' (inner_workload_snapshot tls deps pol entered now)"

section \<open>The tables\<close>

lemma rows_distinct: "distinct (map (\<lambda>r. (row_service r, row_method r)) MANAGER_RPC_ROWS)"
  by code_simp

lemma rows_bound: "list_all (\<lambda>r. list_ex (\<lambda>(s, ms, _). s = row_service r \<and> row_method r \<in> set ms) adapter_arms) MANAGER_RPC_ROWS"
  by code_simp

lemma rows_node_service:
  "list_all (\<lambda>r. row_service r = ''wruntime.NodeService'' \<longleftrightarrow> row_workload r \<in> {ProxyBound, NodeAgentBound}) MANAGER_RPC_ROWS"
  by code_simp

lemma arms_kind: "list_all (\<lambda>(s, _, k, _). s \<noteq> ''wruntime.NodeService'' \<and> (k = Human \<or> k = ServiceAccount)) role_arms"
  by code_simp

end
