(* ===== verification/Manager_Access.thy ===== *)
theory Manager_Access
  imports Manager_Auth Policy_Validation
begin

text \<open>
  What the authorization of manager RPCs enforces: exactly which callers it admits, that a workload acts
  only for its own node, that collections are filtered by whole grants, and that workload snapshots reach
  enrolled proxies only.
\<close>

section \<open>Specification\<close>

definition node_matches :: "NodeEnrollment list \<Rightarrow> string \<Rightarrow> string option \<Rightarrow> bool" where
  "node_matches es name node = list_ex (\<lambda>e. ne_principal e = name \<and> (node = None \<or> node = Some (ne_node_id e))) es"

definition row_grants :: "ValidatedPolicy \<Rightarrow> RpcAuthorizationRow \<Rightarrow> PrincipalUri \<Rightarrow> AuthorizationResource \<Rightarrow> bool" where
  "row_grants pol r p res =
    (case uri_kind p of
       Manager \<Rightarrow> row_workload r = EnrolledGlobal
     | Proxy \<Rightarrow> row_workload r \<in> {EnrolledGlobal, ProxyEnrolledGlobal} \<or>
         row_workload r = ProxyBound \<and> node_matches (vp_proxy_enrollments pol) (uri_value p) (res_node_id res)
     | NodeAgent \<Rightarrow> row_workload r = EnrolledGlobal \<or>
         row_workload r = NodeAgentBound \<and> node_matches (vp_node_agent_enrollments pol) (uri_value p) (res_node_id res)
     | kind \<Rightarrow> list_ex (\<lambda>a. assignment_covers a (uri_value p) (roles_for_row r kind) res) (vp_assignments pol))"

definition assignment_tuple :: "RoleAssignment \<Rightarrow> ResourceAssignment" where
  "assignment_tuple a =
    (let dim = (\<lambda>name v t. case v of None \<Rightarrow> unscoped name t | Some vs \<Rightarrow> scoped name vs t) in
     dim ''namespace'' (namespace_ids (ra_scope a)) (dim ''node'' (node_ids (ra_scope a))
       (dim ''job_queue'' (job_queue_ids (ra_scope a)) (dim ''manager'' (manager_ids (ra_scope a)) []))))"

definition item_tuple :: "string option \<Rightarrow> string option \<Rightarrow> string option \<Rightarrow> string option \<Rightarrow> (string \<times> string) list" where
  "item_tuple namespace_id node_id job_queue_id manager_id =
    List.map_filter (\<lambda>(name, v). map_option (Pair name) v)
      [(''namespace'', namespace_id), (''node'', node_id), (''job_queue'', job_queue_id), (''manager'', manager_id)]"

section \<open>Lookup\<close>

lemma find_key:
  assumes "distinct (map f xs)"
  shows "find (\<lambda>x. f x = k) xs = Some x \<longleftrightarrow> x \<in> set xs \<and> f x = k"
    and "length (filter (\<lambda>x. f x = k) xs) = (if find (\<lambda>x. f x = k) xs = None then 0 else 1)"
  using assms by (induction xs) (auto simp: find_None_iff filter_empty_conv)

lemma find_row_Some: "find_row s m = Some r \<longleftrightarrow> r \<in> set MANAGER_RPC_ROWS \<and> row_service r = s \<and> row_method r = m"
  using find_key(1) [OF rows_distinct, of "(s, m)" r] by (simp add: find_row_def)

lemma matching_rows_one: "length (matching_rows s m) = (if find_row s m = None then 0 else 1)"
  using find_key(2) [OF rows_distinct, of "(s, m)"] by (simp add: find_row_def matching_rows_def)

lemma bound_row: "find_row s m = Some r \<Longrightarrow> handler_adapter_binding s m \<noteq> None"
proof -
  assume r: "find_row s m = Some r"
  then have "list_ex (\<lambda>(s', ms, _). s' = s \<and> m \<in> set ms) adapter_arms"
    using rows_bound by (auto simp: find_row_Some list_all_iff)
  then have "find (\<lambda>(s', ms, _). s' = s \<and> m \<in> set ms) adapter_arms \<noteq> None"
    unfolding find_None_iff list_ex_iff by blast
  with r show ?thesis by (auto simp: handler_adapter_binding_def split: option.splits)
qed


lemma snapshot_row:
  "\<exists>r. find_row ''wruntime.PolicyService'' ''GetWorkloadSnapshot'' = Some r \<and> row_workload r = ProxyEnrolledGlobal"
proof -
  have "(case find_row ''wruntime.PolicyService'' ''GetWorkloadSnapshot'' of None \<Rightarrow> False
    | Some r \<Rightarrow> row_workload r = ProxyEnrolledGlobal)" by code_simp
  then show ?thesis by (simp split: option.splits)
qed

lemma roles_only:
  "roles_for_row r k \<noteq> [] \<Longrightarrow> row_service r \<noteq> ''wruntime.NodeService'' \<and> (k = Human \<or> k = ServiceAccount)"
  using arms_kind by (fastforce simp: roles_for_row_def list_all_iff find_Some_iff split: option.splits dest: nth_mem)

lemma roles_workload [simp]: "is_workload k \<Longrightarrow> roles_for_row r k = []"
  using roles_only by (fastforce simp: is_workload_def)

section \<open>Enrollment\<close>

lemma enrolled_node_Some:
  assumes "distinct (map ne_principal es)"
  shows "enrolled_node es u = Some n \<longleftrightarrow> (\<exists>e\<in>set es. ne_principal e = u \<and> ne_node_id e = n)"
proof -
  have "find (\<lambda>e. ne_principal e = u) es = Some e \<longleftrightarrow> e \<in> set es \<and> ne_principal e = u" for e
    using find_key(1) [OF assms] .
  then show ?thesis by (fastforce simp: enrolled_node_def)
qed

lemma enrolled_node_append:
  "enrolled_node (xs @ ys) u = (case enrolled_node xs u of None \<Rightarrow> enrolled_node ys u | Some n \<Rightarrow> Some n)"
  by (induction xs) (auto simp: enrolled_node_def)

lemma enrolled_node_None: "enrolled_node es u = None \<longleftrightarrow> u \<notin> ne_principal ` set es"
  by (auto simp: enrolled_node_def find_None_iff)

lemma node_matches_iff:
  assumes "distinct (map ne_principal es)"
  shows "node_matches es u node \<longleftrightarrow> (\<exists>n. enrolled_node es u = Some n \<and> (node = None \<or> node = Some n))"
  using enrolled_node_Some [OF assms] by (auto simp: node_matches_def list_ex_iff)

text \<open>In a validated policy a declared workload has its one enrollment, and no other principal has any.\<close>

lemma wf_enrollment:
  assumes "policy_wf deps pol" "map_of (vp_principals pol) u = Some k"
  shows "enrolled_node (vp_proxy_enrollments pol) u \<noteq> None \<longleftrightarrow> k = Proxy"
    "enrolled_node (vp_node_agent_enrollments pol) u \<noteq> None \<longleftrightarrow> k = NodeAgent"
    "manager_enrolled pol u \<longleftrightarrow> k = Manager"
    "distinct (map ne_principal (vp_proxy_enrollments pol))" "distinct (map ne_principal (vp_node_agent_enrollments pol))"
proof -
  have e: "enrolled_as (vp_principals pol) Manager (map me_principal (vp_manager_enrollments pol))"
    "enrolled_as (vp_principals pol) Proxy (map ne_principal (vp_proxy_enrollments pol))"
    "enrolled_as (vp_principals pol) NodeAgent (map ne_principal (vp_node_agent_enrollments pol))"
    using assms(1) by (auto simp: policy_wf_def)
  show "enrolled_node (vp_proxy_enrollments pol) u \<noteq> None \<longleftrightarrow> k = Proxy"
    using e(2) assms(2) by (auto simp: enrolled_as_def enrolled_node_None)
  show "enrolled_node (vp_node_agent_enrollments pol) u \<noteq> None \<longleftrightarrow> k = NodeAgent"
    using e(3) assms(2) by (auto simp: enrolled_as_def enrolled_node_None)
  show "manager_enrolled pol u \<longleftrightarrow> k = Manager"
    using e(1) assms(2) unfolding enrolled_as_def manager_enrolled_def list_ex_iff
    by (metis (no_types, lifting) imageE image_eqI list.set_map option.inject)
  show "distinct (map ne_principal (vp_proxy_enrollments pol))" "distinct (map ne_principal (vp_node_agent_enrollments pol))"
    using e(2,3) by (simp_all add: enrolled_as_def)
qed

lemma enrolled_node_in: "enrolled_node es u = Some n \<Longrightarrow> \<exists>e\<in>set es. ne_principal e = u \<and> ne_node_id e = n"
  by (auto simp: enrolled_node_def find_Some_iff)

lemma wf_node_nonempty:
  assumes "policy_wf deps pol"
  shows "enrolled_node (vp_proxy_enrollments pol) u = Some n \<Longrightarrow> n \<noteq> []"
    "enrolled_node (vp_node_agent_enrollments pol) u = Some n \<Longrightarrow> n \<noteq> []"
proof -
  have "list_all (\<lambda>e. valid_name (ne_node_id e)) (vp_proxy_enrollments pol @ vp_node_agent_enrollments pol)"
    using assms by (simp add: policy_wf_def)
  moreover have "valid_name v \<Longrightarrow> v \<noteq> []" for v by (auto simp: valid_name_def)
  ultimately have "\<forall>e\<in>set (vp_proxy_enrollments pol @ vp_node_agent_enrollments pol). ne_node_id e \<noteq> []"
    unfolding list_all_iff by blast
  then show "enrolled_node (vp_proxy_enrollments pol) u = Some n \<Longrightarrow> n \<noteq> []"
    "enrolled_node (vp_node_agent_enrollments pol) u = Some n \<Longrightarrow> n \<noteq> []"
    using enrolled_node_in by fastforce+
qed

lemma validated_wf: "validate_policy deps bytes = Inr pol \<Longrightarrow> policy_wf deps pol"
  using validate_raw_wf by (fastforce simp: validate_policy_def split: if_splits)

section \<open>The stages of a call\<close>

lemma peer_evidence_Inr:
  "peer_evidence tls pol req = Inr ev \<longleftrightarrow>
    (\<exists>cert rest. rq_peer_certs req = Some (cert # rest) \<and> validate_client_leaf tls cert (vp_cluster_id pol) = Inr ev)"
proof (cases "rq_peer_certs req")
  case (Some certs)
  then show ?thesis by (cases certs) (auto simp: peer_evidence_def map_err_Inr ok_or_def)
qed (simp add: peer_evidence_def ok_or_def)

lemma evidence_principal:
  assumes "peer_evidence tls pol req = Inr ev"
  obtains p where "le_principal ev = Some p" "uri_cluster_id p = vp_cluster_id pol" "le_profile ev = Client_Leaf"
proof -
  from assms obtain cert where c: "validate_client_leaf tls cert (vp_cluster_id pol) = Inr ev"
    by (auto simp: peer_evidence_Inr)
  then obtain p where "le_principal ev = Some p" "uri_cluster_id p = vp_cluster_id pol"
    unfolding validate_client_leaf_def by (rule client_leaf_identity) simp
  moreover have "le_profile ev = Client_Leaf"
    using c by (auto simp: validate_client_leaf_def parse_leaf_evidence_def split: if_splits)
  ultimately show thesis using that by blast
qed

text \<open>The authorizer in one step: everything a granted call needs, and what it then returns.\<close>

lemma authorize_Inr:
  "authorize tls pol is_open req s m res = (Inr call, req') \<longleftrightarrow>
    (\<exists>r ev ap. find_row s m = Some r \<and> peer_evidence tls pol req = Inr ev \<and>
      authorize_row_evidence pol s m ev (effective_resource pol ev res) = Inr ap \<and> (is_open \<or> allowed_while_closed s m) \<and>
      call = authorized_call pol s m ap (effective_resource pol ev res) r \<and>
      req' = req\<lparr>rq_principal := Some ap, rq_call := Some call\<rparr>)"
  using bound_row [of s m]
  by (auto simp: authorize_def matching_rows_one Let_def split: sum.splits option.splits if_splits)

definition principal_of :: "ValidatedPolicy \<Rightarrow> LeafEvidence \<Rightarrow> PrincipalUri \<Rightarrow> AuthorizedPrincipal" where
  "principal_of pol ev p = \<lparr>ap_name = uri_value p, ap_kind = uri_kind p,
    ap_node_id = (case uri_kind p of
        Proxy \<Rightarrow> enrolled_node (vp_proxy_enrollments pol) (uri_value p)
      | NodeAgent \<Rightarrow> enrolled_node (vp_node_agent_enrollments pol) (uri_value p)
      | _ \<Rightarrow> None),
    ap_fingerprint = le_fingerprint ev\<rparr>"

lemma effective_node:
  assumes "policy_wf deps pol" "map_of (vp_principals pol) (uri_value p) = Some (uri_kind p)" "le_principal ev = Some p"
  shows "res_node_id (effective_resource pol ev res) =
    (if res_node_id res = None then ap_node_id (principal_of pol ev p) else res_node_id res)"
    "\<not> is_workload (uri_kind p) \<Longrightarrow> effective_resource pol ev res = res"
  using assms(3) wf_enrollment [OF assms(1,2)]
  by (auto simp: effective_resource_def principal_of_def enrolled_node_append is_workload_def
      split: option.splits PrincipalKind.splits)

lemma row_evidence_Inr:
  assumes wf: "policy_wf deps pol" and ev: "peer_evidence tls pol req = Inr ev" "le_principal ev = Some p"
    and r: "find_row s m = Some r"
  shows "authorize_row_evidence pol s m ev (effective_resource pol ev res) = Inr ap \<longleftrightarrow>
    le_fingerprint ev \<notin> set (vp_revoked_leaf_fingerprints pol) \<and>
    map_of (vp_principals pol) (uri_value p) = Some (uri_kind p) \<and> row_grants pol r p res \<and> ap = principal_of pol ev p"
proof (cases "map_of (vp_principals pol) (uri_value p) = Some (uri_kind p)")
  case True
  obtain b where b: "handler_adapter_binding s m = Some b" using bound_row [OF r] by blast
  have id: "le_profile ev = Client_Leaf" "uri_cluster_id p = vp_cluster_id pol"
    using evidence_principal [OF ev(1)] ev(2) by auto
  note wfs = wf_enrollment [OF wf True] wf_node_nonempty [OF wf]
  note eff = effective_node [OF wf True ev(2), of res]
  have "authorize_row_evidence pol s m ev (effective_resource pol ev res) = Inr ap \<longleftrightarrow>
    le_fingerprint ev \<notin> set (vp_revoked_leaf_fingerprints pol) \<and> row_grants pol r p res \<and> ap = principal_of pol ev p"
  proof (cases "is_workload (uri_kind p)")
    case w: True
    have "node_matches (vp_proxy_enrollments pol) u node \<longleftrightarrow> (\<exists>n. enrolled_node (vp_proxy_enrollments pol) u = Some n \<and> (node = None \<or> node = Some n))"
      "node_matches (vp_node_agent_enrollments pol) u node \<longleftrightarrow> (\<exists>n. enrolled_node (vp_node_agent_enrollments pol) u = Some n \<and> (node = None \<or> node = Some n))" for u node
      using node_matches_iff wfs(4,5) by blast+
    with w show ?thesis using id ev(2) r b True wfs(1,2,3,6,7) eff(1)
      by (cases "uri_kind p"; cases "row_workload r")
        (auto simp: authorize_row_evidence_def ok_or_def is_workload_def enrollment_of_def workload_kind_def
          workload_binding_matches_def row_grants_def principal_of_def Let_def split: option.splits if_splits)
  next
    case False
    then show ?thesis using id ev(2) r b True eff(2)
      by (cases "uri_kind p") (auto simp: authorize_row_evidence_def ok_or_def is_workload_def enrollment_of_def
          row_grants_def principal_of_def Let_def split: if_splits)
  qed
  with True show ?thesis by simp
next
  case False
  then show ?thesis using ev(2) by (auto simp: authorize_row_evidence_def ok_or_def split: option.splits if_splits)
qed

lemma authorize_granted:
  assumes "policy_wf deps pol"
  shows "authorize tls pol is_open req s m res = (Inr call, req') \<longleftrightarrow>
    (\<exists>r cert rest ev p. r \<in> set MANAGER_RPC_ROWS \<and> row_service r = s \<and> row_method r = m \<and>
      rq_peer_certs req = Some (cert # rest) \<and> validate_client_leaf tls cert (vp_cluster_id pol) = Inr ev \<and>
      le_principal ev = Some p \<and> le_fingerprint ev \<notin> set (vp_revoked_leaf_fingerprints pol) \<and>
      map_of (vp_principals pol) (uri_value p) = Some (uri_kind p) \<and> row_grants pol r p res \<and>
      (is_open \<or> allowed_while_closed s m) \<and>
      call = authorized_call pol s m (principal_of pol ev p) (effective_resource pol ev res) r \<and>
      req' = req\<lparr>rq_principal := Some (principal_of pol ev p), rq_call := Some call\<rparr>)" (is "?L \<longleftrightarrow> ?R")
proof
  assume ?L
  then obtain r ev ap where a: "find_row s m = Some r" "peer_evidence tls pol req = Inr ev"
    "authorize_row_evidence pol s m ev (effective_resource pol ev res) = Inr ap" "is_open \<or> allowed_while_closed s m"
    "call = authorized_call pol s m ap (effective_resource pol ev res) r"
    "req' = req\<lparr>rq_principal := Some ap, rq_call := Some call\<rparr>"
    unfolding authorize_Inr by blast
  obtain p where p: "le_principal ev = Some p" by (rule evidence_principal [OF a(2)])
  note e = a(3) [unfolded row_evidence_Inr [OF assms a(2) p a(1)]]
  show ?R using a(1,2,4,5,6) p e unfolding find_row_Some peer_evidence_Inr by blast
next
  assume ?R
  then obtain r ev p where a: "find_row s m = Some r" "peer_evidence tls pol req = Inr ev" "le_principal ev = Some p"
    "le_fingerprint ev \<notin> set (vp_revoked_leaf_fingerprints pol)"
    "map_of (vp_principals pol) (uri_value p) = Some (uri_kind p)" "row_grants pol r p res"
    "is_open \<or> allowed_while_closed s m"
    "call = authorized_call pol s m (principal_of pol ev p) (effective_resource pol ev res) r"
    "req' = req\<lparr>rq_principal := Some (principal_of pol ev p), rq_call := Some call\<rparr>"
    unfolding find_row_Some peer_evidence_Inr by blast
  then show ?L unfolding authorize_Inr using row_evidence_Inr [OF assms a(2,3,1)] by blast
qed

section \<open>Collections\<close>

lemma covers_item:
  "covers (assignment_tuple a) (item_tuple namespace_id node_id job_queue_id manager_id) \<longleftrightarrow>
    scope_allows (namespace_ids (ra_scope a)) namespace_id \<and> scope_allows (node_ids (ra_scope a)) node_id \<and>
    scope_allows (job_queue_ids (ra_scope a)) job_queue_id \<and> scope_allows (manager_ids (ra_scope a)) manager_id"
proof -
  have "map_of (assignment_tuple a) ''namespace'' = Some (map_option (\<lambda>vs. sort (remdups vs)) (namespace_ids (ra_scope a)))"
    "map_of (assignment_tuple a) ''node'' = Some (map_option (\<lambda>vs. sort (remdups vs)) (node_ids (ra_scope a)))"
    "map_of (assignment_tuple a) ''job_queue'' = Some (map_option (\<lambda>vs. sort (remdups vs)) (job_queue_ids (ra_scope a)))"
    "map_of (assignment_tuple a) ''manager'' = Some (map_option (\<lambda>vs. sort (remdups vs)) (manager_ids (ra_scope a)))"
    by (simp_all add: assignment_tuple_def Let_def scoped_def unscoped_def split: option.splits)
  then show ?thesis
    by (simp add: covers_def item_tuple_def List.map_filter_simps scope_allows_def split: option.splits)
qed

lemma call_assignments:
  assumes "policy_wf deps pol" "authorize tls pol is_open req s m res = (Inr call, req')"
  shows "ac_assignments call = [] \<longleftrightarrow> is_workload (ap_kind (ac_principal call))"
    "\<exists>r\<in>set MANAGER_RPC_ROWS. row_service r = s \<and> row_method r = m \<and>
      set (ac_assignments call) = {a \<in> set (vp_assignments pol). ra_principal a = ap_name (ac_principal call) \<and>
        ra_role a \<in> set (roles_for_row r (ap_kind (ac_principal call)))}"
proof -
  from assms(2) obtain r ev p where a: "r \<in> set MANAGER_RPC_ROWS" "row_service r = s" "row_method r = m"
    "row_grants pol r p res" "call = authorized_call pol s m (principal_of pol ev p) (effective_resource pol ev res) r"
    unfolding authorize_granted [OF assms(1)] by blast
  then show "\<exists>r\<in>set MANAGER_RPC_ROWS. row_service r = s \<and> row_method r = m \<and>
      set (ac_assignments call) = {a \<in> set (vp_assignments pol). ra_principal a = ap_name (ac_principal call) \<and>
        ra_role a \<in> set (roles_for_row r (ap_kind (ac_principal call)))}"
    by (auto simp: authorized_call_def Let_def)
  show "ac_assignments call = [] \<longleftrightarrow> is_workload (ap_kind (ac_principal call))"
  proof (cases "is_workload (uri_kind p)")
    case True
    then show ?thesis using a(5) by (simp add: authorized_call_def Let_def principal_of_def)
  next
    case False
    then have "\<exists>a\<in>set (vp_assignments pol). ra_principal a = uri_value p \<and> ra_role a \<in> set (roles_for_row r (uri_kind p))"
      using a(4) by (cases "uri_kind p") (auto simp: row_grants_def is_workload_def list_ex_iff assignment_covers_def)
    then show ?thesis using False a(5) by (auto simp: authorized_call_def Let_def principal_of_def filter_empty_conv)
  qed
qed

section \<open>The written capabilities\<close>



section \<open>Properties\<close>

text \<open>
  C1. The authorizer grants a call exactly when the RPC is in the table, the peer's first certificate is a
  client leaf of this cluster whose fingerprint is not revoked, its principal is declared with the kind
  its URI names, admission is open or the RPC is one of those served while it is closed, and the row
  grants it: a workload by its binding and enrolled node, anyone else by one assignment that has a role of
  the RPC and covers the whole resource.
\<close>

theorem manager_call_granted:
  assumes "validate_policy deps bytes = Inr pol"
  shows "is_ok (fst (authorize tls pol is_open req service method res)) \<longleftrightarrow>
    (\<exists>r cert rest ev p. r \<in> set MANAGER_RPC_ROWS \<and> row_service r = service \<and> row_method r = method \<and>
      rq_peer_certs req = Some (cert # rest) \<and> validate_client_leaf tls cert (vp_cluster_id pol) = Inr ev \<and>
      le_principal ev = Some p \<and> le_fingerprint ev \<notin> set (vp_revoked_leaf_fingerprints pol) \<and>
      map_of (vp_principals pol) (uri_value p) = Some (uri_kind p) \<and>
      (is_open \<or> allowed_while_closed service method) \<and> row_grants pol r p res)"
proof -
  have "is_ok (fst (authorize tls pol is_open req service method res)) \<longleftrightarrow>
    (\<exists>call req'. authorize tls pol is_open req service method res = (Inr call, req'))"
    by (auto simp: is_ok_iff prod_eq_iff)
  then show ?thesis unfolding authorize_granted [OF validated_wf [OF assms]] by blast
qed

text \<open>
  C11. A node RPC is granted only to a proxy or node agent, only while admission is open, and only for the
  node the caller is enrolled for: a request that names a node names that one, the call carries it, and the
  handler's own check of the stored principal accepts a node agent for that node and no other.
\<close>

theorem node_service_bound:
  assumes "validate_policy deps bytes = Inr pol"
    "authorize tls pol is_open req ''wruntime.NodeService'' method res = (Inr call, req')"
  shows "is_open \<and> (\<exists>e. ne_principal e = ap_name (ac_principal call) \<and>
    (ap_kind (ac_principal call) = Proxy \<and> e \<in> set (vp_proxy_enrollments pol) \<or>
     ap_kind (ac_principal call) = NodeAgent \<and> e \<in> set (vp_node_agent_enrollments pol)) \<and>
    ap_node_id (ac_principal call) = Some (ne_node_id e) \<and> res_node_id (ac_resource call) = Some (ne_node_id e) \<and>
    res_node_id res \<in> {None, Some (ne_node_id e)} \<and>
    (\<forall>node. is_ok (fst (authorize_agent tls pol req' node)) \<longleftrightarrow>
      ap_kind (ac_principal call) = NodeAgent \<and> node = ne_node_id e))"
proof -
  note wf = validated_wf [OF assms(1)]
  from assms(2) obtain r ev p where a: "r \<in> set MANAGER_RPC_ROWS" "row_service r = ''wruntime.NodeService''"
    "le_principal ev = Some p" "map_of (vp_principals pol) (uri_value p) = Some (uri_kind p)" "row_grants pol r p res"
    "is_open \<or> allowed_while_closed ''wruntime.NodeService'' method"
    "call = authorized_call pol ''wruntime.NodeService'' method (principal_of pol ev p) (effective_resource pol ev res) r"
    "req' = req\<lparr>rq_principal := Some (principal_of pol ev p), rq_call := Some call\<rparr>"
    unfolding authorize_granted [OF wf] by blast
  have b: "row_workload r \<in> {ProxyBound, NodeAgentBound}" using rows_node_service a(1,2) by (auto simp: list_all_iff)
  have "roles_for_row r k = []" for k using roles_only a(2) by blast
  then have "\<exists>n. ap_node_id (principal_of pol ev p) = Some n \<and> res_node_id res \<in> {None, Some n} \<and>
    (uri_kind p = Proxy \<and> enrolled_node (vp_proxy_enrollments pol) (uri_value p) = Some n \<or>
     uri_kind p = NodeAgent \<and> enrolled_node (vp_node_agent_enrollments pol) (uri_value p) = Some n)"
    using a(5) b node_matches_iff [OF wf_enrollment(4) [OF wf a(4)]] node_matches_iff [OF wf_enrollment(5) [OF wf a(4)]]
    by (cases "uri_kind p") (auto simp: row_grants_def principal_of_def list_ex_iff assignment_covers_def)
  then obtain n e where n: "ap_node_id (principal_of pol ev p) = Some n" "res_node_id res \<in> {None, Some n}"
    "ne_principal e = uri_value p" "ne_node_id e = n" "uri_kind p = Proxy \<and> e \<in> set (vp_proxy_enrollments pol) \<or>
      uri_kind p = NodeAgent \<and> e \<in> set (vp_node_agent_enrollments pol)"
    using enrolled_node_in by blast
  have c: "ac_principal call = principal_of pol ev p" "res_node_id (ac_resource call) = Some n"
    using a(7) effective_node(1) [OF wf a(4,3), of res] n(1,2) by (auto simp: authorized_call_def Let_def)
  have "is_open" using a(6) by (simp add: allowed_while_closed_def)
  moreover have "is_ok (fst (authorize_agent tls pol req' node)) \<longleftrightarrow> uri_kind p = NodeAgent \<and> node = n" for node
    using a(8) n(1) by (auto simp: authorize_agent_def checked_peer_def peer_def principal_of_def)
  ultimately show ?thesis using n c by (auto simp: principal_of_def intro!: exI [of _ e])
qed

text \<open>
  C22. A collection is filtered by whole grants: a workload sees every item, anyone else an item exactly when
  a single assignment of theirs with a role of the RPC covers all its dimensions. Dimensions of different
  assignments are never combined, and the rule that an empty list of assignments admits everything never
  applies to a human or service account.
\<close>

theorem collection_whole_grants:
  assumes "validate_policy deps bytes = Inr pol" "authorize tls pol is_open req service method res = (Inr call, req')"
  shows "\<exists>r\<in>set MANAGER_RPC_ROWS. row_service r = service \<and> row_method r = method \<and>
    (allows_collection_item call namespace_id node_id job_queue_id manager_id \<longleftrightarrow>
      is_workload (ap_kind (ac_principal call)) \<or>
      (\<exists>a. a \<in> set (vp_assignments pol) \<and> ra_principal a = ap_name (ac_principal call) \<and>
        ra_role a \<in> set (roles_for_row r (ap_kind (ac_principal call))) \<and>
        assignment_union_covers [assignment_tuple a] (item_tuple namespace_id node_id job_queue_id manager_id)))"
  using call_assignments [OF validated_wf [OF assms(1)] assms(2)]
  by (fastforce simp: allows_collection_item_def assignment_union_covers_def covers_item list_ex_iff)

text \<open>
  C21. A workload snapshot is served exactly to an enrolled proxy: the peer holds an unrevoked client leaf of
  the cluster for a principal declared as proxy, admission is open at both checks, and the response is the
  proxy projection of the current policy. The authorizer lets humans with a view role pass for this RPC; the
  handler's own check of the stored principal turns them away.
\<close>

theorem workload_snapshot_served:
  assumes "validate_policy deps bytes = Inr pol"
  shows "get_workload_snapshot tls sdeps pol is_open entered now req = Inr resp \<longleftrightarrow>
    is_open \<and> entered \<and>
    (\<exists>cert rest ev p. rq_peer_certs req = Some (cert # rest) \<and>
      validate_client_leaf tls cert (vp_cluster_id pol) = Inr ev \<and> le_principal ev = Some p \<and> uri_kind p = Proxy \<and>
      le_fingerprint ev \<notin> set (vp_revoked_leaf_fingerprints pol) \<and> map_of (vp_principals pol) (uri_value p) = Some Proxy) \<and>
    build_snapshot sdeps pol ProxyPeerV1 now = Inr (gw_serialized_snapshot resp) \<and>
    gw_generation resp = vp_generation pol \<and> gw_digest resp = vp_digest pol" (is "?L \<longleftrightarrow> is_open \<and> entered \<and> ?P \<and> ?B")
proof -
  let ?s = "''wruntime.PolicyService''" and ?m = "''GetWorkloadSnapshot''"
  note wf = validated_wf [OF assms]
  have "?L \<longleftrightarrow> (\<exists>call req'. authorize tls pol is_open req ?s ?m default_resource = (Inr call, req') \<and>
      verify call ?s ?m = Inr () \<and> entered \<and> is_ok (fst (authorize_proxy tls pol req')) \<and> ?B)"
    by (cases resp) (auto simp: get_workload_snapshot_def authorized_rpc_def inner_workload_snapshot_def require_admission_def
        map_err_Inr is_ok_iff split: prod.splits sum.splits if_splits)
  also have "\<dots> \<longleftrightarrow> is_open \<and> entered \<and> ?P \<and> ?B"
  proof (intro iffI conjI; (elim exE conjE)?)
    fix call req'
    assume a: "authorize tls pol is_open req ?s ?m default_resource = (Inr call, req')" "is_ok (fst (authorize_proxy tls pol req'))"
    then obtain cert rest ev p where g: "rq_peer_certs req = Some (cert # rest)"
      "validate_client_leaf tls cert (vp_cluster_id pol) = Inr ev" "le_principal ev = Some p"
      "le_fingerprint ev \<notin> set (vp_revoked_leaf_fingerprints pol)" "map_of (vp_principals pol) (uri_value p) = Some (uri_kind p)"
      "is_open \<or> allowed_while_closed ?s ?m" "rq_principal req' = Some (principal_of pol ev p)"
      unfolding authorize_granted [OF wf] by fastforce
    show is_open using g(6) by (simp add: allowed_while_closed_def)
    have "uri_kind p = Proxy" using a(2) g(7) by (auto simp: authorize_proxy_def checked_peer_def peer_def principal_of_def split: if_splits)
    then show ?P using g by auto
  next
    fix cert rest ev p
    assume o: is_open and e: entered and g: "rq_peer_certs req = Some (cert # rest)"
      "validate_client_leaf tls cert (vp_cluster_id pol) = Inr ev" "le_principal ev = Some p" "uri_kind p = Proxy"
      "le_fingerprint ev \<notin> set (vp_revoked_leaf_fingerprints pol)" "map_of (vp_principals pol) (uri_value p) = Some Proxy"
      and b: "build_snapshot sdeps pol ProxyPeerV1 now = Inr (gw_serialized_snapshot resp)"
      "gw_generation resp = vp_generation pol" "gw_digest resp = vp_digest pol"
    obtain r where r: "find_row ?s ?m = Some r" "row_workload r = ProxyEnrolledGlobal" using snapshot_row by blast
    let ?req = "\<lambda>c. req\<lparr>rq_principal := Some (principal_of pol ev p), rq_call := Some c\<rparr>"
    let ?c = "authorized_call pol ?s ?m (principal_of pol ev p) (effective_resource pol ev default_resource) r"
    have "authorize tls pol is_open req ?s ?m default_resource = (Inr ?c, ?req ?c)"
      unfolding authorize_granted [OF wf] using r o g by (fastforce simp: find_row_Some row_grants_def)
    moreover have "verify ?c ?s ?m = Inr ()" by (simp add: verify_def authorized_call_def Let_def)
    moreover have "is_ok (fst (authorize_proxy tls pol (?req c)))" for c
      using g(4) wf_enrollment(1) [OF wf g(6)] by (auto simp: authorize_proxy_def checked_peer_def peer_def principal_of_def)
    ultimately show "\<exists>call req'. authorize tls pol is_open req ?s ?m default_resource = (Inr call, req') \<and>
      verify call ?s ?m = Inr () \<and> entered \<and> is_ok (fst (authorize_proxy tls pol req')) \<and> ?B"
      using e b by blast
  qed blast+
  finally show ?thesis .
qed


section \<open>Witnesses\<close>

text \<open>A parser under which the bytes of a certificate are its URI.\<close>

definition sample_tls :: tls_deps where
  "sample_tls = \<lparr>td_from_der = \<lambda>der. Some ([], \<lparr>x_eku = Inr (Some \<lparr>eku_any = False, eku_server_auth = False,
      eku_client_auth = True, eku_code_signing = False, eku_email_protection = False, eku_time_stamping = False,
      eku_ocsp_signing = False, eku_other = []\<rparr>),
      x_san = Inr (Some [San_URI der]), x_basic_constraints_ca = Inr None, x_key_cert_sign = Inr None,
      x_spki = ''k'', x_serial = ''01''\<rparr>), td_sha256 = \<lambda>_. replicate 32 (CHR ''0'')\<rparr>"

definition sample_request :: "string \<Rightarrow> rpc_request" where
  "sample_request uri = \<lparr>rq_peer_certs = Some [uri], rq_principal = None, rq_call = None\<rparr>"

definition sample_access :: "string \<Rightarrow> ValidatedPolicy \<Rightarrow> bool" where
  "sample_access uri pol = (case validate_client_leaf sample_tls uri (vp_cluster_id pol) of
      Inl _ \<Rightarrow> False
    | Inr ev \<Rightarrow> (case le_principal ev of None \<Rightarrow> False | Some p \<Rightarrow> uri_value p = uri \<and>
        le_fingerprint ev \<notin> set (vp_revoked_leaf_fingerprints pol) \<and> map_of (vp_principals pol) uri = Some (uri_kind p)))"

definition sample_assignment :: RoleAssignment where
  "sample_assignment = \<lparr>ra_principal = ''urn:wruntime:c1:human:ana'', ra_role = Infra,
    ra_scope = no_scope\<lparr>manager_ids := Some [''m1'']\<rparr>\<rparr>"

lemma sample_policy_access:
  "and_then (validate_policy sample_policy_deps ''policy'') (\<lambda>p. Inr (sample_access ''urn:wruntime:c1:human:ana'' p,
      sample_access ''urn:wruntime:c1:proxy:p1'' p, map_of (vp_principals p) ''urn:wruntime:c1:human:ana'',
      map_of (vp_principals p) ''urn:wruntime:c1:proxy:p1'', vp_assignments p)) =
    Inr (True, True, Some Human, Some Proxy, [sample_assignment])"
  by code_simp

lemma sample_policy:
  obtains pol where "validate_policy sample_policy_deps ''policy'' = Inr pol"
    "sample_access ''urn:wruntime:c1:human:ana'' pol" "sample_access ''urn:wruntime:c1:proxy:p1'' pol"
    "map_of (vp_principals pol) ''urn:wruntime:c1:human:ana'' = Some Human"
    "map_of (vp_principals pol) ''urn:wruntime:c1:proxy:p1'' = Some Proxy"
    "vp_assignments pol = [sample_assignment]" "vp_generation pol = 7" "vp_digest pol = zero_digest"
    "vp_proxy_enrollments pol = [\<lparr>ne_principal = ''urn:wruntime:c1:proxy:p1'', ne_node_id = ''n1''\<rparr>]"
  using sample_policy_access sample_policy_fields by auto

lemma sample_access_elim:
  assumes "sample_access uri pol" "map_of (vp_principals pol) uri = Some k"
  obtains ev p where "validate_client_leaf sample_tls uri (vp_cluster_id pol) = Inr ev" "le_principal ev = Some p"
    "uri_value p = uri" "uri_kind p = k" "le_fingerprint ev \<notin> set (vp_revoked_leaf_fingerprints pol)"
  using assms by (auto simp: sample_access_def split: sum.splits option.splits)

lemma sample_rows:
  "case find_row ''wruntime.InfrastructureService'' ''BeginManagerRollout'' of None \<Rightarrow> False
    | Some r \<Rightarrow> Infra \<in> set (roles_for_row r Human)"
  "case find_row ''wruntime.InfrastructureService'' ''ListOperations'' of None \<Rightarrow> False
    | Some r \<Rightarrow> Infra \<in> set (roles_for_row r Human)"
  "case find_row ''wruntime.NodeService'' ''Heartbeat'' of None \<Rightarrow> False | Some r \<Rightarrow> row_workload r = ProxyBound"
  by code_simp+

abbreviation rollout_resource :: AuthorizationResource where
  "rollout_resource \<equiv> default_resource\<lparr>res_manager_ids := [''m1'']\<rparr>"

lemma sample_covers: "Infra \<in> set roles \<Longrightarrow> assignment_covers sample_assignment ''urn:wruntime:c1:human:ana'' roles rollout_resource"
  "Infra \<in> set roles \<Longrightarrow> assignment_covers sample_assignment ''urn:wruntime:c1:human:ana'' roles default_resource"
  by (simp_all add: assignment_covers_def sample_assignment_def no_scope_def scope_allows_def default_resource_def)

theorem manager_call_granted_witness:
  "\<exists>pol. validate_policy sample_policy_deps ''policy'' = Inr pol \<and>
    is_ok (fst (authorize sample_tls pol False (sample_request ''urn:wruntime:c1:human:ana'')
      ''wruntime.InfrastructureService'' ''BeginManagerRollout'' rollout_resource))"
proof -
  obtain pol where p: "validate_policy sample_policy_deps ''policy'' = Inr pol" "sample_access ''urn:wruntime:c1:human:ana'' pol"
    "map_of (vp_principals pol) ''urn:wruntime:c1:human:ana'' = Some Human" "vp_assignments pol = [sample_assignment]"
    by (rule sample_policy)
  obtain r where r: "find_row ''wruntime.InfrastructureService'' ''BeginManagerRollout'' = Some r" "Infra \<in> set (roles_for_row r Human)"
    using sample_rows(1) by (auto split: option.splits)
  obtain ev q where e: "validate_client_leaf sample_tls ''urn:wruntime:c1:human:ana'' (vp_cluster_id pol) = Inr ev"
    "le_principal ev = Some q" "uri_value q = ''urn:wruntime:c1:human:ana''" "uri_kind q = Human"
    "le_fingerprint ev \<notin> set (vp_revoked_leaf_fingerprints pol)"
    by (rule sample_access_elim [OF p(2,3)])
  have "row_grants pol r q rollout_resource" using e(3,4) p(4) sample_covers(1) [OF r(2)] by (simp add: row_grants_def)
  moreover have "allowed_while_closed ''wruntime.InfrastructureService'' ''BeginManagerRollout''" by (simp add: allowed_while_closed_def)
  ultimately show ?thesis
    using manager_call_granted [OF p(1), of sample_tls False "sample_request ''urn:wruntime:c1:human:ana''"
        "''wruntime.InfrastructureService''" "''BeginManagerRollout''" rollout_resource]
      p(1,3) e r(1) unfolding find_row_Some by (fastforce simp: sample_request_def)
qed

text \<open>Calls the sample callers are granted.\<close>

lemma sample_call:
  assumes "policy_wf deps pol" "find_row s m = Some r" "validate_client_leaf sample_tls uri (vp_cluster_id pol) = Inr ev"
    "le_principal ev = Some p" "uri_value p = uri" "le_fingerprint ev \<notin> set (vp_revoked_leaf_fingerprints pol)"
    "map_of (vp_principals pol) uri = Some (uri_kind p)" "row_grants pol r p res"
  shows "\<exists>call req'. authorize sample_tls pol True (sample_request uri) s m res = (Inr call, req') \<and>
    ac_principal call = principal_of pol ev p"
  unfolding authorize_granted [OF assms(1)] using assms
  by (fastforce simp: sample_request_def find_row_Some authorized_call_def Let_def)

theorem node_service_bound_witness:
  "\<exists>pol call req'. validate_policy sample_policy_deps ''policy'' = Inr pol \<and>
    authorize sample_tls pol True (sample_request ''urn:wruntime:c1:proxy:p1'') ''wruntime.NodeService'' ''Heartbeat''
      default_resource = (Inr call, req') \<and> ap_node_id (ac_principal call) = Some ''n1'' \<and>
    res_node_id (ac_resource call) = Some ''n1''"
proof -
  obtain pol where p: "validate_policy sample_policy_deps ''policy'' = Inr pol" "sample_access ''urn:wruntime:c1:proxy:p1'' pol"
    "map_of (vp_principals pol) ''urn:wruntime:c1:proxy:p1'' = Some Proxy"
    "vp_proxy_enrollments pol = [\<lparr>ne_principal = ''urn:wruntime:c1:proxy:p1'', ne_node_id = ''n1''\<rparr>]"
    by (rule sample_policy)
  obtain r where r: "find_row ''wruntime.NodeService'' ''Heartbeat'' = Some r" "row_workload r = ProxyBound"
    using sample_rows(3) by (auto split: option.splits)
  obtain ev q where e: "validate_client_leaf sample_tls ''urn:wruntime:c1:proxy:p1'' (vp_cluster_id pol) = Inr ev"
    "le_principal ev = Some q" "uri_value q = ''urn:wruntime:c1:proxy:p1''" "uri_kind q = Proxy"
    "le_fingerprint ev \<notin> set (vp_revoked_leaf_fingerprints pol)"
    by (rule sample_access_elim [OF p(2,3)])
  have g: "row_grants pol r q default_resource" using e(3,4) p(4) r(2)
    by (simp add: row_grants_def node_matches_def default_resource_def)
  have k: "map_of (vp_principals pol) ''urn:wruntime:c1:proxy:p1'' = Some (uri_kind q)" using p(3) e(4) by simp
  obtain call req' where c: "authorize sample_tls pol True (sample_request ''urn:wruntime:c1:proxy:p1'') ''wruntime.NodeService''
      ''Heartbeat'' default_resource = (Inr call, req')" "ac_principal call = principal_of pol ev q"
    using sample_call [OF validated_wf [OF p(1)] r(1) e(1,2,3,5) k g] by blast
  have "ap_kind (ac_principal call) = Proxy" using c(2) e(4) by (simp add: principal_of_def)
  then show ?thesis using node_service_bound [OF p(1) c(1)] p(1,4) c(1) by auto
qed

theorem collection_whole_grants_witness:
  "\<exists>pol call req'. validate_policy sample_policy_deps ''policy'' = Inr pol \<and>
    authorize sample_tls pol True (sample_request ''urn:wruntime:c1:human:ana'') ''wruntime.InfrastructureService'' ''ListOperations''
      default_resource = (Inr call, req') \<and> \<not> allows_collection_item call None (Some ''n1'') None (Some ''m2'')"
proof -
  obtain pol where p: "validate_policy sample_policy_deps ''policy'' = Inr pol" "sample_access ''urn:wruntime:c1:human:ana'' pol"
    "map_of (vp_principals pol) ''urn:wruntime:c1:human:ana'' = Some Human" "vp_assignments pol = [sample_assignment]"
    by (rule sample_policy)
  obtain r where r: "find_row ''wruntime.InfrastructureService'' ''ListOperations'' = Some r" "Infra \<in> set (roles_for_row r Human)"
    using sample_rows(2) by (auto split: option.splits)
  obtain ev q where e: "validate_client_leaf sample_tls ''urn:wruntime:c1:human:ana'' (vp_cluster_id pol) = Inr ev"
    "le_principal ev = Some q" "uri_value q = ''urn:wruntime:c1:human:ana''" "uri_kind q = Human"
    "le_fingerprint ev \<notin> set (vp_revoked_leaf_fingerprints pol)"
    by (rule sample_access_elim [OF p(2,3)])
  have g: "row_grants pol r q default_resource" using e(3,4) p(4) sample_covers(2) [OF r(2)] by (simp add: row_grants_def)
  have k: "map_of (vp_principals pol) ''urn:wruntime:c1:human:ana'' = Some (uri_kind q)" using p(3) e(4) by simp
  obtain call req' where c: "authorize sample_tls pol True (sample_request ''urn:wruntime:c1:human:ana'')
      ''wruntime.InfrastructureService'' ''ListOperations'' default_resource = (Inr call, req')" "ac_principal call = principal_of pol ev q"
    using sample_call [OF validated_wf [OF p(1)] r(1) e(1,2,3,5) k g] by blast
  have "\<not> is_workload (ap_kind (ac_principal call))" using c(2) e(4) by (simp add: principal_of_def is_workload_def)
  moreover have "\<not> assignment_union_covers [assignment_tuple sample_assignment] (item_tuple None (Some ''n1'') None (Some ''m2''))"
    by (simp add: assignment_union_covers_def covers_item sample_assignment_def no_scope_def scope_allows_def)
  ultimately show ?thesis using collection_whole_grants [OF p(1) c(1), of None "Some ''n1''" None "Some ''m2''"] p(1,4) c(1) by auto
qed

theorem workload_snapshot_served_witness:
  "\<exists>pol. validate_policy sample_policy_deps ''policy'' = Inr pol \<and>
    get_workload_snapshot sample_tls sample_snapshot_deps pol True True (1000 * 1000000000)
      (sample_request ''urn:wruntime:c1:proxy:p1'') =
    Inr \<lparr>gw_generation = 7, gw_digest = zero_digest, gw_serialized_snapshot = ''H''\<rparr>"
proof -
  obtain pol where p: "validate_policy sample_policy_deps ''policy'' = Inr pol" "sample_access ''urn:wruntime:c1:proxy:p1'' pol"
    "map_of (vp_principals pol) ''urn:wruntime:c1:proxy:p1'' = Some Proxy" "vp_generation pol = 7" "vp_digest pol = zero_digest"
    by (rule sample_policy)
  obtain ev q where e: "validate_client_leaf sample_tls ''urn:wruntime:c1:proxy:p1'' (vp_cluster_id pol) = Inr ev"
    "le_principal ev = Some q" "uri_value q = ''urn:wruntime:c1:proxy:p1''" "uri_kind q = Proxy"
    "le_fingerprint ev \<notin> set (vp_revoked_leaf_fingerprints pol)"
    by (rule sample_access_elim [OF p(2,3)])
  show ?thesis
    using workload_snapshot_served [OF p(1), of sample_tls sample_snapshot_deps True True "1000 * 1000000000"
        "sample_request ''urn:wruntime:c1:proxy:p1''" "\<lparr>gw_generation = 7, gw_digest = zero_digest, gw_serialized_snapshot = ''H''\<rparr>"]
      p e sample_build [OF p(1)] by (fastforce simp: sample_request_def)
qed

end
