(* ===== verification/Deployment_Contract.thy ===== *)
theory Deployment_Contract
  imports Naming "HOL-Library.List_Lexorder" "HOL-Library.Product_Lexorder" "HOL-Library.Multiset"
begin

text \<open>
  The deployment inventory and the digest of a revision, \<open>wr-common/src/deployment_contract.rs\<close>, and the
  compatibility helpers of \<open>wr-common/src/agent_policy.rs\<close>. SHA-256, the URI parser, the version parser and
  the length of a protobuf encoding belong to third-party crates and are parameters. \<open>Deployment_Digest\<close>
  has what the canonical form and the digest promise.
\<close>

section \<open>The inventory\<close>

record module_identity =
  id_namespace :: string
  id_name :: string
  id_version :: string

record ExpectedModule =
  em_identity :: "module_identity option"
  proto_schema_digest :: string

record SecretRequest =
  sr_namespace :: string
  sr_key :: string

record ExpectedEngine =
  ee_engine_slot :: string
  ee_modules :: "ExpectedModule list"
  ee_secrets :: "SecretRequest list"
  ee_db_namespaces :: "string list"
  ee_job_queue_id :: string
  ee_job_admin_address :: string

record DeploymentInventoryV1 =
  di_schema_version :: "32 word"
  di_engines :: "ExpectedEngine list"

record 'v contract_deps =
  ct_version :: "string \<Rightarrow> 'v option"
  ct_uri :: "string \<Rightarrow> Uri option"
  ct_uri_text :: "Uri \<Rightarrow> string"
  ct_encoded_len :: "DeploymentInventoryV1 \<Rightarrow> nat"
  ct_sha256 :: "string \<Rightarrow> string"

datatype contract_error = Contract_Identity identity_error | Contract_Refused string

definition DEPLOYMENT_INVENTORY_SCHEMA_VERSION :: "32 word" where "DEPLOYMENT_INVENTORY_SCHEMA_VERSION = 1"
definition MAX_DEPLOYMENT_INVENTORY_BYTES :: nat where "MAX_DEPLOYMENT_INVENTORY_BYTES = 2 * 1024 * 1024"
definition REVISION_DOMAIN :: string where "REVISION_DOMAIN = ''wruntime-deployment-revision-v1''"
definition OPERATION_DOMAIN :: string where "OPERATION_DOMAIN = ''wruntime-deployment-operation-v1''"

definition push_len :: "nat \<Rightarrow> string \<Rightarrow> contract_error + string" where
  "push_len v out = (if v < 2 ^ 32 then Inr (out @ be_bytes 4 v) else Inl (Contract_Refused ''out of range integral type conversion attempted''))"

definition push_text :: "string \<Rightarrow> string \<Rightarrow> contract_error + string" where
  "push_text v out = and_then (push_len (length v) out) (\<lambda>out. Inr (out @ v))"

definition lower_hex :: "char \<Rightarrow> bool" where
  "lower_hex c \<longleftrightarrow> is_ascii_digit c \<or> CHR ''a'' \<le> c \<and> c \<le> CHR ''f''"

definition valid_bundle_digest :: "string \<Rightarrow> bool" where
  "valid_bundle_digest v \<longleftrightarrow> length v = 71 \<and> starts_with ''sha256:'' v \<and> list_all lower_hex (drop 7 v)"

definition token_char :: "char \<Rightarrow> bool" where
  "token_char c \<longleftrightarrow> is_ascii_alphanumeric c \<or> c \<in> {CHR ''-'', CHR ''_'', CHR ''.''}"

definition valid_token :: "string \<Rightarrow> bool" where
  "valid_token v \<longleftrightarrow> v \<noteq> [] \<and> length v \<le> 128 \<and> list_all token_char v"

definition demand :: "bool \<Rightarrow> string \<Rightarrow> contract_error + unit" where
  "demand ok message = (if ok then Inr () else Inl (Contract_Refused message))"

definition module_key :: "ExpectedModule \<Rightarrow> string \<times> string \<times> string \<times> string" where
  "module_key m = (case em_identity m of
     None \<Rightarrow> ([], [], [], proto_schema_digest m)
   | Some i \<Rightarrow> (id_namespace i, id_name i, id_version i, proto_schema_digest m))"

definition secret_key :: "SecretRequest \<Rightarrow> string \<times> string" where
  "secret_key s = (sr_namespace s, sr_key s)"

definition check_module :: "'v contract_deps \<Rightarrow> ExpectedModule \<Rightarrow> (string \<times> string \<times> string \<times> string) set \<Rightarrow>
    contract_error + (string \<times> string \<times> string \<times> string) set" where
  "check_module deps m keys =
    and_then (ok_or (Contract_Refused ''expected module identity is required'') (em_identity m)) (\<lambda>i.
    and_then (map_err Contract_Identity (ModuleId_parse (ct_version deps) (id_namespace i) (id_name i) (id_version i))) (\<lambda>_.
    and_then (demand (proto_schema_digest m = [] \<or> valid_bundle_digest (proto_schema_digest m))
      ''module schema digest must be empty or lowercase sha256'') (\<lambda>_.
    and_then (demand (module_key m \<notin> keys) ''duplicate expected module'') (\<lambda>_. Inr (insert (module_key m) keys)))))"

definition check_secret :: "SecretRequest \<Rightarrow> (string \<times> string) set \<Rightarrow> contract_error + (string \<times> string) set" where
  "check_secret s keys =
    and_then (map_err Contract_Identity (Namespace_parse (sr_namespace s))) (\<lambda>_.
    and_then (demand (sr_key s \<noteq> [] \<and> length (sr_key s) \<le> 256 \<and> secret_key s \<notin> keys)
      ''invalid or duplicate secret declaration'') (\<lambda>_. Inr (insert (secret_key s) keys)))"

definition check_db :: "string \<Rightarrow> string set \<Rightarrow> contract_error + string set" where
  "check_db n seen =
    and_then (map_err Contract_Identity (Namespace_parse n)) (\<lambda>_.
    and_then (demand (n \<notin> seen) ''duplicate database namespace'') (\<lambda>_. Inr (insert n seen)))"

definition check_job_admin :: "'v contract_deps \<Rightarrow> ExpectedEngine \<Rightarrow> contract_error + unit" where
  "check_job_admin deps e =
    (if ee_job_queue_id e = [] \<and> ee_job_admin_address e = [] then Inr ()
     else if ee_job_queue_id e \<noteq> [] \<and> ee_job_admin_address e \<noteq> []
     then and_then (map_err Contract_Identity (name_parse ''job queue id'' (ee_job_queue_id e))) (\<lambda>_.
       and_then (demand (length (ee_job_admin_address e) \<le> 2048) ''job admin address is too long'') (\<lambda>_.
       and_then (map_err Contract_Identity (PeerHttpsUrl_parse (ct_uri deps) (ee_job_admin_address e))) (\<lambda>_.
       and_then (ok_or (Contract_Refused ''invalid uri'') (ct_uri deps (ee_job_admin_address e))) (\<lambda>uri.
       demand (scheme_str uri = Some ''https'' \<and> uri_query uri = None \<and>
         \<not> (case uri_authority uri of None \<Rightarrow> False | Some a \<Rightarrow> CHR ''@'' \<in> set a) \<and>
         ct_uri_text deps uri = ee_job_admin_address e)
         ''job admin address must be canonical absolute HTTPS without userinfo/query/fragment''))))
     else Inl (Contract_Refused ''job queue ID and admin address must be both empty or both present''))"

definition entry_count :: "ExpectedEngine \<Rightarrow> nat" where
  "entry_count e = length (ee_modules e) + length (ee_secrets e) + length (ee_db_namespaces e)"

definition canonical_engine :: "ExpectedEngine \<Rightarrow> ExpectedEngine" where
  "canonical_engine e = e\<lparr>ee_modules := sort_key module_key (ee_modules e), ee_secrets := sort_key secret_key (ee_secrets e),
     ee_db_namespaces := sort (ee_db_namespaces e)\<rparr>"

definition canonicalize_engine :: "'v contract_deps \<Rightarrow> ExpectedEngine \<Rightarrow> string set \<times> nat \<times> ExpectedEngine list \<Rightarrow>
    contract_error + string set \<times> nat \<times> ExpectedEngine list" where
  "canonicalize_engine deps e = (\<lambda>(slots, total_entries, done).
    and_then (demand (valid_token (ee_engine_slot e) \<and> ee_engine_slot e \<notin> slots)
      ''engine slots must be unique URL-safe identities'') (\<lambda>_.
    and_then (demand (length (ee_modules e) \<le> 4096 \<and> length (ee_secrets e) \<le> 4096 \<and> length (ee_db_namespaces e) \<le> 4096)
      ''per-slot deployment inventory cap exceeded'') (\<lambda>_.
    and_then (demand (total_entries + entry_count e < 2 ^ 64) ''deployment inventory count overflow'') (\<lambda>_.
    and_then (try_fold (check_module deps) (ee_modules e) {}) (\<lambda>_.
    and_then (try_fold check_secret (ee_secrets e) {}) (\<lambda>_.
    and_then (try_fold check_db (ee_db_namespaces e) {}) (\<lambda>_.
    and_then (check_job_admin deps e) (\<lambda>_.
    Inr (insert (ee_engine_slot e) slots, total_entries + entry_count e, done @ [canonical_engine e])))))))))"

definition canonicalize_inventory :: "'v contract_deps \<Rightarrow> DeploymentInventoryV1 \<Rightarrow> contract_error + DeploymentInventoryV1" where
  "canonicalize_inventory deps inventory =
    and_then (demand (di_schema_version inventory = DEPLOYMENT_INVENTORY_SCHEMA_VERSION)
      ''deployment inventory schema_version must be 1'') (\<lambda>_.
    and_then (demand (length (di_engines inventory) \<le> 1024) ''deployment inventory engine count is out of range'') (\<lambda>_.
    and_then (try_fold (canonicalize_engine deps) (di_engines inventory) ({}, 0, [])) (\<lambda>(slots, total_entries, engines).
    and_then (demand (total_entries \<le> 65536) ''deployment inventory total entry cap exceeded'') (\<lambda>_.
    let canonical = inventory\<lparr>di_engines := sort_key ee_engine_slot engines\<rparr> in
    and_then (demand (ct_encoded_len deps canonical \<le> MAX_DEPLOYMENT_INVENTORY_BYTES) ''deployment inventory exceeds 2 MiB'') (\<lambda>_.
    Inr canonical)))))"

section \<open>Digests\<close>

definition push_module :: "ExpectedModule \<Rightarrow> string \<Rightarrow> contract_error + string" where
  "push_module m out = (case module_key m of (namespace, name, version, digest) \<Rightarrow>
    and_then (push_text namespace out) (\<lambda>out. and_then (push_text name out) (\<lambda>out.
    and_then (push_text version out) (push_text digest))))"

definition push_secret :: "SecretRequest \<Rightarrow> string \<Rightarrow> contract_error + string" where
  "push_secret s out = and_then (push_text (sr_namespace s) out) (push_text (sr_key s))"

definition push_counted :: "('a \<Rightarrow> string \<Rightarrow> contract_error + string) \<Rightarrow> 'a list \<Rightarrow> string \<Rightarrow> contract_error + string" where
  "push_counted push xs out = and_then (push_len (length xs) out) (try_fold push xs)"

definition push_engine :: "ExpectedEngine \<Rightarrow> string \<Rightarrow> contract_error + string" where
  "push_engine e out =
    and_then (push_text (ee_engine_slot e) out) (\<lambda>out.
    and_then (push_counted push_module (ee_modules e) out) (\<lambda>out.
    and_then (push_counted push_secret (ee_secrets e) out) (\<lambda>out.
    and_then (push_counted push_text (ee_db_namespaces e) out) (\<lambda>out.
    and_then (push_text (ee_job_queue_id e) out) (push_text (ee_job_admin_address e))))))"

definition revision_preimage :: "string \<Rightarrow> 64 word \<Rightarrow> string \<Rightarrow> DeploymentInventoryV1 \<Rightarrow> contract_error + string" where
  "revision_preimage node revision bundle_digest inventory =
    and_then (push_text node (REVISION_DOMAIN @ be_bytes 4 (unat (di_schema_version inventory)))) (\<lambda>out.
    and_then (push_text bundle_digest (out @ be_bytes 8 (unat revision))) (push_counted push_engine (di_engines inventory)))"

definition revision_digest :: "'v contract_deps \<Rightarrow> string \<Rightarrow> 64 word \<Rightarrow> string \<Rightarrow> DeploymentInventoryV1 \<Rightarrow> contract_error + string" where
  "revision_digest deps node revision bundle_digest inventory =
    and_then (map_err Contract_Identity (name_parse ''node id'' node)) (\<lambda>_.
    and_then (demand (revision > 0 \<and> valid_bundle_digest bundle_digest) ''revision and normalized bundle digest are required'') (\<lambda>_.
    and_then (canonicalize_inventory deps inventory) (\<lambda>canonical.
    and_then (revision_preimage node revision bundle_digest canonical) (\<lambda>bytes.
    Inr (''sha256:'' @ hex_string (ct_sha256 deps bytes))))))"

definition byte_and_or :: "nat \<Rightarrow> nat \<Rightarrow> char \<Rightarrow> char" where
  "byte_and_or low bits c = char_of ((of_char c mod (low + 1)) + bits)"

text \<open>The masks keep the low four and the low six bits, so \<open>|\<close> adds the fixed bits.\<close>

definition deployment_operation_id :: "(string \<Rightarrow> string) \<Rightarrow> string \<Rightarrow> contract_error + string" where
  "deployment_operation_id sha256 digest =
    and_then (demand (valid_bundle_digest digest) ''normalized revision digest is required'') (\<lambda>_.
    let hash = take 16 (sha256 (OPERATION_DOMAIN @ digest));
        bytes = hash[6 := byte_and_or 15 128 (hash ! 6), 8 := byte_and_or 63 128 (hash ! 8)];
        hex = hex_string bytes in
    Inr (take 8 hex @ ''-'' @ take 4 (drop 8 hex) @ ''-'' @ take 4 (drop 12 hex) @ ''-'' @ take 4 (drop 16 hex) @ ''-'' @ drop 20 hex))"

definition schema_digest :: "(string \<Rightarrow> string) \<Rightarrow> string \<Rightarrow> string" where
  "schema_digest sha256 bytes = (if bytes = [] then [] else ''sha256:'' @ hex_string (sha256 bytes))"

section \<open>Agent compatibility\<close>

definition AGENT_PROTOCOL_VERSION :: string where "AGENT_PROTOCOL_VERSION = ''operator-engine-lifecycle-v1''"

definition validate_identity :: "string \<Rightarrow> string \<Rightarrow> string + unit" where
  "validate_identity v name = (if valid_token v then Inr () else Inl (name @ '' must be a non-empty stable identity''))"

definition validate_sha256_digest :: "string \<Rightarrow> string \<Rightarrow> string + unit" where
  "validate_sha256_digest v name = (if valid_bundle_digest v then Inr () else Inl (name @ '' must be an exact SHA-256 digest''))"

definition normalize_capabilities :: "string list \<Rightarrow> string + string list" where
  "normalize_capabilities vs = and_then (try_map (\<lambda>v. validate_identity v ''capability'') vs) (\<lambda>_. Inr (remdups_adj (sort vs)))"

definition missing_capabilities :: "string list \<Rightarrow> string list \<Rightarrow> string + string list" where
  "missing_capabilities required advertised =
    and_then (normalize_capabilities required) (\<lambda>required.
    and_then (normalize_capabilities advertised) (\<lambda>advertised.
    Inr (filter (\<lambda>c. c \<notin> set advertised) required)))"

end
