(* ===== verification/Deployment_Digest.thy ===== *)
theory Deployment_Digest
  imports Deployment_Contract Policy_Validation
begin

text \<open>
  What the canonical inventory and the revision digest of \<open>wr-common/src/deployment_contract.rs\<close> promise. An
  inventory is accepted or not whatever the order of its lists, the canonical form is the same for all
  orders and a fixed point, and the bytes hashed for a revision determine the node, the revision, the bundle and the
  inventory up to that order.
\<close>

section \<open>Accepted inventories\<close>

text \<open>An engine and an inventory without the order of their lists.\<close>

definition engine_bag :: "ExpectedEngine \<Rightarrow>
    string \<times> ExpectedModule multiset \<times> SecretRequest multiset \<times> string multiset \<times> string \<times> string" where
  "engine_bag e = (ee_engine_slot e, mset (ee_modules e), mset (ee_secrets e), mset (ee_db_namespaces e),
     ee_job_queue_id e, ee_job_admin_address e)"

definition same_inventory :: "DeploymentInventoryV1 \<Rightarrow> DeploymentInventoryV1 \<Rightarrow> bool" where
  "same_inventory a b \<longleftrightarrow> di_schema_version a = di_schema_version b \<and>
     mset (map engine_bag (di_engines a)) = mset (map engine_bag (di_engines b))"

definition module_ok :: "'v contract_deps \<Rightarrow> ExpectedModule \<Rightarrow> bool" where
  "module_ok deps m \<longleftrightarrow> (\<exists>i. em_identity m = Some i \<and>
     is_ok (ModuleId_parse (ct_version deps) (id_namespace i) (id_name i) (id_version i))) \<and>
     (proto_schema_digest m = [] \<or> valid_bundle_digest (proto_schema_digest m))"

definition secret_ok :: "SecretRequest \<Rightarrow> bool" where
  "secret_ok s \<longleftrightarrow> is_ok (Namespace_parse (sr_namespace s)) \<and> sr_key s \<noteq> [] \<and> length (sr_key s) \<le> 256"

definition engine_ok :: "'v contract_deps \<Rightarrow> ExpectedEngine \<Rightarrow> bool" where
  "engine_ok deps e \<longleftrightarrow> valid_token (ee_engine_slot e) \<and>
     length (ee_modules e) \<le> 4096 \<and> length (ee_secrets e) \<le> 4096 \<and> length (ee_db_namespaces e) \<le> 4096 \<and>
     distinct (map module_key (ee_modules e)) \<and> list_all (module_ok deps) (ee_modules e) \<and>
     distinct (map secret_key (ee_secrets e)) \<and> list_all secret_ok (ee_secrets e) \<and>
     distinct (ee_db_namespaces e) \<and> list_all (\<lambda>n. is_ok (Namespace_parse n)) (ee_db_namespaces e) \<and>
     is_ok (check_job_admin deps e)"

definition canonical_form :: "DeploymentInventoryV1 \<Rightarrow> DeploymentInventoryV1" where
  "canonical_form inventory = inventory\<lparr>di_engines := sort_key ee_engine_slot (map canonical_engine (di_engines inventory))\<rparr>"

definition inventory_ok :: "'v contract_deps \<Rightarrow> DeploymentInventoryV1 \<Rightarrow> bool" where
  "inventory_ok deps inventory \<longleftrightarrow> di_schema_version inventory = DEPLOYMENT_INVENTORY_SCHEMA_VERSION \<and>
     length (di_engines inventory) \<le> 1024 \<and> distinct (map ee_engine_slot (di_engines inventory)) \<and>
     list_all (engine_ok deps) (di_engines inventory) \<and> sum_list (map entry_count (di_engines inventory)) \<le> 65536"

lemma demand_Inr [simp]: "demand ok message = Inr u \<longleftrightarrow> ok"
  by (simp add: demand_def)

text \<open>A loop that refuses a repeated key leaves the keys of the list, all different.\<close>

lemma keyed_loop:
  assumes "\<And>x keys keys'. f x keys = Inr keys' \<longleftrightarrow> P x \<and> k x \<notin> keys \<and> keys' = insert (k x) keys"
  shows "try_fold f xs keys = Inr keys' \<longleftrightarrow>
    list_all P xs \<and> distinct (map k xs) \<and> k ` set xs \<inter> keys = {} \<and> keys' = k ` set xs \<union> keys"
  by (induction xs arbitrary: keys) (auto simp: assms)

lemma module_loop: "try_fold (check_module deps) ms {} = Inr keys \<longleftrightarrow>
    list_all (module_ok deps) ms \<and> distinct (map module_key ms) \<and> keys = module_key ` set ms"
  by (subst keyed_loop [of _ "module_ok deps" module_key]) (auto simp: check_module_def module_ok_def is_ok_iff)

lemma secret_loop: "try_fold check_secret ss {} = Inr keys \<longleftrightarrow>
    list_all secret_ok ss \<and> distinct (map secret_key ss) \<and> keys = secret_key ` set ss"
  by (subst keyed_loop [of _ secret_ok secret_key]) (auto simp: check_secret_def secret_ok_def is_ok_iff)

lemma db_loop: "try_fold check_db ns {} = Inr keys \<longleftrightarrow>
    list_all (\<lambda>n. is_ok (Namespace_parse n)) ns \<and> distinct ns \<and> keys = set ns"
  by (subst keyed_loop [of _ "\<lambda>n. is_ok (Namespace_parse n)" "\<lambda>n. n"]) (auto simp: check_db_def is_ok_iff)

lemma canonicalize_engine_Inr:
  "canonicalize_engine deps e (slots, n, es) = Inr st \<longleftrightarrow> engine_ok deps e \<and> ee_engine_slot e \<notin> slots \<and> n + entry_count e < 2 ^ 64 \<and>
    st = (insert (ee_engine_slot e) slots, n + entry_count e, es @ [canonical_engine e])"
  by (auto simp: canonicalize_engine_def module_loop secret_loop db_loop engine_ok_def is_ok_iff)

lemma engine_loop:
  assumes "n < 2 ^ 64"
  shows "try_fold (canonicalize_engine deps) es (slots, n, acc) = Inr st \<longleftrightarrow>
    list_all (engine_ok deps) es \<and> distinct (map ee_engine_slot es) \<and> ee_engine_slot ` set es \<inter> slots = {} \<and>
    n + sum_list (map entry_count es) < 2 ^ 64 \<and>
    st = (ee_engine_slot ` set es \<union> slots, n + sum_list (map entry_count es), acc @ map canonical_engine es)"
  using assms
proof (induction es arbitrary: slots n acc)
  case Nil
  then show ?case by auto
next
  case (Cons e es)
  show ?case
  proof (cases "n + entry_count e < 2 ^ 64")
    case True
    show ?thesis by (simp add: canonicalize_engine_Inr Cons.IH [OF True]) (auto simp: add.assoc)
  next
    case False
    then show ?thesis by (simp add: canonicalize_engine_Inr)
  qed
qed

lemma canonicalize_inventory_Inr:
  "canonicalize_inventory deps inventory = Inr canonical \<longleftrightarrow> inventory_ok deps inventory \<and>
    canonical = canonical_form inventory \<and> ct_encoded_len deps canonical \<le> MAX_DEPLOYMENT_INVENTORY_BYTES"
  by (simp add: canonicalize_inventory_def engine_loop inventory_ok_def canonical_form_def Let_def) auto

section \<open>The canonical form\<close>

lemma mset_distinct_keys: "mset xs = mset ys \<Longrightarrow> distinct (map k xs) = distinct (map k ys)"
  by (rule mset_eq_imp_distinct_iff) simp

lemma mset_list_all: "mset xs = mset ys \<Longrightarrow> list_all P xs = list_all P ys"
  by (auto simp: list_all_iff dest: mset_eq_setD)

lemma sorted_bag:
  assumes "mset xs = mset ys" "distinct (map k xs)"
  shows "sort_key k xs = sort_key k ys"
  using assms by (intro sort_key_inj_key_eq) (auto simp: distinct_map)

lemma engine_bag_canonical [simp]: "engine_bag (canonical_engine e) = engine_bag e"
  by (simp add: engine_bag_def canonical_engine_def)

lemma engine_ok_bag:
  assumes "engine_bag e = engine_bag e'"
  shows "engine_ok deps e = engine_ok deps e'"
proof -
  have bag: "ee_engine_slot e = ee_engine_slot e'" "mset (ee_modules e) = mset (ee_modules e')" "mset (ee_secrets e) = mset (ee_secrets e')"
    "mset (ee_db_namespaces e) = mset (ee_db_namespaces e')" and job: "check_job_admin deps e = check_job_admin deps e'"
    using assms by (simp_all add: engine_bag_def check_job_admin_def)
  show ?thesis
    unfolding engine_ok_def job bag(1) mset_distinct_keys [OF bag(2)] mset_distinct_keys [OF bag(3)] mset_list_all [OF bag(2)]
      mset_list_all [OF bag(3)] mset_list_all [OF bag(4)] mset_eq_length [OF bag(2)] mset_eq_length [OF bag(3)] mset_eq_length [OF bag(4)]
      mset_eq_imp_distinct_iff [OF bag(4)] ..
qed

lemma entry_count_bag: "engine_bag e = engine_bag e' \<Longrightarrow> entry_count e = entry_count e'"
  by (auto simp: engine_bag_def entry_count_def intro!: arg_cong2 [of _ _ _ _ "(+)"] mset_eq_length)

lemma canonical_engine_bag:
  assumes "engine_ok deps e" "engine_bag e = engine_bag e'"
  shows "canonical_engine e = canonical_engine e'"
proof -
  have "sort_key module_key (ee_modules e) = sort_key module_key (ee_modules e')"
    "sort_key secret_key (ee_secrets e) = sort_key secret_key (ee_secrets e')"
    "sort (ee_db_namespaces e) = sort (ee_db_namespaces e')"
    by (rule sorted_bag; use assms in \<open>simp add: engine_bag_def engine_ok_def\<close>)+
  with assms(2) show ?thesis by (auto simp: canonical_engine_def engine_bag_def intro!: ExpectedEngine.equality)
qed

lemma same_canonical_form: "same_inventory a (canonical_form a)"
  by (simp add: same_inventory_def canonical_form_def image_mset.compositionality comp_def)

lemma same_inventory_views:
  assumes "same_inventory a b" "\<And>x y. engine_bag x = engine_bag y \<Longrightarrow> f x = f y"
  shows "mset (map f (di_engines a)) = mset (map f (di_engines b))"
proof -
  have pick: "engine_bag (SOME e. engine_bag e = engine_bag x) = engine_bag x" for x by (rule someI) (rule refl)
  have view: "map f es = map (\<lambda>x. f (SOME e. engine_bag e = x)) (map engine_bag es)" for es
    using assms(2) [OF pick] by simp
  show ?thesis unfolding view mset_map [of "\<lambda>x. f (SOME e. engine_bag e = x)"] using assms(1) by (simp only: same_inventory_def)
qed

lemma inventory_ok_same:
  assumes "same_inventory a b"
  shows "inventory_ok deps a = inventory_ok deps b"
proof -
  note view = same_inventory_views [OF assms]
  have slots: "mset (map ee_engine_slot (di_engines a)) = mset (map ee_engine_slot (di_engines b))"
    and counts: "mset (map entry_count (di_engines a)) = mset (map entry_count (di_engines b))"
    and oks: "mset (map (engine_ok deps) (di_engines a)) = mset (map (engine_ok deps) (di_engines b))"
    by (rule view, simp add: engine_bag_def) (rule view, rule entry_count_bag, assumption, rule view, rule engine_ok_bag, assumption)
  have "list_all (engine_ok deps) (di_engines a) = list_all (engine_ok deps) (di_engines b)"
    using mset_list_all [OF oks, of "\<lambda>x. x"] by (simp add: list.pred_map comp_def)
  moreover have "sum_list (map entry_count (di_engines a)) = sum_list (map entry_count (di_engines b))"
    by (simp only: counts flip: sum_mset_sum_list)
  ultimately show ?thesis
    using assms mset_eq_imp_distinct_iff [OF slots] mset_eq_length [OF slots] by (simp add: inventory_ok_def same_inventory_def)
qed

lemma canonical_form_same:
  assumes "inventory_ok deps a" "same_inventory a b"
  shows "canonical_form a = canonical_form b"
proof -
  let ?f = "\<lambda>e. if engine_ok deps e then canonical_engine e else undefined"
  have ok: "list_all (engine_ok deps) (di_engines a)" "list_all (engine_ok deps) (di_engines b)"
    using assms inventory_ok_same [OF assms(2)] by (auto simp: inventory_ok_def)
  have "mset (map ?f (di_engines a)) = mset (map ?f (di_engines b))"
  proof (rule same_inventory_views [OF assms(2)])
    fix x y assume bag: "engine_bag x = engine_bag y"
    show "?f x = ?f y" using engine_ok_bag [OF bag, of deps] canonical_engine_bag [OF _ bag, of deps] by (cases "engine_ok deps x") simp_all
  qed
  moreover have "map ?f (di_engines a) = map canonical_engine (di_engines a)" "map ?f (di_engines b) = map canonical_engine (di_engines b)"
    using ok by (simp_all add: list_all_iff)
  ultimately have "mset (map canonical_engine (di_engines a)) = mset (map canonical_engine (di_engines b))" by simp
  moreover have "distinct (map ee_engine_slot (map canonical_engine (di_engines a)))"
    using assms(1) by (simp add: inventory_ok_def comp_def canonical_engine_def)
  ultimately have "sort_key ee_engine_slot (map canonical_engine (di_engines a)) = sort_key ee_engine_slot (map canonical_engine (di_engines b))"
    by (rule sorted_bag)
  then show ?thesis using assms(2) by (auto simp: canonical_form_def same_inventory_def intro!: DeploymentInventoryV1.equality)
qed

lemma canonicalize_other:
  assumes "canonicalize_inventory deps inventory = Inr canonical"
  shows "canonicalize_inventory deps other = Inr canonical \<longleftrightarrow> same_inventory other inventory"
proof
  note here = assms [unfolded canonicalize_inventory_Inr]
  assume "canonicalize_inventory deps other = Inr canonical"
  then have "canonical_form other = canonical_form inventory" using here by (simp add: canonicalize_inventory_Inr)
  then show "same_inventory other inventory"
    using same_canonical_form [of other] same_canonical_form [of inventory] by (simp add: same_inventory_def)
next
  note here = assms [unfolded canonicalize_inventory_Inr]
  assume same: "same_inventory other inventory"
  then have ok: "inventory_ok deps other" using here inventory_ok_same by blast
  from canonical_form_same [OF ok same] ok here show "canonicalize_inventory deps other = Inr canonical"
    unfolding canonicalize_inventory_Inr by metis
qed

lemma canonical_same: "canonicalize_inventory deps inventory = Inr canonical \<Longrightarrow> same_inventory canonical inventory"
  using same_canonical_form [of inventory] by (simp add: canonicalize_inventory_Inr same_inventory_def)

text \<open>
  C33. The canonical inventory. When an inventory is accepted, exactly the inventories with the same engines, modules, secrets and
  database namespaces in whatever order are accepted with the same result; the result is one of them, so it
  is its own canonical form.
\<close>

theorem canonical_inventory_unique:
  assumes "canonicalize_inventory deps inventory = Inr canonical"
  shows "(canonicalize_inventory deps other = Inr canonical \<longleftrightarrow> same_inventory other inventory) \<and>
    same_inventory canonical inventory \<and> canonicalize_inventory deps canonical = Inr canonical"
  using canonicalize_other [OF assms] canonical_same [OF assms] by blast

section \<open>The bytes behind a digest\<close>

lemma push_len_Inr: "push_len n out = Inr out' \<longleftrightarrow> n < 2 ^ 32 \<and> out' = out @ be_bytes 4 n"
  by (auto simp: push_len_def)

interpretation text_writer: writer push_text "enc_lp 4" short
  by unfold_locales (auto simp: push_text_def push_len_Inr enc_lp_def)

lemma writer_counted:
  assumes "writer push enc ok"
  shows "writer (push_counted push) (enc_counted enc) (ok_counted ok)"
  by unfold_locales
    (auto simp: push_counted_def push_len_Inr writer.loop_Inr [OF assms] enc_counted_def ok_counted_def)

abbreviation enc_module :: "ExpectedModule \<Rightarrow> string" where
  "enc_module m \<equiv> enc_pair (enc_lp 4) (enc_pair (enc_lp 4) (enc_pair (enc_lp 4) (enc_lp 4))) (module_key m)"

abbreviation ok_module :: "ExpectedModule \<Rightarrow> bool" where
  "ok_module m \<equiv> ok_pair short (ok_pair short (ok_pair short short)) (module_key m)"

abbreviation enc_secret :: "SecretRequest \<Rightarrow> string" where
  "enc_secret s \<equiv> enc_pair (enc_lp 4) (enc_lp 4) (secret_key s)"

abbreviation ok_secret :: "SecretRequest \<Rightarrow> bool" where
  "ok_secret s \<equiv> ok_pair short short (secret_key s)"

definition engine_view where
  "engine_view e = (ee_engine_slot e, ee_modules e, ee_secrets e, ee_db_namespaces e, ee_job_queue_id e, ee_job_admin_address e)"

definition enc_engine :: "ExpectedEngine \<Rightarrow> string" where
  "enc_engine e = enc_pair (enc_lp 4) (enc_pair (enc_counted enc_module) (enc_pair (enc_counted enc_secret)
    (enc_pair (enc_counted (enc_lp 4)) (enc_pair (enc_lp 4) (enc_lp 4))))) (engine_view e)"

definition ok_engine :: "(ExpectedModule \<Rightarrow> bool) \<Rightarrow> ExpectedEngine \<Rightarrow> bool" where
  "ok_engine ok e = ok_pair short (ok_pair (ok_counted ok) (ok_pair (ok_counted ok_secret)
    (ok_pair (ok_counted short) (ok_pair short short)))) (engine_view e)"

interpretation module_writer: writer push_module enc_module ok_module
  by unfold_locales (auto simp: push_module_def text_writer.push_Inr enc_pair_def ok_pair_def split: prod.splits)

interpretation secret_writer: writer push_secret enc_secret ok_secret
  by unfold_locales (auto simp: push_secret_def secret_key_def text_writer.push_Inr enc_pair_def ok_pair_def)

lemmas counted_writers =
  writer.push_Inr [OF writer_counted [OF module_writer.writer_axioms]]
  writer.push_Inr [OF writer_counted [OF secret_writer.writer_axioms]]
  writer.push_Inr [OF writer_counted [OF text_writer.writer_axioms]]

interpretation engine_writer: writer push_engine enc_engine "ok_engine ok_module"
  by unfold_locales
    (auto simp: push_engine_def text_writer.push_Inr counted_writers enc_engine_def ok_engine_def engine_view_def enc_pair_def ok_pair_def)

text \<open>A module without an identity is written like one with empty names; canonical inventories have none.\<close>

abbreviation named_module :: "ExpectedModule \<Rightarrow> bool" where
  "named_module m \<equiv> ok_module m \<and> em_identity m \<noteq> None"

lemma module_key_inj: "module_key m = module_key n \<Longrightarrow> em_identity m \<noteq> None \<Longrightarrow> em_identity n \<noteq> None \<Longrightarrow> m = n"
  by (auto simp: module_key_def intro!: ExpectedModule.equality module_identity.equality)

interpretation module_code: prefix_code enc_module named_module
proof
  fix m n r s
  assume ok: "named_module m" "named_module n" and eq: "enc_module m @ r = enc_module n @ s"
  have code: "prefix_code (enc_pair (enc_lp 4) (enc_pair (enc_lp 4) (enc_pair (enc_lp 4) (enc_lp 4))))
      (ok_pair short (ok_pair short (ok_pair short short)))"
    by (intro prefix_code_pair lp_code)
  show "m = n \<and> r = s" using prefix_code.cut [OF code _ _ eq] ok module_key_inj by blast
qed

interpretation secret_code: prefix_code enc_secret ok_secret
  by (rule prefix_code_via [OF prefix_code_pair [OF lp_code lp_code]])
    (auto simp: secret_key_def intro: SecretRequest.equality)

interpretation engine_code: prefix_code enc_engine "ok_engine named_module"
  unfolding enc_engine_def [abs_def] ok_engine_def [abs_def]
proof (rule prefix_code_via)
  show "prefix_code (enc_pair (enc_lp 4) (enc_pair (enc_counted enc_module) (enc_pair (enc_counted enc_secret)
      (enc_pair (enc_counted (enc_lp 4)) (enc_pair (enc_lp 4) (enc_lp 4))))))
    (ok_pair short (ok_pair (ok_counted named_module) (ok_pair (ok_counted ok_secret)
      (ok_pair (ok_counted short) (ok_pair short short)))))"
    by (intro prefix_code_pair prefix_code_counted lp_code module_code.prefix_code_axioms secret_code.prefix_code_axioms)
  show "x = y" if "engine_view x = engine_view y" for x y :: ExpectedEngine
    using that by (auto simp: engine_view_def intro: ExpectedEngine.equality)
qed

definition enc_revision where
  "enc_revision = enc_pair (\<lambda>w :: 32 word. be_bytes 4 (unat w)) (enc_pair (enc_lp 4) (enc_pair (\<lambda>w :: 64 word. be_bytes 8 (unat w))
    (enc_pair (enc_lp 4) (enc_counted enc_engine))))"

definition ok_revision where
  "ok_revision ok = ok_pair (\<lambda>_ :: 32 word. True) (ok_pair short (ok_pair (\<lambda>_ :: 64 word. True)
    (ok_pair short (ok_counted (ok_engine ok)))))"

interpretation revision_code: prefix_code enc_revision "ok_revision named_module"
  unfolding enc_revision_def ok_revision_def
  by (intro prefix_code_pair prefix_code_counted u32_code.prefix_code_axioms u64_code.prefix_code_axioms lp_code
      engine_code.prefix_code_axioms)

abbreviation revision_view where
  "revision_view node revision bundle inventory \<equiv> (di_schema_version inventory, node, revision, bundle, di_engines inventory)"

lemma revision_preimage_Inr:
  "revision_preimage node revision bundle inventory = Inr bytes \<longleftrightarrow>
    ok_revision ok_module (revision_view node revision bundle inventory) \<and>
    bytes = REVISION_DOMAIN @ enc_revision (revision_view node revision bundle inventory)"
  by (auto simp: revision_preimage_def text_writer.push_Inr writer.push_Inr [OF writer_counted [OF engine_writer.writer_axioms]]
      enc_revision_def ok_revision_def enc_pair_def ok_pair_def)

lemma canonical_named:
  assumes "canonicalize_inventory deps inventory = Inr canonical"
    "ok_revision ok_module (revision_view node revision bundle canonical)"
  shows "ok_revision named_module (revision_view node revision bundle canonical)"
proof -
  have "canonicalize_inventory deps canonical = Inr canonical"
    using canonicalize_other [OF assms(1)] canonical_same [OF assms(1)] by blast
  then have "list_all (engine_ok deps) (di_engines canonical)" by (simp add: canonicalize_inventory_Inr inventory_ok_def)
  then have "list_all (\<lambda>e. list_all (\<lambda>m. em_identity m \<noteq> None) (ee_modules e)) (di_engines canonical)"
    by (fastforce simp: list_all_iff engine_ok_def module_ok_def)
  with assms(2) show ?thesis
    by (auto simp: ok_revision_def ok_pair_def ok_counted_def ok_engine_def engine_view_def list_all_iff)
qed

text \<open>
  C32. The digest of a revision commits to its content: it is the hash of the bytes built from the canonical inventory, and these
  bytes are equal for two revisions exactly when the node, the revision number, the bundle digest and, up to the
  order of its lists, the inventory are.
\<close>

theorem revision_digest_commits:
  assumes "revision_digest deps node revision bundle inventory = Inr digest"
    "revision_digest deps node' revision' bundle' inventory' = Inr digest'"
  shows "\<exists>bytes bytes'.
    and_then (canonicalize_inventory deps inventory) (revision_preimage node revision bundle) = Inr bytes \<and>
    and_then (canonicalize_inventory deps inventory') (revision_preimage node' revision' bundle') = Inr bytes' \<and>
    digest = ''sha256:'' @ hex_string (ct_sha256 deps bytes) \<and> digest' = ''sha256:'' @ hex_string (ct_sha256 deps bytes') \<and>
    (bytes = bytes' \<longleftrightarrow> node = node' \<and> revision = revision' \<and> bundle = bundle' \<and> same_inventory inventory inventory')"
proof -
  obtain c bytes where one: "canonicalize_inventory deps inventory = Inr c" "revision_preimage node revision bundle c = Inr bytes"
    "digest = ''sha256:'' @ hex_string (ct_sha256 deps bytes)" using assms(1) by (auto simp: revision_digest_def)
  obtain c' bytes' where two: "canonicalize_inventory deps inventory' = Inr c'" "revision_preimage node' revision' bundle' c' = Inr bytes'"
    "digest' = ''sha256:'' @ hex_string (ct_sha256 deps bytes')" using assms(2) by (auto simp: revision_digest_def)
  note pre = one(2) [unfolded revision_preimage_Inr] two(2) [unfolded revision_preimage_Inr]
  have named: "ok_revision named_module (revision_view node revision bundle c)"
    "ok_revision named_module (revision_view node' revision' bundle' c')"
    using canonical_named one(1) two(1) pre by blast+
  have "bytes = bytes' \<longleftrightarrow> revision_view node revision bundle c = revision_view node' revision' bundle' c'"
    using pre revision_code.enc_inj [OF named] by auto
  moreover have "c = c' \<longleftrightarrow> same_inventory inventory inventory'"
    using canonicalize_other [OF two(1), of inventory] one(1) by auto
  moreover have "di_schema_version c = di_schema_version c'"
    using one(1) two(1) by (simp add: canonicalize_inventory_Inr inventory_ok_def canonical_form_def)
  ultimately have "bytes = bytes' \<longleftrightarrow> node = node' \<and> revision = revision' \<and> bundle = bundle' \<and> same_inventory inventory inventory'"
    by (auto intro: DeploymentInventoryV1.equality)
  with one two show ?thesis by auto
qed

section \<open>A concrete inventory\<close>

definition sample_engine :: ExpectedEngine where
  "sample_engine = \<lparr>ee_engine_slot = ''s1'',
     ee_modules = [\<lparr>em_identity = Some \<lparr>id_namespace = ''shop'', id_name = ''cart'', id_version = ''1.0.0''\<rparr>, proto_schema_digest = []\<rparr>],
     ee_secrets = [\<lparr>sr_namespace = ''shop'', sr_key = ''token''\<rparr>, \<lparr>sr_namespace = ''shop'', sr_key = ''api''\<rparr>],
     ee_db_namespaces = [''shop'', ''audit''], ee_job_queue_id = [], ee_job_admin_address = []\<rparr>"

definition sample_inventory :: DeploymentInventoryV1 where
  "sample_inventory = \<lparr>di_schema_version = 1, di_engines = [sample_engine\<lparr>ee_engine_slot := ''s2''\<rparr>, sample_engine]\<rparr>"

definition sample_contract_deps :: "unit contract_deps" where
  "sample_contract_deps = \<lparr>ct_version = \<lambda>_. Some (), ct_uri = \<lambda>_. None, ct_uri_text = \<lambda>_. [], ct_encoded_len = \<lambda>_. 0,
     ct_sha256 = \<lambda>_. replicate 32 (CHR ''0'')\<rparr>"

theorem canonical_inventory_unique_witness:
  "\<exists>canonical. canonicalize_inventory sample_contract_deps sample_inventory = Inr canonical \<and>
    canonicalize_inventory sample_contract_deps (sample_inventory\<lparr>di_engines := rev (di_engines sample_inventory)\<rparr>) = Inr canonical"
proof -
  have "is_ok (canonicalize_inventory sample_contract_deps sample_inventory)" by code_simp
  then obtain canonical where canonical: "canonicalize_inventory sample_contract_deps sample_inventory = Inr canonical"
    by (auto simp: is_ok_iff)
  have "same_inventory (sample_inventory\<lparr>di_engines := rev (di_engines sample_inventory)\<rparr>) sample_inventory"
    by (simp add: same_inventory_def flip: rev_map)
  with canonical canonical_inventory_unique [OF canonical] show ?thesis by blast
qed

theorem revision_digest_commits_witness:
  "\<exists>bytes bytes'. bytes \<noteq> bytes' \<and>
    and_then (canonicalize_inventory sample_contract_deps sample_inventory) (revision_preimage ''n1'' 1 (''sha256:'' @ replicate 64 (CHR ''a''))) = Inr bytes \<and>
    and_then (canonicalize_inventory sample_contract_deps sample_inventory) (revision_preimage ''n1'' 2 (''sha256:'' @ replicate 64 (CHR ''a''))) = Inr bytes'"
proof -
  let ?dig = "''sha256:'' @ replicate 64 (CHR ''a'')"
  have "is_ok (revision_digest sample_contract_deps ''n1'' 1 ?dig sample_inventory)"
    "is_ok (revision_digest sample_contract_deps ''n1'' 2 ?dig sample_inventory)" by code_simp+
  then obtain d d' where "revision_digest sample_contract_deps ''n1'' 1 ?dig sample_inventory = Inr d"
    "revision_digest sample_contract_deps ''n1'' 2 ?dig sample_inventory = Inr d'" by (auto simp: is_ok_iff)
  from revision_digest_commits [OF this] show ?thesis by auto
qed

end
