(* ===== verification/Node_Operations.thy ===== *)
theory Node_Operations
  imports Deployment_Contract
begin

text \<open>
  Node operations, \<open>wr-manager/src/operations.rs\<close>: the rows of an operation and its targets, the cluster
  tables a rollout reads (\<open>ClusterStatusSnapshot\<close> of \<open>wr-manager/src/db.rs\<close>), and the pure decisions on
  them: which transition a slot makes, its steps, what evidence proves a step, and when a slot may stop.

  Enumerations are their variants, a stored name that no variant has cannot occur (\<open>step_name\<close> and its like
  are inverse to their parsers). Database times are microseconds. The three tables of an operation are one
  record: \<open>op_row\<close> with the rows of its targets, in the order \<open>load_operation\<close> returns them.
\<close>

section \<open>Enumerations\<close>

datatype NodeOperationAction = Deployment_Action | Restart_Action | Rollback_Action | Unspecified_Action

datatype NodeOperationState =
  Op_Queued | Op_Running | Op_Paused | Op_Succeeded | Op_Failed | Op_Cancelled

datatype NodeOperationPhase = Forward_Phase | RestoringSource | Committing | Complete_Phase

datatype NodeOperationStepKind =
    VerifyReleaseMetadata | VerifyProxy | StopBackend | SelectRelease | StartBackend | VerifyTarget
  | SwitchAuthority | VerifyServing | RestoreSource | InspectBackend | Unspecified_Step

datatype InstructionTargetKind = Proxy_Target | EngineSlot_Target | ReleaseCleanup_Target | Unspecified_Target

datatype DerivedTransition = Addition | Replacement | Unchanged | Removal | Restart

datatype BackendProcessState = Backend_Running | Backend_Exited | Backend_QueryError | Backend_Unspecified

datatype BackendStopDisposition = Stop_Graceful | Stop_Forced | Stop_Unknown

datatype ProcessLifecycleState = Life_Starting | Life_Ready | Life_Stopping | Life_Unspecified

datatype ServiceKind = Manager_Service | Proxy_Service | Engine_Service | Unspecified_Service

datatype op_status =
    Op_Invalid string | Op_Internal string | Op_Precondition string | Op_Aborted string | Op_Deadline string
  | Op_Missing string | Op_Exists string | Op_Denied string

fun action_name :: "NodeOperationAction \<Rightarrow> string" where
  "action_name Deployment_Action = ''deployment''"
| "action_name Restart_Action = ''restart''"
| "action_name Rollback_Action = ''rollback''"
| "action_name Unspecified_Action = ''unspecified''"

definition parse_action :: "string \<Rightarrow> op_status + NodeOperationAction" where
  "parse_action v =
    (if v = ''deployment'' then Inr Deployment_Action else if v = ''restart'' then Inr Restart_Action
     else if v = ''rollback'' then Inr Rollback_Action else Inl (Op_Internal ''stored operation has an invalid action''))"

definition parse_state :: "string \<Rightarrow> op_status + NodeOperationState" where
  "parse_state v =
    (if v = ''queued'' then Inr Op_Queued else if v = ''running'' then Inr Op_Running
     else if v = ''paused'' then Inr Op_Paused else if v = ''succeeded'' then Inr Op_Succeeded
     else if v = ''failed'' then Inr Op_Failed else if v = ''cancelled'' then Inr Op_Cancelled
     else Inl (Op_Internal ''stored operation has an invalid state''))"

definition parse_phase :: "string \<Rightarrow> op_status + NodeOperationPhase" where
  "parse_phase v =
    (if v = ''forward'' then Inr Forward_Phase else if v = ''restoring_source'' then Inr RestoringSource
     else if v = ''committing'' then Inr Committing else if v = ''complete'' then Inr Complete_Phase
     else Inl (Op_Internal ''stored operation has an invalid phase''))"

fun step_name :: "NodeOperationStepKind \<Rightarrow> string" where
  "step_name VerifyReleaseMetadata = ''verify_release_metadata''"
| "step_name VerifyProxy = ''verify_proxy''"
| "step_name StopBackend = ''stop_backend''"
| "step_name SelectRelease = ''select_release''"
| "step_name StartBackend = ''start_backend''"
| "step_name VerifyTarget = ''verify_target''"
| "step_name SwitchAuthority = ''switch_authority''"
| "step_name VerifyServing = ''verify_serving''"
| "step_name RestoreSource = ''restore_source''"
| "step_name InspectBackend = ''inspect_backend''"
| "step_name Unspecified_Step = ''complete''"

definition parse_step :: "string \<Rightarrow> op_status + NodeOperationStepKind" where
  "parse_step v =
    (if v = ''verify_release_metadata'' then Inr VerifyReleaseMetadata else if v = ''verify_proxy'' then Inr VerifyProxy
     else if v = ''stop_backend'' then Inr StopBackend else if v = ''select_release'' then Inr SelectRelease
     else if v = ''start_backend'' then Inr StartBackend else if v = ''verify_target'' then Inr VerifyTarget
     else if v = ''switch_authority'' then Inr SwitchAuthority else if v = ''verify_serving'' then Inr VerifyServing
     else if v = ''restore_source'' then Inr RestoreSource else if v = ''inspect_backend'' then Inr InspectBackend
     else if v = ''complete'' then Inr Unspecified_Step
     else Inl (Op_Internal ''stored operation has an invalid step''))"

fun transition_name :: "DerivedTransition \<Rightarrow> string" where
  "transition_name Addition = ''addition''"
| "transition_name Replacement = ''replacement''"
| "transition_name Unchanged = ''unchanged''"
| "transition_name Removal = ''removal''"
| "transition_name Restart = ''restart''"

definition parse_transition :: "string \<Rightarrow> op_status + DerivedTransition" where
  "parse_transition v =
    (if v = ''addition'' then Inr Addition else if v = ''replacement'' then Inr Replacement
     else if v = ''unchanged'' then Inr Unchanged else if v = ''removal'' then Inr Removal
     else if v = ''restart'' then Inr Restart
     else Inl (Op_Internal ''stored operation target has an invalid transition kind''))"

lemma parse_step_name [simp]: "parse_step (step_name s) = Inr s"
  by (cases s) (simp_all add: parse_step_def)

lemma parse_transition_name [simp]: "parse_transition (transition_name t) = Inr t"
  by (cases t) (simp_all add: parse_transition_def)

lemma parse_action_name [simp]: "a \<noteq> Unspecified_Action \<Longrightarrow> parse_action (action_name a) = Inr a"
  by (cases a) (simp_all add: parse_action_def)

section \<open>Steps and targets\<close>

definition target_step_compatible :: "InstructionTargetKind \<Rightarrow> NodeOperationStepKind \<Rightarrow> bool" where
  "target_step_compatible kind step =
    (case kind of
       Proxy_Target \<Rightarrow> step \<in> {InspectBackend, VerifyTarget, VerifyProxy, StopBackend, SelectRelease, StartBackend,
         RestoreSource, Unspecified_Step}
     | EngineSlot_Target \<Rightarrow> step \<in> {VerifyReleaseMetadata, InspectBackend, StopBackend, SelectRelease, StartBackend,
         VerifyTarget, SwitchAuthority, VerifyServing, RestoreSource, Unspecified_Step}
     | _ \<Rightarrow> False)"

definition derive_transition :: "int \<Rightarrow> string \<Rightarrow> string \<Rightarrow> int \<Rightarrow> string \<Rightarrow> string \<Rightarrow> DerivedTransition" where
  "derive_transition source_revision source_digest source_resolved target_revision target_digest target_resolved =
    (if \<not> source_revision > 0 \<and> target_revision > 0 then Addition
     else if source_revision > 0 \<and> \<not> target_revision > 0 then Removal
     else if source_revision > 0 \<and> target_revision > 0
     then if source_revision = target_revision \<and> source_digest = target_digest \<and> source_resolved = target_resolved
       then Unchanged else Replacement
     else Unchanged)"

definition first_forward_step :: "DerivedTransition \<Rightarrow> NodeOperationStepKind option" where
  "first_forward_step t =
    (case t of Addition \<Rightarrow> Some VerifyReleaseMetadata | Replacement \<Rightarrow> Some VerifyReleaseMetadata
     | Removal \<Rightarrow> Some VerifyTarget | Restart \<Rightarrow> Some VerifyTarget | Unchanged \<Rightarrow> None)"

fun next_forward_step :: "DerivedTransition \<Rightarrow> NodeOperationStepKind \<Rightarrow> NodeOperationStepKind option" where
  "next_forward_step Addition VerifyReleaseMetadata = Some SelectRelease"
| "next_forward_step Replacement VerifyReleaseMetadata = Some VerifyTarget"
| "next_forward_step Removal StopBackend = Some SwitchAuthority"
| "next_forward_step Restart StopBackend = Some StartBackend"
| "next_forward_step Replacement StopBackend = Some SelectRelease"
| "next_forward_step Addition SelectRelease = Some StartBackend"
| "next_forward_step Replacement SelectRelease = Some StartBackend"
| "next_forward_step Addition StartBackend = Some VerifyTarget"
| "next_forward_step Replacement StartBackend = Some VerifyTarget"
| "next_forward_step Restart StartBackend = Some VerifyTarget"
| "next_forward_step Addition SwitchAuthority = Some VerifyServing"
| "next_forward_step Replacement SwitchAuthority = Some VerifyServing"
| "next_forward_step _ _ = None"

section \<open>Rows\<close>

record BackendTerminationEvidence =
  te_backend_instance_id :: string
  te_process_instance_id :: string
  graceful_termination_requested :: bool
  kill_escalated :: bool
  disposition :: BackendStopDisposition
  terminal_result :: string
  exit_code :: "int option"
  te_signal :: "int option"

text \<open>A target of an operation; the last five columns are those of an engine target.\<close>

record target_row =
  tg_kind :: InstructionTargetKind
  tg_key :: string
  next_step :: NodeOperationStepKind
  completed_steps :: nat
  tg_complete :: bool
  condition_code :: string
  condition_detail :: string
  source_revision :: int
  source_digest :: string
  source_resolved_digest :: string
  target_revision :: int
  target_digest :: string
  target_resolved_digest :: string
  pinned_backend_instance_id :: string
  pinned_process_instance_id :: string
  tg_changed :: bool
  effect_ambiguous :: bool
  effect_delivered_at :: "int option"
  effect_reported :: bool
  effect_observed_revision :: int
  effect_observed_digest :: string
  effect_observed_resolved_digest :: string
  effect_backend_instance_id :: string
  effect_process_instance_id :: string
  effect_condition_code :: string
  effect_detail :: string
  effect_termination_evidence :: "BackendTerminationEvidence option"
  rollout_order :: nat
  authoritative_revision :: int
  authority_switched :: bool
  serving_converged :: bool
  tg_transition :: DerivedTransition

record RolloutPolicy =
  max_unavailable :: nat
  allow_downtime :: bool
  deadline_seconds :: int

record SubmitOperationRequest =
  so_node_id :: string
  so_request_token :: string
  so_action :: NodeOperationAction
  so_target_revision :: int
  so_bundle_digest :: string
  so_policy :: "RolloutPolicy option"
  so_resolved_release_digest :: string
  so_engine_slot :: string

record op_row =
  operation_id :: string
  op_node_id :: string
  op_actor :: string
  request_payload :: SubmitOperationRequest
  op_action :: NodeOperationAction
  op_state :: NodeOperationState
  op_phase :: NodeOperationPhase
  op_policy :: RolloutPolicy
  op_source_revision :: int
  op_target_revision :: int
  op_bundle_digest :: string
  op_resolved_release_digest :: string
  target_revision_digest :: "string option"
  committed :: bool
  op_lease_epoch :: int
  op_lease_expires_at :: "int option"
  op_claimed_by :: "string option"
  op_agent_instance_id :: "string option"
  failure_code :: string
  failure_detail :: string
  op_created_at :: int
  forward_deadline :: int
  forward_fenced :: bool
  restoration_requested :: bool
  restoration_terminal_state :: "NodeOperationState option"
  op_targets :: "target_row list"

section \<open>The cluster tables\<close>

record LifecycleStatus =
  ls_state :: ProcessLifecycleState
  ls_service_kind :: ServiceKind
  ls_process_instance_id :: string

record SlotObservation =
  ob_node_id :: string
  ob_engine_slot :: string
  ob_lifecycle :: "LifecycleStatus option"
  ob_backend_state :: BackendProcessState
  ob_backend_instance_id :: string
  ob_revision :: int
  ob_at :: int
  ob_digest :: string
  ob_resolved_digest :: string
  ob_query_error :: string
  ob_operation_id :: string
  ob_agent_instance_id :: string
  ob_lease_epoch :: int

datatype DeploymentState = Dep_Pending | Dep_Active | Dep_Succeeded | Dep_Failed

record deployment_row =
  dp_node_id :: string
  dp_revision :: int
  dp_attempt_token :: string
  dp_bundle_digest :: string
  dp_resolved_release_digest :: string
  dp_revision_digest :: string
  dp_inventory :: "ExpectedEngine list"
  dp_state :: DeploymentState
  dp_finalized :: bool
  dp_abandoned :: bool
  dp_allocated_by :: string
  dp_operation_id :: "string option"

record engine_metadata =
  md_node_id :: string
  md_engine_slot :: string
  md_revision :: int
  md_bundle_digest :: string

record engine_row =
  en_engine_id :: string
  en_deployment :: "engine_metadata option"
  en_modules :: "module_identity list"
  en_last_heartbeat :: int

record module_heartbeat =
  mh_engine_id :: string
  mh_module :: module_identity
  mh_last_healthy :: int

record route_row =
  ru_rule_id :: string
  ru_engine_id :: string
  ru_destination :: module_identity
  ru_healthy :: bool

record authority_row =
  au_node_id :: string
  au_engine_slot :: string
  au_revision :: int
  au_authoritative :: bool
  au_resolved_release_digest :: string

record node_row =
  nd_current_revision :: int
  nd_target_revision :: "int option"

text \<open>
  The tables a rollout reads, at one moment. The rows of \<open>cl_deployments\<close> are joined with those of
  \<open>cl_nodes\<close> where the snapshot of the cluster does so.
\<close>

record cluster =
  cl_nodes :: "(string \<times> node_row) list"
  cl_deployments :: "deployment_row list"
  cl_engines :: "engine_row list"
  cl_heartbeats :: "module_heartbeat list"
  cl_routes :: "route_row list"
  cl_authority :: "authority_row list"
  cl_observations :: "SlotObservation list"
  cl_version :: int

definition OP_SECOND :: int where "OP_SECOND = 1000000"
definition LEASE_SECONDS :: int where "LEASE_SECONDS = 15"
definition EVIDENCE_FRESH_SECONDS :: int where "EVIDENCE_FRESH_SECONDS = 15"

section \<open>Evidence\<close>

text \<open>Reading an observation drops what the manager's own clock finds stale.\<close>

definition read_observation :: "int \<Rightarrow> SlotObservation \<Rightarrow> SlotObservation" where
  "read_observation wall ob =
    (if (wall - ob_at ob) div OP_SECOND > EVIDENCE_FRESH_SECONDS
     then ob\<lparr>ob_lifecycle := None, ob_backend_state := Backend_Unspecified\<rparr> else ob)"

definition observation_is_fresh :: "int \<Rightarrow> SlotObservation \<Rightarrow> bool" where
  "observation_is_fresh now ob \<longleftrightarrow> now - ob_at ob \<le> EVIDENCE_FRESH_SECONDS * OP_SECOND"

definition observation_after_delivery :: "SlotObservation \<Rightarrow> int option \<Rightarrow> bool" where
  "observation_after_delivery ob delivered = (case delivered of None \<Rightarrow> False | Some d \<Rightarrow> ob_at ob > d)"

definition matching_observation :: "int \<Rightarrow> int \<Rightarrow> SlotObservation list \<Rightarrow> op_row \<Rightarrow> string \<Rightarrow> SlotObservation option" where
  "matching_observation now wall observations op slot =
    find (\<lambda>ob. ob_node_id ob = op_node_id op \<and> ob_engine_slot ob = slot \<and> ob_operation_id ob = operation_id op \<and>
      ob_agent_instance_id ob = (case op_agent_instance_id op of None \<Rightarrow> [] | Some a \<Rightarrow> a) \<and>
      ob_lease_epoch ob = op_lease_epoch op \<and> observation_is_fresh now ob) (map (read_observation wall) observations)"

record ReadyExpectation =
  re_service_kind :: ServiceKind
  re_revision :: int
  re_digest :: string
  re_previous_backend :: string
  re_previous_process :: string
  re_reported_backend :: string
  re_reported_process :: string

definition observation_ready :: "int \<Rightarrow> SlotObservation \<Rightarrow> ReadyExpectation \<Rightarrow> bool" where
  "observation_ready now ob ex =
    (if \<not> observation_is_fresh now ob \<or> ob_backend_state ob \<noteq> Backend_Running \<or> ob_backend_instance_id ob = [] \<or>
        ob_query_error ob \<noteq> [] \<or> ob_revision ob \<noteq> re_revision ex \<or> ob_digest ob \<noteq> re_digest ex \<or>
        (re_previous_backend ex \<noteq> [] \<and> ob_backend_instance_id ob = re_previous_backend ex) \<or>
        (re_reported_backend ex \<noteq> [] \<and> ob_backend_instance_id ob \<noteq> re_reported_backend ex)
     then False
     else case ob_lifecycle ob of
       None \<Rightarrow> False
     | Some st \<Rightarrow> ls_state st = Life_Ready \<and> ls_service_kind st = re_service_kind ex \<and> ls_process_instance_id st \<noteq> [] \<and>
         (re_previous_process ex = [] \<or> ls_process_instance_id st \<noteq> re_previous_process ex) \<and>
         (re_reported_process ex = [] \<or> ls_process_instance_id st = re_reported_process ex))"

definition exact_registration_count :: "int \<Rightarrow> engine_row list \<Rightarrow> string \<Rightarrow> string \<Rightarrow> int \<Rightarrow> string \<Rightarrow> nat" where
  "exact_registration_count now engines node slot revision digest =
    length (filter (\<lambda>e. (case en_deployment e of None \<Rightarrow> False | Some md \<Rightarrow> md_node_id md = node \<and>
        md_engine_slot md = slot \<and> md_revision md = revision \<and> md_bundle_digest md = digest) \<and>
      now - en_last_heartbeat e \<le> EVIDENCE_FRESH_SECONDS * OP_SECOND) engines)"

definition exact_registration_absent :: "engine_row list \<Rightarrow> string \<Rightarrow> string \<Rightarrow> int \<Rightarrow> bool" where
  "exact_registration_absent engines node slot revision \<longleftrightarrow>
    \<not> list_ex (\<lambda>e. case en_deployment e of None \<Rightarrow> False | Some md \<Rightarrow> md_node_id md = node \<and>
      md_engine_slot md = slot \<and> md_revision md = revision) engines"

definition old_routes_non_serving :: "cluster \<Rightarrow> string \<Rightarrow> string \<Rightarrow> int \<Rightarrow> bool" where
  "old_routes_non_serving sn node slot revision =
    (let old_engine_ids = map en_engine_id (filter (\<lambda>e. case en_deployment e of None \<Rightarrow> False | Some md \<Rightarrow>
           md_node_id md = node \<and> md_engine_slot md = slot \<and> md_revision md = revision) (cl_engines sn)) in
     list_all (\<lambda>r. \<not> ru_healthy r) (filter (\<lambda>r. ru_engine_id r \<in> set old_engine_ids) (cl_routes sn)))"

section \<open>The health of a deployment\<close>

text \<open>\<open>num_milliseconds\<close> truncates; the timeouts are whole milliseconds.\<close>

definition status_fresh :: "int \<Rightarrow> int \<Rightarrow> int \<Rightarrow> bool" where
  "status_fresh observed_at ts timeout_ms \<longleftrightarrow> (observed_at - ts) div 1000 \<le> timeout_ms"

definition signed_dec :: "int \<Rightarrow> string" where
  "signed_dec i = (if i < 0 then CHR ''-'' # dec_string (nat (- i)) else dec_string (nat i))"

definition quote :: string where "quote = [char_of (39 :: nat)]"

definition module_text :: "module_identity \<Rightarrow> string" where
  "module_text m = id_namespace m @ ''.'' @ id_name m @ ''@'' @ id_version m"

definition slot_text :: "ExpectedEngine \<Rightarrow> string" where
  "slot_text ee = ''engine slot '' @ quote @ ee_engine_slot ee @ quote"

definition module_condition :: "cluster \<Rightarrow> int \<Rightarrow> int \<Rightarrow> ExpectedEngine \<Rightarrow> engine_row \<Rightarrow> ExpectedModule \<Rightarrow> (string \<times> string) list" where
  "module_condition sn now module_timeout ee e expected =
    (case em_identity expected of
       None \<Rightarrow> [(''INVALID_INVENTORY'', ''expected module identity is missing'')]
     | Some m \<Rightarrow>
        if \<not> list_ex (\<lambda>a. a = m) (en_modules e)
        then [(''MISSING_MODULE'', slot_text ee @ '' does not advertise '' @ module_text m)]
        else (case find (\<lambda>h. mh_engine_id h = en_engine_id e \<and> mh_module h = m) (cl_heartbeats sn) of
            None \<Rightarrow> [(''MISSING_MODULE_HEARTBEAT'', slot_text ee @ '' module '' @ module_text m @ '' has no heartbeat'')]
          | Some h \<Rightarrow>
             if \<not> status_fresh now (mh_last_healthy h) module_timeout
             then [(''STALE_MODULE_HEARTBEAT'', slot_text ee @ '' module '' @ module_text m @ '' is not fresh'')]
             else let rule_id = en_engine_id e @ ''/'' @ id_namespace m @ ''/'' @ id_name m @ ''/'' @ id_version m in
              (case find (\<lambda>r. ru_rule_id r = rule_id \<and> ru_engine_id r = en_engine_id e \<and> ru_destination r = m) (cl_routes sn) of
                 None \<Rightarrow> [(''MISSING_ROUTE'', slot_text ee @ '' module '' @ module_text m @ '' has no default route'')]
               | Some r \<Rightarrow> if \<not> ru_healthy r
                   then [(''UNHEALTHY_ROUTE'', slot_text ee @ '' module '' @ module_text m @ '' default route is unhealthy'')]
                   else [])))"

definition engine_condition :: "cluster \<Rightarrow> int \<Rightarrow> int \<Rightarrow> int \<Rightarrow> deployment_row \<Rightarrow> ExpectedEngine \<Rightarrow> (string \<times> string) list" where
  "engine_condition sn now engine_timeout module_timeout dep ee =
    (let same_slot = filter (\<lambda>e. case en_deployment e of None \<Rightarrow> False | Some md \<Rightarrow>
           md_node_id md = dp_node_id dep \<and> md_engine_slot md = ee_engine_slot ee) (cl_engines sn);
         exact = filter (\<lambda>e. case en_deployment e of None \<Rightarrow> False | Some md \<Rightarrow>
           md_revision md = dp_revision dep \<and> md_bundle_digest md = dp_bundle_digest dep) same_slot in
     if exact = []
     then let c = (if same_slot = [] then ''MISSING_ENGINE''
            else if list_ex (\<lambda>e. case en_deployment e of None \<Rightarrow> False | Some md \<Rightarrow> md_revision md \<noteq> dp_revision dep) same_slot
            then ''REVISION_MISMATCH'' else ''DIGEST_MISMATCH'') in
          [(c, slot_text ee @ '' has no matching activated registration'')]
     else let fresh_engines = filter (\<lambda>e. status_fresh now (en_last_heartbeat e) engine_timeout) exact in
       case fresh_engines of
         [] \<Rightarrow> [(''STALE_ENGINE_HEARTBEAT'', slot_text ee @ '' has no fresh matching registration'')]
       | [e] \<Rightarrow> concat (map (module_condition sn now module_timeout ee e) (ee_modules ee))
       | _ \<Rightarrow> [(''DUPLICATE_ENGINE_SLOT'', slot_text ee @ '' has '' @ dec_string (length fresh_engines) @ '' fresh matching registrations'')])"

definition status_node :: "cluster \<Rightarrow> string \<Rightarrow> node_row option" where
  "status_node sn node = (if list_ex (\<lambda>d. dp_node_id d = node) (cl_deployments sn) then map_of (cl_nodes sn) node else None)"

definition debug_option :: "int option \<Rightarrow> string" where
  "debug_option v = (case v of None \<Rightarrow> ''None'' | Some i \<Rightarrow> ''Some('' @ signed_dec i @ '')'')"

definition deployment_conditions_from_snapshot ::
    "cluster \<Rightarrow> int \<Rightarrow> deployment_row \<Rightarrow> int \<Rightarrow> int \<Rightarrow> op_status + (string \<times> string) list" where
  "deployment_conditions_from_snapshot sn now dep engine_timeout module_timeout =
    and_then (ok_or (Op_Missing (''node '' @ quote @ dp_node_id dep @ quote @ '' not found'')) (status_node sn (dp_node_id dep))) (\<lambda>nd.
    if nd_current_revision nd \<noteq> dp_revision dep \<and> nd_target_revision nd \<noteq> Some (dp_revision dep)
    then Inr [(''NON_AUTHORITATIVE_REVISION'', ''revision '' @ signed_dec (dp_revision dep) @ '' is neither committed revision '' @
      signed_dec (nd_current_revision nd) @ '' nor staged target '' @ debug_option (nd_target_revision nd))]
    else Inr (sort (concat (map (engine_condition sn now engine_timeout module_timeout dep) (dp_inventory dep)))))"

definition slot_routes_healthy :: "cluster \<Rightarrow> int \<Rightarrow> string \<Rightarrow> string \<Rightarrow> int \<Rightarrow> string \<Rightarrow> op_status + bool" where
  "slot_routes_healthy sn now node slot revision digest =
    (case find (\<lambda>d. dp_node_id d = node \<and> dp_revision d = revision \<and> dp_bundle_digest d = digest) (cl_deployments sn) of
       None \<Rightarrow> Inr False
     | Some candidate \<Rightarrow>
        let engines = filter (\<lambda>ee. ee_engine_slot ee = slot) (dp_inventory candidate) in
        if length engines \<noteq> 1 then Inr False
        else if (case find (\<lambda>a. au_authoritative a \<and> au_node_id a = node \<and> au_engine_slot a = slot) (cl_authority sn) of
            None \<Rightarrow> False | Some a \<Rightarrow> au_revision a \<noteq> revision) then Inr False
        else and_then (deployment_conditions_from_snapshot sn now (candidate\<lparr>dp_inventory := engines\<rparr>)
            (EVIDENCE_FRESH_SECONDS * 1000) (EVIDENCE_FRESH_SECONDS * 1000)) (\<lambda>conditions. Inr (conditions = [])))"

text \<open>The slots that serve, with the revision and digest each serves: the committed inventory, then the
  operation's own slots.\<close>

definition serving_slots :: "cluster \<Rightarrow> op_row \<Rightarrow> (string \<times> (int \<times> string)) list" where
  "serving_slots sn op =
    (let committed_slots = (case find (\<lambda>d. dp_node_id d = op_node_id op \<and>
             (case map_of (cl_nodes sn) (dp_node_id d) of None \<Rightarrow> False | Some nd \<Rightarrow> dp_revision d = nd_current_revision nd))
           (cl_deployments sn) of
         None \<Rightarrow> []
       | Some current \<Rightarrow> fold (\<lambda>ee m. alist_put (ee_engine_slot ee) (dp_revision current, dp_bundle_digest current) m)
           (dp_inventory current) []) in
     fold (\<lambda>t m. if authoritative_revision t = 0 then filter (\<lambda>kv. fst kv \<noteq> tg_key t) m
        else alist_put (tg_key t) (authoritative_revision t,
          if authoritative_revision t = source_revision t then source_digest t else target_digest t) m)
       (filter (\<lambda>t. tg_kind t = EngineSlot_Target) (op_targets op)) committed_slots)"

definition stop_preserves_availability :: "cluster \<Rightarrow> int \<Rightarrow> op_row \<Rightarrow> string \<Rightarrow> op_status + bool" where
  "stop_preserves_availability sn now op slot =
    (let authoritative = serving_slots sn op in
     and_then (try_map (\<lambda>(candidate_slot, revision, digest). and_then
         (slot_routes_healthy sn now (op_node_id op) candidate_slot revision digest)
         (\<lambda>h. Inr (candidate_slot, h))) authoritative) (\<lambda>healths.
     let desired = length authoritative;
         healthy = length (filter snd healths);
         selected_slot_healthy = list_ex (\<lambda>(s, h). s = slot \<and> h) healths;
         projected_healthy = int healthy - (if selected_slot_healthy then 1 else 0);
         unavailable = int desired - projected_healthy in
     Inr ((allow_downtime (op_policy op) \<or> projected_healthy > 0) \<and>
          unavailable \<le> int (max_unavailable (op_policy op)))))"

section \<open>Stored operations\<close>

definition operation_slots :: "op_row \<Rightarrow> target_row list" where
  "operation_slots op = filter (\<lambda>t. tg_kind t = EngineSlot_Target) (op_targets op)"

definition proxy_target :: "op_row \<Rightarrow> op_status + target_row" where
  "proxy_target op = ok_or (Op_Internal ''operation proxy target is missing'')
    (find (\<lambda>t. tg_kind t = Proxy_Target) (op_targets op))"

definition restore_engine_slots_before_proxy :: "op_row \<Rightarrow> bool" where
  "restore_engine_slots_before_proxy op \<longleftrightarrow> op_phase op = RestoringSource \<and> op_source_revision op = 0"

definition validate_stored_transition :: "NodeOperationAction \<Rightarrow> target_row \<Rightarrow> op_status + unit" where
  "validate_stored_transition action t =
    (let check = (\<lambda>expected. if tg_transition t \<noteq> expected
           then Inl (Op_Internal ''stored operation transition conflicts with immutable target snapshots'') else Inr ()) in
     case action of
       Restart_Action \<Rightarrow>
         if source_revision t \<le> 0 \<or> source_revision t \<noteq> target_revision t \<or> source_digest t \<noteq> target_digest t \<or>
            source_resolved_digest t \<noteq> target_resolved_digest t
         then Inl (Op_Internal ''stored restart transition changes immutable desired identity'')
         else check Restart
     | Unspecified_Action \<Rightarrow> Inl (Op_Internal ''stored operation has an invalid action'')
     | _ \<Rightarrow> check (derive_transition (source_revision t) (source_digest t) (source_resolved_digest t)
         (target_revision t) (target_digest t) (target_resolved_digest t)))"

text \<open>\<open>target_from_row\<close> and \<open>operation_from_row\<close>: what a stored operation must satisfy to be read.\<close>

definition target_from_row :: "target_row \<Rightarrow> op_status + target_row" where
  "target_from_row t =
    (if tg_kind t = Proxy_Target \<and> tg_key t = ''proxy'' \<or>
        tg_kind t = EngineSlot_Target \<and> tg_key t \<noteq> [] \<and> tg_key t \<noteq> ''proxy''
     then Inr t else Inl (Op_Internal ''stored operation target identity is invalid''))"

definition operation_from_row :: "op_row \<Rightarrow> op_status + op_row" where
  "operation_from_row op =
    (if op_action op = Unspecified_Action then Inl (Op_Internal ''stored operation has an invalid action'')
     else and_then (try_map target_from_row (op_targets op)) (\<lambda>_.
       and_then (try_map (validate_stored_transition (op_action op)) (operation_slots op)) (\<lambda>_. Inr op)))"

record ProxyDeploymentMetadata =
  pd_node_id :: string
  pd_revision :: int
  pd_bundle_digest :: string
  pd_operation_id :: string
  pd_revision_digest :: string

record ExpectedProxyProjection =
  pp_deployment :: "ProxyDeploymentMetadata option"
  pp_pinned_process :: string
  pp_ambiguous :: bool

definition proxy_deployment_metadata :: "deployment_row \<Rightarrow> ProxyDeploymentMetadata" where
  "proxy_deployment_metadata d =
    \<lparr>pd_node_id = dp_node_id d, pd_revision = dp_revision d, pd_bundle_digest = dp_bundle_digest d,
     pd_operation_id = (case dp_operation_id d of None \<Rightarrow> [] | Some i \<Rightarrow> i), pd_revision_digest = dp_revision_digest d\<rparr>"

definition expected_proxy_projection ::
    "deployment_row list \<Rightarrow> deployment_row option \<Rightarrow> op_row option \<Rightarrow> op_status + ExpectedProxyProjection" where
  "expected_proxy_projection deployments committed_deployment operation =
    (case operation of
       None \<Rightarrow> Inr \<lparr>pp_deployment = map_option proxy_deployment_metadata committed_deployment,
         pp_pinned_process = [], pp_ambiguous = False\<rparr>
     | Some op \<Rightarrow> and_then (proxy_target op) (\<lambda>t.
         let uses_source = op_phase op = RestoringSource \<or> \<not> tg_complete t \<and>
               next_step t \<in> {VerifyReleaseMetadata, VerifyTarget, InspectBackend, StopBackend, SelectRelease};
             revision = (if uses_source then source_revision t else target_revision t) in
         Inr \<lparr>pp_deployment = map_option proxy_deployment_metadata
                (find (\<lambda>d. dp_node_id d = op_node_id op \<and> dp_revision d = revision) deployments),
              pp_pinned_process = (if effect_observed_revision t = revision \<and> effect_process_instance_id t \<noteq> []
                then effect_process_instance_id t else []),
              pp_ambiguous = (op_state op = Op_Paused \<and> effect_ambiguous t)\<rparr>))"

section \<open>Requests of the agent\<close>

datatype target_identity = Proxy_Identity | Engine_Identity string

record InstructionTarget =
  it_kind :: InstructionTargetKind
  it_revision :: int
  it_bundle_digest :: string
  it_resolved_digest :: string
  it_identity :: "target_identity option"

record ReportStepResultRequest =
  rs_node_id :: string
  rs_operation_id :: string
  rs_lease_epoch :: int
  rs_step :: NodeOperationStepKind
  rs_condition_code :: string
  rs_detail :: string
  rs_agent_instance_id :: string
  rs_observed_revision :: int
  rs_observed_digest :: string
  rs_backend_instance_id :: string
  rs_process_instance_id :: string
  rs_backend_query_error :: string
  rs_observed_resolved_digest :: string
  rs_target :: "InstructionTarget option"
  rs_termination_evidence :: "BackendTerminationEvidence option"

definition instruction_target_key :: "InstructionTarget \<Rightarrow> op_status + InstructionTargetKind \<times> string" where
  "instruction_target_key it =
    (case (it_kind it, it_identity it) of
       (Proxy_Target, Some Proxy_Identity) \<Rightarrow> Inr (Proxy_Target, ''proxy'')
     | (EngineSlot_Target, Some (Engine_Identity slot)) \<Rightarrow>
         if slot \<noteq> [] \<and> slot \<noteq> ''proxy'' then Inr (EngineSlot_Target, slot)
         else Inl (Op_Invalid ''target kind and identity mismatch'')
     | _ \<Rightarrow> Inl (Op_Invalid ''target kind and identity mismatch''))"

definition stop_evidence_condition ::
    "ReportStepResultRequest \<Rightarrow> NodeOperationStepKind \<Rightarrow> string \<Rightarrow> string \<Rightarrow> (string \<times> string) option" where
  "stop_evidence_condition request step pinned_backend pinned_process =
    (if step \<noteq> StopBackend then None
     else if pinned_backend = [] \<or> pinned_process = [] \<or> rs_backend_instance_id request \<noteq> pinned_backend \<or>
       rs_process_instance_id request \<noteq> pinned_process
     then Some (''STOP_IDENTITY_MISMATCH'', ''stop result must identify the exact pinned backend and process instances'')
     else case rs_termination_evidence request of
       None \<Rightarrow> Some (''TERMINATION_EVIDENCE_MISSING'', ''successful stop result requires typed termination evidence'')
     | Some ev \<Rightarrow>
         if te_backend_instance_id ev \<noteq> rs_backend_instance_id request \<or> te_process_instance_id ev \<noteq> rs_process_instance_id request
         then Some (''TERMINATION_EVIDENCE_MISMATCH'', ''termination evidence must identify the reported backend and process instances'')
         else if \<not> graceful_termination_requested ev \<or> kill_escalated ev \<or> disposition ev \<noteq> Stop_Graceful
         then Some (''TERMINATION_NOT_GRACEFUL'', ''stop result does not prove graceful termination without escalation'')
         else None)"

end
