(* ===== verification/Rollout.thy ===== *)
theory Rollout
  imports Node_Operations
begin

text \<open>
  The rollout machine of \<open>wr-manager/src/operations.rs\<close>: how the manager moves an operation forward, or back to
  its source, from the evidence of one database snapshot. Every function here runs inside one transaction:
  it takes the tables and returns them updated, or an error, and then nothing is kept. The columns
  \<open>updated_at\<close>, which no decision reads, are left out. \<open>oe_now\<close> is the transaction's \<open>NOW()\<close> and
  \<open>oe_wall\<close> the manager's own clock; UUIDs and digests come from third-party crates and are parameters.
\<close>

section \<open>The tables\<close>

record op_env =
  oe_now :: int
  oe_wall :: int
  oe_new_uuid :: string
  oe_parse_uuid :: "string \<Rightarrow> string option"
  oe_sha256 :: "string \<Rightarrow> string"

record op_event =
  ev_operation_id :: string
  ev_actor :: string
  ev_code :: string
  ev_detail :: string
  ev_lease_epoch :: int

record receipt_row =
  rc_operation_id :: string
  rc_node_id :: string
  rc_agent_instance_id :: string
  rc_lease_epoch :: int
  rc_step :: NodeOperationStepKind
  rc_target_kind :: InstructionTargetKind
  rc_target_key :: string
  rc_principal :: string
  rc_payload :: ReportStepResultRequest

datatype NodeCleanupState = Cleanup_Clean | Cleanup_NeedsReconcile | Cleanup_Pending | Cleanup_Claimed | Cleanup_Paused

record release_entry =
  rl_revision :: int
  rl_bundle_digest :: string
  rl_resolved_digest :: string

record NodeCleanupAuthority =
  delete_releases :: "release_entry list"
  known_inventory :: "release_entry list"

record cleanup_row =
  cu_generation :: int
  cu_state :: NodeCleanupState
  protection_fingerprint :: string
  authority_payload :: "NodeCleanupAuthority option"
  payload_digest :: string
  cu_known_inventory :: "NodeCleanupAuthority option"
  candidate_count :: nat
  cu_agent_instance_id :: "string option"
  cu_claimed_by :: "string option"
  claim_instance :: "string option"
  cu_lease_epoch :: int
  cu_lease_expires_at :: "int option"
  cu_delivered_at :: "int option"
  last_reconciled_at :: "int option"
  next_reconcile_at :: "int option"
  last_attempt_at :: "int option"
  diagnostic_code :: string
  diagnostic_detail :: string

datatype generation_outcome = Materialized | Superseded | Gen_Succeeded | Gen_Paused

record generation_row =
  gn_node_id :: string
  gn_generation :: int
  gn_fingerprint :: string
  gn_payload :: NodeCleanupAuthority
  gn_payload_digest :: string
  gn_known_inventory :: "NodeCleanupAuthority option"
  gn_outcome :: generation_outcome

record cleanup_event =
  ce_node_id :: string
  ce_generation :: int
  ce_code :: string
  ce_detail :: string

record agent_policy_row =
  ap_protocol_version :: string
  ap_retention_count :: nat
  ap_actor :: string
  ap_binary_digest :: string
  ap_capabilities :: "string list"

record attestation_row =
  at_node_id :: string
  at_agent_instance_id :: string
  at_principal :: string
  at_protocol_version :: string
  at_binary_digest :: string
  at_capabilities :: "string list"
  at_observed_at :: int

record ops_db =
  db_cluster :: cluster
  db_operations :: "op_row list"
  db_receipts :: "receipt_row list"
  db_events :: "op_event list"
  db_cleanup :: "(string \<times> cleanup_row) list"
  db_generations :: "generation_row list"
  db_cleanup_events :: "cleanup_event list"
  db_policies :: "(string \<times> agent_policy_row) list"
  db_attestations :: "attestation_row list"
  db_deletions :: "(string \<times> release_entry \<times> int) list"

definition active_state :: "NodeOperationState \<Rightarrow> bool" where
  "active_state s \<longleftrightarrow> s \<in> {Op_Queued, Op_Running, Op_Paused}"

definition set_op :: "string \<Rightarrow> (op_row \<Rightarrow> op_row) \<Rightarrow> ops_db \<Rightarrow> ops_db" where
  "set_op oid f db = db\<lparr>db_operations := map (\<lambda>op. if operation_id op = oid then f op else op) (db_operations db)\<rparr>"

definition set_target_of :: "InstructionTargetKind \<Rightarrow> string \<Rightarrow> (target_row \<Rightarrow> target_row) \<Rightarrow> op_row \<Rightarrow> op_row" where
  "set_target_of kind key f op =
    op\<lparr>op_targets := map (\<lambda>t. if tg_kind t = kind \<and> tg_key t = key then f t else t) (op_targets op)\<rparr>"

definition set_slot :: "string \<Rightarrow> string \<Rightarrow> (target_row \<Rightarrow> target_row) \<Rightarrow> ops_db \<Rightarrow> ops_db" where
  "set_slot oid slot f = set_op oid (set_target_of EngineSlot_Target slot f)"

definition append_event :: "string \<Rightarrow> string \<Rightarrow> string \<Rightarrow> string \<Rightarrow> int \<Rightarrow> ops_db \<Rightarrow> ops_db" where
  "append_event oid actor ccode detail epoch db =
    db\<lparr>db_events := db_events db @ [\<lparr>ev_operation_id = oid, ev_actor = actor, ev_code = ccode, ev_detail = detail,
      ev_lease_epoch = epoch\<rparr>]\<rparr>"

definition load_operation :: "ops_db \<Rightarrow> string \<Rightarrow> op_status + op_row" where
  "load_operation db oid =
    and_then (ok_or (Op_Missing ''operation not found'') (find (\<lambda>op. operation_id op = oid) (db_operations db))) operation_from_row"

text \<open>\<open>list_from_client\<close> for the active operations of every node, without its order by creation, which
  \<open>reconcile\<close> does not use.\<close>

definition active_operations :: "ops_db \<Rightarrow> op_status + op_row list" where
  "active_operations db = try_map operation_from_row (filter (\<lambda>op. active_state (op_state op)) (db_operations db))"

definition fence_cleanup_authority :: "int \<Rightarrow> string \<Rightarrow> string \<Rightarrow> ops_db \<Rightarrow> bool \<times> ops_db" where
  "fence_cleanup_authority now node reason db =
    (case map_of (db_cleanup db) node of
       None \<Rightarrow> (False, db)
     | Some cu \<Rightarrow> (True, db\<lparr>
         db_cleanup := alist_put node (cu\<lparr>cu_generation := cu_generation cu + 1, cu_state := Cleanup_NeedsReconcile,
           authority_payload := None, payload_digest := [], candidate_count := 0, cu_agent_instance_id := None,
           cu_claimed_by := None, claim_instance := None, cu_lease_expires_at := None, cu_delivered_at := None,
           next_reconcile_at := Some now, diagnostic_code := [], diagnostic_detail := []\<rparr>) (db_cleanup db),
         db_generations := map (\<lambda>g. if gn_node_id g = node \<and> gn_generation g = cu_generation cu \<and> gn_outcome g = Materialized
           then g\<lparr>gn_outcome := Superseded\<rparr> else g) (db_generations db),
         db_cleanup_events := db_cleanup_events db @ [\<lparr>ce_node_id = node, ce_generation = cu_generation cu + 1,
           ce_code = ''AUTHORITY_FENCED'', ce_detail = reason\<rparr>]\<rparr>))"

section \<open>Restoration\<close>

definition restoration_target :: "target_row \<Rightarrow> target_row" where
  "restoration_target t =
    (let touched = tg_changed t \<or> effect_ambiguous t in
     t\<lparr>tg_complete := \<not> touched, next_step := (if touched then RestoreSource else Unspecified_Step),
       effect_delivered_at := None, effect_reported := False, effect_condition_code := [], effect_detail := [],
       effect_observed_revision := 0, effect_observed_digest := [], effect_backend_instance_id := [],
       effect_process_instance_id := [],
       condition_code := (if touched then ''SOURCE_RESTORATION_REQUIRED'' else []),
       condition_detail := (if touched then ''source restoration is required before terminal completion'' else [])\<rparr>)"

definition restoration_row :: "NodeOperationState \<Rightarrow> string \<Rightarrow> string \<Rightarrow> op_row \<Rightarrow> op_row" where
  "restoration_row terminal ccode detail op =
    op\<lparr>op_state := Op_Queued, op_phase := RestoringSource, forward_fenced := True, restoration_requested := True,
       restoration_terminal_state := Some terminal, failure_code := ccode, failure_detail := detail,
       op_lease_expires_at := None, op_claimed_by := None, op_agent_instance_id := None,
       op_targets := map restoration_target (op_targets op)\<rparr>"

definition enter_restoration ::
    "string \<Rightarrow> string \<Rightarrow> NodeOperationState \<Rightarrow> string \<Rightarrow> string \<Rightarrow> ops_db \<Rightarrow> op_status + ops_db" where
  "enter_restoration oid actor terminal ccode detail db =
    (case find (\<lambda>op. operation_id op = oid \<and> \<not> committed op \<and> active_state (op_state op)) (db_operations db) of
       None \<Rightarrow> Inl (Op_Precondition ''only an active uncommitted operation can enter restoration'')
     | Some op \<Rightarrow> Inr (append_event oid actor ccode detail (op_lease_epoch op)
         (set_op oid (restoration_row terminal ccode detail) db)))"

definition deadline_expired :: "int \<Rightarrow> op_row \<Rightarrow> bool" where
  "deadline_expired now op \<longleftrightarrow> op_phase op = Forward_Phase \<and> forward_deadline op \<le> now \<or> forward_fenced op"

section \<open>Conditions and pauses\<close>

definition set_slot_condition :: "string \<Rightarrow> string \<Rightarrow> string \<Rightarrow> string \<Rightarrow> ops_db \<Rightarrow> ops_db" where
  "set_slot_condition oid slot ccode detail =
    set_slot oid slot (\<lambda>t. t\<lparr>condition_code := ccode, condition_detail := detail\<rparr>)"

definition clear_slot_condition :: "string \<Rightarrow> string \<Rightarrow> ops_db \<Rightarrow> ops_db" where
  "clear_slot_condition oid slot = set_slot_condition oid slot [] []"

definition pause_row :: "string \<Rightarrow> string \<Rightarrow> op_row \<Rightarrow> op_row" where
  "pause_row ccode detail op =
    op\<lparr>op_state := Op_Paused, failure_code := ccode, failure_detail := detail, op_lease_expires_at := None,
       op_claimed_by := None, op_agent_instance_id := None\<rparr>"

definition pause_with_condition :: "string \<Rightarrow> string \<Rightarrow> string \<Rightarrow> string \<Rightarrow> ops_db \<Rightarrow> ops_db" where
  "pause_with_condition oid slot ccode detail db =
    set_op oid (\<lambda>op. if op_state op \<in> {Op_Queued, Op_Running} then pause_row ccode detail op else op)
      (set_slot_condition oid slot ccode detail db)"

section \<open>Authority\<close>

definition withdraw_authority :: "string \<Rightarrow> string \<Rightarrow> authority_row list \<Rightarrow> authority_row list" where
  "withdraw_authority node slot = map (\<lambda>a. if au_node_id a = node \<and> au_engine_slot a = slot \<and> au_authoritative a
     then a\<lparr>au_authoritative := False\<rparr> else a)"

definition grant_authority :: "string \<Rightarrow> string \<Rightarrow> int \<Rightarrow> string \<Rightarrow> authority_row list \<Rightarrow> authority_row list" where
  "grant_authority node slot revision resolved rows =
    (let same = (\<lambda>a. au_node_id a = node \<and> au_engine_slot a = slot \<and> au_revision a = revision) in
     if list_ex same rows
     then map (\<lambda>a. if same a then a\<lparr>au_authoritative := True, au_resolved_release_digest := resolved\<rparr> else a) rows
     else rows @ [\<lparr>au_node_id = node, au_engine_slot = slot, au_revision = revision, au_authoritative = True,
       au_resolved_release_digest = resolved\<rparr>])"

definition routed_elsewhere :: "cluster \<Rightarrow> string \<Rightarrow> string \<Rightarrow> int \<Rightarrow> route_row \<Rightarrow> bool" where
  "routed_elsewhere cl node slot revision r \<longleftrightarrow> ru_healthy r \<and>
    list_ex (\<lambda>e. en_engine_id e = ru_engine_id r \<and> (case en_deployment e of None \<Rightarrow> False | Some md \<Rightarrow>
      md_node_id md = node \<and> md_engine_slot md = slot \<and> md_revision md \<noteq> revision)) (cl_engines cl)"

definition switch_authority :: "int \<Rightarrow> string \<Rightarrow> string \<Rightarrow> int \<Rightarrow> ops_db \<Rightarrow> ops_db" where
  "switch_authority now node slot revision db =
    (let cl = db_cluster db;
         authority_changed = (\<not> list_ex (\<lambda>a. au_node_id a = node \<and> au_engine_slot a = slot \<and> au_authoritative a \<and>
           au_revision a = revision) (cl_authority cl));
         withdrawn_rows = withdraw_authority node slot (cl_authority cl);
         authority = (if revision > 0
           then case find (\<lambda>d. dp_node_id d = node \<and> dp_revision d = revision) (cl_deployments cl) of
             None \<Rightarrow> withdrawn_rows
           | Some d \<Rightarrow> grant_authority node slot revision (dp_resolved_release_digest d) withdrawn_rows
           else withdrawn_rows);
         withdrawn = filter (routed_elsewhere cl node slot revision) (cl_routes cl);
         db' = db\<lparr>db_cluster := cl\<lparr>cl_authority := authority,
           cl_routes := map (\<lambda>r. if routed_elsewhere cl node slot revision r then r\<lparr>ru_healthy := False\<rparr> else r) (cl_routes cl),
           cl_version := cl_version cl + (if withdrawn = [] then 0 else 1)\<rparr>\<rparr> in
     if authority_changed then snd (fence_cleanup_authority now node ''SLOT_AUTHORITY_CHANGED'' db') else db')"

definition advance_target :: "NodeOperationStepKind option \<Rightarrow> int \<Rightarrow> target_row \<Rightarrow> target_row" where
  "advance_target next revision t =
    t\<lparr>completed_steps := completed_steps t + 1,
      next_step := (case next of None \<Rightarrow> Unspecified_Step | Some s \<Rightarrow> s), tg_complete := (next = None),
      effect_ambiguous := False, effect_delivered_at := None, effect_reported := False,
      effect_observed_revision := 0, effect_observed_digest := [], effect_observed_resolved_digest := [],
      effect_backend_instance_id := [], effect_process_instance_id := [], condition_code := [], condition_detail := [],
      authoritative_revision := revision\<rparr>"

definition advance_slot :: "string \<Rightarrow> string \<Rightarrow> NodeOperationStepKind option \<Rightarrow> int \<Rightarrow> ops_db \<Rightarrow> ops_db" where
  "advance_slot oid slot next revision = set_slot oid slot (advance_target next revision)"

section \<open>One slot\<close>

text \<open>
  \<open>reconcile_slot\<close>, one definition per step. A branch either returns, with the value \<open>reconcile_slot\<close>
  returns, or falls through to the end of the function, which clears the slot's condition.
\<close>

datatype slot_flow = Returned bool | Fell_Through

type_synonym slot_result = "op_status + slot_flow \<times> ops_db"

definition redeliver :: "string \<Rightarrow> string \<Rightarrow> ops_db \<Rightarrow> ops_db" where
  "redeliver oid slot = set_slot oid slot (\<lambda>t. t\<lparr>effect_delivered_at := None, effect_ambiguous := False\<rparr>)"

definition mark_changed :: "string \<Rightarrow> string \<Rightarrow> ops_db \<Rightarrow> ops_db" where
  "mark_changed oid slot = set_slot oid slot (\<lambda>t. t\<lparr>tg_changed := True\<rparr>)"

definition ready_expectation :: "int \<Rightarrow> string \<Rightarrow> string \<Rightarrow> string \<Rightarrow> target_row \<Rightarrow> ReadyExpectation" where
  "ready_expectation revision digest previous_backend previous_process t =
    \<lparr>re_service_kind = Engine_Service, re_revision = revision, re_digest = digest,
     re_previous_backend = previous_backend, re_previous_process = previous_process,
     re_reported_backend = effect_backend_instance_id t, re_reported_process = effect_process_instance_id t\<rparr>"

definition some_and :: "'a option \<Rightarrow> ('a \<Rightarrow> bool) \<Rightarrow> bool" where
  "some_and x P = (case x of None \<Rightarrow> False | Some v \<Rightarrow> P v)"

definition source_host_proven :: "op_env \<Rightarrow> cluster \<Rightarrow> op_row \<Rightarrow> target_row \<Rightarrow> SlotObservation option \<Rightarrow> bool" where
  "source_host_proven env sn op t observation =
    (if source_revision t = 0
     then some_and observation (\<lambda>v. ob_backend_state v = Backend_Exited \<and> ob_revision v = 0 \<and> ob_digest v = [] \<and>
            ob_query_error v = [] \<and> ob_backend_instance_id v \<noteq> []) \<and>
          exact_registration_absent (cl_engines sn) (op_node_id op) (tg_key t) (target_revision t)
     else some_and observation (\<lambda>v. observation_ready (oe_now env) v
            (ready_expectation (source_revision t) (source_digest t) [] [] t)) \<and>
          exact_registration_count (oe_now env) (cl_engines sn) (op_node_id op) (tg_key t) (source_revision t) (source_digest t) = 1)"

definition reconcile_restoring :: "op_env \<Rightarrow> cluster \<Rightarrow> op_row \<Rightarrow> target_row \<Rightarrow> SlotObservation option \<Rightarrow> ops_db \<Rightarrow> slot_result" where
  "reconcile_restoring env sn op t observation db =
    (let oid = operation_id op; slot = tg_key t in
     if next_step t \<noteq> RestoreSource then Inr (Returned False, db)
     else if effect_condition_code t \<noteq> []
     then Inr (Returned False, pause_with_condition oid slot (effect_condition_code t)
       ''restoration effect failed; explicit resume is required'' db)
     else if effect_ambiguous t \<and> some_and observation (\<lambda>v. ob_query_error v \<noteq> [])
     then Inr (Returned False, pause_with_condition oid slot ''RESTORATION_BACKEND_UNKNOWN''
       (case observation of None \<Rightarrow> ''restoration backend state is inconclusive'' | Some v \<Rightarrow> ob_query_error v) db)
     else if source_host_proven env sn op t observation
     then let switched = switch_authority (oe_now env) (op_node_id op) slot (source_revision t) db;
              advanced = Inr (Returned True, advance_slot oid slot None (source_revision t) switched) in
       if source_revision t > 0
       then and_then (slot_routes_healthy sn (oe_now env) (op_node_id op) slot (source_revision t) (source_digest t)) (\<lambda>ok.
         if \<not> ok then Inr (Returned False, set_slot_condition oid slot ''RESTORATION_ROUTE_PENDING''
           ''source authority is restored but required module routes have not converged'' switched)
         else advanced)
       else advanced
     else if effect_ambiguous t \<and> some_and observation (\<lambda>v. ob_query_error v = [] \<and> ob_backend_instance_id v \<noteq> [] \<and>
       ob_backend_state v \<in> {Backend_Running, Backend_Exited})
     then Inr (Returned True, set_slot oid slot (\<lambda>t. t\<lparr>tg_changed := True, effect_ambiguous := False,
       effect_delivered_at := None, condition_code := [], condition_detail := []\<rparr>) db)
     else Inr (Returned False, set_slot_condition oid slot ''RESTORATION_EVIDENCE_PENDING''
       (if effect_ambiguous t then ''fresh inspection must prove whether the delivered effect changed the slot''
        else ''fresh source backend, lifecycle, digest, registration, and route evidence are required'') db))"

definition reconcile_stop :: "cluster \<Rightarrow> op_row \<Rightarrow> target_row \<Rightarrow> SlotObservation option \<Rightarrow> ops_db \<Rightarrow> slot_result" where
  "reconcile_stop sn op t observation db =
    (let oid = operation_id op; slot = tg_key t in
     if effect_delivered_at t = None then Inr (Returned False, db)
     else case observation of
       None \<Rightarrow> Inr (Returned False, db)
     | Some v \<Rightarrow>
       if \<not> observation_after_delivery v (effect_delivered_at t) then Inr (Returned False, db)
       else if ob_backend_state v = Backend_Running \<and> ob_backend_instance_id v = pinned_backend_instance_id t \<and> ob_query_error v = []
       then Inr (Returned True, redeliver oid slot db)
       else if ob_backend_state v \<noteq> Backend_Exited \<or> pinned_backend_instance_id t = [] \<or>
         ob_backend_instance_id v \<noteq> pinned_backend_instance_id t \<or> ob_query_error v \<noteq> [] \<or>
         \<not> exact_registration_absent (cl_engines sn) (op_node_id op) slot (source_revision t) \<or>
         \<not> old_routes_non_serving sn (op_node_id op) slot (source_revision t)
       then Inr (Returned False, pause_with_condition oid slot ''STOP_EVIDENCE_PENDING''
         ''the fresh pinned backend exit, registration removal, and non-serving routes are not all proven'' db)
       else Inr (Fell_Through, advance_slot oid slot (next_forward_step (tg_transition t) StopBackend) (source_revision t)
         (mark_changed oid slot db)))"

definition reconcile_select :: "op_row \<Rightarrow> target_row \<Rightarrow> SlotObservation option \<Rightarrow> ops_db \<Rightarrow> slot_result" where
  "reconcile_select op t observation db =
    (let oid = operation_id op; slot = tg_key t in
     if some_and observation (\<lambda>v. observation_after_delivery v (effect_delivered_at t) \<and> ob_revision v = source_revision t \<and>
       ob_digest v = source_digest t \<and> ob_query_error v = [])
     then Inr (Returned True, redeliver oid slot db)
     else if \<not> some_and observation (\<lambda>v. ob_revision v = target_revision t \<and> ob_digest v = target_digest t \<and> ob_query_error v = [])
     then Inr (Returned False, db)
     else Inr (Fell_Through, advance_slot oid slot (next_forward_step (tg_transition t) SelectRelease) (source_revision t)
       (if target_revision t \<noteq> source_revision t then mark_changed oid slot db else db)))"

definition reconcile_start :: "op_env \<Rightarrow> op_row \<Rightarrow> target_row \<Rightarrow> SlotObservation option \<Rightarrow> ops_db \<Rightarrow> slot_result" where
  "reconcile_start env op t observation db =
    (let oid = operation_id op; slot = tg_key t in
     if \<not> some_and observation (\<lambda>v. observation_ready (oe_now env) v (ready_expectation (target_revision t) (target_digest t)
       (pinned_backend_instance_id t) (pinned_process_instance_id t) t))
     then if some_and observation (\<lambda>v. observation_after_delivery v (effect_delivered_at t) \<and> ob_backend_state v = Backend_Exited \<and>
         ob_revision v = target_revision t \<and> ob_digest v = target_digest t \<and> ob_query_error v = [])
       then Inr (Returned True, redeliver oid slot db)
       else Inr (Returned False, db)
     else Inr (Fell_Through, advance_slot oid slot (next_forward_step (tg_transition t) StartBackend) (source_revision t) db))"

definition proving_source :: "target_row \<Rightarrow> bool" where
  "proving_source t \<longleftrightarrow> source_revision t > 0 \<and> pinned_process_instance_id t = []"

definition pin_slot :: "string \<Rightarrow> string \<Rightarrow> SlotObservation \<Rightarrow> LifecycleStatus \<Rightarrow> ops_db \<Rightarrow> ops_db" where
  "pin_slot oid slot v lifecycle = set_slot oid slot (\<lambda>t. t\<lparr>pinned_backend_instance_id := ob_backend_instance_id v,
     pinned_process_instance_id := ls_process_instance_id lifecycle\<rparr>)"

definition verify_ready :: "op_env \<Rightarrow> cluster \<Rightarrow> op_row \<Rightarrow> target_row \<Rightarrow> SlotObservation option \<Rightarrow> bool" where
  "verify_ready env sn op t observation =
    (let expected_revision = (if proving_source t then source_revision t else target_revision t);
         expected_digest = (if proving_source t then source_digest t else target_digest t) in
     some_and observation (\<lambda>v. observation_ready (oe_now env) v (ready_expectation expected_revision expected_digest
       (if proving_source t then [] else pinned_backend_instance_id t)
       (if proving_source t then [] else pinned_process_instance_id t) t)) \<and>
     exact_registration_count (oe_now env) (cl_engines sn) (op_node_id op) (tg_key t) expected_revision expected_digest = 1)"

definition reconcile_verify :: "op_env \<Rightarrow> cluster \<Rightarrow> op_row \<Rightarrow> target_row \<Rightarrow> SlotObservation option \<Rightarrow> ops_db \<Rightarrow> slot_result" where
  "reconcile_verify env sn op t observation db =
    (let oid = operation_id op; slot = tg_key t in
     case (if verify_ready env sn op t observation then observation else None) of
       None \<Rightarrow> Inr (Returned False,
         if some_and observation (\<lambda>v. ob_query_error v \<noteq> [] \<or> effect_reported t)
         then pause_with_condition oid slot (if proving_source t then ''SOURCE_EVIDENCE_INVALID'' else ''TARGET_EVIDENCE_INVALID'')
           ''exact fresh running backend, replacement identities, lifecycle READY, digest, and one registration are required'' db
         else db)
     | Some v \<Rightarrow> (case ob_lifecycle v of
         None \<Rightarrow> Inl (Op_Internal ''ready evidence includes lifecycle status'')
       | Some lifecycle \<Rightarrow>
         if proving_source t
         then and_then (stop_preserves_availability sn (oe_now env) op slot) (\<lambda>ok.
           if \<not> ok then Inr (Returned False, pause_with_condition oid slot ''AVAILABILITY_POLICY_BLOCKED''
             ''the next withdrawal would exceed max_unavailable or remove the last healthy slot'' db)
           else Inr (Returned True, advance_slot oid slot (Some StopBackend) (source_revision t) (pin_slot oid slot v lifecycle db)))
         else if list_ex (\<lambda>a. au_authoritative a \<and> au_node_id a = op_node_id op \<and> au_engine_slot a = slot \<and>
             au_revision a = target_revision t) (cl_authority sn) \<and> source_revision t \<noteq> target_revision t
         then Inr (Returned False, pause_with_condition oid slot ''PREMATURE_TARGET_AUTHORITY''
           ''target became authoritative before the manager switch transaction'' db)
         else Inr (Fell_Through, advance_slot oid slot
           (Some (if source_revision t = target_revision t then VerifyServing else SwitchAuthority)) (source_revision t)
           (pin_slot oid slot v lifecycle db))))"

definition reconcile_switch :: "op_env \<Rightarrow> op_row \<Rightarrow> target_row \<Rightarrow> ops_db \<Rightarrow> slot_result" where
  "reconcile_switch env op t db =
    (let oid = operation_id op; slot = tg_key t in
     Inr (Fell_Through, advance_slot oid slot (next_forward_step (tg_transition t) SwitchAuthority) (target_revision t)
       (set_slot oid slot (\<lambda>t. t\<lparr>authority_switched := True, tg_changed := True\<rparr>)
         (switch_authority (oe_now env) (op_node_id op) slot (target_revision t) db))))"

definition reconcile_serving :: "op_env \<Rightarrow> cluster \<Rightarrow> op_row \<Rightarrow> target_row \<Rightarrow> ops_db \<Rightarrow> slot_result" where
  "reconcile_serving env sn op t db =
    (let oid = operation_id op; slot = tg_key t in
     and_then (slot_routes_healthy sn (oe_now env) (op_node_id op) slot (target_revision t) (target_digest t)) (\<lambda>ok.
       if \<not> ok then Inr (Returned False, set_slot_condition oid slot ''SERVING_CONVERGENCE_PENDING''
         ''fresh required module heartbeats and exact healthy default routes have not converged under target authority'' db)
       else Inr (Fell_Through, advance_slot oid slot None (target_revision t)
         (set_slot oid slot (\<lambda>t. t\<lparr>serving_converged := True\<rparr>) db))))"

definition reconcile_forward :: "op_env \<Rightarrow> cluster \<Rightarrow> op_row \<Rightarrow> target_row \<Rightarrow> SlotObservation option \<Rightarrow> ops_db \<Rightarrow> slot_result" where
  "reconcile_forward env sn op t observation db =
    (if effect_condition_code t \<noteq> []
     then and_then (enter_restoration (operation_id op) ''manager'' Op_Failed (effect_condition_code t)
         (if effect_detail t = [] then ''typed effect failed'' else effect_detail t) db) (\<lambda>db'. Inr (Returned False, db'))
     else case next_step t of
       VerifyReleaseMetadata \<Rightarrow> if \<not> effect_reported t then Inr (Returned False, db)
         else Inr (Fell_Through, advance_slot (operation_id op) (tg_key t) (next_forward_step (tg_transition t) VerifyReleaseMetadata)
           (source_revision t) db)
     | VerifyProxy \<Rightarrow> if \<not> effect_reported t then Inr (Returned False, db)
         else Inr (Fell_Through, advance_slot (operation_id op) (tg_key t) (next_forward_step (tg_transition t) VerifyProxy)
           (source_revision t) db)
     | StopBackend \<Rightarrow> reconcile_stop sn op t observation db
     | SelectRelease \<Rightarrow> reconcile_select op t observation db
     | StartBackend \<Rightarrow> reconcile_start env op t observation db
     | VerifyTarget \<Rightarrow> reconcile_verify env sn op t observation db
     | SwitchAuthority \<Rightarrow> reconcile_switch env op t db
     | VerifyServing \<Rightarrow> reconcile_serving env sn op t db
     | _ \<Rightarrow> Inr (Returned False, db))"

definition reconcile_slot :: "op_env \<Rightarrow> cluster \<Rightarrow> op_row \<Rightarrow> target_row \<Rightarrow> ops_db \<Rightarrow> op_status + bool \<times> ops_db" where
  "reconcile_slot env sn op t db =
    (let observation = matching_observation (oe_now env) (oe_wall env) (cl_observations sn) op (tg_key t) in
     and_then (if op_phase op = RestoringSource then reconcile_restoring env sn op t observation db
       else reconcile_forward env sn op t observation db) (\<lambda>(flow, db').
     case flow of Returned b \<Rightarrow> Inr (b, db') | Fell_Through \<Rightarrow> Inr (True, clear_slot_condition (operation_id op) (tg_key t) db')))"

section \<open>One operation\<close>

text \<open>\<open>Iterator::min_by_key\<close>: the first of the least.\<close>

fun min_by_key :: "('a \<Rightarrow> 'k :: linorder) \<Rightarrow> 'a list \<Rightarrow> 'a option" where
  "min_by_key f [] = None"
| "min_by_key f (x # xs) = (case min_by_key f xs of None \<Rightarrow> Some x | Some y \<Rightarrow> Some (if f y < f x then y else x))"

definition end_row :: "NodeOperationState \<Rightarrow> op_row \<Rightarrow> op_row" where
  "end_row terminal op = op\<lparr>op_state := terminal, op_phase := Complete_Phase, op_lease_expires_at := None,
     op_claimed_by := None, op_agent_instance_id := None\<rparr>"

definition commit_revision :: "int \<Rightarrow> string \<Rightarrow> int \<Rightarrow> ops_db \<Rightarrow> ops_db" where
  "commit_revision now node revision db =
    (let cl = db_cluster db in
     snd (fence_cleanup_authority now node ''SERVING_COMMIT'' (db\<lparr>db_cluster := cl\<lparr>
       cl_nodes := map (\<lambda>(n, nd). (n, if n = node \<and> nd_target_revision nd = Some revision
         then nd\<lparr>nd_current_revision := revision, nd_target_revision := None\<rparr> else nd)) (cl_nodes cl),
       cl_deployments := map (\<lambda>d. if dp_node_id d = node \<and> dp_revision d = revision \<and> dp_state d \<in> {Dep_Pending, Dep_Active}
         then d\<lparr>dp_state := Dep_Succeeded\<rparr> else d) (cl_deployments cl)\<rparr>\<rparr>)))"

definition state_text :: "NodeOperationState \<Rightarrow> string" where
  "state_text s = (if s = Op_Cancelled then ''cancelled'' else ''failed'')"

definition finish_operation :: "int \<Rightarrow> string \<Rightarrow> op_row \<Rightarrow> ops_db \<Rightarrow> ops_db" where
  "finish_operation now actor op db =
    (let oid = operation_id op in
     if op_phase op = RestoringSource
     then let terminal = (if restoration_terminal_state op = Some Op_Cancelled then Op_Cancelled else Op_Failed) in
       append_event oid actor ''SOURCE_RESTORED'' (state_text terminal) (op_lease_epoch op) (set_op oid (end_row terminal) db)
     else if op_action op \<noteq> Restart_Action \<and> op_target_revision op > 0
     then append_event oid actor ''REVISION_COMMITTED'' (signed_dec (op_target_revision op)) (op_lease_epoch op)
       (set_op oid (\<lambda>row. (end_row Op_Succeeded row)\<lparr>committed := True\<rparr>)
         (commit_revision now (op_node_id op) (op_target_revision op) db))
     else append_event oid actor ''OPERATION_SUCCEEDED'' [] (op_lease_epoch op) (set_op oid (end_row Op_Succeeded) db))"

definition reconcile :: "op_env \<Rightarrow> string \<Rightarrow> string \<Rightarrow> ops_db \<Rightarrow> op_status + ops_db" where
  "reconcile env oid actor db =
    and_then (active_operations db) (\<lambda>ops.
    and_then (ok_or (Op_Precondition ''operation is not active'') (find (\<lambda>op. operation_id op = oid) ops)) (\<lambda>op.
    if op_state op \<notin> {Op_Queued, Op_Running} then Inr db
    else and_then (proxy_target op) (\<lambda>proxy.
      if \<not> restore_engine_slots_before_proxy op \<and> \<not> tg_complete proxy then Inr db
      else case min_by_key rollout_order (filter (\<lambda>t. \<not> tg_complete t) (operation_slots op)) of
        Some t \<Rightarrow> and_then (reconcile_slot env (db_cluster db) op t db) (\<lambda>(_, db'). Inr db')
      | None \<Rightarrow> if \<not> tg_complete proxy then Inr db else Inr (finish_operation (oe_now env) actor op db))))"

end
