(* ===== verification/Operation_Api.thy ===== *)
theory Operation_Api
  imports Rollout
begin

text \<open>
  The operation calls of \<open>wr-manager/src/operations.rs\<close> that an agent and an operator make: claim, renew, report
  and resume or cancel. Each is one transaction: it returns its answer with the tables it leaves, which are
  the ones it found unless it commits. The transactions of an operation exclude one another (they lock
  its row, and those that read evidence lock the routing version first), so they run one after another.
  A result receipt keeps the request itself, whose protobuf encoding the code compares.
\<close>

type_synonym 'a reply = "(op_status + 'a) \<times> ops_db"

definition commit :: "(op_status + 'a \<times> ops_db) \<Rightarrow> ops_db \<Rightarrow> 'a reply" where
  "commit r db = (case r of Inl e \<Rightarrow> (Inl e, db) | Inr (v, db') \<Rightarrow> (Inr v, db'))"

definition i64_max :: int where "i64_max = 2 ^ 63 - 1"

definition parse_operation_id :: "op_env \<Rightarrow> string \<Rightarrow> op_status + string" where
  "parse_operation_id env s = ok_or (Op_Invalid ''operation_id must be a UUID'') (oe_parse_uuid env s)"

definition i64_of :: "string \<Rightarrow> int \<Rightarrow> op_status + int" where
  "i64_of message v = (if v \<le> i64_max then Inr v else Inl (Op_Invalid message))"

section \<open>The operator\<close>

definition get_operation :: "op_env \<Rightarrow> string \<Rightarrow> ops_db \<Rightarrow> op_status + op_row" where
  "get_operation env s db = and_then (parse_operation_id env s) (load_operation db)"

definition resume :: "op_env \<Rightarrow> string \<Rightarrow> string \<Rightarrow> ops_db \<Rightarrow> op_row reply" where
  "resume env s actor db = commit (
    and_then (parse_operation_id env s) (\<lambda>oid.
    and_then (ok_or (Op_Precondition ''operation must be paused'')
      (find (\<lambda>op. operation_id op = oid \<and> op_state op = Op_Paused) (db_operations db))) (\<lambda>op.
    let db' = append_event oid actor ''OPERATION_RESUMED'' ''fresh activation and epoch required'' (op_lease_epoch op)
      (set_op oid (\<lambda>row. row\<lparr>op_state := Op_Queued, op_lease_expires_at := None, op_claimed_by := None,
         op_agent_instance_id := None, failure_code := [], failure_detail := []\<rparr>) db) in
    and_then (load_operation db' oid) (\<lambda>row. Inr (row, db'))))) db"

definition cancel :: "op_env \<Rightarrow> string \<Rightarrow> string \<Rightarrow> ops_db \<Rightarrow> op_row reply" where
  "cancel env s actor db = commit (
    and_then (parse_operation_id env s) (\<lambda>oid.
    and_then (enter_restoration oid actor Op_Cancelled ''CANCEL_REQUESTED''
      ''source restoration required before cancellation is terminal'' db) (\<lambda>db'.
    and_then (load_operation db' oid) (\<lambda>row. Inr (row, db'))))) db"

section \<open>Claims\<close>

record AgentInstruction =
  ai_operation_id :: string
  ai_node_id :: string
  ai_lease_epoch :: int
  ai_step :: NodeOperationStepKind
  ai_operation_deadline :: "int option"
  ai_agent_instance_id :: string
  ai_target :: InstructionTarget
  ai_pinned_backend :: string
  ai_pinned_process :: string
  ai_restoration :: bool
  ai_revision_digest :: string

definition agent_attested :: "int \<Rightarrow> string \<Rightarrow> string \<Rightarrow> string \<Rightarrow> ops_db \<Rightarrow> bool" where
  "agent_attested now node agent_instance agent db \<longleftrightarrow>
    list_ex (\<lambda>a. at_node_id a = node \<and> at_agent_instance_id a = agent_instance \<and> at_principal a = agent \<and>
      (case map_of (db_policies db) node of None \<Rightarrow> False | Some p \<Rightarrow>
         at_protocol_version a = ap_protocol_version p \<and> at_binary_digest a = ap_binary_digest p \<and>
         set (ap_capabilities p) \<subseteq> set (at_capabilities a)) \<and>
      at_observed_at a \<ge> now - 30 * OP_SECOND) (db_attestations db)"

definition op_lease_expired :: "int \<Rightarrow> string \<Rightarrow> op_row \<Rightarrow> bool" where
  "op_lease_expired now node op \<longleftrightarrow> op_node_id op = node \<and> op_state op = Op_Running \<and>
    (case op_lease_expires_at op of None \<Rightarrow> False | Some e \<Rightarrow> e \<le> now)"

definition expire_leases :: "int \<Rightarrow> string \<Rightarrow> ops_db \<Rightarrow> ops_db" where
  "expire_leases now node db =
    (let expired = filter (op_lease_expired now node) (db_operations db) in
     fold (\<lambda>op. append_event (operation_id op) ''manager'' ''LEASE_EXPIRED'' ''explicit resume is required'' (op_lease_epoch op)) expired
       (db\<lparr>db_operations := map (\<lambda>op. if op_lease_expired now node op
          then pause_row ''LEASE_EXPIRED'' ''node-agent lease expired'' op else op) (db_operations db)\<rparr>))"

definition op_claimable :: "int \<Rightarrow> string \<Rightarrow> string \<Rightarrow> op_row \<Rightarrow> bool" where
  "op_claimable now node agent_instance op \<longleftrightarrow> op_node_id op = node \<and>
    (op_state op = Op_Queued \<or> op_state op = Op_Running \<and> op_agent_instance_id op = Some agent_instance \<and>
      (case op_lease_expires_at op of None \<Rightarrow> False | Some e \<Rightarrow> e > now))"

definition take_lease :: "int \<Rightarrow> string \<Rightarrow> string \<Rightarrow> op_row \<Rightarrow> op_row" where
  "take_lease now agent_instance agent op =
    (if op_state op = Op_Queued
     then op\<lparr>op_state := Op_Running, op_lease_epoch := op_lease_epoch op + 1,
       op_lease_expires_at := Some (now + LEASE_SECONDS * OP_SECOND), op_claimed_by := Some agent,
       op_agent_instance_id := Some agent_instance\<rparr>
     else op\<lparr>op_lease_expires_at := Some (now + LEASE_SECONDS * OP_SECOND)\<rparr>)"

definition mutating_effect :: "NodeOperationStepKind \<Rightarrow> bool" where
  "mutating_effect s \<longleftrightarrow> s \<in> {StopBackend, SelectRelease, StartBackend, RestoreSource}"

definition pending_slot :: "op_row \<Rightarrow> target_row option" where
  "pending_slot op = find (\<lambda>t. \<not> tg_complete t) (operation_slots op)"

text \<open>The target the claim speaks of, and whether it speaks of its source.\<close>

definition instruction_choice :: "op_row \<Rightarrow> target_row \<Rightarrow> (target_row \<times> bool) option" where
  "instruction_choice op proxy =
    (let phase_source = op_phase op = RestoringSource in
     if \<not> tg_complete proxy \<and> (\<not> restore_engine_slots_before_proxy op \<or> pending_slot op = None)
     then Some (proxy, phase_source \<or> next_step proxy \<in> {InspectBackend, StopBackend, VerifyTarget})
     else case pending_slot op of
       None \<Rightarrow> None
     | Some t \<Rightarrow> if next_step t \<in> {SwitchAuthority, VerifyServing} then None
         else Some (t, phase_source \<or> next_step t = StopBackend \<or> next_step t = VerifyTarget \<and> proving_source t))"

definition instruction_target :: "target_row \<Rightarrow> bool \<Rightarrow> InstructionTarget" where
  "instruction_target t uses_source =
    \<lparr>it_kind = tg_kind t, it_revision = (if uses_source then source_revision t else target_revision t),
     it_bundle_digest = (if uses_source then source_digest t else target_digest t),
     it_resolved_digest = (if uses_source then source_resolved_digest t else target_resolved_digest t),
     it_identity = Some (if tg_kind t = Proxy_Target then Proxy_Identity else Engine_Identity (tg_key t))\<rparr>"

definition instruction_revision_digest :: "cluster \<Rightarrow> string \<Rightarrow> int \<Rightarrow> op_status + string" where
  "instruction_revision_digest cl node revision =
    (if revision = 0 then Inr []
     else and_then (ok_or (Op_Precondition ''instruction deployment is missing'')
       (find (\<lambda>d. dp_node_id d = node \<and> dp_revision d = revision) (cl_deployments cl))) (\<lambda>d. Inr (dp_revision_digest d)))"

definition needs_inspection :: "target_row \<Rightarrow> bool" where
  "needs_inspection t \<longleftrightarrow> mutating_effect (next_step t) \<and> effect_delivered_at t \<noteq> None \<or> effect_ambiguous t"

definition slot_label :: "target_row \<Rightarrow> string" where
  "slot_label t = (if tg_kind t = Proxy_Target then [] else tg_key t)"

definition deliver :: "op_env \<Rightarrow> string \<Rightarrow> string \<Rightarrow> string \<Rightarrow> op_row \<Rightarrow> target_row \<Rightarrow> bool \<Rightarrow> ops_db \<Rightarrow>
    op_status + AgentInstruction option \<times> ops_db" where
  "deliver env node agent_instance agent op t uses_source db =
    (let oid = operation_id op; target = instruction_target t uses_source;
         step = (if needs_inspection t then InspectBackend else next_step t) in
     and_then (instruction_revision_digest (db_cluster db) node (it_revision target)) (\<lambda>revision_digest.
     if \<not> target_step_compatible (tg_kind t) step
     then Inl (Op_Internal ''stored target kind and step are incompatible'')
     else let db' = (if mutating_effect (next_step t) \<and> \<not> needs_inspection t
            then set_op oid (set_target_of (tg_kind t) (tg_key t) (\<lambda>row. row\<lparr>effect_delivered_at := Some (oe_now env),
              effect_ambiguous := True\<rparr>)) db else db);
          restoration = op_phase op = RestoringSource in
       Inr (Some \<lparr>ai_operation_id = oid, ai_node_id = node, ai_lease_epoch = op_lease_epoch op, ai_step = step,
         ai_operation_deadline = (if restoration then None else Some (forward_deadline op)),
         ai_agent_instance_id = agent_instance, ai_target = target, ai_pinned_backend = pinned_backend_instance_id t,
         ai_pinned_process = pinned_process_instance_id t, ai_restoration = restoration, ai_revision_digest = revision_digest\<rparr>,
         append_event oid agent ''LEASE_CLAIMED'' (slot_label t @ '':'' @ step_name step) (op_lease_epoch op) db')))"

definition claim_leased :: "op_env \<Rightarrow> string \<Rightarrow> string \<Rightarrow> string \<Rightarrow> string \<Rightarrow> ops_db \<Rightarrow>
    op_status + AgentInstruction option \<times> ops_db" where
  "claim_leased env node agent_instance agent oid db =
    and_then (reconcile env oid agent db) (\<lambda>db'.
    and_then (load_operation db' oid) (\<lambda>op.
    if op_state op \<noteq> Op_Running then Inr (None, db')
    else and_then (proxy_target op) (\<lambda>proxy.
      case instruction_choice op proxy of
        None \<Rightarrow> Inr (None, db')
      | Some (t, uses_source) \<Rightarrow> deliver env node agent_instance agent op t uses_source db')))"

definition claim :: "op_env \<Rightarrow> string \<Rightarrow> string \<Rightarrow> string \<Rightarrow> ops_db \<Rightarrow> AgentInstruction option reply" where
  "claim env node agent_instance agent db = commit (
    if agent_instance = [] then Inl (Op_Invalid ''agent_instance_id is required'')
    else if \<not> agent_attested (oe_now env) node agent_instance agent db
    then Inl (Op_Precondition ''fresh authenticated node-agent attestation is required'')
    else let db1 = expire_leases (oe_now env) node db in
      case min_by_key op_created_at (filter (op_claimable (oe_now env) node agent_instance) (db_operations db1)) of
        None \<Rightarrow> Inr (None, db1)
      | Some op \<Rightarrow>
          if op_phase op = Forward_Phase \<and> deadline_expired (oe_now env) op
          then and_then (enter_restoration (operation_id op) ''manager'' Op_Failed ''FORWARD_DEADLINE_EXPIRED''
            ''forward deadline expired; forward execution is permanently fenced'' db1) (\<lambda>db2. Inr (None, db2))
          else claim_leased env node agent_instance agent (operation_id op)
            (set_op (operation_id op) (take_lease (oe_now env) agent_instance agent) db1)) db"

section \<open>Leases and reports\<close>

text \<open>The fence every call of a claimed operation passes: its row, held by this activation with a running lease.\<close>

definition holds_lease :: "int \<Rightarrow> string \<Rightarrow> string \<Rightarrow> int \<Rightarrow> string \<Rightarrow> string \<Rightarrow> op_row \<Rightarrow> bool" where
  "holds_lease now oid node epoch agent agent_instance op \<longleftrightarrow> operation_id op = oid \<and> op_node_id op = node \<and>
    op_state op = Op_Running \<and> op_lease_epoch op = epoch \<and> op_claimed_by op = Some agent \<and>
    op_agent_instance_id op = Some agent_instance \<and> (case op_lease_expires_at op of None \<Rightarrow> False | Some e \<Rightarrow> e > now)"

definition fence_deadline :: "op_env \<Rightarrow> op_row \<Rightarrow> ops_db \<Rightarrow> 'a reply \<Rightarrow> 'a reply" where
  "fence_deadline env op db continue_with =
    (if op_phase op = Forward_Phase \<and> deadline_expired (oe_now env) op
     then case enter_restoration (operation_id op) ''manager'' Op_Failed ''FORWARD_DEADLINE_EXPIRED''
         ''forward deadline expired; forward execution is permanently fenced'' db of
       Inl e \<Rightarrow> (Inl e, db)
     | Inr db' \<Rightarrow> (Inl (Op_Deadline ''forward operation deadline expired''), db')
     else continue_with)"

definition renew :: "op_env \<Rightarrow> string \<Rightarrow> string \<Rightarrow> int \<Rightarrow> string \<Rightarrow> string \<Rightarrow> ops_db \<Rightarrow> int reply" where
  "renew env node s epoch agent_instance agent db =
    (case and_then (parse_operation_id env s) (\<lambda>oid. and_then (i64_of ''lease epoch is too large'' epoch) (\<lambda>e.
       ok_or (Op_Aborted ''operation lease is stale, expired, or activation-mismatched'')
         (find (holds_lease (oe_now env) oid node e agent agent_instance) (db_operations db)))) of
       Inl e \<Rightarrow> (Inl e, db)
     | Inr op \<Rightarrow> fence_deadline env op db
         (let expires = oe_now env + LEASE_SECONDS * OP_SECOND in
          (Inr expires, set_op (operation_id op) (\<lambda>row. row\<lparr>op_lease_expires_at := Some expires\<rparr>) db)))"

record ReportNodeObservationRequest =
  ro_node_id :: string
  ro_engine_slot :: string
  ro_lifecycle :: "LifecycleStatus option"
  ro_backend_state :: BackendProcessState
  ro_backend_instance_id :: string
  ro_observed_revision :: int
  ro_observed_digest :: string
  ro_backend_query_error :: string
  ro_operation_id :: string
  ro_agent_instance_id :: string
  ro_lease_epoch :: int
  ro_observed_resolved_digest :: string

text \<open>The insert of an observation, which an older one never replaces.\<close>

definition put_observation :: "SlotObservation \<Rightarrow> SlotObservation list \<Rightarrow> SlotObservation list" where
  "put_observation v rows =
    (if list_ex (\<lambda>row. ob_node_id row = ob_node_id v \<and> ob_engine_slot row = ob_engine_slot v) rows
     then map (\<lambda>row. if ob_node_id row = ob_node_id v \<and> ob_engine_slot row = ob_engine_slot v \<and> ob_at row \<le> ob_at v
       then v else row) rows
     else rows @ [v])"

definition protection_changed :: "ReportNodeObservationRequest \<Rightarrow> SlotObservation list \<Rightarrow> bool" where
  "protection_changed request rows =
    (case find (\<lambda>row. ob_node_id row = ro_node_id request \<and> ob_engine_slot row = ro_engine_slot request) rows of
       None \<Rightarrow> True
     | Some row \<Rightarrow> ob_revision row \<noteq> ro_observed_revision request \<or> ob_digest row \<noteq> ro_observed_digest request \<or>
         ob_resolved_digest row \<noteq> ro_observed_resolved_digest request)"

definition observation_of :: "int \<Rightarrow> string \<Rightarrow> ReportNodeObservationRequest \<Rightarrow> SlotObservation" where
  "observation_of observed_at oid request =
    \<lparr>ob_node_id = ro_node_id request, ob_engine_slot = ro_engine_slot request, ob_lifecycle = ro_lifecycle request,
     ob_backend_state = ro_backend_state request, ob_backend_instance_id = ro_backend_instance_id request,
     ob_revision = ro_observed_revision request, ob_at = observed_at, ob_digest = ro_observed_digest request,
     ob_resolved_digest = ro_observed_resolved_digest request, ob_query_error = ro_backend_query_error request,
     ob_operation_id = oid, ob_agent_instance_id = ro_agent_instance_id request, ob_lease_epoch = ro_lease_epoch request\<rparr>"

definition finish_report :: "op_env \<Rightarrow> string \<Rightarrow> string \<Rightarrow> ops_db \<Rightarrow> op_status + op_row \<times> ops_db" where
  "finish_report env oid agent db = and_then (reconcile env oid agent db) (\<lambda>db'.
     and_then (load_operation db' oid) (\<lambda>row. Inr (row, db')))"

definition report_observation :: "op_env \<Rightarrow> ReportNodeObservationRequest \<Rightarrow> string \<Rightarrow> ops_db \<Rightarrow> op_row reply" where
  "report_observation env request agent db =
    (case and_then (parse_operation_id env (ro_operation_id request)) (\<lambda>oid.
       and_then (i64_of ''lease epoch is too large'' (ro_lease_epoch request)) (\<lambda>e.
       if ro_backend_state request = Backend_QueryError \<and> ro_backend_query_error request = []
       then Inl (Op_Invalid ''backend query errors require typed error evidence'')
       else and_then (i64_of ''observed_revision is too large'' (ro_observed_revision request)) (\<lambda>_.
         ok_or (Op_Aborted ''observation has a stale, expired, or activation-mismatched lease'')
           (find (holds_lease (oe_now env) oid (ro_node_id request) e agent (ro_agent_instance_id request)) (db_operations db))))) of
       Inl e \<Rightarrow> (Inl e, db)
     | Inr op \<Rightarrow> fence_deadline env op db
         (let cl = db_cluster db;
              observed = db\<lparr>db_cluster := cl\<lparr>cl_observations :=
                put_observation (observation_of (oe_wall env) (operation_id op) request) (cl_observations cl)\<rparr>\<rparr>;
              fenced = (if protection_changed request (cl_observations cl)
                then snd (fence_cleanup_authority (oe_now env) (ro_node_id request) ''OBSERVATION_CHANGED'' observed) else observed) in
          commit (finish_report env (operation_id op) agent fenced) db))"

section \<open>Step results\<close>

definition find_receipt :: "string \<Rightarrow> InstructionTargetKind \<Rightarrow> string \<Rightarrow> ReportStepResultRequest \<Rightarrow> receipt_row list \<Rightarrow> receipt_row option" where
  "find_receipt oid kind key request = find (\<lambda>r. rc_operation_id r = oid \<and> rc_node_id r = rs_node_id request \<and>
     rc_agent_instance_id r = rs_agent_instance_id request \<and> rc_lease_epoch r = rs_lease_epoch request \<and>
     rc_step r = rs_step request \<and> rc_target_kind r = kind \<and> rc_target_key r = key)"

definition put_receipt :: "string \<Rightarrow> InstructionTargetKind \<Rightarrow> string \<Rightarrow> ReportStepResultRequest \<Rightarrow> string \<Rightarrow> ops_db \<Rightarrow> ops_db" where
  "put_receipt oid kind key request agent db = db\<lparr>db_receipts := db_receipts db @
     [\<lparr>rc_operation_id = oid, rc_node_id = rs_node_id request, rc_agent_instance_id = rs_agent_instance_id request,
       rc_lease_epoch = rs_lease_epoch request, rc_step = rs_step request, rc_target_kind = kind, rc_target_key = key,
       rc_principal = agent, rc_payload = request\<rparr>]\<rparr>"

text \<open>The immutable triple a result is about, of the source or of the target.\<close>

definition expected_triple :: "target_row \<Rightarrow> bool \<Rightarrow> int \<times> string \<times> string" where
  "expected_triple t uses_source =
    (if uses_source then (source_revision t, source_digest t, source_resolved_digest t)
     else (target_revision t, target_digest t, target_resolved_digest t))"

definition reported_triple :: "ReportStepResultRequest \<Rightarrow> int \<times> string \<times> string" where
  "reported_triple request = (rs_observed_revision request, rs_observed_digest request, rs_observed_resolved_digest request)"

definition proxy_condition :: "ReportStepResultRequest \<Rightarrow> target_row \<Rightarrow> string \<times> string" where
  "proxy_condition request t =
    (let step = rs_step request;
         uses_source = step \<in> {InspectBackend, StopBackend, RestoreSource, VerifyTarget};
         found = (if rs_condition_code request \<noteq> [] then (rs_condition_code request, rs_detail request)
           else if rs_backend_query_error request \<noteq> [] then (''BACKEND_QUERY_ERROR'', rs_backend_query_error request)
           else if reported_triple request \<noteq> expected_triple t uses_source
           then (''RELEASE_EVIDENCE_MISMATCH'', ''proxy evidence does not match the immutable instruction triple'')
           else if step \<in> {VerifyTarget, VerifyProxy} \<and> rs_process_instance_id request = []
           then (''PROXY_EVIDENCE_MISSING'', ''proxy verification requires a process identity'')
           else ([], rs_detail request)) in
     if fst found = [] then (case stop_evidence_condition request step (pinned_backend_instance_id t) (pinned_process_instance_id t) of
         None \<Rightarrow> found | Some c \<Rightarrow> c)
     else found)"

fun next_proxy_step :: "NodeOperationStepKind \<Rightarrow> NodeOperationStepKind option" where
  "next_proxy_step InspectBackend = Some StopBackend"
| "next_proxy_step StopBackend = Some SelectRelease"
| "next_proxy_step SelectRelease = Some StartBackend"
| "next_proxy_step StartBackend = Some VerifyProxy"
| "next_proxy_step VerifyTarget = Some StopBackend"
| "next_proxy_step VerifyProxy = Some Unspecified_Step"
| "next_proxy_step RestoreSource = Some Unspecified_Step"
| "next_proxy_step _ = None"

definition advance_proxy :: "ReportStepResultRequest \<Rightarrow> NodeOperationStepKind \<Rightarrow> target_row \<Rightarrow> target_row" where
  "advance_proxy request next t =
    t\<lparr>next_step := next, tg_complete := (next = Unspecified_Step),
      tg_changed := (tg_changed t \<or> mutating_effect (rs_step request)), effect_ambiguous := False, effect_reported := True,
      effect_observed_revision := rs_observed_revision request, effect_observed_digest := rs_observed_digest request,
      effect_observed_resolved_digest := rs_observed_resolved_digest request,
      effect_backend_instance_id := rs_backend_instance_id request, effect_process_instance_id := rs_process_instance_id request,
      pinned_backend_instance_id := (if rs_backend_instance_id request \<noteq> [] then rs_backend_instance_id request
        else pinned_backend_instance_id t),
      pinned_process_instance_id := (if rs_process_instance_id request \<noteq> [] then rs_process_instance_id request
        else pinned_process_instance_id t),
      effect_condition_code := [], effect_detail := [], effect_delivered_at := None,
      effect_termination_evidence := (if rs_step request = StopBackend then rs_termination_evidence request
        else effect_termination_evidence t)\<rparr>"

definition report_proxy :: "op_env \<Rightarrow> string \<Rightarrow> ReportStepResultRequest \<Rightarrow> string \<Rightarrow> op_row \<Rightarrow> ops_db \<Rightarrow> op_status + ops_db" where
  "report_proxy env oid request agent op db =
    and_then (ok_or (Op_Internal ''query returned an unexpected number of rows'')
      (find (\<lambda>t. tg_kind t = Proxy_Target \<and> tg_key t = ''proxy'' \<and> \<not> tg_complete t) (op_targets op))) (\<lambda>t.
    if next_step t = Unspecified_Step \<or> next_step t \<noteq> rs_step request
    then Inl (Op_Aborted (''stale proxy result: expected '' @ step_name (next_step t) @ '', received '' @ step_name (rs_step request)))
    else let (ccode, detail) = proxy_condition request t in
      if ccode \<noteq> [] then Inr (set_op oid (\<lambda>row. pause_row ccode detail (set_target_of Proxy_Target ''proxy''
        (\<lambda>t. t\<lparr>effect_condition_code := ccode, effect_detail := detail\<rparr>) row)) db)
      else case next_proxy_step (rs_step request) of
        None \<Rightarrow> Inl (Op_Aborted ''invalid proxy operation step'')
      | Some next \<Rightarrow> and_then (i64_of ''observed_revision is too large'' (rs_observed_revision request)) (\<lambda>_.
          reconcile env oid agent (set_op oid (set_target_of Proxy_Target ''proxy'' (advance_proxy request next)) db)))"

definition slot_condition :: "ReportStepResultRequest \<Rightarrow> target_row \<Rightarrow> string \<Rightarrow> string \<times> string" where
  "slot_condition request t pinned_proxy =
    (let step = rs_step request;
         uses_source = step \<in> {StopBackend, RestoreSource} \<or> step = VerifyTarget \<and> proving_source t in
     if rs_condition_code request \<noteq> [] then (rs_condition_code request, rs_detail request)
     else if rs_backend_query_error request \<noteq> [] then (''BACKEND_QUERY_ERROR'', rs_backend_query_error request)
     else if step \<in> {VerifyReleaseMetadata, StopBackend, SelectRelease, StartBackend, VerifyTarget, RestoreSource} \<and>
       reported_triple request \<noteq> expected_triple t uses_source
     then (''RELEASE_EVIDENCE_MISMATCH'', ''reported revision/digest do not match the immutable instruction snapshot'')
     else if step = VerifyProxy \<and> rs_process_instance_id request = []
     then (''PROXY_EVIDENCE_MISSING'', ''proxy verification requires an activation process identity'')
     else if step = VerifyProxy \<and> pinned_proxy \<noteq> [] \<and> rs_process_instance_id request \<noteq> pinned_proxy
     then (''PROXY_IDENTITY_CHANGED'', ''proxy process identity differs from the operation''
       @ quote @ ''s pinned activation'')
     else case stop_evidence_condition request step (pinned_backend_instance_id t) (pinned_process_instance_id t) of
       Some c \<Rightarrow> c
     | None \<Rightarrow>
       if step \<in> {StopBackend, StartBackend, RestoreSource} \<and> rs_backend_instance_id request = []
       then (''BACKEND_IDENTITY_MISSING'', ''typed backend effects require the exact resulting backend instance identity'')
       else if (step = StartBackend \<or> step = RestoreSource \<and> source_revision t > 0) \<and> rs_process_instance_id request = []
       then (''PROCESS_IDENTITY_MISSING'', ''start and restoration effects require the exact resulting process identity'')
       else ([], rs_detail request))"

definition report_slot_effect :: "ReportStepResultRequest \<Rightarrow> string \<times> string \<Rightarrow> target_row \<Rightarrow> target_row" where
  "report_slot_effect request c t =
    t\<lparr>effect_reported := True, effect_condition_code := fst c, effect_detail := snd c,
      effect_observed_revision := rs_observed_revision request, effect_observed_digest := rs_observed_digest request,
      effect_observed_resolved_digest := rs_observed_resolved_digest request,
      effect_backend_instance_id := rs_backend_instance_id request, effect_process_instance_id := rs_process_instance_id request,
      effect_termination_evidence := (if rs_step request = StopBackend then rs_termination_evidence request
        else effect_termination_evidence t)\<rparr>"

definition report_slot :: "op_env \<Rightarrow> string \<Rightarrow> string \<Rightarrow> ReportStepResultRequest \<Rightarrow> string \<Rightarrow> op_row \<Rightarrow> ops_db \<Rightarrow> op_status + ops_db" where
  "report_slot env oid slot request agent op db =
    and_then (ok_or (Op_Precondition ''operation slot is complete or unknown'')
      (find (\<lambda>t. tg_kind t = EngineSlot_Target \<and> tg_key t = slot \<and> \<not> tg_complete t) (op_targets op))) (\<lambda>t.
    if next_step t \<noteq> rs_step request
    then Inl (Op_Aborted (''stale step result: expected '' @ step_name (next_step t) @ '', received '' @ step_name (rs_step request)))
    else let pinned_proxy = (case proxy_target op of Inl _ \<Rightarrow> [] | Inr p \<Rightarrow> pinned_process_instance_id p);
             c = slot_condition request t pinned_proxy in
      and_then (i64_of ''observed_revision is too large'' (rs_observed_revision request)) (\<lambda>_.
      let db1 = set_slot oid slot (report_slot_effect request c) db;
          db2 = (if rs_step request = VerifyProxy \<and> fst c = []
            then set_op oid (set_target_of Proxy_Target ''proxy'' (\<lambda>p. p\<lparr>pinned_process_instance_id :=
              (if pinned_process_instance_id p = [] then rs_process_instance_id request else pinned_process_instance_id p)\<rparr>)) db1
            else db1) in
      reconcile env oid agent (append_event oid agent ''EFFECT_REPORTED'' (slot @ '':'' @ step_name (rs_step request))
        (rs_lease_epoch request) db2)))"

definition apply_report :: "op_env \<Rightarrow> string \<Rightarrow> InstructionTargetKind \<Rightarrow> string \<Rightarrow> ReportStepResultRequest \<Rightarrow> string \<Rightarrow>
    op_row \<Rightarrow> ops_db \<Rightarrow> op_status + op_row \<times> ops_db" where
  "apply_report env oid kind key request agent op db =
    and_then (if kind = Proxy_Target then report_proxy env oid request agent op db
      else report_slot env oid key request agent op db) (\<lambda>db'.
    let db'' = put_receipt oid kind key request agent db' in
    and_then (load_operation db'' oid) (\<lambda>row. Inr (row, db'')))"

definition report_step :: "op_env \<Rightarrow> ReportStepResultRequest \<Rightarrow> string \<Rightarrow> ops_db \<Rightarrow> op_row reply" where
  "report_step env request agent db =
    (case and_then (parse_operation_id env (rs_operation_id request)) (\<lambda>oid.
       and_then (i64_of ''lease epoch is too large'' (rs_lease_epoch request)) (\<lambda>_.
       and_then (ok_or (Op_Invalid ''result target is required'') (rs_target request)) (\<lambda>target.
       and_then (instruction_target_key target) (\<lambda>(kind, key).
       if \<not> target_step_compatible (it_kind target) (rs_step request)
       then Inl (Op_Invalid ''target kind does not support the reported step'')
       else Inr (oid, kind, key))))) of
       Inl e \<Rightarrow> (Inl e, db)
     | Inr (oid, kind, key) \<Rightarrow>
        (case find_receipt oid kind key request (db_receipts db) of
           Some r \<Rightarrow> if rc_principal r \<noteq> agent \<or> rc_payload r \<noteq> request
             then (Inl (Op_Aborted ''result retry conflicts with the accepted instruction receipt''), db)
             else (load_operation db oid, db)
         | None \<Rightarrow>
            (case find (\<lambda>op. holds_lease (oe_now env) oid (rs_node_id request) (rs_lease_epoch request) agent
                 (rs_agent_instance_id request) op \<and> list_ex (\<lambda>t. tg_kind t = Proxy_Target) (op_targets op)) (db_operations db) of
               None \<Rightarrow> (Inl (Op_Aborted ''result has a stale, expired, or activation-mismatched lease''), db)
             | Some op \<Rightarrow> fence_deadline env op db (commit (apply_report env oid kind key request agent op db) db))))"

end
