(* ===== verification/Operation_Submit.thy ===== *)
theory Operation_Submit
  imports Operation_Api
begin

text \<open>
  Submission of an operation, \<open>submit\<close> of \<open>wr-manager/src/operations.rs\<close>: the deployment or restart request
  becomes an operation row with one target for the proxy and one per engine slot, in rollout order. The
  checks the database makes on insertion (one active operation per node, key uniqueness, the target key and
  target digest constraints) are branches of the model. The column \<open>allocation_actor\<close>, which nothing reads, and the
  range of a timestamp are left out.
\<close>

definition deployment_inventory :: "cluster \<Rightarrow> string \<Rightarrow> int \<Rightarrow> op_status + string \<times> string \<times> string list" where
  "deployment_inventory cl node revision =
    (if revision = 0 then Inr ([], [], [])
     else and_then (ok_or (Op_Precondition ''deployment snapshot is missing'')
       (find (\<lambda>d. dp_node_id d = node \<and> dp_revision d = revision) (cl_deployments cl))) (\<lambda>d.
       Inr (dp_bundle_digest d, dp_resolved_release_digest d, map ee_engine_slot (dp_inventory d))))"

definition default_policy :: "NodeOperationAction \<Rightarrow> RolloutPolicy" where
  "default_policy action = \<lparr>max_unavailable = 1, allow_downtime = False,
     deadline_seconds = (if action = Restart_Action then 300 else 1800)\<rparr>"

definition new_target :: "InstructionTargetKind \<Rightarrow> string \<Rightarrow> NodeOperationStepKind \<Rightarrow> int \<times> string \<times> string \<Rightarrow> int \<times> string \<times> string \<Rightarrow> target_row" where
  "new_target kind key step = (\<lambda>(srev, sdig, sres) (trev, tdig, tres).
    \<lparr>tg_kind = kind, tg_key = key, next_step = step, completed_steps = 0, tg_complete = (step = Unspecified_Step),
     condition_code = [], condition_detail = [], source_revision = srev, source_digest = sdig, source_resolved_digest = sres,
     target_revision = trev, target_digest = tdig, target_resolved_digest = tres, pinned_backend_instance_id = [],
     pinned_process_instance_id = [], tg_changed = False, effect_ambiguous = False, effect_delivered_at = None,
     effect_reported = False, effect_observed_revision = 0, effect_observed_digest = [], effect_observed_resolved_digest = [],
     effect_backend_instance_id = [], effect_process_instance_id = [], effect_condition_code = [], effect_detail = [],
     effect_termination_evidence = None, rollout_order = 0, authoritative_revision = 0, authority_switched = False,
     serving_converged = False, tg_transition = Unchanged\<rparr>)"

definition new_operation :: "op_env \<Rightarrow> string \<Rightarrow> string \<Rightarrow> SubmitOperationRequest \<Rightarrow> RolloutPolicy \<Rightarrow> int \<Rightarrow> target_row list \<Rightarrow> op_row" where
  "new_operation env oid actor request policy source targets =
    \<lparr>operation_id = oid, op_node_id = so_node_id request, op_actor = actor, request_payload = request,
     op_action = so_action request, op_state = Op_Queued, op_phase = Forward_Phase, op_policy = policy,
     op_source_revision = source, op_target_revision = so_target_revision request, op_bundle_digest = so_bundle_digest request,
     op_resolved_release_digest = so_resolved_release_digest request, target_revision_digest = None, committed = False,
     op_lease_epoch = 0, op_lease_expires_at = None, op_claimed_by = None, op_agent_instance_id = None, failure_code = [],
     failure_detail = [], op_created_at = oe_now env, forward_deadline = oe_now env + deadline_seconds policy * OP_SECOND,
     forward_fenced = False, restoration_requested = False, restoration_terminal_state = None, op_targets = targets\<rparr>"

definition ensure_node :: "string \<Rightarrow> cluster \<Rightarrow> cluster" where
  "ensure_node node cl = (if map_of (cl_nodes cl) node = None
     then cl\<lparr>cl_nodes := cl_nodes cl @ [(node, \<lparr>nd_current_revision = 0, nd_target_revision = None\<rparr>)]\<rparr> else cl)"

text \<open>The checks of the database on the row and its targets.\<close>

definition insert_operation :: "op_status \<Rightarrow> op_row \<Rightarrow> ops_db \<Rightarrow> op_status + ops_db" where
  "insert_operation taken op db =
    (if op_target_revision op \<noteq> 0 \<and> target_revision_digest op = None
     then Inl (Op_Internal ''database check constraint violated'')
     else if list_ex (\<lambda>o'. operation_id o' = operation_id op \<or>
          op_actor o' = op_actor op \<and> so_request_token (request_payload o') = so_request_token (request_payload op) \<or>
          op_node_id o' = op_node_id op \<and> active_state (op_state o') \<and> active_state (op_state op)) (db_operations db)
     then Inl taken
     else if list_ex (\<lambda>t. tg_kind t = EngineSlot_Target \<and> (tg_key t = [] \<or> tg_key t = ''proxy'')) (op_targets op)
     then Inl (Op_Internal ''database check constraint violated'')
     else Inr (db\<lparr>db_operations := db_operations db @ [op]\<rparr>))"

definition no_effect_operation :: "op_env \<Rightarrow> string \<Rightarrow> SubmitOperationRequest \<Rightarrow> RolloutPolicy \<Rightarrow> int \<Rightarrow> string list \<Rightarrow>
    string \<times> string \<Rightarrow> ops_db \<Rightarrow> op_status + op_row \<times> ops_db" where
  "no_effect_operation env actor request policy source source_slots digests db =
    and_then (ok_or (Op_Precondition ''committed deployment snapshot is missing'')
      (find (\<lambda>d. dp_node_id d = so_node_id request \<and> dp_revision d = source \<and> dp_state d = Dep_Succeeded) (cl_deployments (db_cluster db)))) (\<lambda>d.
    let triple = (source, dp_bundle_digest d, dp_resolved_release_digest d) in
    if so_bundle_digest request \<noteq> dp_bundle_digest d \<or> so_resolved_release_digest request \<noteq> dp_resolved_release_digest d \<or>
       digests \<noteq> (dp_bundle_digest d, dp_resolved_release_digest d)
    then Inl (Op_Precondition ''operation digest does not match the committed deployment'')
    else let oid = oe_new_uuid env;
             slots = remdups_adj (sort source_slots);
             engine_targets = map (\<lambda>(order, slot). (new_target EngineSlot_Target slot Unspecified_Step triple triple)
               \<lparr>rollout_order := order, authoritative_revision := source, serving_converged := True, tg_transition := Unchanged\<rparr>)
               (enumerate 0 slots);
             op = (new_operation env oid actor request policy source
               (new_target Proxy_Target ''proxy'' Unspecified_Step triple triple # engine_targets))
               \<lparr>op_state := Op_Succeeded, op_phase := Complete_Phase, op_target_revision := source,
                target_revision_digest := Some (dp_revision_digest d), committed := True\<rparr> in
      and_then (insert_operation (Op_Internal ''database unique constraint violated'') op db) (\<lambda>db'.
      let db'' = append_event oid actor ''OPERATION_NO_EFFECT'' (''exact committed revision '' @ signed_dec source @
        '' is already converged'') 0 db' in
      and_then (load_operation db'' oid) (\<lambda>row. Inr (row, db''))))"

text \<open>The finalized deployment a submission names, and the operation id and digests it fixes.\<close>

definition staged_target :: "op_env \<Rightarrow> string \<Rightarrow> SubmitOperationRequest \<Rightarrow> cluster \<Rightarrow>
    op_status + string \<times> string \<times> string \<times> string \<times> string list" where
  "staged_target env actor request cl =
    and_then (deployment_inventory cl (so_node_id request) (so_target_revision request)) (\<lambda>(digest, resolved_digest, slots).
    and_then (ok_or (Op_Internal ''query returned an unexpected number of rows'')
      (find (\<lambda>d. dp_node_id d = so_node_id request \<and> dp_revision d = so_target_revision request \<and>
         dp_state d \<in> {Dep_Pending, Dep_Active}) (cl_deployments cl))) (\<lambda>d.
    if dp_abandoned d then Inl (Op_Precondition ''staged allocation was abandoned'')
    else if dp_allocated_by d \<noteq> actor then Inl (Op_Denied ''staged allocation belongs to a different authenticated actor'')
    else if dp_attempt_token d \<noteq> so_request_token request
    then Inl (Op_Precondition ''operation request_token must match the staged allocation token'')
    else if \<not> dp_finalized d \<or> dp_resolved_release_digest d = []
    then Inl (Op_Precondition ''staged deployment must be finalized before submission'')
    else and_then (case deployment_operation_id (oe_sha256 env) (dp_revision_digest d) of
        Inl _ \<Rightarrow> Inl (Op_Internal ''normalized revision digest is required'')
      | Inr s \<Rightarrow> ok_or (Op_Internal ''invalid UUID'') (oe_parse_uuid env s)) (\<lambda>oid.
    if dp_bundle_digest d \<noteq> so_bundle_digest request \<or> digest \<noteq> so_bundle_digest request \<or>
       dp_resolved_release_digest d \<noteq> so_resolved_release_digest request \<or> resolved_digest \<noteq> so_resolved_release_digest request
    then Inl (Op_Precondition ''operation source or resolved digest does not match the finalized deployment'')
    else Inr (oid, dp_revision_digest d, digest, resolved_digest, slots))))"

type_synonym inventory_side = "int \<times> string \<times> string \<times> string list"

definition side_triple :: "inventory_side \<Rightarrow> string \<Rightarrow> int \<times> string \<times> string" where
  "side_triple = (\<lambda>(revision, digest, resolved, slots) slot.
     if slot \<in> set slots \<and> revision > 0 then (revision, digest, resolved) else (0, [], []))"

definition slot_transition :: "NodeOperationAction \<Rightarrow> inventory_side \<Rightarrow> inventory_side \<Rightarrow> string \<Rightarrow> DerivedTransition" where
  "slot_transition action source target slot =
    (if action = Restart_Action then Restart
     else case (side_triple source slot, side_triple target slot) of
       ((srev, sdig, sres), (trev, tdig, tres)) \<Rightarrow> derive_transition srev sdig sres trev tdig tres)"

definition transition_group :: "DerivedTransition \<Rightarrow> nat" where
  "transition_group t = (case t of Addition \<Rightarrow> 0 | Removal \<Rightarrow> 2 | _ \<Rightarrow> 1)"

definition slot_target :: "NodeOperationAction \<Rightarrow> inventory_side \<Rightarrow> inventory_side \<Rightarrow> nat \<Rightarrow> string \<Rightarrow> target_row" where
  "slot_target action source target order slot =
    (let transition = slot_transition action source target slot;
         first = first_forward_step transition in
     (new_target EngineSlot_Target slot (case first of None \<Rightarrow> Unspecified_Step | Some s \<Rightarrow> s)
       (side_triple source slot) (side_triple target slot))
     \<lparr>rollout_order := order, authoritative_revision := fst (side_triple source slot),
      serving_converged := (first = None), tg_transition := transition\<rparr>)"

definition rollout_slots :: "NodeOperationAction \<Rightarrow> inventory_side \<Rightarrow> inventory_side \<Rightarrow> string list \<Rightarrow> string list" where
  "rollout_slots action source target slots =
    sort_key (\<lambda>slot. (transition_group (slot_transition action source target slot), slot)) (remdups_adj (sort slots))"

definition transition_count :: "inventory_side \<Rightarrow> inventory_side \<Rightarrow> string list \<Rightarrow> DerivedTransition \<Rightarrow> string" where
  "transition_count source target slots t =
    dec_string (length (filter (\<lambda>slot. slot_transition Deployment_Action source target slot = t) slots))"

definition deployment_action :: "NodeOperationAction \<Rightarrow> bool" where
  "deployment_action action \<longleftrightarrow> action \<in> {Deployment_Action, Rollback_Action}"

definition operation_slots_in_order :: "SubmitOperationRequest \<Rightarrow> inventory_side \<Rightarrow> inventory_side \<Rightarrow> string list" where
  "operation_slots_in_order request source target =
    (let (_, _, _, source_slots) = source; (_, _, _, target_slots) = target in
     rollout_slots (so_action request) source target
       (if deployment_action (so_action request) then source_slots @ target_slots else [so_engine_slot request]))"

definition effective_operation :: "op_env \<Rightarrow> string \<Rightarrow> SubmitOperationRequest \<Rightarrow> RolloutPolicy \<Rightarrow> inventory_side \<Rightarrow> string \<Rightarrow>
    string option \<Rightarrow> inventory_side \<Rightarrow> op_row" where
  "effective_operation env actor request policy source oid revision_digest_opt target =
    (let (srev, sdig, sres, _) = source;
         proxy_first = (if deployment_action (so_action request) then if srev > 0 then VerifyTarget else SelectRelease
           else Unspecified_Step);
         proxy = new_target Proxy_Target ''proxy'' proxy_first (srev, sdig, sres)
           (so_target_revision request, so_bundle_digest request, so_resolved_release_digest request) in
     (new_operation env oid actor request policy srev
       (proxy # map (\<lambda>(order, slot). slot_target (so_action request) source target order slot)
          (enumerate 0 (operation_slots_in_order request source target))))
     \<lparr>target_revision_digest := revision_digest_opt\<rparr>)"

definition stage_operation :: "SubmitOperationRequest \<Rightarrow> string \<Rightarrow> ops_db \<Rightarrow> ops_db" where
  "stage_operation request oid db =
    (let cl = db_cluster db; node = so_node_id request in
     if deployment_action (so_action request)
     then db\<lparr>db_cluster := cl\<lparr>
       cl_nodes := map (\<lambda>(n, nd). (n, if n = node then nd\<lparr>nd_target_revision := Some (so_target_revision request)\<rparr> else nd)) (cl_nodes cl),
       cl_deployments := map (\<lambda>d. if dp_node_id d = node \<and> dp_revision d = so_target_revision request
         then d\<lparr>dp_operation_id := Some oid\<rparr> else d) (cl_deployments cl)\<rparr>\<rparr>
     else db)"

definition transition_detail :: "SubmitOperationRequest \<Rightarrow> inventory_side \<Rightarrow> inventory_side \<Rightarrow> string" where
  "transition_detail request source target =
    (let count = transition_count source target (operation_slots_in_order request source target) in
     if deployment_action (so_action request)
     then ''desired transitions: additions='' @ count Addition @ '', replacements='' @ count Replacement @
       '', unchanged='' @ count Unchanged @ '', removals='' @ count Removal
     else ''restart transition: slot='' @ so_engine_slot request)"

definition withdraws_last_source :: "SubmitOperationRequest \<Rightarrow> inventory_side \<Rightarrow> inventory_side \<Rightarrow> bool" where
  "withdraws_last_source request source target =
    (let (_, _, _, source_slots) = source; (_, _, _, target_slots) = target in
     if deployment_action (so_action request) then source_slots \<noteq> [] \<and> target_slots = [] else length source_slots = 1)"

definition submit_effective :: "op_env \<Rightarrow> string \<Rightarrow> SubmitOperationRequest \<Rightarrow> RolloutPolicy \<Rightarrow> inventory_side \<Rightarrow> string \<Rightarrow>
    string option \<Rightarrow> inventory_side \<Rightarrow> ops_db \<Rightarrow> op_status + op_row \<times> ops_db" where
  "submit_effective env actor request policy source oid revision_digest_opt target db =
    (let action = so_action request; (_, _, _, source_slots) = source;
         affected = length (filter (\<lambda>slot. slot_transition action source target slot \<noteq> Unchanged)
           (operation_slots_in_order request source target)) in
     if action = Restart_Action \<and> (source_slots = [] \<or> so_engine_slot request \<notin> set source_slots)
     then Inl (Op_Precondition ''restart requires a slot from the committed deployment'')
     else if withdraws_last_source request source target \<and> \<not> allow_downtime policy
     then Inl (Op_Precondition ''withdrawing the last healthy source slot requires allow_downtime'')
     else if affected > 0 \<and> max_unavailable policy > affected
     then Inl (Op_Invalid ''max_unavailable exceeds the number of affected slots'')
     else and_then (insert_operation (Op_Precondition ''node already has an active operation'')
         (effective_operation env actor request policy source oid revision_digest_opt target) (stage_operation request oid db)) (\<lambda>db'.
       let db'' = snd (fence_cleanup_authority (oe_now env) (so_node_id request) ''OPERATION_SUBMITTED''
         (append_event oid actor ''OPERATION_SUBMITTED'' (transition_detail request source target) 0 db')) in
       and_then (load_operation db'' oid) (\<lambda>row. Inr (row, db''))))"

definition submit :: "op_env \<Rightarrow> string \<Rightarrow> SubmitOperationRequest \<Rightarrow> ops_db \<Rightarrow> op_row reply" where
  "submit env actor request db = commit (
    let node = so_node_id request; action = so_action request;
        db1 = db\<lparr>db_cluster := ensure_node node (db_cluster db)\<rparr>; cl = db_cluster db1;
        source = (case map_of (cl_nodes cl) node of None \<Rightarrow> 0 | Some nd \<Rightarrow> nd_current_revision nd) in
    case find (\<lambda>op. op_actor op = actor \<and> so_request_token (request_payload op) = so_request_token request) (db_operations db) of
      Some existing \<Rightarrow> if request_payload existing \<noteq> request
        then Inl (Op_Exists ''request_token was already used by this actor with different operation content'')
        else and_then (load_operation db1 (operation_id existing)) (\<lambda>row. Inr (row, db1))
    | None \<Rightarrow>
      if action = Unspecified_Action then Inl (Op_Invalid ''operation action is required'')
      else let policy = (case so_policy request of None \<Rightarrow> default_policy action | Some p \<Rightarrow> p) in
        and_then (i64_of ''target_revision is too large'' (so_target_revision request)) (\<lambda>_.
        and_then (i64_of ''deadline_seconds is too large'' (deadline_seconds policy)) (\<lambda>_.
        and_then (deployment_inventory cl node source) (\<lambda>(sdig, sres, sslots).
        if action = Deployment_Action \<and> so_target_revision request = source
        then no_effect_operation env actor request policy source sslots (sdig, sres) db1
        else if action = Restart_Action
        then submit_effective env actor request policy (source, sdig, sres, sslots) (oe_new_uuid env) None
          (source, sdig, sres, [so_engine_slot request]) db1
        else and_then (staged_target env actor request cl) (\<lambda>(oid, rdig, tdig, tres, tslots).
          submit_effective env actor request policy (source, sdig, sres, sslots) oid (Some rdig)
            (so_target_revision request, tdig, tres, tslots) db1))))) db"

end
