(* ===== verification/Rollout_Rows.thy ===== *)
theory Rollout_Rows
  imports Operation_Submit
begin

text \<open>
  What the statements of an operation leave of its row. Every update of \<open>Rollout\<close> and \<open>Operation_Api\<close> is a
  function on one operation row or on one target of it; the lemmas here read off the rows each
  transaction leaves, and reduce a property kept by every row to one proof per update function.
\<close>

named_theorems rows_simps

section \<open>Tables left alone\<close>

lemma set_op_tables [rows_simps, simp]:
  "db_operations (set_op oid f db) = map (\<lambda>op. if operation_id op = oid then f op else op) (db_operations db)"
  "db_cluster (set_op oid f db) = db_cluster db" "db_receipts (set_op oid f db) = db_receipts db"
  "db_events (set_op oid f db) = db_events db" "db_policies (set_op oid f db) = db_policies db"
  "db_attestations (set_op oid f db) = db_attestations db" "db_cleanup (set_op oid f db) = db_cleanup db"
  by (simp_all add: set_op_def)

lemma append_event_tables [rows_simps, simp]:
  "db_operations (append_event oid actor c d e db) = db_operations db"
  "db_cluster (append_event oid actor c d e db) = db_cluster db"
  "db_receipts (append_event oid actor c d e db) = db_receipts db"
  "db_policies (append_event oid actor c d e db) = db_policies db"
  "db_attestations (append_event oid actor c d e db) = db_attestations db"
  "db_cleanup (append_event oid actor c d e db) = db_cleanup db"
  by (simp_all add: append_event_def)

lemma fence_tables [rows_simps, simp]:
  "db_operations (snd (fence_cleanup_authority now node reason db)) = db_operations db"
  "db_cluster (snd (fence_cleanup_authority now node reason db)) = db_cluster db"
  "db_receipts (snd (fence_cleanup_authority now node reason db)) = db_receipts db"
  by (simp_all add: fence_cleanup_authority_def split: option.splits)

lemma switch_authority_tables [rows_simps, simp]:
  "db_operations (switch_authority now node slot revision db) = db_operations db"
  "db_receipts (switch_authority now node slot revision db) = db_receipts db"
  by (simp_all add: switch_authority_def Let_def)

lemma commit_revision_tables [rows_simps, simp]:
  "db_operations (commit_revision now node revision db) = db_operations db"
  "db_receipts (commit_revision now node revision db) = db_receipts db"
  by (simp_all add: commit_revision_def Let_def)

lemma set_slot_tables [rows_simps, simp]:
  "db_operations (set_slot oid slot f db) =
    map (\<lambda>op. if operation_id op = oid then set_target_of EngineSlot_Target slot f op else op) (db_operations db)"
  "db_cluster (set_slot oid slot f db) = db_cluster db" "db_receipts (set_slot oid slot f db) = db_receipts db"
  by (simp_all add: set_slot_def)

lemma put_receipt_tables [rows_simps, simp]:
  "db_operations (put_receipt oid kind key request agent db) = db_operations db"
  "db_cluster (put_receipt oid kind key request agent db) = db_cluster db"
  by (simp_all add: put_receipt_def)

lemma set_target_of_fields [simp]:
  "operation_id (set_target_of k s f op) = operation_id op" "op_node_id (set_target_of k s f op) = op_node_id op"
  "op_state (set_target_of k s f op) = op_state op" "op_phase (set_target_of k s f op) = op_phase op"
  "committed (set_target_of k s f op) = committed op" "op_lease_epoch (set_target_of k s f op) = op_lease_epoch op"
  "forward_fenced (set_target_of k s f op) = forward_fenced op"
  "op_action (set_target_of k s f op) = op_action op"
  "op_target_revision (set_target_of k s f op) = op_target_revision op"
  "op_source_revision (set_target_of k s f op) = op_source_revision op"
  "restoration_terminal_state (set_target_of k s f op) = restoration_terminal_state op"
  "op_lease_expires_at (set_target_of k s f op) = op_lease_expires_at op"
  "op_claimed_by (set_target_of k s f op) = op_claimed_by op"
  "op_agent_instance_id (set_target_of k s f op) = op_agent_instance_id op"
  "op_actor (set_target_of k s f op) = op_actor op" "request_payload (set_target_of k s f op) = request_payload op"
  "op_policy (set_target_of k s f op) = op_policy op" "forward_deadline (set_target_of k s f op) = forward_deadline op"
  "op_created_at (set_target_of k s f op) = op_created_at op"
  "op_targets (set_target_of k s f op) = map (\<lambda>t. if tg_kind t = k \<and> tg_key t = s then f t else t) (op_targets op)"
  by (simp_all add: set_target_of_def)

text \<open>Two updates of the same target are one.\<close>

lemma set_target_of_fuse:
  assumes "\<And>t. tg_kind (g t) = tg_kind t" "\<And>t. tg_key (g t) = tg_key t"
  shows "set_target_of k s f (set_target_of k s g op) = set_target_of k s (\<lambda>t. f (g t)) op"
  by (simp add: set_target_of_def assms cong: if_cong)

lemma set_op_fuse:
  assumes "\<And>op. operation_id (g op) = operation_id op"
  shows "set_op oid f (set_op oid g db) = set_op oid (\<lambda>op. f (g op)) db"
  by (simp add: set_op_def assms cong: if_cong)

lemma set_slot_fuse:
  assumes "\<And>t. tg_kind (g t) = tg_kind t" "\<And>t. tg_key (g t) = tg_key t"
  shows "set_slot oid slot f (set_slot oid slot g db) = set_slot oid slot (\<lambda>t. f (g t)) db"
  by (simp add: set_slot_def set_op_fuse set_target_of_fuse assms)

section \<open>What never changes in a row\<close>

definition target_static :: "target_row \<Rightarrow> InstructionTargetKind \<times> string \<times> (int \<times> string \<times> string) \<times> (int \<times> string \<times> string) \<times> nat \<times> DerivedTransition" where
  "target_static t = (tg_kind t, tg_key t, (source_revision t, source_digest t, source_resolved_digest t),
    (target_revision t, target_digest t, target_resolved_digest t), rollout_order t, tg_transition t)"

definition op_static where
  "op_static op = (operation_id op, op_node_id op, op_actor op, request_payload op, op_action op, op_policy op,
    op_source_revision op, op_target_revision op, forward_deadline op, op_created_at op, map target_static (op_targets op))"

lemma op_static_set_target:
  assumes "\<And>t. t \<in> set (op_targets op) \<Longrightarrow> tg_kind t = k \<Longrightarrow> tg_key t = s \<Longrightarrow> target_static (f t) = target_static t"
  shows "op_static (set_target_of k s f op) = op_static op"
  using assms by (simp add: op_static_def)

lemma op_static_id: "op_static op = op_static op' \<Longrightarrow> operation_id op = operation_id op'"
  by (simp add: op_static_def)

section \<open>Rows of a table\<close>

definition unique_ids :: "ops_db \<Rightarrow> bool" where
  "unique_ids db \<longleftrightarrow> distinct (map operation_id (db_operations db))"

lemma find_SomeD: "find P xs = Some x \<Longrightarrow> x \<in> set xs \<and> P x"
  by (induction xs) (auto split: if_splits)

lemma find_unique_row:
  assumes "unique_ids db" "op \<in> set (db_operations db)" "P op" "\<And>x. P x \<Longrightarrow> operation_id x = operation_id op"
  shows "find P (db_operations db) = Some op"
proof (cases "find P (db_operations db)")
  case None
  then show ?thesis using assms(2,3) by (auto simp: find_None_iff)
next
  case (Some y)
  then have "y \<in> set (db_operations db)" "operation_id y = operation_id op"
    using find_SomeD [OF Some] assms(4) by auto
  then have "y = op"
    using assms(1,2) unfolding unique_ids_def by (metis distinct_map inj_onD)
  then show ?thesis using Some by simp
qed

text \<open>The table with the row \<open>op\<close> replaced.\<close>

definition put_row :: "op_row \<Rightarrow> op_row \<Rightarrow> op_row list \<Rightarrow> op_row list" where
  "put_row op op' rows = map (\<lambda>row. if row = op then op' else row) rows"

lemma put_row_same [simp]: "put_row op op rows = rows"
  by (simp add: put_row_def)

lemma set_op_row:
  assumes "unique_ids db" "op \<in> set (db_operations db)" "operation_id op = oid"
  shows "map (\<lambda>row. if operation_id row = oid then f row else row) (db_operations db) = put_row op (f op) (db_operations db)"
  unfolding put_row_def
proof (rule map_cong [OF refl])
  fix row
  assume "row \<in> set (db_operations db)"
  with assms show "(if operation_id row = oid then f row else row) = (if row = op then f op else row)"
    unfolding unique_ids_def by (metis distinct_map inj_onD)
qed

lemma list_all2_put_row:
  assumes "R op op'" "\<And>x. R x x"
  shows "list_all2 R rows (put_row op op' rows)"
  using assms by (induction rows) (auto simp: put_row_def)

lemma list_all2_same_ids:
  assumes "list_all2 R xs ys" "\<And>x y. R x y \<Longrightarrow> operation_id x = operation_id y"
  shows "map operation_id xs = map operation_id ys"
  using assms(1) by induction (simp_all add: assms(2))

lemma list_all2_comp:
  assumes "list_all2 R xs ys" "list_all2 R ys zs" "\<And>x y z. R x y \<Longrightarrow> R y z \<Longrightarrow> R x z"
  shows "list_all2 R xs zs"
  using list_all2_trans [of R R R xs ys zs] assms by blast

end
