(* ===== verification/Rollout_Invariant.thy ===== *)
theory Rollout_Invariant
  imports Rollout_Rows
begin

text \<open>
  The invariant of an operation row and the order in which a row may change. \<open>op_inv\<close> says what a row
  looks like in each phase: the step of every slot lies on the path of its transition, slots proceed one at a time
  in rollout order after the proxy, a succeeded operation has every slot on its target and a failed or
  cancelled one every slot back on its source. \<open>good_step\<close> is what a statement may do to a row: keep that
  invariant, keep the immutable columns, never lower the lease epoch, never go back a phase and never touch a
  terminal row.
\<close>

section \<open>Targets\<close>

definition transition_ok :: "target_row \<Rightarrow> bool" where
  "transition_ok t = (case tg_transition t of
     Addition \<Rightarrow> source_revision t = 0 \<and> target_revision t > 0
   | Replacement \<Rightarrow> source_revision t > 0 \<and> target_revision t > 0
   | Unchanged \<Rightarrow> source_revision t = target_revision t
   | Removal \<Rightarrow> source_revision t > 0 \<and> target_revision t = 0
   | Restart \<Rightarrow> source_revision t > 0 \<and> source_revision t = target_revision t)"

definition slot_static :: "target_row \<Rightarrow> bool" where
  "slot_static t \<longleftrightarrow> tg_kind t = EngineSlot_Target \<and> tg_key t \<noteq> [] \<and> tg_key t \<noteq> ''proxy'' \<and> transition_ok t"

definition step_flag :: "target_row \<Rightarrow> bool" where
  "step_flag t \<longleftrightarrow> (tg_complete t \<longleftrightarrow> next_step t = Unspecified_Step)"

definition untouched :: "target_row \<Rightarrow> bool" where
  "untouched t \<longleftrightarrow> \<not> tg_changed t \<and> \<not> effect_ambiguous t \<and> effect_delivered_at t = None \<and>
    pinned_backend_instance_id t = [] \<and> pinned_process_instance_id t = [] \<and> authoritative_revision t = source_revision t \<and>
    (case first_forward_step (tg_transition t) of
       None \<Rightarrow> tg_complete t \<and> serving_converged t
     | Some s \<Rightarrow> \<not> tg_complete t \<and> next_step t = s)"

text \<open>The steps a transition takes, with what the row holds while it is at the step.\<close>

definition on_path :: "target_row \<Rightarrow> bool" where
  "on_path t = (case next_step t of
     VerifyReleaseMetadata \<Rightarrow> tg_transition t \<in> {Addition, Replacement} \<and> pinned_process_instance_id t = []
   | VerifyTarget \<Rightarrow> (if proving_source t then tg_transition t \<in> {Replacement, Removal, Restart}
       else tg_transition t \<in> {Addition, Replacement, Restart} \<and> tg_changed t)
   | StopBackend \<Rightarrow> tg_transition t \<in> {Replacement, Removal, Restart} \<and> pinned_backend_instance_id t \<noteq> [] \<and>
       pinned_process_instance_id t \<noteq> []
   | SelectRelease \<Rightarrow> tg_transition t = Addition \<or> tg_transition t = Replacement \<and> pinned_process_instance_id t \<noteq> [] \<and> tg_changed t
   | StartBackend \<Rightarrow> tg_transition t \<in> {Addition, Replacement, Restart} \<and> tg_changed t \<and>
       (tg_transition t \<noteq> Addition \<longrightarrow> pinned_process_instance_id t \<noteq> [])
   | SwitchAuthority \<Rightarrow> tg_transition t \<in> {Addition, Replacement, Removal} \<and> tg_changed t
   | VerifyServing \<Rightarrow> tg_transition t \<in> {Addition, Replacement, Restart} \<and> tg_changed t
   | Unspecified_Step \<Rightarrow> tg_transition t = Removal \<or> serving_converged t
   | _ \<Rightarrow> False)"

definition forward_slot :: "target_row \<Rightarrow> bool" where
  "forward_slot t \<longleftrightarrow> step_flag t \<and> on_path t \<and>
    authoritative_revision t = (if next_step t \<in> {VerifyServing, Unspecified_Step} then target_revision t else source_revision t) \<and>
    (authoritative_revision t = source_revision t \<or> tg_changed t) \<and>
    (effect_ambiguous t \<or> effect_delivered_at t \<noteq> None \<longrightarrow> mutating_effect (next_step t))"

definition restoring_slot :: "target_row \<Rightarrow> bool" where
  "restoring_slot t \<longleftrightarrow> step_flag t \<and> next_step t \<in> {RestoreSource, Unspecified_Step} \<and>
    (if tg_complete t then authoritative_revision t = source_revision t else tg_changed t \<or> effect_ambiguous t)"

fun sequential :: "target_row list \<Rightarrow> bool" where
  "sequential [] = True"
| "sequential (t # ts) = (if tg_complete t then sequential ts else list_all untouched ts)"

definition proxy_static :: "target_row \<Rightarrow> bool" where
  "proxy_static p \<longleftrightarrow> tg_kind p = Proxy_Target \<and> tg_key p = ''proxy''"

definition forward_proxy :: "target_row \<Rightarrow> bool" where
  "forward_proxy p \<longleftrightarrow> step_flag p \<and>
    next_step p \<in> {VerifyTarget, StopBackend, SelectRelease, StartBackend, VerifyProxy, Unspecified_Step} \<and>
    (effect_ambiguous p \<or> effect_delivered_at p \<noteq> None \<longrightarrow> mutating_effect (next_step p))"

definition restoring_proxy :: "target_row \<Rightarrow> bool" where
  "restoring_proxy p \<longleftrightarrow> step_flag p \<and> next_step p \<in> {RestoreSource, Unspecified_Step}"

section \<open>Rows\<close>

definition shape_of :: "target_row list \<Rightarrow> bool" where
  "shape_of ts = (case ts of [] \<Rightarrow> False
     | p # ss \<Rightarrow> proxy_static p \<and> list_all slot_static ss \<and> sorted_wrt (<) (map rollout_order ss) \<and> distinct (map tg_key ss))"

abbreviation proxy_of :: "op_row \<Rightarrow> target_row" where
  "proxy_of op \<equiv> hd (op_targets op)"

abbreviation slots_of :: "op_row \<Rightarrow> target_row list" where
  "slots_of op \<equiv> tl (op_targets op)"

definition lease_inv :: "op_row \<Rightarrow> bool" where
  "lease_inv op \<longleftrightarrow>
    (if op_state op = Op_Running
     then op_lease_expires_at op \<noteq> None \<and> op_claimed_by op \<noteq> None \<and> op_agent_instance_id op \<noteq> None \<and> op_lease_epoch op > 0
     else op_lease_expires_at op = None \<and> op_claimed_by op = None \<and> op_agent_instance_id op = None) \<and> op_lease_epoch op \<ge> 0"

definition forward_targets :: "target_row list \<Rightarrow> bool" where
  "forward_targets ts \<longleftrightarrow> forward_proxy (hd ts) \<and> list_all forward_slot (tl ts) \<and> sequential (tl ts) \<and>
    (\<not> tg_complete (hd ts) \<longrightarrow> list_all untouched (tl ts))"

definition restoring_targets :: "target_row list \<Rightarrow> bool" where
  "restoring_targets ts \<longleftrightarrow> restoring_proxy (hd ts) \<and> list_all restoring_slot (tl ts)"

definition op_inv :: "op_row \<Rightarrow> bool" where
  "op_inv op \<longleftrightarrow> shape_of (op_targets op) \<and> lease_inv op \<and>
    (case op_phase op of
       Forward_Phase \<Rightarrow> active_state (op_state op) \<and> \<not> forward_fenced op \<and> \<not> committed op \<and> forward_targets (op_targets op)
     | RestoringSource \<Rightarrow> active_state (op_state op) \<and> forward_fenced op \<and> \<not> committed op \<and>
         restoration_terminal_state op \<in> {Some Op_Failed, Some Op_Cancelled} \<and> restoring_targets (op_targets op)
     | Committing \<Rightarrow> False
     | Complete_Phase \<Rightarrow> list_all tg_complete (op_targets op) \<and>
         (op_state op = Op_Succeeded \<and> list_all forward_slot (slots_of op) \<and>
            (op_action op \<noteq> Restart_Action \<and> op_target_revision op > 0 \<longrightarrow> committed op) \<and> (committed op \<longrightarrow> op_action op \<noteq> Restart_Action) \<or>
          op_state op \<in> {Op_Failed, Op_Cancelled} \<and> \<not> committed op \<and> forward_fenced op \<and> list_all restoring_slot (slots_of op)))"

fun phase_rank :: "NodeOperationPhase \<Rightarrow> nat" where
  "phase_rank Forward_Phase = 0" | "phase_rank RestoringSource = 1" | "phase_rank Committing = 2" | "phase_rank Complete_Phase = 3"

text \<open>An epoch belongs to one activation of one agent: a running row keeps it or has a later epoch.\<close>

definition lease_after :: "op_row \<Rightarrow> op_row \<Rightarrow> bool" where
  "lease_after op op' \<longleftrightarrow> op_lease_epoch op \<le> op_lease_epoch op' \<and>
    (op_state op' = Op_Running \<longrightarrow> op_lease_epoch op < op_lease_epoch op' \<or>
       op_state op = Op_Running \<and> op_claimed_by op' = op_claimed_by op \<and> op_agent_instance_id op' = op_agent_instance_id op)"

lemma lease_after_refl [simp]: "lease_after op op"
  by (simp add: lease_after_def)

lemma lease_after_trans: "lease_after a b \<Longrightarrow> lease_after b c \<Longrightarrow> lease_after a c"
  unfolding lease_after_def by (elim conjE, intro conjI) (simp, metis order_le_less_trans order_less_le_trans)

lemma lease_after_same:
  "op_lease_epoch op' = op_lease_epoch op \<Longrightarrow> op_state op' = op_state op \<Longrightarrow> op_claimed_by op' = op_claimed_by op \<Longrightarrow>
    op_agent_instance_id op' = op_agent_instance_id op \<Longrightarrow> lease_after op op'"
  by (simp add: lease_after_def)

lemma lease_after_stopped: "op_lease_epoch op' = op_lease_epoch op \<Longrightarrow> op_state op' \<noteq> Op_Running \<Longrightarrow> lease_after op op'"
  by (simp add: lease_after_def)

lemma lease_after_set_target [simp]: "lease_after op (set_target_of k s f op)"
  by (rule lease_after_same) simp_all

definition op_after :: "op_row \<Rightarrow> op_row \<Rightarrow> bool" where
  "op_after op op' \<longleftrightarrow> op_static op' = op_static op \<and> lease_after op op' \<and>
    phase_rank (op_phase op) \<le> phase_rank (op_phase op') \<and> (forward_fenced op \<longrightarrow> forward_fenced op') \<and>
    (op_phase op = Complete_Phase \<longrightarrow> op' = op)"

definition good_step :: "op_row \<Rightarrow> op_row \<Rightarrow> bool" where
  "good_step op op' \<longleftrightarrow> (op_inv op \<longrightarrow> op_inv op') \<and> (op_inv op \<longrightarrow> op_after op op')"

lemma op_after_refl [simp]: "op_after op op"
  by (simp add: op_after_def)

lemma op_after_trans: "op_after a b \<Longrightarrow> op_after b c \<Longrightarrow> op_after a c"
  unfolding op_after_def using lease_after_trans by (metis order_trans)

lemma good_step_refl [simp]: "good_step op op"
  by (simp add: good_step_def)

lemma good_step_trans: "good_step a b \<Longrightarrow> good_step b c \<Longrightarrow> good_step a c"
  unfolding good_step_def using op_after_trans by blast

lemma good_stepI: "(op_inv op \<Longrightarrow> op_inv op' \<and> op_after op op') \<Longrightarrow> good_step op op'"
  by (simp add: good_step_def)

section \<open>Shape\<close>

lemma shape_targets:
  assumes "shape_of (op_targets op)"
  shows "op_targets op = proxy_of op # slots_of op" "operation_slots op = slots_of op" "proxy_target op = Inr (proxy_of op)"
proof -
  from assms obtain p ss where ts: "op_targets op = p # ss" "proxy_static p" "list_all slot_static ss"
    by (auto simp: shape_of_def split: list.splits)
  then show "op_targets op = proxy_of op # slots_of op" by simp
  have "filter (\<lambda>t. tg_kind t = EngineSlot_Target) ss = ss"
    using ts(3) by (simp add: filter_id_conv list_all_iff slot_static_def)
  with ts show "operation_slots op = slots_of op"
    by (simp add: operation_slots_def proxy_static_def)
  from ts show "proxy_target op = Inr (proxy_of op)"
    by (simp add: proxy_target_def proxy_static_def ok_or_def)
qed

lemma slot_static_cong: "target_static t' = target_static t \<Longrightarrow> slot_static t' = slot_static t"
  by (cases "tg_transition t") (simp_all add: target_static_def slot_static_def transition_ok_def)

lemma map_static_slots:
  "map target_static ss' = map target_static ss \<Longrightarrow>
    list_all slot_static ss' = list_all slot_static ss \<and> map rollout_order ss' = map rollout_order ss \<and>
    map tg_key ss' = map tg_key ss"
proof (induction ss' arbitrary: ss)
  case (Cons t' ss')
  then obtain t us where ss: "ss = t # us" "target_static t' = target_static t" "map target_static ss' = map target_static us"
    by (cases ss) auto
  have "rollout_order t' = rollout_order t" "tg_key t' = tg_key t"
    using ss(2) by (simp_all add: target_static_def)
  with Cons.IH [OF ss(3)] slot_static_cong [OF ss(2)] show ?case by (simp add: ss(1))
qed simp

lemma shape_static:
  assumes "map target_static ts' = map target_static ts" "shape_of ts"
  shows "shape_of ts'"
proof -
  from assms(2) obtain p ss where ts: "ts = p # ss" by (auto simp: shape_of_def split: list.splits)
  with assms(1) obtain p' ss' where ts': "ts' = p' # ss'" by (cases ts') auto
  have p: "target_static p' = target_static p" and ss: "map target_static ss' = map target_static ss"
    using assms(1) ts ts' by auto
  have "proxy_static p'" using p assms(2) ts by (simp add: shape_of_def proxy_static_def target_static_def)
  with map_static_slots [OF ss] assms(2) ts ts' show ?thesis by (simp add: shape_of_def)
qed

text \<open>The slot a rollout works on is the first one not complete, which no other slot shares its key with.\<close>

lemma min_by_key_in: "min_by_key f xs = Some y \<Longrightarrow> y \<in> set xs"
  by (induction xs arbitrary: y) (auto split: option.splits if_splits)

lemma min_by_key_first:
  "sorted_wrt (<) (map f xs) \<Longrightarrow> min_by_key f (filter P xs) = find P xs"
proof (induction xs)
  case (Cons x xs)
  have "f x < f y" if "min_by_key f (filter P xs) = Some y" for y
    using min_by_key_in [OF that] Cons.prems by auto
  then show ?case using Cons by (auto split: option.splits dest: less_asym)
qed simp

section \<open>Updates that keep the invariant of a target\<close>

definition neutral :: "(target_row \<Rightarrow> target_row) \<Rightarrow> bool" where
  "neutral f \<longleftrightarrow> (\<forall>t. target_static (f t) = target_static t \<and> tg_complete (f t) = tg_complete t \<and> untouched (f t) = untouched t \<and>
    forward_slot (f t) = forward_slot t \<and> restoring_slot (f t) = restoring_slot t \<and> forward_proxy (f t) = forward_proxy t \<and>
    restoring_proxy (f t) = restoring_proxy t)"

lemma neutralI:
  assumes "\<And>t. target_static (f t) = target_static t" "\<And>t. next_step (f t) = next_step t" "\<And>t. tg_complete (f t) = tg_complete t"
    "\<And>t. tg_changed (f t) = tg_changed t" "\<And>t. effect_ambiguous (f t) = effect_ambiguous t"
    "\<And>t. effect_delivered_at (f t) = effect_delivered_at t" "\<And>t. serving_converged (f t) = serving_converged t"
    "\<And>t. pinned_backend_instance_id (f t) = pinned_backend_instance_id t"
    "\<And>t. pinned_process_instance_id (f t) = pinned_process_instance_id t"
    "\<And>t. authoritative_revision (f t) = authoritative_revision t"
  shows "neutral f"
  unfolding neutral_def
proof (intro allI conjI)
  fix t
  have static: "source_revision (f t) = source_revision t" "target_revision (f t) = target_revision t"
    "tg_transition (f t) = tg_transition t"
    using assms(1) [of t] by (simp_all add: target_static_def)
  show "target_static (f t) = target_static t" "tg_complete (f t) = tg_complete t" by (simp_all add: assms)
  show "untouched (f t) = untouched t" by (cases "tg_transition t") (simp_all add: untouched_def assms(2-) static first_forward_step_def)
  show "forward_slot (f t) = forward_slot t"
    by (cases "next_step t") (simp_all add: forward_slot_def step_flag_def on_path_def proving_source_def assms(2-) static)
  show "restoring_slot (f t) = restoring_slot t" by (simp add: restoring_slot_def step_flag_def assms(2-) static)
  show "forward_proxy (f t) = forward_proxy t" by (simp add: forward_proxy_def step_flag_def assms(2-))
  show "restoring_proxy (f t) = restoring_proxy t" by (simp add: restoring_proxy_def step_flag_def assms(2-))
qed

lemma neutral_condition: "neutral (\<lambda>t. t\<lparr>condition_code := c, condition_detail := d\<rparr>)"
  by (rule neutralI) (simp_all add: target_static_def)

lemma neutral_effect_condition: "neutral (\<lambda>t. t\<lparr>effect_condition_code := c, effect_detail := d\<rparr>)"
  by (rule neutralI) (simp_all add: target_static_def)

lemma neutral_report: "neutral (report_slot_effect request c)"
  by (rule neutralI) (simp_all add: report_slot_effect_def target_static_def)

lemma neutral_maps:
  assumes "neutral f"
  shows "list_all untouched (map (\<lambda>t. if c t then f t else t) ts) = list_all untouched ts"
    "list_all forward_slot (map (\<lambda>t. if c t then f t else t) ts) = list_all forward_slot ts"
    "list_all restoring_slot (map (\<lambda>t. if c t then f t else t) ts) = list_all restoring_slot ts"
    "list_all tg_complete (map (\<lambda>t. if c t then f t else t) ts) = list_all tg_complete ts"
    "map target_static (map (\<lambda>t. if c t then f t else t) ts) = map target_static ts"
  using assms by (simp_all add: list.pred_map comp_def neutral_def if_distrib cong: if_cong)

lemma neutral_sequential:
  "neutral f \<Longrightarrow> sequential (map (\<lambda>t. if c t then f t else t) ts) = sequential ts"
proof (induction ts)
  case (Cons t ts)
  then show ?case using neutral_maps(1) [of f c ts] by (simp add: neutral_def)
qed simp

lemma neutral_inv:
  assumes "neutral f"
  shows "op_inv (set_target_of k s f op) = op_inv op" "op_static (set_target_of k s f op) = op_static op"
proof -
  let ?ts = "map (\<lambda>t. if tg_kind t = k \<and> tg_key t = s then f t else t) (op_targets op)"
  show static: "op_static (set_target_of k s f op) = op_static op"
    using assms by (intro op_static_set_target) (simp add: neutral_def)
  have st: "map target_static ?ts = map target_static (op_targets op)" by (rule neutral_maps(5) [OF assms])
  have shape: "shape_of ?ts = shape_of (op_targets op)"
    using shape_static [OF st] shape_static [OF st [symmetric]] by blast
  show "op_inv (set_target_of k s f op) = op_inv op"
  proof (cases "op_targets op")
    case Nil
    then show ?thesis by (simp add: op_inv_def shape_of_def)
  next
    case (Cons p ss)
    define p' where "p' = (if tg_kind p = k \<and> tg_key p = s then f p else p)"
    define ss' where "ss' = map (\<lambda>t. if tg_kind t = k \<and> tg_key t = s then f t else t) ss"
    have ts: "op_targets (set_target_of k s f op) = p' # ss'" by (simp add: Cons p'_def ss'_def)
    have p: "forward_proxy p' = forward_proxy p" "restoring_proxy p' = restoring_proxy p" "tg_complete p' = tg_complete p"
      using assms by (simp_all add: p'_def neutral_def)
    have ss: "list_all untouched ss' = list_all untouched ss" "list_all forward_slot ss' = list_all forward_slot ss"
      "list_all restoring_slot ss' = list_all restoring_slot ss" "list_all tg_complete ss' = list_all tg_complete ss"
      "sequential ss' = sequential ss"
      unfolding ss'_def by (rule neutral_maps [OF assms] neutral_sequential [OF assms])+
    have lease: "lease_inv (set_target_of k s f op) = lease_inv op" by (simp add: lease_inv_def)
    have shape': "shape_of (p' # ss') = shape_of (p # ss)"
      using shape by (simp add: Cons p'_def ss'_def)
    show ?thesis
      unfolding op_inv_def ts Cons lease
      by (cases "op_phase op") (simp_all add: shape' forward_targets_def restoring_targets_def p ss)
  qed
qed

lemma neutral_good:
  assumes "neutral f" "op_phase op \<noteq> Complete_Phase"
  shows "good_step op (set_target_of k s f op)"
  using neutral_inv [OF assms(1)] assms(2) by (intro good_stepI) (simp add: op_after_def)

text \<open>The slot the rollout works on, replaced.\<close>

lemma find_split:
  "find P xs = Some x \<Longrightarrow> \<exists>pre post. xs = pre @ x # post \<and> list_all (\<lambda>y. \<not> P y) pre \<and> P x"
proof (induction xs)
  case (Cons y ys)
  show ?case
  proof (cases "P y")
    case True
    then show ?thesis using Cons.prems by (intro exI [of _ "[]"] exI [of _ ys]) auto
  next
    case False
    then obtain pre post where "ys = pre @ x # post" "list_all (\<lambda>y. \<not> P y) pre" "P x" using Cons by auto
    then show ?thesis using False by (intro exI [of _ "y # pre"] exI [of _ post]) auto
  qed
qed simp

lemma slot_split:
  assumes "shape_of (op_targets op)" "find (\<lambda>t. \<not> tg_complete t) (slots_of op) = Some t"
  obtains pre post where "slots_of op = pre @ t # post" "list_all tg_complete pre" "\<not> tg_complete t" "slot_static t"
    "\<And>f. op_targets (set_target_of EngineSlot_Target (tg_key t) f op) = proxy_of op # pre @ f t # post"
proof -
  from find_split [OF assms(2)] obtain pre post where split: "slots_of op = pre @ t # post" "list_all tg_complete pre" "\<not> tg_complete t"
    by auto
  from assms(1) obtain p ss where ts: "op_targets op = p # ss" "proxy_static p" "list_all slot_static ss" "distinct (map tg_key ss)"
    by (auto simp: shape_of_def split: list.splits)
  have ss: "ss = pre @ t # post" using split ts by simp
  have "map (\<lambda>u. if tg_kind u = EngineSlot_Target \<and> tg_key u = tg_key t then f u else u) us = us"
    if "tg_key t \<notin> tg_key ` set us" for f us
    using that by (intro map_idI) (metis image_eqI)
  then have "op_targets (set_target_of EngineSlot_Target (tg_key t) f op) = p # pre @ f t # post" for f
    using ts ss by (auto simp: proxy_static_def slot_static_def)
  then show thesis using that [OF split] ts ss by simp
qed

lemma untouched_sequential: "list_all untouched ts \<Longrightarrow> sequential ts"
  by (induction ts) auto

lemma sequential_append: "list_all tg_complete pre \<Longrightarrow> sequential (pre @ ts) = sequential ts"
  by (induction pre) auto

lemma op_static_one:
  assumes "op_targets op = p # pre @ t # post" "op_targets op' = p # pre @ t' # post" "target_static t' = target_static t"
    "operation_id op' = operation_id op" "op_node_id op' = op_node_id op" "op_actor op' = op_actor op"
    "request_payload op' = request_payload op" "op_action op' = op_action op" "op_policy op' = op_policy op"
    "op_source_revision op' = op_source_revision op" "op_target_revision op' = op_target_revision op"
    "forward_deadline op' = forward_deadline op" "op_created_at op' = op_created_at op"
  shows "op_static op' = op_static op"
  using assms by (simp add: op_static_def)

lemma op_static_targets: "op_static op' = op_static op \<Longrightarrow> map target_static (op_targets op') = map target_static (op_targets op)"
  by (simp add: op_static_def)

lemma op_inv_shape: "op_inv op \<Longrightarrow> shape_of (op_targets op)"
  by (simp add: op_inv_def)

lemma forward_slot_good:
  assumes "op_phase op = Forward_Phase" "tg_complete (proxy_of op)" "find (\<lambda>t. \<not> tg_complete t) (slots_of op) = Some t"
    "target_static (f t) = target_static t" "op_inv op \<Longrightarrow> forward_slot t \<Longrightarrow> slot_static t \<Longrightarrow> forward_slot (f t)"
  shows "good_step op (set_target_of EngineSlot_Target (tg_key t) f op)"
proof (rule good_stepI)
  assume inv: "op_inv op"
  let ?op = "set_target_of EngineSlot_Target (tg_key t) f op"
  from slot_split [OF op_inv_shape [OF inv] assms(3)] obtain pre post where
    split: "slots_of op = pre @ t # post" "list_all tg_complete pre" "\<not> tg_complete t" "slot_static t"
      "op_targets ?op = proxy_of op # pre @ f t # post" by metis
  have ts: "op_targets op = proxy_of op # pre @ t # post"
    using shape_targets(1) [OF op_inv_shape [OF inv]] split(1) by simp
  have fwd: "forward_targets (op_targets op)" using inv assms(1) by (simp add: op_inv_def)
  then have old: "list_all forward_slot (pre @ t # post)" "sequential (pre @ t # post)" "forward_proxy (proxy_of op)"
    using ts by (simp_all add: forward_targets_def split(1))
  have new: "forward_slot (f t)" using assms(5) [OF inv _ split(4)] old(1) by simp
  have "list_all untouched post" using old(2) split(2,3) by (simp add: sequential_append)
  then have "sequential (pre @ f t # post)"
    using split(2) by (simp add: sequential_append untouched_sequential)
  then have fwd': "forward_targets (op_targets ?op)"
    unfolding split(5) forward_targets_def using old new assms(2) by simp
  have static: "op_static ?op = op_static op"
    by (rule op_static_one [OF ts split(5) assms(4)]) simp_all
  moreover have "op_inv ?op"
    using inv assms(1) fwd' shape_static [OF op_static_targets [OF static]] unfolding op_inv_def lease_inv_def by simp
  ultimately show "op_inv ?op \<and> op_after op ?op"
    using assms(1) by (simp add: op_after_def)
qed

lemma restoring_slot_good:
  assumes "op_phase op = RestoringSource" "find (\<lambda>t. \<not> tg_complete t) (slots_of op) = Some t"
    "target_static (f t) = target_static t" "restoring_slot t \<Longrightarrow> restoring_slot (f t)"
  shows "good_step op (set_target_of EngineSlot_Target (tg_key t) f op)"
proof (rule good_stepI)
  assume inv: "op_inv op"
  let ?op = "set_target_of EngineSlot_Target (tg_key t) f op"
  from slot_split [OF op_inv_shape [OF inv] assms(2)] obtain pre post where
    split: "slots_of op = pre @ t # post" "op_targets ?op = proxy_of op # pre @ f t # post" by metis
  have ts: "op_targets op = proxy_of op # pre @ t # post"
    using shape_targets(1) [OF op_inv_shape [OF inv]] split(1) by simp
  have "restoring_targets (op_targets op)" using inv assms(1) by (simp add: op_inv_def)
  then have "restoring_targets (op_targets ?op)"
    unfolding split(2) restoring_targets_def using assms(4) split(1) by simp
  moreover have static: "op_static ?op = op_static op"
    by (rule op_static_one [OF ts split(2) assms(3)]) simp_all
  ultimately show "op_inv ?op \<and> op_after op ?op"
    using inv assms(1) shape_static [OF op_static_targets [OF static]] unfolding op_inv_def lease_inv_def op_after_def by simp
qed

section \<open>Updates of the row\<close>

lemma restoration_target_static [simp]: "target_static (restoration_target t) = target_static t"
  by (simp add: restoration_target_def target_static_def Let_def)

lemma restoration_slot:
  "forward_slot t \<or> restoring_slot t \<Longrightarrow> restoring_slot (restoration_target t)"
  by (auto simp: restoration_target_def restoring_slot_def forward_slot_def step_flag_def Let_def)

lemma restoration_row_good:
  assumes "\<not> committed op" "active_state (op_state op)" "terminal \<in> {Op_Failed, Op_Cancelled}"
  shows "good_step op (restoration_row terminal c d op)"
proof (rule good_stepI)
  assume inv: "op_inv op"
  let ?op = "restoration_row terminal c d op"
  have ts: "op_targets op = proxy_of op # slots_of op" by (rule shape_targets(1) [OF op_inv_shape [OF inv]])
  have phase: "op_phase op = Forward_Phase \<or> op_phase op = RestoringSource"
    using inv assms(2) by (cases "op_phase op") (auto simp: op_inv_def active_state_def)
  then have slots: "list_all (\<lambda>t. forward_slot t \<or> restoring_slot t) (slots_of op)"
    using inv by (auto simp: op_inv_def forward_targets_def restoring_targets_def list_all_iff)
  have targets: "op_targets ?op = restoration_target (proxy_of op) # map restoration_target (slots_of op)"
    using ts by (simp add: restoration_row_def) (metis list.simps(9))
  have proxy: "restoring_proxy (restoration_target (proxy_of op))"
    by (simp add: restoring_proxy_def step_flag_def restoration_target_def Let_def)
  have restoring: "restoring_targets (op_targets ?op)"
    unfolding targets restoring_targets_def using slots proxy restoration_slot by (auto simp: list_all_iff)
  have static: "op_static ?op = op_static op"
    by (simp add: op_static_def restoration_row_def)
  have "shape_of (op_targets ?op)"
    using shape_static [OF op_static_targets [OF static] op_inv_shape [OF inv]] .
  moreover have "lease_inv ?op" using inv by (simp add: op_inv_def lease_inv_def restoration_row_def split: if_splits)
  ultimately have "op_inv ?op"
    using restoring assms(1,3) by (auto simp: op_inv_def restoration_row_def active_state_def)
  moreover have "op_after op ?op"
    using static phase by (auto simp: op_after_def lease_after_def restoration_row_def)
  ultimately show "op_inv ?op \<and> op_after op ?op" ..
qed

text \<open>Updates of the lease and the state of an active row.\<close>

lemma row_good:
  assumes "op_inv op \<Longrightarrow> op_phase op \<noteq> Complete_Phase" "op_targets op' = op_targets op" "op_phase op' = op_phase op"
    "forward_fenced op' = forward_fenced op" "committed op' = committed op"
    "restoration_terminal_state op' = restoration_terminal_state op" "op_static op' = op_static op"
    "op_inv op \<Longrightarrow> active_state (op_state op')" "lease_after op op'"
    "op_inv op \<Longrightarrow> lease_inv op'"
  shows "good_step op op'"
proof (rule good_stepI)
  assume inv: "op_inv op"
  then have "op_inv op'"
    using assms(1-8) assms(10) by (cases "op_phase op") (simp_all add: op_inv_def)
  then show "op_inv op' \<and> op_after op op'"
    using assms(1) [OF inv] assms(3,4,7,9) by (simp add: op_after_def)
qed

lemma active_not_complete: "op_inv op \<Longrightarrow> active_state (op_state op) \<Longrightarrow> op_phase op \<noteq> Complete_Phase"
  by (auto simp: op_inv_def active_state_def)

lemma pause_row_good: "active_state (op_state op) \<Longrightarrow> good_step op (pause_row c d op)"
  by (rule row_good [OF active_not_complete])
    (auto simp: pause_row_def op_static_def active_state_def lease_inv_def lease_after_def op_inv_def split: if_splits)

lemma pause_target_good:
  assumes "neutral f" "active_state (op_state op)"
  shows "good_step op (pause_row c d (set_target_of k s f op))"
proof (cases "op_phase op = Complete_Phase")
  case True
  then have "\<not> op_inv op" using active_not_complete assms(2) by blast
  then show ?thesis by (simp add: good_step_def)
next
  case False
  then show ?thesis
    using good_step_trans [OF neutral_good [OF assms(1) False] pause_row_good] assms(2) by simp
qed

lemma take_lease_good: "op_state op = Op_Queued \<or> op_state op = Op_Running \<Longrightarrow> good_step op (take_lease now agent_instance agent op)"
  by (rule row_good [OF active_not_complete])
    (auto simp: take_lease_def op_static_def active_state_def lease_inv_def lease_after_def op_inv_def split: if_splits)

lemma renew_row_good: "op_state op = Op_Running \<Longrightarrow> good_step op (op\<lparr>op_lease_expires_at := Some e\<rparr>)"
  by (rule row_good [OF active_not_complete])
    (auto simp: op_static_def active_state_def lease_inv_def lease_after_def op_inv_def)

lemma resume_row_good: "op_state op = Op_Paused \<Longrightarrow> good_step op (op\<lparr>op_state := Op_Queued, op_lease_expires_at := None,
    op_claimed_by := None, op_agent_instance_id := None, failure_code := [], failure_detail := []\<rparr>)"
  by (rule row_good [OF active_not_complete])
    (auto simp: op_static_def active_state_def lease_inv_def lease_after_def op_inv_def split: if_splits)

text \<open>The end of an operation whose targets are all complete.\<close>

lemma end_restored_good:
  assumes "op_phase op = RestoringSource" "list_all tg_complete (op_targets op)" "terminal \<in> {Op_Failed, Op_Cancelled}"
  shows "good_step op (end_row terminal op)"
  using assms by (intro good_stepI)
    (auto simp: op_inv_def end_row_def lease_inv_def op_after_def lease_after_def op_static_def restoring_targets_def split: if_splits)

lemma end_forward_good:
  assumes "op_phase op = Forward_Phase" "list_all tg_complete (op_targets op)"
    "op_static op' = op_static op" "op_targets op' = op_targets op" "op_state op' = Op_Succeeded" "op_phase op' = Complete_Phase"
    "op_lease_expires_at op' = None" "op_claimed_by op' = None" "op_agent_instance_id op' = None"
    "op_lease_epoch op' = op_lease_epoch op" "forward_fenced op' = forward_fenced op"
    "op_inv op \<Longrightarrow> committed op' \<longleftrightarrow> op_action op \<noteq> Restart_Action \<and> op_target_revision op > 0"
  shows "good_step op op'"
proof (rule good_stepI)
  assume inv: "op_inv op"
  have "op_action op' = op_action op" "op_target_revision op' = op_target_revision op"
    using assms(3) by (simp_all add: op_static_def)
  then show "op_inv op' \<and> op_after op op'"
    using inv assms by (auto simp: op_inv_def lease_inv_def op_after_def lease_after_def forward_targets_def)
qed

end
