(* ===== verification/Rollout_Steps.thy ===== *)
theory Rollout_Steps
  imports Rollout_Invariant
begin

text \<open>
  Every transaction on operations moves every operation row by a step of \<open>Rollout_Invariant\<close>: the rollout
  machine first, branch by branch, then the calls of agents and operators, and the submission that adds a row.
\<close>

section \<open>Steps of a table\<close>

definition db_inv :: "ops_db \<Rightarrow> bool" where
  "db_inv db \<longleftrightarrow> unique_ids db \<and> list_all op_inv (db_operations db)"

definition op_row_step :: "op_row \<Rightarrow> op_row \<Rightarrow> bool" where
  "op_row_step op op' \<longleftrightarrow> op_inv op' \<and> op_after op op'"

definition db_step :: "ops_db \<Rightarrow> ops_db \<Rightarrow> bool" where
  "db_step db db' \<longleftrightarrow> list_all2 op_row_step (db_operations db) (db_operations db')"

lemma db_inv_row: "db_inv db \<Longrightarrow> op \<in> set (db_operations db) \<Longrightarrow> op_inv op"
  by (simp add: db_inv_def list_all_iff)

lemma db_step_same: "db_inv db \<Longrightarrow> db_operations db' = db_operations db \<Longrightarrow> db_step db db'"
  by (simp add: db_step_def db_inv_def list_all2_same op_row_step_def list_all_iff)

lemma db_step_trans: "db_step a b \<Longrightarrow> db_step b c \<Longrightarrow> db_step a c"
  unfolding db_step_def by (rule list_all2_comp) (auto simp: op_row_step_def intro: op_after_trans)

lemma db_step_inv:
  assumes "db_inv db" "db_step db db'"
  shows "db_inv db'"
proof -
  have "map operation_id (db_operations db) = map operation_id (db_operations db')"
    by (rule list_all2_same_ids [OF assms(2) [unfolded db_step_def]]) (auto simp: op_row_step_def op_after_def op_static_def)
  moreover have "list_all op_inv (db_operations db')"
    using assms(2) unfolding db_step_def by (induction rule: list_all2_induct) (simp_all add: op_row_step_def)
  ultimately show ?thesis using assms(1) by (simp add: db_inv_def unique_ids_def)
qed

lemma db_step_put:
  assumes "db_inv db" "op \<in> set (db_operations db)" "good_step op op'" "db_operations db' = put_row op op' (db_operations db)"
  shows "db_step db db'"
proof -
  have "op_row_step op op'" using assms(1-3) db_inv_row by (auto simp: good_step_def op_row_step_def)
  moreover have "\<forall>x \<in> set (db_operations db). op_row_step x x"
    using assms(1) by (simp add: op_row_step_def db_inv_def list_all_iff)
  ultimately have "list_all2 op_row_step rows (put_row op op' rows)" if "set rows \<subseteq> set (db_operations db)" for rows
    using that by (induction rows) (auto simp: put_row_def)
  then show ?thesis by (simp add: db_step_def assms(4))
qed

lemma db_step_set_op:
  assumes "db_inv db" "op \<in> set (db_operations db)" "good_step op (f op)"
    "db_operations db' = db_operations (set_op (operation_id op) f db)"
  shows "db_step db db'"
  by (rule db_step_put [OF assms(1-3)])
    (use assms set_op_row [of db op "operation_id op" f] in \<open>simp add: db_inv_def\<close>)

lemma db_step_set_slot:
  assumes "db_inv db" "op \<in> set (db_operations db)" "good_step op (set_target_of EngineSlot_Target slot f op)"
    "db_operations db' = db_operations (set_slot (operation_id op) slot f db)"
  shows "db_step db db'"
  using db_step_set_op [OF assms(1,2), of "set_target_of EngineSlot_Target slot f"] assms(3,4) by simp

section \<open>Restoration and pauses\<close>

lemma enter_restoration_step:
  assumes "db_inv db" "enter_restoration oid actor terminal c d db = Inr db'" "terminal \<in> {Op_Failed, Op_Cancelled}"
  shows "db_step db db'"
proof -
  from assms(2) obtain op where op: "find (\<lambda>op. operation_id op = oid \<and> \<not> committed op \<and> active_state (op_state op)) (db_operations db) = Some op"
    and db': "db' = append_event oid actor c d (op_lease_epoch op) (set_op oid (restoration_row terminal c d) db)"
    by (auto simp: enter_restoration_def split: option.splits)
  from find_SomeD [OF op] have "op \<in> set (db_operations db)" "operation_id op = oid" "\<not> committed op" "active_state (op_state op)"
    by auto
  then show ?thesis
    using db_step_set_op [OF assms(1), of op "restoration_row terminal c d" db'] restoration_row_good [OF _ _ assms(3)] db' by simp
qed

lemma pause_with_condition_ops:
  "db_operations (pause_with_condition oid slot c d db) = db_operations (set_op oid
    (\<lambda>op. if op_state op \<in> {Op_Queued, Op_Running}
      then pause_row c d (set_target_of EngineSlot_Target slot (\<lambda>t. t\<lparr>condition_code := c, condition_detail := d\<rparr>) op)
      else set_target_of EngineSlot_Target slot (\<lambda>t. t\<lparr>condition_code := c, condition_detail := d\<rparr>) op) db)"
  by (simp add: pause_with_condition_def set_slot_condition_def cong: if_cong)

lemma pause_with_condition_step:
  assumes "db_inv db" "op \<in> set (db_operations db)" "op_state op \<in> {Op_Queued, Op_Running}"
  shows "db_step db (pause_with_condition (operation_id op) slot c d db)"
proof (rule db_step_set_op [OF assms(1,2) _ pause_with_condition_ops])
  show "good_step op (if op_state op \<in> {Op_Queued, Op_Running}
      then pause_row c d (set_target_of EngineSlot_Target slot (\<lambda>t. t\<lparr>condition_code := c, condition_detail := d\<rparr>) op)
      else set_target_of EngineSlot_Target slot (\<lambda>t. t\<lparr>condition_code := c, condition_detail := d\<rparr>) op)"
    using assms(3) pause_target_good [OF neutral_condition, of op] by (auto simp: active_state_def)
qed

lemma set_slot_condition_step:
  assumes "db_inv db" "op \<in> set (db_operations db)" "op_phase op \<noteq> Complete_Phase"
  shows "db_step db (set_slot_condition (operation_id op) slot c d db)"
  unfolding set_slot_condition_def by (rule db_step_set_slot [OF assms(1,2) neutral_good [OF neutral_condition assms(3)] refl])

section \<open>One slot\<close>

text \<open>What a branch of a forward step leaves of the slot it works on.\<close>

definition slot_update :: "ops_db \<Rightarrow> op_row \<Rightarrow> target_row \<Rightarrow> ops_db \<Rightarrow> bool" where
  "slot_update db op t db' \<longleftrightarrow> (\<exists>f. db_operations db' = db_operations (set_slot (operation_id op) (tg_key t) f db) \<and>
    (\<forall>u. tg_kind (f u) = tg_kind u \<and> tg_key (f u) = tg_key u) \<and> target_static (f t) = target_static t \<and>
    (forward_slot t \<longrightarrow> slot_static t \<longrightarrow> forward_slot (f t)))"

lemma slot_updateI:
  assumes "db_operations db' = db_operations (set_slot (operation_id op) (tg_key t) f db)"
    "\<And>u. target_static (f u) = target_static u" "forward_slot t \<Longrightarrow> slot_static t \<Longrightarrow> forward_slot (f t)"
  shows "slot_update db op t db'"
  using assms unfolding slot_update_def by (intro exI [of _ f]) (auto simp: target_static_def)

lemma forward_advance:
  assumes "on_path t'" "t' = advance_target n r u" "tg_transition u = tg_transition t"
    "source_revision u = source_revision t" "target_revision u = target_revision t"
    "r = (if n \<in> {None, Some VerifyServing} then target_revision t else source_revision t)"
    "r = source_revision t \<or> tg_changed u" "n \<noteq> Some Unspecified_Step"
  shows "forward_slot t'"
  using assms by (auto simp: forward_slot_def step_flag_def advance_target_def split: option.splits)

text \<open>The row a branch works on: active, not terminal, and the slot it holds.\<close>

definition works_on :: "ops_db \<Rightarrow> op_row \<Rightarrow> bool" where
  "works_on db op \<longleftrightarrow> db_inv db \<and> op \<in> set (db_operations db) \<and> op_state op \<in> {Op_Queued, Op_Running}"

definition branch_ok :: "ops_db \<Rightarrow> op_row \<Rightarrow> target_row \<Rightarrow> slot_result \<Rightarrow> bool" where
  "branch_ok db op t r = (case r of Inl _ \<Rightarrow> True
     | Inr (flow, db') \<Rightarrow> slot_update db op t db' \<or> flow \<noteq> Fell_Through \<and> db_step db db')"

lemma works_on_phase: "works_on db op \<Longrightarrow> op_phase op \<noteq> Complete_Phase"
  using active_not_complete db_inv_row unfolding works_on_def active_state_def by blast

lemma branch_same: "works_on db op \<Longrightarrow> branch_ok db op t (Inr (Returned b, db))"
  by (simp add: branch_ok_def works_on_def db_step_same)

lemma branch_pause: "works_on db op \<Longrightarrow> branch_ok db op t (Inr (Returned b, pause_with_condition (operation_id op) slot c d db))"
  by (simp add: branch_ok_def works_on_def pause_with_condition_step)

lemma branch_condition: "works_on db op \<Longrightarrow> branch_ok db op t (Inr (Returned b, set_slot_condition (operation_id op) slot c d db))"
  using set_slot_condition_step [of db op] works_on_phase [of db op] by (simp add: branch_ok_def works_on_def)

lemma branch_update: "slot_update db op t db' \<Longrightarrow> branch_ok db op t (Inr (flow, db'))"
  by (simp add: branch_ok_def)

lemmas branch_rules = branch_same branch_pause branch_condition

lemma redeliver_update: "slot_update db op t (redeliver (operation_id op) (tg_key t) db)"
  by (rule slot_updateI [of _ _ _ "\<lambda>t. t\<lparr>effect_delivered_at := None, effect_ambiguous := False\<rparr>"])
    (auto simp: redeliver_def target_static_def forward_slot_def step_flag_def on_path_def proving_source_def
      split: NodeOperationStepKind.splits)

lemma advance_update:
  assumes "\<And>u. target_static (g u) = target_static u" "forward_slot t \<Longrightarrow> slot_static t \<Longrightarrow> forward_slot (advance_target n r (g t))"
  shows "slot_update db op t (advance_slot (operation_id op) (tg_key t) n r (set_slot (operation_id op) (tg_key t) g db))"
proof (rule slot_updateI [of _ _ _ "\<lambda>t. advance_target n r (g t)"])
  have "tg_kind (g u) = tg_kind u" "tg_key (g u) = tg_key u" for u
    using assms(1) [of u] by (simp_all add: target_static_def)
  then show "db_operations (advance_slot (operation_id op) (tg_key t) n r (set_slot (operation_id op) (tg_key t) g db)) =
      db_operations (set_slot (operation_id op) (tg_key t) (\<lambda>t. advance_target n r (g t)) db)"
    unfolding advance_slot_def by (subst set_slot_fuse) simp_all
  show "target_static (advance_target n r (g u)) = target_static u" for u
    using assms(1) [of u] by (simp add: target_static_def advance_target_def)
qed (use assms(2) in simp)

lemma advance_only_update:
  assumes "forward_slot t \<Longrightarrow> slot_static t \<Longrightarrow> forward_slot (advance_target n r t)"
  shows "slot_update db op t (advance_slot (operation_id op) (tg_key t) n r db)"
  by (rule slot_updateI [of _ _ _ "advance_target n r"])
    (use assms in \<open>simp_all add: advance_slot_def target_static_def advance_target_def\<close>)

lemma set_switch_slot: "db_operations (advance_slot oid slot n r (set_slot oid slot g (switch_authority now node slot' revision db))) =
    db_operations (advance_slot oid slot n r (set_slot oid slot g db))"
  by (simp add: advance_slot_def)

lemmas path_simps = forward_slot_def step_flag_def on_path_def proving_source_def advance_target_def slot_static_def transition_ok_def

lemma reconcile_stop_branch:
  assumes "works_on db op" "next_step t = StopBackend"
  shows "branch_ok db op t (reconcile_stop sn op t observation db)"
proof -
  have "slot_update db op t (advance_slot (operation_id op) (tg_key t) (next_forward_step (tg_transition t) StopBackend)
      (source_revision t) (mark_changed (operation_id op) (tg_key t) db))"
    unfolding mark_changed_def
  proof (rule advance_update)
    assume "forward_slot t" "slot_static t"
    then show "forward_slot (advance_target (next_forward_step (tg_transition t) StopBackend) (source_revision t) (t\<lparr>tg_changed := True\<rparr>))"
      using assms(2) by (cases "tg_transition t") (simp_all add: path_simps)
  qed (simp add: target_static_def)
  then show ?thesis
    unfolding reconcile_stop_def Let_def
    using branch_rules [OF assms(1)] redeliver_update [of db op t] by (auto split: option.splits intro: branch_update)
qed

lemma reconcile_select_branch:
  assumes "works_on db op" "next_step t = SelectRelease"
  shows "branch_ok db op t (reconcile_select op t observation db)"
proof -
  have changed: "slot_update db op t (advance_slot (operation_id op) (tg_key t) (next_forward_step (tg_transition t) SelectRelease)
      (source_revision t) (mark_changed (operation_id op) (tg_key t) db))"
    unfolding mark_changed_def
  proof (rule advance_update)
    assume "forward_slot t" "slot_static t"
    then show "forward_slot (advance_target (next_forward_step (tg_transition t) SelectRelease) (source_revision t) (t\<lparr>tg_changed := True\<rparr>))"
      using assms(2) by (cases "tg_transition t") (simp_all add: path_simps)
  qed (simp add: target_static_def)
  have same: "slot_update db op t (advance_slot (operation_id op) (tg_key t) (next_forward_step (tg_transition t) SelectRelease)
      (source_revision t) db)" if "target_revision t = source_revision t"
  proof (rule advance_only_update)
    assume "forward_slot t" "slot_static t"
    then show "forward_slot (advance_target (next_forward_step (tg_transition t) SelectRelease) (source_revision t) t)"
      using assms(2) that by (cases "tg_transition t") (auto simp: path_simps)
  qed
  show ?thesis
    unfolding reconcile_select_def Let_def
    using branch_rules [OF assms(1)] redeliver_update [of db op t] changed same by (auto intro: branch_update)
qed

lemma reconcile_start_branch:
  assumes "works_on db op" "next_step t = StartBackend"
  shows "branch_ok db op t (reconcile_start env op t observation db)"
proof -
  have "slot_update db op t (advance_slot (operation_id op) (tg_key t) (next_forward_step (tg_transition t) StartBackend) (source_revision t) db)"
  proof (rule advance_only_update)
    assume "forward_slot t" "slot_static t"
    then show "forward_slot (advance_target (next_forward_step (tg_transition t) StartBackend) (source_revision t) t)"
      using assms(2) by (cases "tg_transition t") (simp_all add: path_simps)
  qed
  then show ?thesis
    unfolding reconcile_start_def Let_def
    using branch_rules [OF assms(1)] redeliver_update [of db op t] by (auto intro: branch_update)
qed

lemma ready_identities:
  assumes "observation_ready now v ex" "ob_lifecycle v = Some lifecycle"
  shows "ob_backend_instance_id v \<noteq> []" "ls_process_instance_id lifecycle \<noteq> []"
  using assms by (auto simp: observation_ready_def split: if_splits)

lemma verify_ready_identities:
  assumes "verify_ready env sn op t (Some v)" "ob_lifecycle v = Some lifecycle"
  shows "ob_backend_instance_id v \<noteq> []" "ls_process_instance_id lifecycle \<noteq> []"
  using assms ready_identities by (auto simp: verify_ready_def some_and_def Let_def)

lemma pin_advance_update:
  assumes "forward_slot t \<Longrightarrow> slot_static t \<Longrightarrow> forward_slot (advance_target n r (t\<lparr>pinned_backend_instance_id := ob_backend_instance_id v,
      pinned_process_instance_id := ls_process_instance_id lifecycle\<rparr>))"
  shows "slot_update db op t (advance_slot (operation_id op) (tg_key t) n r (pin_slot (operation_id op) (tg_key t) v lifecycle db))"
  unfolding pin_slot_def by (rule advance_update) (simp_all add: target_static_def assms)

lemma reconcile_verify_branch:
  assumes "works_on db op" "next_step t = VerifyTarget"
  shows "branch_ok db op t (reconcile_verify env sn op t observation db)"
proof (cases "verify_ready env sn op t observation")
  case False
  then show ?thesis
    unfolding reconcile_verify_def Let_def using branch_rules [OF assms(1)] by auto
next
  case True
  then obtain v where v: "observation = Some v" by (auto simp: verify_ready_def some_and_def Let_def split: option.splits)
  show ?thesis
  proof (cases "ob_lifecycle v")
    case None
    then show ?thesis using True v by (simp add: reconcile_verify_def branch_ok_def)
  next
    case (Some lifecycle)
    note ids = verify_ready_identities [OF True [unfolded v] Some]
    have source: "slot_update db op t (advance_slot (operation_id op) (tg_key t) (Some StopBackend) (source_revision t)
        (pin_slot (operation_id op) (tg_key t) v lifecycle db))" if "proving_source t"
      by (rule pin_advance_update) (use assms(2) ids that in \<open>auto simp: path_simps\<close>)
    have target: "slot_update db op t (advance_slot (operation_id op) (tg_key t)
        (Some (if source_revision t = target_revision t then VerifyServing else SwitchAuthority)) (source_revision t)
        (pin_slot (operation_id op) (tg_key t) v lifecycle db))" if "\<not> proving_source t"
      by (rule pin_advance_update) (use assms(2) that in \<open>cases "tg_transition t"; auto simp: path_simps\<close>)
    have pause: "branch_ok db op t (Inr (Returned b, pause_with_condition (operation_id op) slot c d db))" for b slot c d
      by (rule branch_pause [OF assms(1)])
    show ?thesis
    proof (cases "proving_source t")
      case True
      then show ?thesis
        using \<open>verify_ready env sn op t observation\<close> v Some source [OF True] pause
        by (cases "stop_preserves_availability sn (oe_now env) op (tg_key t)")
          (simp_all add: reconcile_verify_def Let_def and_then_simps branch_ok_def)
    next
      case False
      then show ?thesis
        using True v Some branch_update [OF target [OF False]] pause
        by (simp add: reconcile_verify_def Let_def)
    qed
  qed
qed

lemma reconcile_switch_branch:
  assumes "next_step t = SwitchAuthority"
  shows "branch_ok db op t (reconcile_switch env op t db)"
proof -
  have "slot_update db op t (advance_slot (operation_id op) (tg_key t) (next_forward_step (tg_transition t) SwitchAuthority)
      (target_revision t) (set_slot (operation_id op) (tg_key t) (\<lambda>t. t\<lparr>authority_switched := True, tg_changed := True\<rparr>) db))"
  proof (rule advance_update)
    assume "forward_slot t" "slot_static t"
    then show "forward_slot (advance_target (next_forward_step (tg_transition t) SwitchAuthority) (target_revision t)
        (t\<lparr>authority_switched := True, tg_changed := True\<rparr>))"
      using assms by (cases "tg_transition t") (simp_all add: path_simps)
  qed (simp add: target_static_def)
  then show ?thesis
    by (simp add: reconcile_switch_def Let_def branch_ok_def slot_update_def set_switch_slot)
qed

lemma reconcile_serving_branch:
  assumes "works_on db op" "next_step t = VerifyServing"
  shows "branch_ok db op t (reconcile_serving env sn op t db)"
proof -
  have "slot_update db op t (advance_slot (operation_id op) (tg_key t) None (target_revision t)
      (set_slot (operation_id op) (tg_key t) (\<lambda>t. t\<lparr>serving_converged := True\<rparr>) db))"
  proof (rule advance_update)
    assume "forward_slot t" "slot_static t"
    then show "forward_slot (advance_target None (target_revision t) (t\<lparr>serving_converged := True\<rparr>))"
      using assms(2) by (cases "tg_transition t") (simp_all add: path_simps)
  qed (simp add: target_static_def)
  then show ?thesis
    unfolding reconcile_serving_def Let_def
    using branch_rules [OF assms(1)] branch_update
    by (cases "slot_routes_healthy sn (oe_now env) (op_node_id op) (tg_key t) (target_revision t) (target_digest t)")
      (auto simp: branch_ok_def)
qed

lemma reconcile_forward_branch:
  assumes "works_on db op"
  shows "branch_ok db op t (reconcile_forward env sn op t observation db)"
proof (cases "effect_condition_code t = []")
  case False
  then show ?thesis
    using enter_restoration_step [of db "operation_id op" "''manager''" Op_Failed] assms
    by (cases "enter_restoration (operation_id op) ''manager'' Op_Failed (effect_condition_code t)
        (if effect_detail t = [] then ''typed effect failed'' else effect_detail t) db")
      (auto simp: reconcile_forward_def branch_ok_def works_on_def)
next
  case True
  have metadata: "slot_update db op t (advance_slot (operation_id op) (tg_key t) (next_forward_step (tg_transition t) VerifyReleaseMetadata)
      (source_revision t) db)" if "next_step t = VerifyReleaseMetadata"
  proof (rule advance_only_update)
    assume "forward_slot t" "slot_static t"
    then show "forward_slot (advance_target (next_forward_step (tg_transition t) VerifyReleaseMetadata) (source_revision t) t)"
      using that by (cases "tg_transition t") (simp_all add: path_simps)
  qed
  have proxy: "slot_update db op t (advance_slot (operation_id op) (tg_key t) (next_forward_step (tg_transition t) VerifyProxy)
      (source_revision t) db)" if "next_step t = VerifyProxy"
    by (rule advance_only_update) (use that in \<open>simp add: path_simps\<close>)
  show ?thesis
    unfolding reconcile_forward_def using True branch_rules [OF assms] branch_update [OF metadata] branch_update [OF proxy]
      reconcile_stop_branch [OF assms] reconcile_select_branch [OF assms] reconcile_start_branch [OF assms]
      reconcile_verify_branch [OF assms] reconcile_switch_branch reconcile_serving_branch [OF assms]
    by (cases "next_step t") auto
qed

lemma slot_update_step:
  assumes "works_on db op" "op_phase op = Forward_Phase" "tg_complete (proxy_of op)"
    "find (\<lambda>t. \<not> tg_complete t) (slots_of op) = Some t" "slot_update db op t db'"
  shows "db_step db db'"
proof -
  from assms(5) obtain f where f: "db_operations db' = db_operations (set_slot (operation_id op) (tg_key t) f db)"
    "target_static (f t) = target_static t" "forward_slot t \<Longrightarrow> slot_static t \<Longrightarrow> forward_slot (f t)"
    unfolding slot_update_def by blast
  show ?thesis
    using assms(1) f by (intro db_step_set_slot [OF _ _ forward_slot_good [OF assms(2-4)] f(1)]) (auto simp: works_on_def)
qed

lemma slot_update_clear:
  assumes "slot_update db op t db'"
  shows "slot_update db op t (clear_slot_condition (operation_id op) (tg_key t) db')"
proof -
  let ?c = "\<lambda>t. t\<lparr>condition_code := [], condition_detail := []\<rparr>"
  from assms obtain f where f: "db_operations db' = db_operations (set_slot (operation_id op) (tg_key t) f db)"
    "\<And>u. tg_kind (f u) = tg_kind u \<and> tg_key (f u) = tg_key u" "target_static (f t) = target_static t"
    "forward_slot t \<Longrightarrow> slot_static t \<Longrightarrow> forward_slot (f t)"
    unfolding slot_update_def by blast
  have "db_operations (clear_slot_condition (operation_id op) (tg_key t) db') =
      db_operations (set_slot (operation_id op) (tg_key t) ?c (set_slot (operation_id op) (tg_key t) f db))"
    using f(1) by (simp add: clear_slot_condition_def set_slot_condition_def)
  also have "\<dots> = db_operations (set_slot (operation_id op) (tg_key t) (\<lambda>t. ?c (f t)) db)"
    using f(2) by (subst set_slot_fuse) simp_all
  finally show ?thesis
    using f(2-4) neutral_condition [of "[]" "[]"] unfolding slot_update_def neutral_def
    by (intro exI [of _ "\<lambda>t. ?c (f t)"]) simp
qed

lemma reconcile_restoring_step:
  assumes "works_on db op" "op_phase op = RestoringSource" "find (\<lambda>t. \<not> tg_complete t) (slots_of op) = Some t"
    "reconcile_restoring env sn op t observation db = Inr (flow, db')"
  shows "flow \<noteq> Fell_Through \<and> db_step db db'"
proof -
  let ?sw = "switch_authority (oe_now env) (op_node_id op) (tg_key t) (source_revision t) db"
  have inv: "db_inv db" "op \<in> set (db_operations db)" using assms(1) by (simp_all add: works_on_def)
  have sw: "db_step db db'" if "db_step db db0" "db_operations db0 = db_operations db'" for db0 db'
    using that by (simp add: db_step_def)
  have same: "db_step db db" by (rule db_step_same [OF inv(1) refl])
  have pause: "db_step db (pause_with_condition (operation_id op) slot c d db)" for slot c d
    using pause_with_condition_step [OF inv] assms(1) by (simp add: works_on_def)
  have condition: "db_step db (set_slot_condition (operation_id op) slot c d db)" for slot c d
    using set_slot_condition_step [OF inv works_on_phase [OF assms(1)]] .
  have condition_sw: "db_step db (set_slot_condition (operation_id op) slot c d ?sw)" for slot c d
    by (rule sw [OF condition [of slot c d]]) (simp add: set_slot_condition_def)
  have "db_step db (advance_slot (operation_id op) (tg_key t) None (source_revision t) db)"
    unfolding advance_slot_def by (rule db_step_set_slot [OF inv restoring_slot_good [OF assms(2,3)] refl])
      (simp_all add: advance_target_def target_static_def restoring_slot_def step_flag_def)
  then have advance: "db_step db (advance_slot (operation_id op) (tg_key t) None (source_revision t) ?sw)"
    by (rule sw) (simp add: advance_slot_def)
  have inspected: "db_step db (set_slot (operation_id op) (tg_key t) (\<lambda>t. t\<lparr>tg_changed := True, effect_ambiguous := False,
       effect_delivered_at := None, condition_code := [], condition_detail := []\<rparr>) db)"
    by (rule db_step_set_slot [OF inv restoring_slot_good [OF assms(2,3)] refl])
      (simp_all add: target_static_def restoring_slot_def step_flag_def)
  show ?thesis
    using assms(4) same pause condition condition_sw advance inspected
    unfolding reconcile_restoring_def Let_def by (auto split: if_splits)
qed

lemma reconcile_slot_step:
  assumes "works_on db op" "find (\<lambda>t. \<not> tg_complete t) (slots_of op) = Some t"
    "op_phase op = Forward_Phase \<Longrightarrow> tg_complete (proxy_of op)" "reconcile_slot env sn op t db = Inr (b, db')"
  shows "db_step db db'"
proof -
  let ?ob = "matching_observation (oe_now env) (oe_wall env) (cl_observations sn) op (tg_key t)"
  have phase: "op_phase op = Forward_Phase \<or> op_phase op = RestoringSource"
    using works_on_phase [OF assms(1)] db_inv_row [of db op] assms(1) by (cases "op_phase op") (auto simp: works_on_def op_inv_def)
  show ?thesis
  proof (cases "op_phase op = RestoringSource")
    case True
    then obtain flow db1 where run: "reconcile_restoring env sn op t ?ob db = Inr (flow, db1)" and
      out: "(case flow of Returned b \<Rightarrow> Inr (b, db1) | Fell_Through \<Rightarrow>
        Inr (True, clear_slot_condition (operation_id op) (tg_key t) db1)) = (Inr (b, db') :: op_status + bool \<times> ops_db)"
      using assms(4) by (auto simp: reconcile_slot_def Let_def)
    from reconcile_restoring_step [OF assms(1) True assms(2) run] out show ?thesis by (cases flow) auto
  next
    case False
    then obtain flow db1 where run: "reconcile_forward env sn op t ?ob db = Inr (flow, db1)"
      and out: "(case flow of Returned b \<Rightarrow> Inr (b, db1) | Fell_Through \<Rightarrow>
        Inr (True, clear_slot_condition (operation_id op) (tg_key t) db1)) = (Inr (b, db') :: op_status + bool \<times> ops_db)"
      using assms(4) by (auto simp: reconcile_slot_def Let_def)
    from reconcile_forward_branch [OF assms(1), of t env sn ?ob] run
    have branch: "slot_update db op t db1 \<or> flow \<noteq> Fell_Through \<and> db_step db db1" by (simp add: branch_ok_def)
    have fwd: "op_phase op = Forward_Phase" using False phase by simp
    show ?thesis
    proof (cases "slot_update db op t db1")
      case True
      then have "slot_update db op t db'"
        using out slot_update_clear [OF True] by (cases flow) auto
      then show ?thesis by (rule slot_update_step [OF assms(1) fwd assms(3) [OF fwd] assms(2)])
    next
      case False
      then show ?thesis using branch out by (cases flow) auto
    qed
  qed
qed

section \<open>One operation\<close>

lemma find_none_all: "find (\<lambda>t. \<not> P t) xs = None \<longleftrightarrow> list_all P xs"
  by (induction xs) auto

lemma finish_operation_step:
  assumes "works_on db op" "list_all tg_complete (op_targets op)"
  shows "db_step db (finish_operation now actor op db)"
proof -
  have inv: "db_inv db" "op \<in> set (db_operations db)" "op_inv op"
    using assms(1) db_inv_row by (auto simp: works_on_def)
  consider (restoring) "op_phase op = RestoringSource" | (forward) "op_phase op = Forward_Phase"
    using works_on_phase [OF assms(1)] inv(3) by (cases "op_phase op") (auto simp: op_inv_def)
  then show ?thesis
  proof cases
    case restoring
    have "good_step op (end_row (if restoration_terminal_state op = Some Op_Cancelled then Op_Cancelled else Op_Failed) op)"
      by (rule end_restored_good [OF restoring assms(2)]) simp
    then show ?thesis
      using db_step_set_op [OF inv(1,2)] restoring by (simp add: finish_operation_def Let_def)
  next
    case forward
    have not_committed: "\<not> committed op" using inv(3) forward by (simp add: op_inv_def)
    have commit: "good_step op ((end_row Op_Succeeded op)\<lparr>committed := True\<rparr>)" if "op_action op \<noteq> Restart_Action" "op_target_revision op > 0"
      by (rule end_forward_good [OF forward assms(2)]) (simp_all add: end_row_def op_static_def that)
    have plain: "good_step op (end_row Op_Succeeded op)" if "\<not> (op_action op \<noteq> Restart_Action \<and> op_target_revision op > 0)"
      by (rule end_forward_good [OF forward assms(2)]) (use that not_committed in \<open>simp_all add: end_row_def op_static_def\<close>)
    show ?thesis
    proof (cases "op_action op \<noteq> Restart_Action \<and> op_target_revision op > 0")
      case True
      then show ?thesis
        using db_step_set_op [OF inv(1,2), of "\<lambda>row. (end_row Op_Succeeded row)\<lparr>committed := True\<rparr>"] commit forward
        by (simp add: finish_operation_def Let_def)
    next
      case False
      then show ?thesis
        using db_step_set_op [OF inv(1,2), of "end_row Op_Succeeded"] plain [OF False] forward
        by (auto simp: finish_operation_def Let_def)
    qed
  qed
qed

lemma try_map_id: "try_map f xs = Inr ys \<Longrightarrow> (\<And>x y. f x = Inr y \<Longrightarrow> y = x) \<Longrightarrow> ys = xs"
  by (induction xs arbitrary: ys) auto

lemma operation_from_row_same: "operation_from_row op = Inr op' \<Longrightarrow> op' = op"
  by (auto simp: operation_from_row_def split: if_splits)

lemma active_operations_rows:
  "active_operations db = Inr ops \<Longrightarrow> ops = filter (\<lambda>op. active_state (op_state op)) (db_operations db)"
  unfolding active_operations_def by (rule try_map_id) (auto dest: operation_from_row_same)

lemma reconcile_step:
  assumes "db_inv db" "reconcile env oid actor db = Inr db'"
  shows "db_step db db'"
proof -
  from assms(2) obtain ops op proxy where ops: "active_operations db = Inr ops" and op: "find (\<lambda>op. operation_id op = oid) ops = Some op"
    and rest: "(if op_state op \<notin> {Op_Queued, Op_Running} then Inr db
      else and_then (proxy_target op) (\<lambda>proxy.
        if \<not> restore_engine_slots_before_proxy op \<and> \<not> tg_complete proxy then Inr db
        else case min_by_key rollout_order (filter (\<lambda>t. \<not> tg_complete t) (operation_slots op)) of
          Some t \<Rightarrow> and_then (reconcile_slot env (db_cluster db) op t db) (\<lambda>(_, db'). Inr db')
        | None \<Rightarrow> if \<not> tg_complete proxy then Inr db else Inr (finish_operation (oe_now env) actor op db))) = Inr db'"
    by (auto simp: reconcile_def ok_or_def split: option.splits)
  have row: "op \<in> set (db_operations db)" "operation_id op = oid"
    using find_SomeD [OF op] active_operations_rows [OF ops] by auto
  then have inv: "op_inv op" using assms(1) db_inv_row by blast
  note shape = shape_targets [OF op_inv_shape [OF inv]]
  show ?thesis
  proof (cases "op_state op \<in> {Op_Queued, Op_Running}")
    case False
    then show ?thesis using rest db_step_same [OF assms(1) refl] by simp
  next
    case active: True
    then have works: "works_on db op" using assms(1) row by (simp add: works_on_def)
    have order: "sorted_wrt (<) (map rollout_order (slots_of op))"
      using op_inv_shape [OF inv] by (auto simp: shape_of_def split: list.splits)
    have first: "min_by_key rollout_order (filter (\<lambda>t. \<not> tg_complete t) (operation_slots op)) = find (\<lambda>t. \<not> tg_complete t) (slots_of op)"
      using min_by_key_first [OF order] shape(2) by simp
    show ?thesis
    proof (cases "find (\<lambda>t. \<not> tg_complete t) (slots_of op)")
      case None
      then have "list_all tg_complete (slots_of op)" by (simp add: find_none_all)
      then have "list_all tg_complete (op_targets op)" if "tg_complete (proxy_of op)"
        using that by (subst shape(1)) simp
      then show ?thesis
        using rest active None first shape(3) db_step_same [OF assms(1) refl] finish_operation_step [OF works] by (auto split: if_splits)
    next
      case (Some t)
      then show ?thesis
        using rest active first shape(3) db_step_same [OF assms(1) refl] reconcile_slot_step [OF works Some]
        by (auto simp: restore_engine_slots_before_proxy_def split: if_splits)
    qed
  qed
qed

section \<open>The proxy target\<close>

lemma proxy_split:
  assumes "shape_of (op_targets op)"
  shows "op_targets (set_target_of Proxy_Target ''proxy'' f op) = f (proxy_of op) # slots_of op"
proof -
  from assms obtain p ss where ts: "op_targets op = p # ss" "proxy_static p" "list_all slot_static ss"
    by (auto simp: shape_of_def split: list.splits)
  have "map (\<lambda>u. if tg_kind u = Proxy_Target \<and> tg_key u = ''proxy'' then f u else u) ss = ss"
    using ts(3) by (intro map_idI) (auto simp: list_all_iff slot_static_def)
  then show ?thesis using ts by (simp add: proxy_static_def)
qed

lemma proxy_good:
  assumes "active_state (op_state op)" "target_static (f (proxy_of op)) = target_static (proxy_of op)"
    "tg_complete (proxy_of op) \<Longrightarrow> tg_complete (f (proxy_of op))"
    "op_phase op = Forward_Phase \<Longrightarrow> forward_proxy (proxy_of op) \<Longrightarrow> forward_proxy (f (proxy_of op))"
    "op_phase op = RestoringSource \<Longrightarrow> restoring_proxy (proxy_of op) \<Longrightarrow> restoring_proxy (f (proxy_of op))"
  shows "good_step op (set_target_of Proxy_Target ''proxy'' f op)"
proof (rule good_stepI)
  assume inv: "op_inv op"
  let ?op = "set_target_of Proxy_Target ''proxy'' f op"
  note ts = shape_targets(1) [OF op_inv_shape [OF inv]] and ts' = proxy_split [OF op_inv_shape [OF inv], of f]
  have "op_static ?op = op_static op"
    unfolding op_static_def ts' using assms(2) by (simp del: set_target_of_fields(20)) (metis ts list.simps(9))
  then have static: "op_static ?op = op_static op" and shape: "shape_of (op_targets ?op)"
    using shape_static [OF op_static_targets op_inv_shape [OF inv]] by blast+
  have fields: "lease_inv ?op = lease_inv op" by (simp add: lease_inv_def)
  have "op_phase op = Forward_Phase \<or> op_phase op = RestoringSource"
    using active_not_complete [OF inv assms(1)] inv by (cases "op_phase op") (auto simp: op_inv_def)
  then have "op_inv ?op"
  proof
    assume fwd: "op_phase op = Forward_Phase"
    then have "forward_targets (op_targets op)" using inv by (simp add: op_inv_def)
    then have "forward_targets (op_targets ?op)"
      unfolding ts' forward_targets_def using assms(3,4) fwd by auto
    then show ?thesis using inv shape fields fwd unfolding op_inv_def by simp
  next
    assume res: "op_phase op = RestoringSource"
    then have "restoring_targets (op_targets op)" using inv by (simp add: op_inv_def)
    then have "restoring_targets (op_targets ?op)"
      unfolding ts' restoring_targets_def using assms(5) res by simp
    then show ?thesis using inv shape fields res unfolding op_inv_def by simp
  qed
  then show "op_inv ?op \<and> op_after op ?op"
    using static active_not_complete [OF inv assms(1)] by (simp add: op_after_def)
qed

section \<open>Claims\<close>

lemma load_operation_row: "load_operation db oid = Inr op \<Longrightarrow> op \<in> set (db_operations db) \<and> operation_id op = oid"
  by (auto simp: load_operation_def ok_or_def split: option.splits dest!: operation_from_row_same find_SomeD)

lemma fold_events_tables:
  "db_operations (fold (\<lambda>op. append_event (operation_id op) a c d (op_lease_epoch op)) ops db) = db_operations db"
  "db_cluster (fold (\<lambda>op. append_event (operation_id op) a c d (op_lease_epoch op)) ops db) = db_cluster db"
  "db_receipts (fold (\<lambda>op. append_event (operation_id op) a c d (op_lease_epoch op)) ops db) = db_receipts db"
  by (induction ops arbitrary: db) simp_all

lemma expire_leases_step:
  assumes "db_inv db"
  shows "db_step db (expire_leases now node db)"
proof -
  have "op_row_step op (if op_lease_expired now node op then pause_row c d op else op)" if "op \<in> set (db_operations db)" for op c d
    using pause_row_good [of op] db_inv_row [OF assms that]
    by (auto simp: good_step_def op_row_step_def op_lease_expired_def active_state_def)
  then show ?thesis
    by (simp add: db_step_def expire_leases_def Let_def fold_events_tables list_all2_conv_all_nth)
qed

lemma mark_delivered_good:
  assumes "op_state op = Op_Running" "instruction_choice op (proxy_of op) = Some (t, uses_source)" "mutating_effect (next_step t)"
  shows "good_step op (set_target_of (tg_kind t) (tg_key t) (\<lambda>row. row\<lparr>effect_delivered_at := Some now, effect_ambiguous := True\<rparr>) op)"
    (is "good_step op (set_target_of _ _ ?f op)")
proof (cases "op_inv op")
  case False
  then show ?thesis by (simp add: good_step_def)
next
  case inv: True
  note shape = op_inv_shape [OF inv]
  have act: "active_state (op_state op)" using assms(1) by (simp add: active_state_def)
  have static: "target_static (?f u) = target_static u" for u by (simp add: target_static_def)
  show ?thesis
  proof (cases "\<not> tg_complete (proxy_of op) \<and> (\<not> restore_engine_slots_before_proxy op \<or> pending_slot op = None)")
    case True
    then have t: "t = proxy_of op" using assms(2) by (simp add: instruction_choice_def Let_def)
    have key: "tg_kind t = Proxy_Target" "tg_key t = ''proxy''"
      using shape t by (auto simp: shape_of_def proxy_static_def split: list.splits)
    show ?thesis
      unfolding key by (rule proxy_good [OF act])
        (use assms(3) t in \<open>simp_all add: target_static_def forward_proxy_def restoring_proxy_def step_flag_def\<close>)
  next
    case False
    then have pending: "pending_slot op = Some t"
      using assms(2) by (auto simp: instruction_choice_def Let_def split: option.splits if_splits)
    then have first: "find (\<lambda>t. \<not> tg_complete t) (slots_of op) = Some t"
      by (simp add: pending_slot_def shape_targets(2) [OF shape])
    have key: "tg_kind t = EngineSlot_Target"
      using find_SomeD [OF first] shape by (auto simp: shape_of_def list_all_iff slot_static_def split: list.splits)
    consider (forward) "op_phase op = Forward_Phase" | (restoring) "op_phase op = RestoringSource"
      using active_not_complete [OF inv act] inv by (cases "op_phase op") (auto simp: op_inv_def)
    then show ?thesis
    proof cases
      case forward
      then have proxy: "tg_complete (proxy_of op)" using False pending by (simp add: restore_engine_slots_before_proxy_def)
      show ?thesis
        unfolding key by (rule forward_slot_good [OF forward proxy first], rule static)
          (use assms(3) in \<open>cases "next_step t"; simp add: forward_slot_def step_flag_def on_path_def mutating_effect_def proving_source_def\<close>)
    next
      case restoring
      show ?thesis
        unfolding key by (rule restoring_slot_good [OF restoring first], rule static) (simp add: restoring_slot_def step_flag_def)
    qed
  qed
qed

lemma deliver_step:
  assumes "db_inv db" "op \<in> set (db_operations db)" "op_state op = Op_Running"
    "instruction_choice op (proxy_of op) = Some (t, uses_source)"
    "deliver env node agent_instance agent op t uses_source db = Inr (r, db')"
  shows "db_step db db'"
proof -
  let ?f = "set_target_of (tg_kind t) (tg_key t) (\<lambda>row. row\<lparr>effect_delivered_at := Some (oe_now env), effect_ambiguous := True\<rparr>)"
  from assms(5) have "db_operations db' = db_operations (if mutating_effect (next_step t) \<and> \<not> needs_inspection t
      then set_op (operation_id op) ?f db else db)"
    by (auto simp: deliver_def Let_def split: if_splits)
  then show ?thesis
    using db_step_set_op [OF assms(1,2), of ?f] mark_delivered_good [OF assms(3,4)] db_step_same [OF assms(1)]
    by (auto split: if_splits)
qed

lemma commit_step: "db_inv db \<Longrightarrow> (\<And>v db'. r = Inr (v, db') \<Longrightarrow> db_step db db') \<Longrightarrow> db_step db (snd (commit r db))"
  by (auto simp: commit_def db_step_same split: sum.splits)

lemma claim_leased_step:
  assumes "db_inv db" "claim_leased env node agent_instance agent oid db = Inr (r, db')"
  shows "db_step db db'"
proof -
  from assms(2) obtain db1 op where db1: "reconcile env oid agent db = Inr db1" and op: "load_operation db1 oid = Inr op"
    and rest: "(if op_state op \<noteq> Op_Running then Inr (None, db1)
      else and_then (proxy_target op) (\<lambda>proxy. case instruction_choice op proxy of None \<Rightarrow> Inr (None, db1)
        | Some (t, uses_source) \<Rightarrow> deliver env node agent_instance agent op t uses_source db1)) = Inr (r, db')"
    by (auto simp: claim_leased_def)
  have step: "db_step db db1" by (rule reconcile_step [OF assms(1) db1])
  have inv: "db_inv db1" by (rule db_step_inv [OF assms(1) step])
  have row: "op \<in> set (db_operations db1)" using load_operation_row [OF op] by simp
  note shape = shape_targets(3) [OF op_inv_shape [OF db_inv_row [OF inv row]]]
  have "db_step db1 db'"
    using rest deliver_step [OF inv row] db_step_same [OF inv refl] by (auto simp: shape split: if_splits option.splits)
  with step show ?thesis by (rule db_step_trans)
qed

lemma claim_step:
  assumes "db_inv db"
  shows "db_step db (snd (claim env node agent_instance agent db))"
  unfolding claim_def Let_def
proof (rule commit_step [OF assms])
  fix r db'
  let ?db1 = "expire_leases (oe_now env) node db"
  assume run: "(if agent_instance = [] then Inl (Op_Invalid ''agent_instance_id is required'')
    else if \<not> agent_attested (oe_now env) node agent_instance agent db
    then Inl (Op_Precondition ''fresh authenticated node-agent attestation is required'')
    else case min_by_key op_created_at (filter (op_claimable (oe_now env) node agent_instance) (db_operations ?db1)) of
        None \<Rightarrow> Inr (None, ?db1)
      | Some op \<Rightarrow>
          if op_phase op = Forward_Phase \<and> deadline_expired (oe_now env) op
          then and_then (enter_restoration (operation_id op) ''manager'' Op_Failed ''FORWARD_DEADLINE_EXPIRED''
            ''forward deadline expired; forward execution is permanently fenced'' ?db1) (\<lambda>db2. Inr (None, db2))
          else claim_leased env node agent_instance agent (operation_id op)
            (set_op (operation_id op) (take_lease (oe_now env) agent_instance agent) ?db1)) = Inr (r, db')"
  have step: "db_step db ?db1" by (rule expire_leases_step [OF assms])
  have inv: "db_inv ?db1" by (rule db_step_inv [OF assms step])
  have "db_step ?db1 db'"
  proof (cases "min_by_key op_created_at (filter (op_claimable (oe_now env) node agent_instance) (db_operations ?db1))")
    case None
    then show ?thesis using run db_step_same [OF inv refl] by (auto split: if_splits)
  next
    case (Some op)
    from min_by_key_in [OF Some] have op: "op \<in> set (db_operations ?db1)" "op_state op = Op_Queued \<or> op_state op = Op_Running"
      by (auto simp: op_claimable_def)
    let ?db2 = "set_op (operation_id op) (take_lease (oe_now env) agent_instance agent) ?db1"
    have leased: "db_step ?db1 ?db2"
      by (rule db_step_set_op [OF inv op(1) _ refl]) (rule take_lease_good [OF op(2)])
    show ?thesis
      using run Some enter_restoration_step [OF inv] claim_leased_step [OF db_step_inv [OF inv leased]] db_step_trans [OF leased]
      by (auto split: if_splits)
  qed
  with step show "db_step db db'" by (rule db_step_trans)
qed

end
