(* ===== verification/Operation_Steps.thy ===== *)
theory Operation_Steps
  imports Rollout_Steps
begin

text \<open>
  The calls of \<open>Operation_Api\<close> and \<open>Operation_Submit\<close> as steps of the operation rows: every call moves every row by
  a step of \<open>Rollout_Invariant\<close>, a submission may add one row that satisfies its invariant. With a machine
  of all calls, in any order and with any change of the other tables between them, the invariant holds of
  every row ever stored.
\<close>

section \<open>Calls on a claimed operation\<close>

lemma holds_lease_row:
  "find (\<lambda>op. holds_lease now oid node e agent ai op \<and> P op) rows = Some op \<Longrightarrow>
    op \<in> set rows \<and> operation_id op = oid \<and> op_state op = Op_Running \<and> holds_lease now oid node e agent ai op"
  by (drule find_SomeD) (simp add: holds_lease_def)

lemma fence_deadline_step:
  assumes "db_inv db" "db_step db (snd r)"
  shows "db_step db (snd (fence_deadline env op db r))"
  using assms enter_restoration_step [OF assms(1)] db_step_same [OF assms(1) refl]
  by (auto simp: fence_deadline_def split: sum.splits)

lemma renew_step:
  assumes "db_inv db"
  shows "db_step db (snd (renew env node s e ai agent db))"
proof -
  have "db_step db (snd (fence_deadline env op db (Inr x, set_op (operation_id op) (\<lambda>row. row\<lparr>op_lease_expires_at := Some x\<rparr>) db)))"
    if "op \<in> set (db_operations db)" "op_state op = Op_Running" for op x
    by (rule fence_deadline_step [OF assms])
      (use db_step_set_op [OF assms that(1), of "\<lambda>row. row\<lparr>op_lease_expires_at := Some x\<rparr>"] renew_row_good [OF that(2)] in simp)
  moreover have "op \<in> set (db_operations db) \<and> op_state op = Op_Running"
    if "and_then (parse_operation_id env s) (\<lambda>oid. and_then (i64_of ''lease epoch is too large'' e) (\<lambda>e.
       ok_or (Op_Aborted ''operation lease is stale, expired, or activation-mismatched'')
         (find (holds_lease (oe_now env) oid node e agent ai) (db_operations db)))) = Inr op" for op
    using that by (auto simp: holds_lease_def dest!: find_SomeD)
  ultimately show ?thesis
    using db_step_same [OF assms refl] by (simp add: renew_def Let_def split: sum.split)
qed

lemma resume_step:
  assumes "db_inv db"
  shows "db_step db (snd (resume env s actor db))"
  unfolding resume_def
proof (rule commit_step [OF assms])
  let ?f = "\<lambda>row. row\<lparr>op_state := Op_Queued, op_lease_expires_at := None, op_claimed_by := None,
         op_agent_instance_id := None, failure_code := [], failure_detail := []\<rparr>"
  fix v db'
  assume "and_then (parse_operation_id env s) (\<lambda>oid.
    and_then (ok_or (Op_Precondition ''operation must be paused'')
      (find (\<lambda>op. operation_id op = oid \<and> op_state op = Op_Paused) (db_operations db))) (\<lambda>op.
    let db' = append_event oid actor ''OPERATION_RESUMED'' ''fresh activation and epoch required'' (op_lease_epoch op)
      (set_op oid ?f db) in and_then (load_operation db' oid) (\<lambda>row. Inr (row, db')))) = Inr (v, db')"
  then obtain oid op where op: "find (\<lambda>op. operation_id op = oid \<and> op_state op = Op_Paused) (db_operations db) = Some op"
    and db': "db_operations db' = db_operations (set_op oid ?f db)"
    by (auto simp: Let_def ok_or_def split: option.splits)
  from find_SomeD [OF op] have "op \<in> set (db_operations db)" "operation_id op = oid" "op_state op = Op_Paused" by auto
  then show "db_step db db'"
    using db_step_set_op [OF assms, of op ?f db'] resume_row_good [of op] db' by simp
qed

lemma cancel_step:
  assumes "db_inv db"
  shows "db_step db (snd (cancel env s actor db))"
  unfolding cancel_def by (rule commit_step [OF assms]) (auto intro: enter_restoration_step [OF assms])

lemma finish_report_step:
  "db_inv db \<Longrightarrow> finish_report env oid agent db = Inr (v, db') \<Longrightarrow> db_step db db'"
  by (auto simp: finish_report_def intro: reconcile_step)

lemma report_observation_step:
  assumes "db_inv db"
  shows "db_step db (snd (report_observation env request agent db))"
proof -
  have other: "db_step db db'" if "db_operations db0 = db_operations db" "finish_report env oid agent db0 = Inr (v, db')" for db0 db' oid v
  proof -
    have "db_inv db0" using assms that(1) by (simp add: db_inv_def unique_ids_def)
    from finish_report_step [OF this that(2)] that(1) show ?thesis by (simp add: db_step_def)
  qed
  have "db_step db (snd (fence_deadline env op db (commit (finish_report env oid agent db0) db)))"
    if "db_operations db0 = db_operations db" for op oid db0
    by (rule fence_deadline_step [OF assms]) (rule commit_step [OF assms], rule other [OF that])
  then show ?thesis
    using db_step_same [OF assms refl] by (auto simp: report_observation_def Let_def split: sum.splits)
qed

section \<open>Results\<close>

lemma advance_proxy_good:
  assumes "active_state (op_state op)" "next_step (proxy_of op) = rs_step request" "next_proxy_step (rs_step request) = Some next"
    "\<not> tg_complete (proxy_of op)"
  shows "good_step op (set_target_of Proxy_Target ''proxy'' (advance_proxy request next) op)"
proof (rule proxy_good [OF assms(1)])
  assume "forward_proxy (proxy_of op)"
  then show "forward_proxy (advance_proxy request next (proxy_of op))"
    using assms(2,3) by (cases "rs_step request") (auto simp: forward_proxy_def advance_proxy_def step_flag_def)
next
  assume "restoring_proxy (proxy_of op)"
  then show "restoring_proxy (advance_proxy request next (proxy_of op))"
    using assms(2-4) by (cases "rs_step request") (auto simp: restoring_proxy_def advance_proxy_def step_flag_def)
qed (use assms(4) in \<open>simp_all add: advance_proxy_def target_static_def\<close>)

lemma proxy_pending:
  assumes "shape_of (op_targets op)"
    "find (\<lambda>t. tg_kind t = Proxy_Target \<and> tg_key t = ''proxy'' \<and> \<not> tg_complete t) (op_targets op) = Some t"
  shows "t = proxy_of op \<and> \<not> tg_complete t"
proof -
  from assms(1) obtain p ss where ts: "op_targets op = p # ss" "proxy_static p" "list_all slot_static ss"
    by (auto simp: shape_of_def split: list.splits)
  have "find (\<lambda>t. tg_kind t = Proxy_Target \<and> tg_key t = ''proxy'' \<and> \<not> tg_complete t) ss = None"
    using ts(3) by (auto simp: find_None_iff list_all_iff slot_static_def)
  then show ?thesis using assms(2) ts by (auto split: if_splits)
qed

lemma report_proxy_step:
  assumes "db_inv db" "op \<in> set (db_operations db)" "op_state op = Op_Running" "operation_id op = oid"
    "report_proxy env oid request agent op db = Inr db'"
  shows "db_step db db'"
proof -
  have act: "active_state (op_state op)" using assms(3) by (simp add: active_state_def)
  from assms(5) obtain t where t: "find (\<lambda>t. tg_kind t = Proxy_Target \<and> tg_key t = ''proxy'' \<and> \<not> tg_complete t) (op_targets op) = Some t"
    and step: "next_step t = rs_step request"
    by (auto simp: report_proxy_def ok_or_def split: option.splits if_splits)
  from proxy_pending [OF op_inv_shape [OF db_inv_row [OF assms(1,2)]] t]
  have proxy: "t = proxy_of op" "\<not> tg_complete (proxy_of op)" by auto
  obtain c d where cd: "proxy_condition request t = (c, d)" by (cases "proxy_condition request t")
  show ?thesis
  proof (cases "c = []")
    case False
    let ?f = "\<lambda>row. pause_row c d (set_target_of Proxy_Target ''proxy'' (\<lambda>t. t\<lparr>effect_condition_code := c, effect_detail := d\<rparr>) row)"
    from False assms(5) t step cd have "db' = set_op oid ?f db" by (auto simp: report_proxy_def ok_or_def split: if_splits)
    then show ?thesis
      using db_step_set_op [OF assms(1,2), of ?f db'] pause_target_good [OF neutral_effect_condition act] assms(4) by simp
  next
    case True
    with assms(5) t step cd obtain nx where nx: "next_proxy_step (rs_step request) = Some nx"
      and rec: "reconcile env oid agent (set_op oid (set_target_of Proxy_Target ''proxy'' (advance_proxy request nx)) db) = Inr db'"
      by (auto simp: report_proxy_def ok_or_def split: if_splits option.splits)
    let ?db1 = "set_op oid (set_target_of Proxy_Target ''proxy'' (advance_proxy request nx)) db"
    have adv: "db_step db ?db1"
      using db_step_set_op [OF assms(1,2), of "set_target_of Proxy_Target ''proxy'' (advance_proxy request nx)" ?db1]
        advance_proxy_good [OF act _ nx proxy(2)] step proxy(1) assms(4) by simp
    from reconcile_step [OF db_step_inv [OF assms(1) adv] rec] adv show ?thesis by (rule db_step_trans [rotated])
  qed
qed

lemma report_slot_start:
  assumes "db_inv db" "op \<in> set (db_operations db)" "op_state op = Op_Running" "operation_id op = oid"
    "report_slot env oid slot request agent op db = Inr db'"
  shows "\<exists>c db1 db2. db1 = set_slot oid slot (report_slot_effect request c) db \<and>
    (db2 = db1 \<or> db2 = set_op oid (set_target_of Proxy_Target ''proxy'' (\<lambda>p. p\<lparr>pinned_process_instance_id :=
       (if pinned_process_instance_id p = [] then rs_process_instance_id request else pinned_process_instance_id p)\<rparr>)) db1) \<and>
    db_step db db2 \<and> db_inv db2 \<and>
    reconcile env oid agent (append_event oid agent ''EFFECT_REPORTED'' (slot @ '':'' @ step_name (rs_step request))
      (rs_lease_epoch request) db2) = Inr db'"
proof -
  have act: "active_state (op_state op)" using assms(3) by (simp add: active_state_def)
  have phase: "op_phase op \<noteq> Complete_Phase" by (rule active_not_complete [OF db_inv_row [OF assms(1,2)] act])
  let ?pin = "\<lambda>p. p\<lparr>pinned_process_instance_id := (if pinned_process_instance_id p = [] then rs_process_instance_id request
    else pinned_process_instance_id p)\<rparr>"
  from assms(5) obtain t where step: "next_step t = rs_step request"
    and t: "find (\<lambda>t. tg_kind t = EngineSlot_Target \<and> tg_key t = slot \<and> \<not> tg_complete t) (op_targets op) = Some t"
    by (auto simp: report_slot_def ok_or_def split: option.splits if_splits)
  obtain c where c: "c = slot_condition request t (case proxy_target op of Inl _ \<Rightarrow> [] | Inr p \<Rightarrow> pinned_process_instance_id p)"
    by simp
  define db1 where "db1 = set_slot oid slot (report_slot_effect request c) db"
  define db2 where "db2 = (if rs_step request = VerifyProxy \<and> fst c = [] then set_op oid (set_target_of Proxy_Target ''proxy'' ?pin) db1 else db1)"
  from assms(5) t step have rec: "reconcile env oid agent (append_event oid agent ''EFFECT_REPORTED'' (slot @ '':'' @ step_name (rs_step request))
      (rs_lease_epoch request) db2) = Inr db'"
    unfolding db1_def db2_def c by (auto simp: report_slot_def ok_or_def Let_def)
  have s1: "db_step db db1"
    using db_step_set_slot [OF assms(1,2) neutral_good [OF neutral_report phase], of db1 slot request c] assms(4) by (simp add: db1_def)
  let ?op1 = "set_target_of EngineSlot_Target slot (report_slot_effect request c) op"
  have inv1: "db_inv db1" by (rule db_step_inv [OF assms(1) s1])
  have row1: "?op1 \<in> set (db_operations db1)" using assms(2,4) by (force simp: db1_def)
  have pin: "good_step ?op1 (set_target_of Proxy_Target ''proxy'' ?pin ?op1)"
    by (rule proxy_good) (use act in \<open>simp_all add: target_static_def forward_proxy_def restoring_proxy_def step_flag_def\<close>)
  have s2: "db_step db1 db2"
    using db_step_set_op [OF inv1 row1, of "set_target_of Proxy_Target ''proxy'' ?pin" db2] pin db_step_same [OF inv1 refl] assms(4)
    by (auto simp: db2_def)
  have inv2: "db_inv db2" by (rule db_step_inv [OF inv1 s2])
  have "db2 = db1 \<or> db2 = set_op oid (set_target_of Proxy_Target ''proxy'' ?pin) db1" by (auto simp: db2_def)
  with db_step_trans [OF s1 s2] inv2 rec show ?thesis unfolding db1_def by blast
qed

lemma report_slot_step:
  assumes "db_inv db" "op \<in> set (db_operations db)" "op_state op = Op_Running" "operation_id op = oid"
    "report_slot env oid slot request agent op db = Inr db'"
  shows "db_step db db'"
proof -
  from report_slot_start [OF assms] obtain db2 where step: "db_step db db2" and inv: "db_inv db2"
    and rec: "reconcile env oid agent (append_event oid agent ''EFFECT_REPORTED'' (slot @ '':'' @ step_name (rs_step request))
      (rs_lease_epoch request) db2) = Inr db'" by blast
  let ?db3 = "append_event oid agent ''EFFECT_REPORTED'' (slot @ '':'' @ step_name (rs_step request)) (rs_lease_epoch request) db2"
  have s3: "db_step db2 ?db3" by (rule db_step_same [OF inv]) simp
  show ?thesis
    using db_step_trans [OF step db_step_trans [OF s3 reconcile_step [OF db_step_inv [OF inv s3] rec]]] .
qed

lemma apply_report_step:
  assumes "db_inv db" "op \<in> set (db_operations db)" "op_state op = Op_Running" "operation_id op = oid"
    "apply_report env oid kind key request agent op db = Inr (v, db')"
  shows "db_step db db'"
proof -
  from assms(5) obtain db1 where run: "(if kind = Proxy_Target then report_proxy env oid request agent op db
      else report_slot env oid key request agent op db) = Inr db1" and "db' = put_receipt oid kind key request agent db1"
    by (auto simp: apply_report_def Let_def)
  moreover have "db_step db db1"
    using run report_proxy_step [OF assms(1-4)] report_slot_step [OF assms(1-4)] by (auto split: if_splits)
  ultimately show ?thesis by (simp add: db_step_def)
qed

lemma report_step_step:
  assumes "db_inv db"
  shows "db_step db (snd (report_step env request agent db))"
proof -
  have "db_step db (snd (fence_deadline env op db (commit (apply_report env oid kind key request agent op db) db)))"
    if "op \<in> set (db_operations db)" "op_state op = Op_Running" "operation_id op = oid" for op oid kind key
    by (rule fence_deadline_step [OF assms], rule commit_step [OF assms], rule apply_report_step [OF assms that])
  then show ?thesis
    using db_step_same [OF assms refl]
    by (auto simp: report_step_def dest!: holds_lease_row split: sum.splits option.splits)
qed

section \<open>Submission\<close>

lemma slot_target_static:
  "tg_kind (slot_target a s t i slot) = EngineSlot_Target" "tg_key (slot_target a s t i slot) = slot"
  "rollout_order (slot_target a s t i slot) = i" "tg_transition (slot_target a s t i slot) = slot_transition a s t slot"
  "source_revision (slot_target a s t i slot) = fst (side_triple s slot)"
  "target_revision (slot_target a s t i slot) = fst (side_triple t slot)"
  by (simp_all add: slot_target_def new_target_def Let_def split: prod.splits)

lemma slot_target_untouched: "untouched (slot_target a s t i slot)"
  by (cases "slot_transition a s t slot")
    (simp_all add: slot_target_def new_target_def untouched_def first_forward_step_def Let_def split: prod.splits)

text \<open>A row that nothing touched yet is where its transition starts.\<close>

lemma untouched_forward:
  assumes "untouched t" "slot_static t" "tg_complete t \<longrightarrow> next_step t = Unspecified_Step"
  shows "forward_slot t"
  using assms by (cases "tg_transition t")
    (auto simp: untouched_def slot_static_def transition_ok_def first_forward_step_def forward_slot_def step_flag_def on_path_def
       proving_source_def)

lemma slot_target_complete: "tg_complete (slot_target a s t i slot) \<longrightarrow> next_step (slot_target a s t i slot) = Unspecified_Step"
  by (simp add: slot_target_def new_target_def Let_def split: prod.splits)

lemma side_triple_nonneg: "fst (side_triple s slot) \<ge> 0"
  by (cases s) (simp add: side_triple_def)

lemma slot_target_transition:
  assumes "a \<noteq> Restart_Action \<or> fst (side_triple s slot) > 0 \<and> fst (side_triple s slot) = fst (side_triple t slot)"
  shows "transition_ok (slot_target a s t i slot)"
proof -
  obtain x y z where st: "side_triple s slot = (x, y, z)" by (cases "side_triple s slot")
  obtain x' y' z' where tt: "side_triple t slot = (x', y', z')" by (cases "side_triple t slot")
  have "x \<ge> 0" "x' \<ge> 0" using side_triple_nonneg [of s slot] side_triple_nonneg [of t slot] st tt by auto
  then show ?thesis
    using assms st tt by (auto simp: transition_ok_def slot_target_static slot_transition_def derive_transition_def)
qed

lemma new_targets_shape:
  assumes "proxy_static p" "sorted_wrt (<) (map rollout_order ss)" "distinct (map tg_key ss)" "list_all transition_ok ss"
    "\<forall>t \<in> set ss. tg_kind t = EngineSlot_Target \<and> tg_key t \<noteq> [] \<and> tg_key t \<noteq> ''proxy''"
  shows "shape_of (p # ss)"
  using assms by (simp add: shape_of_def list_all_iff slot_static_def)

lemma enumerated_slots:
  assumes "distinct slots" "\<And>i s. rollout_order (f i s) = i" "\<And>i s. tg_key (f i s) = s"
  shows "sorted_wrt (<) (map rollout_order (map (\<lambda>(i, s). f i s) (enumerate 0 slots)))"
    "distinct (map tg_key (map (\<lambda>(i, s). f i s) (enumerate 0 slots)))"
proof -
  have "map rollout_order (map (\<lambda>(i, s). f i s) xs) = map fst xs" "map tg_key (map (\<lambda>(i, s). f i s) xs) = map snd xs" for xs
    using assms(2,3) by (induction xs) auto
  from this [of "enumerate 0 slots"]
  show "sorted_wrt (<) (map rollout_order (map (\<lambda>(i, s). f i s) (enumerate 0 slots)))"
    "distinct (map tg_key (map (\<lambda>(i, s). f i s) (enumerate 0 slots)))"
    using assms(1) by (simp_all del: map_map)
qed

lemma distinct_sorted_dedup: "distinct (remdups_adj (sort (xs :: 'a :: linorder list)))"
proof -
  have "distinct (remdups_adj ys)" if "sorted ys" for ys :: "'a list"
    using that by (induction ys rule: remdups_adj.induct) (auto simp: order_le_less)
  then show ?thesis by simp
qed

lemma distinct_rollout_slots: "distinct (rollout_slots a s t xs)"
  by (simp add: rollout_slots_def distinct_sorted_dedup)

definition token_of :: "op_row \<Rightarrow> string \<times> string" where
  "token_of op = (op_actor op, so_request_token (request_payload op))"

lemma insert_operation_Inr:
  "insert_operation taken op db = Inr db' \<Longrightarrow> db_operations db' = db_operations db @ [op] \<and>
    (\<forall>row \<in> set (db_operations db). operation_id row \<noteq> operation_id op \<and> token_of row \<noteq> token_of op \<and>
       \<not> (op_node_id row = op_node_id op \<and> active_state (op_state row) \<and> active_state (op_state op))) \<and>
    (\<forall>t \<in> set (op_targets op). tg_kind t = EngineSlot_Target \<longrightarrow> tg_key t \<noteq> [] \<and> tg_key t \<noteq> ''proxy'')"
  by (auto simp: insert_operation_def list_ex_iff token_of_def split: if_splits)

text \<open>What a submission may do to the operations: nothing, or add one row.\<close>

definition adds_row :: "ops_db \<Rightarrow> ops_db \<Rightarrow> bool" where
  "adds_row db db' \<longleftrightarrow> db_operations db' = db_operations db \<or>
    (\<exists>op. db_operations db' = db_operations db @ [op] \<and> op_inv op \<and>
      (\<forall>row \<in> set (db_operations db). operation_id row \<noteq> operation_id op \<and> token_of row \<noteq> token_of op \<and>
         \<not> (op_node_id row = op_node_id op \<and> active_state (op_state row) \<and> active_state (op_state op))))"

lemma find_last: "(\<And>x. x \<in> set xs \<Longrightarrow> \<not> P x) \<Longrightarrow> P y \<Longrightarrow> find P (xs @ [y]) = Some y"
  by (induction xs) auto

lemma inserted_row:
  assumes "insert_operation taken op db = Inr db1" "db_operations db2 = db_operations db1" "db_operations db0 = db_operations db"
    "load_operation db2 (operation_id op) = Inr row" "operation_from_row op = Inr op \<Longrightarrow> op_inv op"
  shows "adds_row db0 db2"
proof -
  note ins = insert_operation_Inr [OF assms(1)]
  have "find (\<lambda>r. operation_id r = operation_id op) (db_operations db @ [op]) = Some op"
    by (rule find_last) (use ins in auto)
  with assms(2,4) ins have "operation_from_row op = Inr row" by (simp add: load_operation_def)
  with operation_from_row_same have "operation_from_row op = Inr op" by blast
  from assms(5) [OF this] ins assms(2,3) show ?thesis by (auto simp: adds_row_def)
qed

lemma try_map_member: "try_map f xs = Inr ys \<Longrightarrow> x \<in> set xs \<Longrightarrow> \<exists>y. f x = Inr y"
  unfolding try_map_Inr by (induction xs ys rule: list_all2_induct) auto

lemma validated_slot:
  assumes "operation_from_row op = Inr op" "t \<in> set (op_targets op)" "tg_kind t = EngineSlot_Target" "op_action op = Restart_Action"
  shows "source_revision t > 0 \<and> source_revision t = target_revision t"
proof -
  from assms(1,4) obtain us where "try_map (validate_stored_transition Restart_Action) (operation_slots op) = Inr us"
    by (auto simp: operation_from_row_def)
  then have "\<exists>u. validate_stored_transition Restart_Action t = Inr u"
    by (rule try_map_member) (simp add: operation_slots_def assms(2,3))
  then show ?thesis by (auto simp: validate_stored_transition_def Let_def split: if_splits)
qed

lemma effective_operation_inv:
  assumes "operation_from_row (effective_operation env actor request policy source oid rd target) =
      Inr (effective_operation env actor request policy source oid rd target)"
    "\<forall>t \<in> set (op_targets (effective_operation env actor request policy source oid rd target)).
       tg_kind t = EngineSlot_Target \<longrightarrow> tg_key t \<noteq> [] \<and> tg_key t \<noteq> ''proxy''"
  shows "op_inv (effective_operation env actor request policy source oid rd target)"
proof -
  obtain srev sdig sres sslots where source: "source = (srev, sdig, sres, sslots)" by (cases source)
  define ordered where "ordered = operation_slots_in_order request source target"
  define slots where "slots = map (\<lambda>(i, s). slot_target (so_action request) source target i s) (enumerate 0 ordered)"
  define op where "op = effective_operation env actor request policy source oid rd target"
  obtain proxy where targets: "op_targets op = proxy # slots" and proxy: "proxy_static proxy" "forward_proxy proxy"
    by (simp add: op_def effective_operation_def source Let_def new_operation_def slots_def ordered_def new_target_def
      proxy_static_def forward_proxy_def step_flag_def)
  have fields: "op_phase op = Forward_Phase" "op_state op = Op_Queued"
      "\<not> forward_fenced op" "\<not> committed op" "op_action op = so_action request" "lease_inv op"
    by (simp_all add: op_def effective_operation_def source Let_def new_operation_def lease_inv_def)
  have keys: "\<forall>t \<in> set slots. tg_kind t = EngineSlot_Target \<and> tg_key t \<noteq> [] \<and> tg_key t \<noteq> ''proxy''"
    using assms(2) targets unfolding op_def [symmetric] by (auto simp: slots_def slot_target_static)
  have trans: "list_all transition_ok slots"
    unfolding list_all_iff
  proof
    fix t assume t: "t \<in> set slots"
    then obtain i slot where slot: "t = slot_target (so_action request) source target i slot" by (auto simp: slots_def)
    show "transition_ok t"
      using validated_slot [OF assms(1) [folded op_def], of t] t targets fields(5) unfolding slot
      by (intro slot_target_transition) (auto simp: slot_target_static)
  qed
  have "distinct ordered" unfolding ordered_def operation_slots_in_order_def by (simp add: distinct_rollout_slots split: prod.split)
  note order = enumerated_slots [OF this, of "slot_target (so_action request) source target", unfolded slot_target_static, OF refl refl]
  have shape: "shape_of (proxy # slots)"
    by (rule new_targets_shape [OF proxy(1) _ _ trans keys]) (use order in \<open>simp_all only: slots_def\<close>)
  then have static: "list_all slot_static slots" by (simp add: shape_of_def)
  have unt: "list_all untouched slots" by (auto simp: slots_def list_all_iff slot_target_untouched)
  moreover have "list_all forward_slot slots"
    unfolding list_all_iff
  proof
    fix t assume t: "t \<in> set slots"
    then have "tg_complete t \<longrightarrow> next_step t = Unspecified_Step" by (auto simp: slots_def slot_target_complete)
    with t static unt show "forward_slot t" by (auto simp: list_all_iff intro: untouched_forward)
  qed
  moreover have "sequential slots" by (rule untouched_sequential [OF unt])
  ultimately show ?thesis
    unfolding op_def [symmetric] using shape proxy fields targets by (simp add: op_inv_def forward_targets_def active_state_def)
qed

lemma submit_effective_row:
  assumes "submit_effective env actor request policy source oid rd target db = Inr (row, db')" "db_operations db0 = db_operations db"
  shows "adds_row db0 db'"
proof -
  define op where "op = effective_operation env actor request policy source oid rd target"
  from assms(1) obtain taken db1 where ins: "insert_operation taken op (stage_operation request oid db) = Inr db1"
    and db: "db_operations db' = db_operations db1" and load: "load_operation db' oid = Inr row"
    unfolding submit_effective_def op_def by (auto simp: Let_def split: if_splits prod.splits)
  have "operation_id op = oid" by (simp add: op_def effective_operation_def new_operation_def Let_def split: prod.splits)
  moreover have "op_inv op" if "operation_from_row op = Inr op"
    using effective_operation_inv insert_operation_Inr [OF ins] that unfolding op_def by blast
  ultimately show ?thesis
    using inserted_row [OF ins db] load assms(2) by (simp add: stage_operation_def Let_def)
qed

text \<open>A submission of the committed revision stores an operation that is complete at once.\<close>

lemma no_effect_row:
  assumes "no_effect_operation env actor request policy source slots digests db = Inr (row, db')" "db_operations db0 = db_operations db"
    "so_action request = Deployment_Action"
  shows "adds_row db0 db'"
proof -
  from assms(1) obtain d where found: "find (\<lambda>d. dp_node_id d = so_node_id request \<and> dp_revision d = source \<and> dp_state d = Dep_Succeeded)
      (cl_deployments (db_cluster db)) = Some d" by (auto simp: no_effect_operation_def ok_or_def split: option.splits)
  define triple where "triple = (source, dp_bundle_digest d, dp_resolved_release_digest d)"
  define target where "target = (\<lambda>order slot. (new_target EngineSlot_Target slot Unspecified_Step triple triple)
    \<lparr>rollout_order := order, authoritative_revision := source, serving_converged := True, tg_transition := Unchanged\<rparr>)"
  define ss where "ss = map (\<lambda>(order, slot). target order slot) (enumerate 0 (remdups_adj (sort slots)))"
  define proxy where "proxy = new_target Proxy_Target ''proxy'' Unspecified_Step triple triple"
  define op where "op = (new_operation env (oe_new_uuid env) actor request policy source (proxy # ss))
    \<lparr>op_state := Op_Succeeded, op_phase := Complete_Phase, op_target_revision := source,
     target_revision_digest := Some (dp_revision_digest d), committed := True\<rparr>"
  from assms(1) found obtain db1 where ins: "insert_operation (Op_Internal ''database unique constraint violated'') op db = Inr db1"
    and db: "db_operations db' = db_operations db1" and load: "load_operation db' (oe_new_uuid env) = Inr row"
    unfolding no_effect_operation_def op_def proxy_def ss_def target_def triple_def by (auto simp: Let_def split: if_splits)
  have fields: "operation_id op = oe_new_uuid env" "op_targets op = proxy # ss" "op_phase op = Complete_Phase" "op_state op = Op_Succeeded"
      "committed op" "op_action op = Deployment_Action" "lease_inv op"
    using assms(3) by (simp_all add: op_def new_operation_def lease_inv_def)
  have target: "tg_kind (target i s) = EngineSlot_Target" "tg_key (target i s) = s" "rollout_order (target i s) = i"
      "transition_ok (target i s)" "forward_slot (target i s)" "tg_complete (target i s)" for i s
    by (simp_all add: target_def new_target_def triple_def transition_ok_def forward_slot_def step_flag_def on_path_def)
  have keys: "\<forall>t \<in> set ss. tg_kind t = EngineSlot_Target \<and> tg_key t \<noteq> [] \<and> tg_key t \<noteq> ''proxy''"
    using insert_operation_Inr [OF ins] fields(2) by (auto simp: ss_def target)
  have trans: "list_all transition_ok ss" by (auto simp: ss_def list_all_iff target)
  have "proxy_static proxy" by (simp add: proxy_def new_target_def proxy_static_def triple_def)
  then have "shape_of (proxy # ss)"
    by (rule new_targets_shape [OF _ _ _ trans keys])
      (use enumerated_slots [OF distinct_sorted_dedup, of target, OF target(3,2)] in \<open>simp_all only: ss_def\<close>)
  moreover have "list_all forward_slot ss" "list_all tg_complete (proxy # ss)"
    by (auto simp: ss_def list_all_iff target proxy_def new_target_def triple_def)
  ultimately have "op_inv op" using fields by (simp add: op_inv_def)
  then show ?thesis using inserted_row [OF ins db assms(2)] load fields(1) by simp
qed

lemma submit_adds_row: "adds_row db (snd (submit env actor request db))"
proof -
  have "adds_row db db'" if "and_then (load_operation db1 oid) (\<lambda>row. Inr (row, db1)) = Inr (v, db')" "db_operations db1 = db_operations db"
    for db1 oid v db'
    using that by (auto simp: adds_row_def)
  moreover have "adds_row db db" by (simp add: adds_row_def)
  ultimately show ?thesis
    by (auto simp: submit_def commit_def Let_def intro: no_effect_row submit_effective_row split: sum.splits option.splits if_splits)
qed

section \<open>The machine\<close>

text \<open>The calls that write operations, and the effect of each on the tables.\<close>

datatype op_call =
    Submit_Call string SubmitOperationRequest
  | Claim_Call string string string
  | Renew_Call string string int string string
  | Observation_Call ReportNodeObservationRequest string
  | Result_Call ReportStepResultRequest string
  | Resume_Call string string
  | Cancel_Call string string

fun run_call :: "op_env \<Rightarrow> op_call \<Rightarrow> ops_db \<Rightarrow> ops_db" where
  "run_call env (Submit_Call actor request) db = snd (submit env actor request db)"
| "run_call env (Claim_Call node agent_instance agent) db = snd (claim env node agent_instance agent db)"
| "run_call env (Renew_Call node s epoch agent_instance agent) db = snd (renew env node s epoch agent_instance agent db)"
| "run_call env (Observation_Call request agent) db = snd (report_observation env request agent db)"
| "run_call env (Result_Call request agent) db = snd (report_step env request agent db)"
| "run_call env (Resume_Call s actor) db = snd (resume env s actor db)"
| "run_call env (Cancel_Call s actor) db = snd (cancel env s actor db)"

text \<open>
  Calls in any order, by any number of managers, operators and agents, at any time and on any clock, with any change of
  the other tables between them: only these calls write the operations and their targets.
\<close>

inductive ops_run :: "ops_db \<Rightarrow> ops_db \<Rightarrow> bool" for db :: ops_db where
  ops_start: "ops_run db db"
| ops_call: "ops_run db db' \<Longrightarrow> ops_run db (run_call env call db')"
| ops_other: "ops_run db db' \<Longrightarrow> db_operations db'' = db_operations db' \<Longrightarrow> ops_run db db''"

inductive_cases ops_run_cases: "ops_run db db'"

definition one_active :: "ops_db \<Rightarrow> bool" where
  "one_active db \<longleftrightarrow> distinct (map op_node_id (filter (\<lambda>op. active_state (op_state op)) (db_operations db)))"

text \<open>A later table: the rows of the earlier one, each moved on, and the rows added since.\<close>

definition db_later :: "ops_db \<Rightarrow> ops_db \<Rightarrow> bool" where
  "db_later db db' \<longleftrightarrow> length (db_operations db) \<le> length (db_operations db') \<and>
    list_all2 op_after (db_operations db) (take (length (db_operations db)) (db_operations db'))"

lemma op_inv_active: "op_inv op \<Longrightarrow> active_state (op_state op) \<longleftrightarrow> op_phase op \<noteq> Complete_Phase"
  by (cases "op_phase op") (auto simp: op_inv_def active_state_def)

lemma op_row_step_active: "op_inv op \<Longrightarrow> op_row_step op op' \<Longrightarrow> active_state (op_state op') \<Longrightarrow> active_state (op_state op)"
  by (auto simp: op_row_step_def op_after_def op_inv_active)

lemma run_call_effect:
  assumes "db_inv db"
  shows "db_step db (run_call env call db) \<or> adds_row db (run_call env call db)"
  by (cases call)
    (simp_all add: submit_adds_row claim_step [OF assms] renew_step [OF assms] report_observation_step [OF assms]
      report_step_step [OF assms] resume_step [OF assms] cancel_step [OF assms])

lemma db_step_one_active:
  assumes "db_inv db" "db_step db db'" "one_active db"
  shows "one_active db'"
proof -
  let ?act = "\<lambda>ops. map op_node_id (filter (\<lambda>op. active_state (op_state op)) ops)"
  have "list_all2 (\<lambda>op op'. op_inv op \<and> op_row_step op op') (db_operations db) (db_operations db')"
    using assms(1,2) by (auto simp: db_step_def db_inv_def list_all_iff list_all2_conv_all_nth)
  then have "set (?act (db_operations db')) \<subseteq> set (?act (db_operations db)) \<and>
      (distinct (?act (db_operations db)) \<longrightarrow> distinct (?act (db_operations db')))"
  proof (induction "db_operations db" "db_operations db'" arbitrary: db db' rule: list_all2_induct)
    case Nil
    then show ?case by (metis (no_types, lifting) distinct.simps(1) filter.simps(1) list.simps(8) order_refl)
  next
    case (Cons op ops op' ops')
    have "op_node_id op' = op_node_id op" using Cons.hyps(1) by (simp add: op_row_step_def op_after_def op_static_def)
    moreover have "active_state (op_state op') \<longrightarrow> active_state (op_state op)" using Cons.hyps(1) op_row_step_active by blast
    moreover note Cons.hyps(3) [of "db\<lparr>db_operations := ops\<rparr>" "db'\<lparr>db_operations := ops'\<rparr>"]
    ultimately show ?case by (auto simp: Cons.hyps(4,5) [symmetric])
  qed
  with assms(3) show ?thesis by (simp add: one_active_def)
qed

lemma adds_row_inv:
  assumes "adds_row db db'"
  shows "(db_inv db \<longrightarrow> db_inv db') \<and> (one_active db \<longrightarrow> one_active db') \<and> db_later db db'"
proof -
  have same: ?thesis if "db_operations db' = db_operations db"
    using that by (simp add: db_inv_def unique_ids_def one_active_def db_later_def list_all2_same)
  have new: ?thesis if "db_operations db' = db_operations db @ [op]" "op_inv op"
    "\<forall>row \<in> set (db_operations db). operation_id row \<noteq> operation_id op \<and> token_of row \<noteq> token_of op \<and>
         \<not> (op_node_id row = op_node_id op \<and> active_state (op_state row) \<and> active_state (op_state op))" for op
    using that by (auto simp: db_inv_def unique_ids_def one_active_def db_later_def list_all2_same)
  from assms same new show ?thesis unfolding adds_row_def by blast
qed

lemma db_step_later: "db_step db db' \<Longrightarrow> db_later db db'"
  using list_all2_lengthD [of op_row_step "db_operations db" "db_operations db'"]
  by (auto simp: db_step_def db_later_def op_row_step_def elim: list_all2_mono)

lemma db_later_refl: "db_operations db' = db_operations db \<Longrightarrow> db_later db db'"
  by (simp add: db_later_def list_all2_same)

lemma db_later_trans:
  assumes "db_later a b" "db_later b c"
  shows "db_later a c"
proof -
  let ?n = "length (db_operations a)" and ?m = "length (db_operations b)"
  have len: "?n \<le> ?m" "?m \<le> length (db_operations c)" using assms by (simp_all add: db_later_def)
  have "list_all2 op_after (take ?n (db_operations b)) (take ?n (take ?m (db_operations c)))"
    using assms(2) by (intro list_all2_takeI) (simp add: db_later_def)
  then have bc: "list_all2 op_after (take ?n (db_operations b)) (take ?n (db_operations c))" using len by (simp add: min_def)
  have "list_all2 op_after (db_operations a) (take ?n (db_operations b))" using assms(1) by (simp add: db_later_def)
  from list_all2_trans [OF op_after_trans this bc] have "list_all2 op_after (db_operations a) (take ?n (db_operations c))" .
  with len show ?thesis by (simp add: db_later_def)
qed

lemma ops_run_inv:
  assumes "ops_run db db'" "db_inv db" "one_active db"
  shows "db_inv db' \<and> one_active db' \<and> db_later db db'"
  using assms
proof (induction rule: ops_run.induct)
  case ops_start
  then show ?case by (simp add: db_later_refl)
next
  case (ops_call db1 env call)
  then have inv: "db_inv db1" "one_active db1" "db_later db db1" by auto
  from run_call_effect [OF inv(1)] show ?case
  proof
    assume step: "db_step db1 (run_call env call db1)"
    show ?thesis
      using db_step_inv [OF inv(1) step] db_step_one_active [OF inv(1) step inv(2)] db_later_trans [OF inv(3) db_step_later [OF step]] by simp
  next
    assume "adds_row db1 (run_call env call db1)"
    from adds_row_inv [OF this] inv db_later_trans show ?thesis by blast
  qed
next
  case (ops_other db1 db2)
  then show ?case using db_later_trans [OF _ db_later_refl [OF ops_other.hyps(2)]]
    by (auto simp: db_inv_def unique_ids_def one_active_def)
qed

definition unique_tokens :: "ops_db \<Rightarrow> bool" where
  "unique_tokens db \<longleftrightarrow> distinct (map token_of (db_operations db))"

lemma run_call_tokens:
  assumes "db_inv db" "unique_tokens db"
  shows "unique_tokens (run_call env call db)"
  using run_call_effect [OF assms(1)]
proof
  assume "db_step db (run_call env call db)"
  then have "map token_of (db_operations db) = map token_of (db_operations (run_call env call db))"
    unfolding db_step_def
    by (induction rule: list_all2_induct) (auto simp: token_of_def op_row_step_def op_after_def op_static_def)
  with assms(2) show ?thesis by (simp add: unique_tokens_def)
next
  assume "adds_row db (run_call env call db)"
  then consider "db_operations (run_call env call db) = db_operations db"
    | op where "db_operations (run_call env call db) = db_operations db @ [op]" "token_of op \<notin> token_of ` set (db_operations db)"
    unfolding adds_row_def by (metis (no_types, lifting) imageE)
  then show ?thesis using assms(2) by cases (simp_all add: unique_tokens_def)
qed

lemma ops_run_tokens:
  assumes "ops_run db db'" "db_inv db" "one_active db" "unique_tokens db"
  shows "unique_tokens db'"
  using assms
proof (induction rule: ops_run.induct)
  case (ops_call db1 env call)
  then show ?case using run_call_tokens ops_run_inv by blast
qed (simp_all add: unique_tokens_def)

text \<open>The tables a manager starts with.\<close>

definition no_operations :: "ops_db \<Rightarrow> bool" where
  "no_operations db \<longleftrightarrow> db_operations db = []"

lemma no_operations_inv: "no_operations db \<Longrightarrow> db_inv db \<and> one_active db"
  by (simp add: no_operations_def db_inv_def unique_ids_def one_active_def)

lemma reachable_tokens: "no_operations db0 \<Longrightarrow> ops_run db0 db \<Longrightarrow> unique_tokens db"
  using ops_run_tokens no_operations_inv by (simp add: no_operations_def unique_tokens_def)

lemma reachable_row:
  assumes "no_operations db0" "ops_run db0 db" "op \<in> set (db_operations db)"
  shows "op_inv op"
  using ops_run_inv [OF assms(2)] no_operations_inv [OF assms(1)] assms(3) db_inv_row by blast

end
