(* ===== verification/Rollout_Sample.thy ===== *)
theory Rollout_Sample
  imports Operation_Steps
begin

text \<open>A node with a committed deployment and a staged one, and the first calls of a rollout between them.\<close>

definition sample_digest :: string where
  "sample_digest = ''sha256:'' @ replicate 64 (CHR ''a'')"

definition sample_operation_id :: string where
  "sample_operation_id = ''61616161-6161-8161-a161-616161616161''"

definition sample_ops_env :: "int \<Rightarrow> op_env" where
  "sample_ops_env now = \<lparr>oe_now = now, oe_wall = now, oe_new_uuid = ''u1'', oe_parse_uuid = Some, oe_sha256 = (\<lambda>_. replicate 32 (CHR ''a''))\<rparr>"

definition sample_deployment :: "int \<Rightarrow> DeploymentState \<Rightarrow> deployment_row" where
  "sample_deployment revision state = \<lparr>dp_node_id = ''n1'', dp_revision = revision, dp_attempt_token = ''tok'', dp_bundle_digest = ''bundle'',
     dp_resolved_release_digest = ''resolved'', dp_revision_digest = sample_digest,
     dp_inventory = [\<lparr>ee_engine_slot = ''s1'', ee_modules = [], ee_secrets = [], ee_db_namespaces = [], ee_job_queue_id = [],
       ee_job_admin_address = []\<rparr>],
     dp_state = state, dp_finalized = True, dp_abandoned = False, dp_allocated_by = ''operator'', dp_operation_id = None\<rparr>"

definition sample_tables :: ops_db where
  "sample_tables = \<lparr>db_cluster = \<lparr>cl_nodes = [(''n1'', \<lparr>nd_current_revision = 1, nd_target_revision = None\<rparr>)],
       cl_deployments = [sample_deployment 1 Dep_Succeeded, sample_deployment 2 Dep_Pending], cl_engines = [], cl_heartbeats = [],
       cl_routes = [], cl_authority = [], cl_observations = [], cl_version = 0\<rparr>,
     db_operations = [], db_receipts = [], db_events = [], db_cleanup = [], db_generations = [], db_cleanup_events = [],
     db_policies = [(''n1'', \<lparr>ap_protocol_version = ''v1'', ap_retention_count = 1, ap_actor = ''operator'', ap_binary_digest = ''bin'',
       ap_capabilities = []\<rparr>)],
     db_attestations = [\<lparr>at_node_id = ''n1'', at_agent_instance_id = ''a1'', at_principal = ''agent'', at_protocol_version = ''v1'',
       at_binary_digest = ''bin'', at_capabilities = [], at_observed_at = 0\<rparr>], db_deletions = []\<rparr>"

definition sample_submission :: SubmitOperationRequest where
  "sample_submission = \<lparr>so_node_id = ''n1'', so_request_token = ''tok'', so_action = Deployment_Action, so_target_revision = 2,
     so_bundle_digest = ''bundle'', so_policy = None, so_resolved_release_digest = ''resolved'', so_engine_slot = []\<rparr>"

definition sample_submitted :: ops_db where
  "sample_submitted = run_call (sample_ops_env 0) (Submit_Call ''operator'' sample_submission) sample_tables"

definition sample_claimed :: ops_db where
  "sample_claimed = run_call (sample_ops_env 1) (Claim_Call ''n1'' ''a1'' ''agent'') sample_submitted"

definition sample_result :: "NodeOperationStepKind \<Rightarrow> ReportStepResultRequest" where
  "sample_result step = \<lparr>rs_node_id = ''n1'', rs_operation_id = sample_operation_id, rs_lease_epoch = 1, rs_step = step, rs_condition_code = [],
     rs_detail = [], rs_agent_instance_id = ''a1'', rs_observed_revision = 1, rs_observed_digest = ''bundle'', rs_backend_instance_id = ''b1'',
     rs_process_instance_id = ''p1'', rs_backend_query_error = [], rs_observed_resolved_digest = ''resolved'',
     rs_target = Some \<lparr>it_kind = Proxy_Target, it_revision = 1, it_bundle_digest = ''bundle'', it_resolved_digest = ''resolved'',
       it_identity = Some Proxy_Identity\<rparr>, rs_termination_evidence = None\<rparr>"

definition sample_verified :: ops_db where
  "sample_verified = run_call (sample_ops_env 2) (Result_Call (sample_result VerifyTarget) ''agent'') sample_claimed"

definition sample_delivered :: ops_db where
  "sample_delivered = run_call (sample_ops_env 3) (Claim_Call ''n1'' ''a1'' ''agent'') sample_verified"

text \<open>The same rollout cancelled before the agent did anything.\<close>

definition sample_cancelled :: ops_db where
  "sample_cancelled = run_call (sample_ops_env 1) (Cancel_Call sample_operation_id ''operator'') sample_submitted"

definition sample_restored :: ops_db where
  "sample_restored = run_call (sample_ops_env 2) (Claim_Call ''n1'' ''a1'' ''agent'') sample_cancelled"

text \<open>The agent's lease lost, and the operation claimed again at the next epoch.\<close>

definition sample_expired :: ops_db where
  "sample_expired = run_call (sample_ops_env (20 * OP_SECOND)) (Claim_Call ''n1'' ''a1'' ''agent'') sample_claimed"

definition sample_reclaimed :: ops_db where
  "sample_reclaimed = run_call (sample_ops_env (21 * OP_SECOND)) (Claim_Call ''n1'' ''a1'' ''agent'')
     (run_call (sample_ops_env (20 * OP_SECOND)) (Resume_Call sample_operation_id ''operator'') sample_expired)"

text \<open>A restart of the slot, with the evidence that its process runs.\<close>

definition sample_restart :: SubmitOperationRequest where
  "sample_restart = \<lparr>so_node_id = ''n1'', so_request_token = ''tok2'', so_action = Restart_Action, so_target_revision = 0,
     so_bundle_digest = [], so_policy = Some \<lparr>max_unavailable = 1, allow_downtime = True, deadline_seconds = 300\<rparr>,
     so_resolved_release_digest = [], so_engine_slot = ''s1''\<rparr>"

definition sample_restarting :: ops_db where
  "sample_restarting = run_call (sample_ops_env 1) (Claim_Call ''n1'' ''a1'' ''agent'')
     (run_call (sample_ops_env 0) (Submit_Call ''operator'' sample_restart) sample_tables)"

definition sample_observed :: ops_db where
  "sample_observed = sample_restarting\<lparr>db_cluster := (db_cluster sample_restarting)\<lparr>
     cl_engines := [\<lparr>en_engine_id = ''e1'', en_deployment = Some \<lparr>md_node_id = ''n1'', md_engine_slot = ''s1'', md_revision = 1,
       md_bundle_digest = ''bundle''\<rparr>, en_modules = [], en_last_heartbeat = 1\<rparr>],
     cl_observations := [\<lparr>ob_node_id = ''n1'', ob_engine_slot = ''s1'',
       ob_lifecycle = Some \<lparr>ls_state = Life_Ready, ls_service_kind = Engine_Service, ls_process_instance_id = ''p1''\<rparr>,
       ob_backend_state = Backend_Running, ob_backend_instance_id = ''b1'', ob_revision = 1, ob_at = 2, ob_digest = ''bundle'',
       ob_resolved_digest = ''resolved'', ob_query_error = [], ob_operation_id = ''u1'', ob_agent_instance_id = ''a1'', ob_lease_epoch = 1\<rparr>]\<rparr>\<rparr>"

text \<open>The first operation of the tables satisfies a property.\<close>

definition first_row :: "(op_row \<Rightarrow> bool) \<Rightarrow> ops_db \<Rightarrow> bool" where
  "first_row P db = (case db_operations db of [] \<Rightarrow> False | op # _ \<Rightarrow> P op)"

lemma first_rowE:
  assumes "first_row P db"
  obtains op where "op \<in> set (db_operations db)" "P op"
  using assms by (auto simp: first_row_def split: list.splits)

lemma sample_start: "no_operations sample_tables"
  by (simp add: no_operations_def sample_tables_def)

lemma sample_runs:
  "ops_run sample_tables sample_submitted" "ops_run sample_tables sample_claimed" "ops_run sample_tables sample_verified"
  "ops_run sample_tables sample_delivered" "ops_run sample_tables sample_restored" "ops_run sample_tables sample_reclaimed"
  "ops_run sample_submitted sample_delivered" "ops_run sample_claimed sample_reclaimed" "ops_run sample_submitted sample_claimed"
  unfolding sample_submitted_def sample_claimed_def sample_verified_def sample_delivered_def sample_cancelled_def sample_restored_def
    sample_expired_def sample_reclaimed_def
  by (intro ops_call ops_start)+

lemma sample_observed_run: "ops_run sample_tables sample_observed"
proof -
  have "ops_run sample_tables sample_restarting" unfolding sample_restarting_def by (intro ops_call ops_start)
  then show ?thesis by (rule ops_other) (simp add: sample_observed_def)
qed

end
