(* ===== verification/Rollout_Safety.thy ===== *)
theory Rollout_Safety
  imports Rollout_Sample
begin

text \<open>
  What the node operations of \<open>wr-manager/src/operations.rs\<close> guarantee over every run of their calls: the outcome
  of an operation, the order in which its slots proceed, the history of its row, the fence around a
  superseded agent, and the idempotence of a submission.
\<close>

section \<open>Outcome and order\<close>

lemma complete_phase_slots:
  assumes "op_inv op" "op_phase op = Complete_Phase"
  shows "list_all tg_complete (operation_slots op) \<and>
    (op_state op = Op_Succeeded \<longrightarrow> list_all forward_slot (operation_slots op)) \<and>
    (op_state op \<in> {Op_Failed, Op_Cancelled} \<longrightarrow> list_all restoring_slot (operation_slots op))"
proof -
  have slots: "operation_slots op = slots_of op"
    using shape_targets [OF op_inv_shape [OF assms(1)]] by auto
  have "list_all tg_complete (op_targets op)" using assms by (simp add: op_inv_def)
  then have "list_all tg_complete (slots_of op)" by (cases "op_targets op") auto
  then show ?thesis using assms by (auto simp: slots op_inv_def)
qed

lemma forward_complete: "forward_slot t \<Longrightarrow> tg_complete t \<Longrightarrow> authoritative_revision t = target_revision t \<and>
    (tg_transition t = Removal \<or> serving_converged t)"
  by (cases "next_step t") (simp_all add: forward_slot_def step_flag_def on_path_def)


text \<open>
  C3. The outcome of an operation. In every reachable state, a succeeded operation has each of its engine slots complete and
  authoritative on its target revision, with the serving routes of the slot proved converged unless
  the slot is a removal, and a deployment or rollback of a positive revision is committed; a failed or cancelled operation
  has each slot complete and authoritative on its source revision again, is fenced forever against
  forward steps and was never committed.
\<close>

theorem operation_outcome:
  assumes "no_operations db0" "ops_run db0 db" "op \<in> set (db_operations db)"
  shows "(op_state op = Op_Succeeded \<longrightarrow>
      (\<forall>t \<in> set (operation_slots op). tg_complete t \<and> authoritative_revision t = target_revision t \<and>
         (tg_transition t = Removal \<or> serving_converged t)) \<and>
      (op_action op \<noteq> Restart_Action \<and> op_target_revision op > 0 \<longrightarrow> committed op))
    \<and> (op_state op \<in> {Op_Failed, Op_Cancelled} \<longrightarrow>
      (\<forall>t \<in> set (operation_slots op). tg_complete t \<and> authoritative_revision t = source_revision t) \<and>
      forward_fenced op \<and> \<not> committed op)"
proof -
  note inv = reachable_row [OF assms]
  have ended: "op_phase op = Complete_Phase" if "op_state op \<in> {Op_Succeeded, Op_Failed, Op_Cancelled}"
    using op_inv_active [OF inv] that by (auto simp: active_state_def)
  from complete_phase_slots [OF inv] ended show ?thesis
    using inv by (auto simp: list_all_iff forward_complete restoring_slot_def op_inv_def)
qed

theorem operation_outcome_witness:
  "\<exists>op \<in> set (db_operations sample_restored). op_state op = Op_Cancelled \<and> forward_fenced op \<and> \<not> committed op \<and>
    (\<forall>t \<in> set (operation_slots op). tg_complete t \<and> authoritative_revision t = source_revision t)"
proof -
  have "first_row (\<lambda>op. op_state op = Op_Cancelled) sample_restored" by code_simp
  then obtain op where op: "op \<in> set (db_operations sample_restored)" "op_state op = Op_Cancelled" by (rule first_rowE)
  from operation_outcome [OF sample_start sample_runs(5) op(1)] op show ?thesis by auto
qed



text \<open>
  C10. The history of an operation. From any reachable state on, whatever calls follow, an operation keeps its place in the table, its
  identity, its request, policy, deadline and the revisions and transitions of its targets; its lease
  epoch never decreases and an epoch is only ever run by the activation of the agent that claimed it, it goes from the forward phase to restoration to complete and never back,
  once fenced it stays fenced, and once it is complete its row never changes again.
\<close>

theorem operation_history:
  assumes "no_operations db0" "ops_run db0 db" "ops_run db db'" "i < length (db_operations db)"
  shows "i < length (db_operations db') \<and>
    (let op = db_operations db ! i; op' = db_operations db' ! i in
     op_static op' = op_static op \<and> op_lease_epoch op \<le> op_lease_epoch op' \<and>
     (op_state op' = Op_Running \<and> op_lease_epoch op' = op_lease_epoch op \<longrightarrow>
       op_state op = Op_Running \<and> op_claimed_by op' = op_claimed_by op \<and> op_agent_instance_id op' = op_agent_instance_id op) \<and>
     phase_rank (op_phase op) \<le> phase_rank (op_phase op') \<and> (forward_fenced op \<longrightarrow> forward_fenced op') \<and>
     (\<not> active_state (op_state op) \<longrightarrow> op' = op))"
proof -
  note inv = ops_run_inv [OF assms(2)] no_operations_inv [OF assms(1)]
  then have "db_later db db'" using ops_run_inv [OF assms(3)] by blast
  then have after: "i < length (db_operations db')" "op_after (db_operations db ! i) (db_operations db' ! i)"
    using assms(4) by (auto simp: db_later_def list_all2_conv_all_nth)
  have "op_inv (db_operations db ! i)" using reachable_row [OF assms(1,2)] assms(4) by simp
  with after op_inv_active show ?thesis by (auto simp: Let_def op_after_def lease_after_def)
qed

theorem operation_history_witness:
  "op_static (db_operations sample_delivered ! 0) = op_static (db_operations sample_submitted ! 0) \<and>
   op_lease_epoch (db_operations sample_submitted ! 0) \<le> op_lease_epoch (db_operations sample_delivered ! 0)"
proof -
  have "first_row (\<lambda>_. True) sample_submitted" by code_simp
  then have "0 < length (db_operations sample_submitted)" by (rule first_rowE) auto
  from operation_history [OF sample_start sample_runs(1,7) this] show ?thesis unfolding Let_def by blast
qed

section \<open>Leases\<close>

lemma later_row:
  assumes "db_inv db'" "db_later db db'" "op \<in> set (db_operations db)" "op' \<in> set (db_operations db')" "operation_id op' = operation_id op"
  shows "op_after op op'"
proof -
  from assms(3) obtain i where i: "i < length (db_operations db)" "op = db_operations db ! i" by (auto simp: in_set_conv_nth)
  from assms(2) i have after: "i < length (db_operations db')" "op_after op (db_operations db' ! i)"
    by (auto simp: db_later_def list_all2_conv_all_nth)
  from assms(4) obtain j where j: "j < length (db_operations db')" "op' = db_operations db' ! j" by (auto simp: in_set_conv_nth)
  have "operation_id (db_operations db' ! i) = operation_id op" using after(2) by (simp add: op_after_def op_static_def)
  with assms(1,5) j after(1) have "i = j"
    by (simp add: db_inv_def unique_ids_def distinct_conv_nth) (metis nth_map)
  with after j show ?thesis by simp
qed

lemma db_later_member:
  assumes "db_later db db'" "op \<in> set (db_operations db)"
  shows "\<exists>op' \<in> set (db_operations db'). op_after op op'"
proof -
  from assms(2) obtain i where "i < length (db_operations db)" "op = db_operations db ! i" by (auto simp: in_set_conv_nth)
  with assms(1) show ?thesis
    by (intro bexI [of _ "db_operations db' ! i"]) (auto simp: db_later_def list_all2_conv_all_nth)
qed

lemma superseded_not_held:
  assumes "db_inv db'" "db_later db db'" "op \<in> set (db_operations db)" "epoch < op_lease_epoch op" "op' \<in> set (db_operations db')"
  shows "\<not> holds_lease now (operation_id op) node epoch agent ai op'"
  using later_row [OF assms(1-3,5)] assms(4) by (auto simp: holds_lease_def op_after_def lease_after_def)

text \<open>
  C9. A superseded agent is fenced. Once an operation was claimed at a later epoch than the one an agent holds, then from that state
  on, whatever happened since, a renewal or an observation under the old epoch is refused and changes nothing,
  and a result under it is refused or answered from the receipt of the very same result, changing
  nothing either.
\<close>

theorem superseded_agent_fenced:
  assumes "no_operations db0" "ops_run db0 db" "op \<in> set (db_operations db)" "ops_run db db'" "epoch < op_lease_epoch op"
    "oe_parse_uuid env s = Some (operation_id op)" "ro_operation_id observation = s" "ro_lease_epoch observation = epoch"
    "rs_operation_id result = s" "rs_lease_epoch result = epoch"
  shows "\<not> is_ok (fst (renew env node s epoch agent_instance agent db')) \<and> snd (renew env node s epoch agent_instance agent db') = db'
    \<and> \<not> is_ok (fst (report_observation env observation agent db')) \<and> snd (report_observation env observation agent db') = db'
    \<and> snd (report_step env result agent db') = db'
    \<and> (is_ok (fst (report_step env result agent db')) \<longrightarrow>
        (\<exists>r \<in> set (db_receipts db'). rc_payload r = result \<and> rc_principal r = agent))"
proof -
  note inv = ops_run_inv [OF assms(2)] no_operations_inv [OF assms(1)]
  then have later: "db_inv db'" "db_later db db'" using ops_run_inv [OF assms(4)] by auto
  note held = superseded_not_held [OF later assms(3,5)]
  have none: "find (holds_lease now (operation_id op) n epoch a ai) (db_operations db') = None"
    "find (\<lambda>row. holds_lease now (operation_id op) n epoch a ai row \<and> P row) (db_operations db') = None" for now n a ai P
    using held by (auto simp: find_None_iff)
  have receipt: "rc_payload r = result \<and> rc_principal r = agent \<and> r \<in> set (db_receipts db')"
    if "find_receipt oid kind key result (db_receipts db') = Some r" "\<not> (rc_principal r \<noteq> agent \<or> rc_payload r \<noteq> result)" for oid kind key r
    using that find_SomeD by (fastforce simp: find_receipt_def)
  show ?thesis
    using assms(6-) none receipt
    by (auto simp: renew_def report_observation_def report_step_def parse_operation_id_def i64_of_def and_then_def ok_or_def
      is_ok_simps split: sum.splits option.splits if_splits prod.splits)
qed

theorem superseded_agent_fenced_witness:
  "snd (report_step (sample_ops_env (22 * OP_SECOND)) (sample_result VerifyTarget) ''agent'' sample_reclaimed) = sample_reclaimed \<and>
   snd (renew (sample_ops_env (22 * OP_SECOND)) ''n1'' sample_operation_id 1 ''a1'' ''agent'' sample_reclaimed) = sample_reclaimed"
proof -
  have "first_row (\<lambda>op. 1 < op_lease_epoch op \<and> operation_id op = sample_operation_id) sample_reclaimed" by code_simp
  then obtain op where op: "op \<in> set (db_operations sample_reclaimed)" "1 < op_lease_epoch op" "operation_id op = sample_operation_id"
    by (auto elim: first_rowE)
  let ?ob = "\<lparr>ro_node_id = ''n1'', ro_engine_slot = ''s1'', ro_lifecycle = None, ro_backend_state = Backend_Running, ro_backend_instance_id = [],
    ro_observed_revision = 1, ro_observed_digest = [], ro_backend_query_error = [], ro_operation_id = sample_operation_id,
    ro_agent_instance_id = ''a1'', ro_lease_epoch = 1, ro_observed_resolved_digest = []\<rparr>"
  have req: "oe_parse_uuid (sample_ops_env (22 * OP_SECOND)) sample_operation_id = Some (operation_id op)"
    "ro_operation_id ?ob = sample_operation_id" "ro_lease_epoch ?ob = 1" "rs_operation_id (sample_result VerifyTarget) = sample_operation_id"
    "rs_lease_epoch (sample_result VerifyTarget) = 1"
    by (simp_all add: op(3) sample_ops_env_def sample_result_def)
  from superseded_agent_fenced [OF sample_start sample_runs(6) op(1) ops_start op(2) req] show ?thesis by blast
qed

section \<open>Submission\<close>

lemma find_unique:
  assumes "x \<in> set xs" "P x" "\<And>y. y \<in> set xs \<Longrightarrow> P y \<Longrightarrow> y = x"
  shows "find P xs = Some x"
proof (cases "find P xs")
  case None
  with assms(1,2) show ?thesis by (simp add: find_None_iff)
next
  case (Some y)
  with find_SomeD [OF Some] assms(3) show ?thesis by simp
qed

lemma load_operation_read:
  assumes "load_operation db oid = Inr op"
  shows "operation_from_row op = Inr op"
proof -
  from assms obtain x where x: "operation_from_row x = Inr op" by (auto simp: load_operation_def ok_or_def split: option.splits)
  with operation_from_row_same [OF x] show ?thesis by simp
qed

lemma inserted_load:
  assumes "insert_operation taken op db = Inr db1" "db_operations db2 = db_operations db1" "load_operation db2 (operation_id op) = Inr row"
  shows "row = op"
  using load_operation_row [OF assms(3)] insert_operation_Inr [OF assms(1)] assms(2) by auto

lemma submit_effective_load:
  assumes "submit_effective env actor request policy source oid rd target db = Inr (row, db')"
  shows "load_operation db' (operation_id row) = Inr row \<and> op_actor row = actor \<and> request_payload row = request"
proof -
  define op where "op = effective_operation env actor request policy source oid rd target"
  from assms obtain taken db1 where ins: "insert_operation taken op (stage_operation request oid db) = Inr db1"
    and db: "db_operations db' = db_operations db1" and load: "load_operation db' oid = Inr row"
    unfolding submit_effective_def op_def by (auto simp: Let_def split: if_splits prod.splits)
  have fields: "operation_id op = oid" "op_actor op = actor" "request_payload op = request"
    by (simp_all add: op_def effective_operation_def new_operation_def Let_def split: prod.splits)
  from inserted_load [OF ins db] load fields show ?thesis by auto
qed

lemma no_effect_load:
  assumes "no_effect_operation env actor request policy source slots digests db = Inr (row, db')"
  shows "load_operation db' (operation_id row) = Inr row \<and> op_actor row = actor \<and> request_payload row = request"
proof -
  from assms obtain op db1 where ins: "insert_operation (Op_Internal ''database unique constraint violated'') op db = Inr db1"
    and op: "operation_id op = oe_new_uuid env" "op_actor op = actor" "request_payload op = request"
    and db: "db_operations db' = db_operations db1" and load: "load_operation db' (oe_new_uuid env) = Inr row"
    by (auto simp: no_effect_operation_def new_operation_def Let_def split: if_splits)
  from inserted_load [OF ins db] load op show ?thesis by auto
qed

lemma submit_load:
  assumes "submit env actor request db = (Inr row, db')" "db_inv db"
  shows "load_operation db' (operation_id row) = Inr row \<and> op_actor row = actor \<and> request_payload row = request"
proof (cases "find (\<lambda>op. op_actor op = actor \<and> so_request_token (request_payload op) = so_request_token request) (db_operations db)")
  case None
  with assms(1) show ?thesis
    by (auto simp: submit_def commit_def Let_def dest!: submit_effective_load no_effect_load split: sum.splits if_splits)
next
  case (Some existing)
  let ?db = "db\<lparr>db_cluster := ensure_node (so_node_id request) (db_cluster db)\<rparr>"
  from assms(1) Some have load: "load_operation ?db (operation_id existing) = Inr row" "db' = ?db" and "request_payload existing = request"
    by (auto simp: submit_def commit_def Let_def split: sum.splits if_splits)
  moreover have "existing \<in> set (db_operations db)" "op_actor existing = actor" using find_SomeD [OF Some] by auto
  moreover have "row = existing"
    using load_operation_row [OF load(1)] \<open>existing \<in> set (db_operations db)\<close> assms(2)
    by (auto simp: db_inv_def unique_ids_def distinct_map inj_on_def)
  ultimately show ?thesis by simp
qed

text \<open>Whether a stored operation can be read depends on the columns no statement changes.\<close>

lemma list_all_static:
  assumes "\<And>t t'. target_static t' = target_static t \<Longrightarrow> P t' = P t" "map target_static ts' = map target_static ts"
  shows "list_all P ts' = list_all P ts"
  using assms(2)
proof (induction ts' arbitrary: ts)
  case (Cons t' ts')
  then obtain t us where "ts = t # us" by (cases ts) auto
  with Cons assms(1) [of t' t] show ?case by auto
qed simp

lemma try_map_ok: "(\<exists>ys. try_map f xs = Inr ys) \<longleftrightarrow> list_all (\<lambda>x. is_ok (f x)) xs"
  by (induction xs) (auto simp: is_ok_def split: sum.splits)

lemma operation_from_row_ok:
  "operation_from_row op = Inr op \<longleftrightarrow> op_action op \<noteq> Unspecified_Action \<and>
    list_all (\<lambda>t. is_ok (target_from_row t) \<and> (tg_kind t = EngineSlot_Target \<longrightarrow> is_ok (validate_stored_transition (op_action op) t))) (op_targets op)"
  (is "?l \<longleftrightarrow> ?r")
proof -
  have "?l \<longleftrightarrow> op_action op \<noteq> Unspecified_Action \<and> (\<exists>ys. try_map target_from_row (op_targets op) = Inr ys) \<and>
      (\<exists>ys. try_map (validate_stored_transition (op_action op)) (operation_slots op) = Inr ys)"
    by (auto simp: operation_from_row_def)
  also have "\<dots> \<longleftrightarrow> ?r"
    unfolding try_map_ok operation_slots_def by (auto simp: list_all_iff)
  finally show ?thesis .
qed

lemma static_readable:
  assumes "op_static op' = op_static op" "operation_from_row op = Inr op"
  shows "operation_from_row op' = Inr op'"
proof -
  have static: "op_action op' = op_action op" "map target_static (op_targets op') = map target_static (op_targets op)"
    using assms(1) by (auto simp: op_static_def)
  have "list_all (\<lambda>t. is_ok (target_from_row t) \<and> (tg_kind t = EngineSlot_Target \<longrightarrow> is_ok (validate_stored_transition a t))) (op_targets op') =
      list_all (\<lambda>t. is_ok (target_from_row t) \<and> (tg_kind t = EngineSlot_Target \<longrightarrow> is_ok (validate_stored_transition a t))) (op_targets op)" for a
    by (rule list_all_static [OF _ static(2)])
      (auto simp: target_static_def target_from_row_def validate_stored_transition_def Let_def is_ok_def split: NodeOperationAction.splits)
  with assms(2) static(1) show ?thesis by (simp add: operation_from_row_ok)
qed

text \<open>
  C15. A submission is idempotent. After a submission was accepted, the same request of the same actor is answered, in whatever state
  follows and with whatever fresh identifiers, by the operation it made then as it stands now, and adds no
  operation; another request of that actor under the same token is refused.
\<close>

theorem submission_idempotent:
  assumes "no_operations db0" "ops_run db0 db" "submit env actor request db = (Inr op, db1)" "ops_run db1 db2"
    "so_request_token other = so_request_token request" "other \<noteq> request"
  shows "(\<exists>op'. fst (submit env' actor request db2) = Inr op' \<and> operation_id op' = operation_id op \<and> op_after op op')
    \<and> db_operations (snd (submit env' actor request db2)) = db_operations db2
    \<and> submit env' actor other db2 =
        (Inl (Op_Exists ''request_token was already used by this actor with different operation content''), db2)"
proof -
  have "ops_run db0 (run_call env (Submit_Call actor request) db)" by (rule ops_call [OF assms(2)])
  then have run1: "ops_run db0 db1" using assms(3) by simp
  note start = no_operations_inv [OF assms(1)]
  have inv: "db_inv db" "db_inv db1" "one_active db1"
    using ops_run_inv [OF assms(2)] ops_run_inv [OF run1] start by auto
  have inv2: "db_inv db2" "db_later db1 db2" using ops_run_inv [OF assms(4)] inv by auto
  have "unique_tokens db1" by (rule reachable_tokens [OF assms(1) run1])
  then have tokens: "unique_tokens db2" using ops_run_tokens [OF assms(4)] inv by blast
  note load = submit_load [OF assms(3) inv(1)]
  have row: "op \<in> set (db_operations db1)" "operation_from_row op = Inr op"
    using load_operation_row [OF conjunct1 [OF load]] load_operation_read [OF conjunct1 [OF load]] by auto
  obtain op' where op': "op' \<in> set (db_operations db2)" "op_after op op'"
    using db_later_member [OF inv2(2) row(1)] by blast
  have static: "op_static op' = op_static op" using op'(2) by (simp add: op_after_def)
  then have same: "operation_id op' = operation_id op" "op_actor op' = actor" "request_payload op' = request"
    using load by (auto simp: op_static_def)
  have found: "find (\<lambda>o'. op_actor o' = actor \<and> so_request_token (request_payload o') = so_request_token r) (db_operations db2) = Some op'"
    if "so_request_token r = so_request_token request" for r
  proof (rule find_unique)
    show "op' \<in> set (db_operations db2)" by fact
    show "op_actor op' = actor \<and> so_request_token (request_payload op') = so_request_token r" using same that by simp
    fix o' assume "o' \<in> set (db_operations db2)" "op_actor o' = actor \<and> so_request_token (request_payload o') = so_request_token r"
    then show "o' = op'" using tokens op'(1) same that
      by (auto simp: unique_tokens_def token_of_def distinct_map inj_on_def)
  qed
  let ?db = "db2\<lparr>db_cluster := ensure_node (so_node_id request) (db_cluster db2)\<rparr>"
  have "find (\<lambda>o'. operation_id o' = operation_id op') (db_operations db2) = Some op'"
    by (rule find_unique) (use op'(1) inv2(1) in \<open>auto simp: db_inv_def unique_ids_def distinct_map inj_on_def\<close>)
  then have "load_operation ?db (operation_id op') = Inr op'"
    using static_readable [OF static row(2)] by (simp add: load_operation_def)
  with found [OF refl] same op'(2) have "submit env' actor request db2 = (Inr op', ?db)"
    by (simp add: submit_def commit_def Let_def)
  moreover have "submit env' actor other db2 =
      (Inl (Op_Exists ''request_token was already used by this actor with different operation content''), db2)"
    using found [OF assms(5)] same assms(6) by (simp add: submit_def commit_def Let_def)
  ultimately show ?thesis using same op'(2) by simp
qed

theorem submission_idempotent_witness:
  "db_operations (snd (submit (sample_ops_env 5) ''operator'' sample_submission sample_claimed)) = db_operations sample_claimed \<and>
   \<not> is_ok (fst (submit (sample_ops_env 5) ''operator'' (sample_submission\<lparr>so_target_revision := 3\<rparr>) sample_claimed))"
proof -
  have "is_ok (fst (submit (sample_ops_env 0) ''operator'' sample_submission sample_tables))" by code_simp
  then obtain op where "fst (submit (sample_ops_env 0) ''operator'' sample_submission sample_tables) = Inr op"
    by (auto simp: is_ok_def split: sum.splits)
  then have sub: "submit (sample_ops_env 0) ''operator'' sample_submission sample_tables = (Inr op, sample_submitted)"
    by (metis prod.collapse run_call.simps(1) sample_submitted_def)
  have other: "so_request_token (sample_submission\<lparr>so_target_revision := 3\<rparr>) = so_request_token sample_submission"
    "sample_submission\<lparr>so_target_revision := 3\<rparr> \<noteq> sample_submission" by (simp_all add: sample_submission_def)
  from submission_idempotent [OF sample_start ops_start sub sample_runs(9) other, of "sample_ops_env 5"] show ?thesis by simp
qed

end
