(* ===== verification/Rollout_Evidence.thy ===== *)
theory Rollout_Evidence
  imports Rollout_Sample
begin

text \<open>
  Why a slot moves. \<open>reconcile\<close> of \<open>wr-manager/src/operations.rs\<close> advances a slot, or allows an effect to be delivered
  again, only on evidence; this theory states the evidence of each step and proves that nothing else
  moves a slot. It also says what a withdrawal leaves serving and what a switch of authority leaves
  routed.
\<close>

section \<open>The evidence of a step\<close>

text \<open>The availability a withdrawal of a slot leaves: the other slots that serve healthily.\<close>

definition others_serving :: "cluster \<Rightarrow> int \<Rightarrow> op_row \<Rightarrow> string \<Rightarrow> (string \<times> (int \<times> string)) list" where
  "others_serving sn now op slot = filter (\<lambda>(s, revision, digest). s \<noteq> slot \<and>
     slot_routes_healthy sn now (op_node_id op) s revision digest = Inr True) (serving_slots sn op)"

definition available_without :: "cluster \<Rightarrow> int \<Rightarrow> op_row \<Rightarrow> string \<Rightarrow> bool" where
  "available_without sn now op slot \<longleftrightarrow> (allow_downtime (op_policy op) \<or> others_serving sn now op slot \<noteq> []) \<and>
    length (serving_slots sn op) \<le> length (others_serving sn now op slot) + max_unavailable (op_policy op)"

definition slot_observation :: "op_env \<Rightarrow> cluster \<Rightarrow> op_row \<Rightarrow> target_row \<Rightarrow> SlotObservation option" where
  "slot_observation env sn op t = matching_observation (oe_now env) (oe_wall env) (cl_observations sn) op (tg_key t)"

definition advance_evidence :: "op_env \<Rightarrow> cluster \<Rightarrow> op_row \<Rightarrow> target_row \<Rightarrow> bool" where
  "advance_evidence env sn op t \<longleftrightarrow> effect_condition_code t = [] \<and>
    (let observed = slot_observation env sn op t; node = op_node_id op; slot = tg_key t in
     if op_phase op = RestoringSource
     then next_step t = RestoreSource \<and> source_host_proven env sn op t observed \<and> (source_revision t > 0 \<longrightarrow>
       slot_routes_healthy sn (oe_now env) node slot (source_revision t) (source_digest t) = Inr True)
     else case next_step t of
       VerifyReleaseMetadata \<Rightarrow> effect_reported t
     | VerifyProxy \<Rightarrow> effect_reported t
     | StopBackend \<Rightarrow> some_and observed (\<lambda>v. effect_delivered_at t \<noteq> None \<and> observation_after_delivery v (effect_delivered_at t) \<and>
           ob_backend_state v = Backend_Exited \<and> pinned_backend_instance_id t \<noteq> [] \<and>
           ob_backend_instance_id v = pinned_backend_instance_id t \<and> ob_query_error v = []) \<and>
         exact_registration_absent (cl_engines sn) node slot (source_revision t) \<and>
         old_routes_non_serving sn node slot (source_revision t)
     | SelectRelease \<Rightarrow> some_and observed (\<lambda>v. ob_revision v = target_revision t \<and> ob_digest v = target_digest t \<and> ob_query_error v = [])
     | StartBackend \<Rightarrow> some_and observed (\<lambda>v. observation_ready (oe_now env) v (ready_expectation (target_revision t) (target_digest t)
         (pinned_backend_instance_id t) (pinned_process_instance_id t) t))
     | VerifyTarget \<Rightarrow> verify_ready env sn op t observed \<and> (proving_source t \<longrightarrow> available_without sn (oe_now env) op slot)
     | SwitchAuthority \<Rightarrow> True
     | VerifyServing \<Rightarrow> slot_routes_healthy sn (oe_now env) node slot (target_revision t) (target_digest t) = Inr True
     | _ \<Rightarrow> False)"

text \<open>The evidence that a delivered effect did not happen, so that it may be delivered again.\<close>

definition replay_evidence :: "op_env \<Rightarrow> cluster \<Rightarrow> op_row \<Rightarrow> target_row \<Rightarrow> bool" where
  "replay_evidence env sn op t \<longleftrightarrow> some_and (slot_observation env sn op t) (\<lambda>v. ob_query_error v = [] \<and>
    (if op_phase op = RestoringSource then ob_backend_instance_id v \<noteq> [] \<and> ob_backend_state v \<in> {Backend_Running, Backend_Exited}
     else observation_after_delivery v (effect_delivered_at t) \<and> (case next_step t of
       StopBackend \<Rightarrow> ob_backend_state v = Backend_Running \<and> ob_backend_instance_id v = pinned_backend_instance_id t
     | SelectRelease \<Rightarrow> ob_revision v = source_revision t \<and> ob_digest v = source_digest t
     | StartBackend \<Rightarrow> ob_backend_state v = Backend_Exited \<and> ob_revision v = target_revision t \<and> ob_digest v = target_digest t
     | _ \<Rightarrow> False)))"

section \<open>Withdrawal\<close>




section \<open>Following a slot\<close>

definition slot_row :: "ops_db \<Rightarrow> string \<Rightarrow> string \<Rightarrow> target_row option" where
  "slot_row db oid slot = (case find (\<lambda>op. operation_id op = oid) (db_operations db) of
     None \<Rightarrow> None
   | Some op \<Rightarrow> find (\<lambda>t. tg_kind t = EngineSlot_Target \<and> tg_key t = slot) (op_targets op))"


lemma slot_row_same: "db_operations db' = db_operations db \<Longrightarrow> slot_row db' oid slot = slot_row db oid slot"
  by (simp add: slot_row_def)






lemma slot_row_switch [simp]: "slot_row (switch_authority now node s r db) oid slot = slot_row db oid slot"
  by (rule slot_row_same) simp

text \<open>What one reconciliation may make of the slot it works on.\<close>

definition moved :: "op_env \<Rightarrow> cluster \<Rightarrow> op_row \<Rightarrow> target_row \<Rightarrow> target_row \<Rightarrow> bool" where
  "moved env sn op t t' \<longleftrightarrow>
    completed_steps t' = completed_steps t \<and> (effect_ambiguous t \<longrightarrow> effect_ambiguous t' \<or> replay_evidence env sn op t) \<or>
    completed_steps t' = completed_steps t + 1 \<and> advance_evidence env sn op t"

lemma moved_refl [simp]: "moved env sn op t t"
  by (simp add: moved_def)

lemma moved_condition [simp]: "moved env sn op t (t\<lparr>condition_code := c, condition_detail := d\<rparr>)"
  by (simp add: moved_def)

lemma moved_restoration [simp]: "moved env sn op t (restoration_target t)"
  by (simp add: moved_def restoration_target_def Let_def)










lemma advance_target_key [simp]: "tg_kind (advance_target n r t) = tg_kind t" "tg_key (advance_target n r t) = tg_key t"
  by (simp_all add: advance_target_def)






end
