(* ===== verification/Rollout_Instruction.thy ===== *)
theory Rollout_Instruction
  imports Rollout_Safety Rollout_Evidence
begin

text \<open>
  What an agent is told, and what becomes of its answers: the instruction a claim returns in \<open>claim\<close> of
  \<open>wr-manager/src/operations.rs\<close>, the receipts of \<open>report_step\<close>, and the proxy effect whose outcome is unknown.
\<close>

section \<open>The instruction of a claim\<close>

















section \<open>A proxy effect of unknown outcome\<close>








lemma row_ids [simp]:
  "operation_id (pause_row c d op) = operation_id op" "operation_id (take_lease now ai a op) = operation_id op"
  "operation_id (restoration_row tm c d op) = operation_id op"
  by (simp_all add: pause_row_def take_lease_def restoration_row_def)






















end
